(* ===== verification/Prelude.thy ===== *)
theory Prelude
  imports Main "HOL-Library.Word" "HOL-Library.AList" "HOL-Library.Char_ord"
    "HOL-Library.List_Lexorder"
begin

text \<open>
  The prelude of the wadm development: machine integers, the three map types of the Rust code
  (hash maps, index maps and B-tree maps), string helpers and the lemmas all components share.

  \<^item> \<open>usize\<close> and \<open>u32\<close> are words of 64 and 32 bits.
  \<^item> \<open>HashMap\<close>, \<open>HashSet\<close> and \<open>IndexMap\<close> are association lists with distinct keys.
    The order of the list is the iteration order: unspecified for a hash map (theorems
    quantify over every list), insertion order for an index map.
  \<^item> \<open>BTreeMap\<close> is an association list sorted strictly by key, so that equality of two maps
    is equality of the lists.
  \<^item> A Rust string is the list of its UTF-8 bytes.
  \<^item> A \<open>Result\<close> is a sum with the error on the left.
\<close>

named_theorems map_simps \<open>lookups after updates of the map types\<close>
named_theorems wf_intros \<open>well-formedness is kept by the operations\<close>

type_synonym usize = "64 word"
type_synonym u32 = "32 word"

type_synonym ('k, 'v) hmap = "('k \<times> 'v) list"
type_synonym btree = "(string \<times> string) list"

text \<open>
  The outcome of a function that may also panic (an \<open>unwrap\<close> of nothing, an arm marked
  unreachable, a division by zero).
\<close>

datatype 'a outcome = Ret 'a | Err string | Panic

fun obind :: "'a outcome \<Rightarrow> ('a \<Rightarrow> 'b outcome) \<Rightarrow> 'b outcome" where
  "obind (Ret x) f = f x"
| "obind (Err e) f = Err e"
| "obind Panic f = Panic"

text \<open>Running a list of steps from left to right, stopping at the first error or panic.\<close>

fun omap_list :: "('a \<Rightarrow> 'b outcome) \<Rightarrow> 'a list \<Rightarrow> 'b list outcome" where
  "omap_list f [] = Ret []"
| "omap_list f (x # xs) = obind (f x) (\<lambda>y. obind (omap_list f xs) (\<lambda>ys. Ret (y # ys)))"

lemma obind_eq_Ret [simp]: "obind r f = Ret y \<longleftrightarrow> (\<exists>x. r = Ret x \<and> f x = Ret y)"
  by (cases r) auto

lemma obind_eq_Panic: "obind r f = Panic \<longleftrightarrow> r = Panic \<or> (\<exists>x. r = Ret x \<and> f x = Panic)"
  by (cases r) auto

lemma omap_list_Ret: "(\<forall>x \<in> set xs. f x \<noteq> Panic \<and> (\<forall>e. f x \<noteq> Err e)) \<Longrightarrow> \<exists>ys. omap_list f xs = Ret ys"
proof (induction xs)
  case (Cons x xs)
  then show ?case by (cases "f x") auto
qed simp

lemma omap_list_no_Panic: "(\<And>x. x \<in> set xs \<Longrightarrow> f x \<noteq> Panic) \<Longrightarrow> omap_list f xs \<noteq> Panic"
  by (induction xs) (auto simp: obind_eq_Panic)

text \<open>Widening a \<open>u32\<close> keeps its value; the narrowing cast keeps the low bits.\<close>

lemma unat_widen [simp]: "unat (ucast (c :: u32) :: usize) = unat c"
proof -
  have "unat c < 2 ^ 32" using unsigned_less [of c] by simp
  then show ?thesis by (simp add: unsigned_ucast_eq take_bit_nat_eq_self)
qed

lemma unat_narrow: "unat (ucast (n :: usize) :: u32) = unat n mod 2 ^ 32"
  by (simp add: unsigned_ucast_eq take_bit_eq_mod)

section \<open>Hash maps and index maps\<close>

abbreviation hm_get :: "('k, 'v) hmap \<Rightarrow> 'k \<Rightarrow> 'v option" where
  "hm_get m k \<equiv> map_of m k"

abbreviation hm_insert :: "'k \<Rightarrow> 'v \<Rightarrow> ('k, 'v) hmap \<Rightarrow> ('k, 'v) hmap" where
  "hm_insert k v m \<equiv> AList.update k v m"

abbreviation hm_remove :: "'k \<Rightarrow> ('k, 'v) hmap \<Rightarrow> ('k, 'v) hmap" where
  "hm_remove k m \<equiv> AList.delete k m"

definition hm_contains :: "('k, 'v) hmap \<Rightarrow> 'k \<Rightarrow> bool" where
  "hm_contains m k = (map_of m k \<noteq> None)"

definition hm_wf :: "('k, 'v) hmap \<Rightarrow> bool" where
  "hm_wf m = distinct (map fst m)"

text \<open>\<open>HashMap::retain\<close> keeps the entries that satisfy a predicate.\<close>

definition hm_retain :: "('k \<Rightarrow> 'v \<Rightarrow> bool) \<Rightarrow> ('k, 'v) hmap \<Rightarrow> ('k, 'v) hmap" where
  "hm_retain P m = filter (\<lambda>(k, v). P k v) m"

text \<open>\<open>HashMap::extend\<close> and \<open>collect\<close>: later pairs win.\<close>

definition hm_extend :: "('k \<times> 'v) list \<Rightarrow> ('k, 'v) hmap \<Rightarrow> ('k, 'v) hmap" where
  "hm_extend kvs m = fold (\<lambda>(k, v). AList.update k v) kvs m"

text \<open>\<open>HashSet::insert\<close> on a set keyed by part of its element: an element already present stays.\<close>

definition hs_insert :: "'k \<Rightarrow> 'v \<Rightarrow> ('k, 'v) hmap \<Rightarrow> ('k, 'v) hmap" where
  "hs_insert k v m = (if hm_contains m k then m else AList.update k v m)"

definition hs_collect :: "('k \<times> 'v) list \<Rightarrow> ('k, 'v) hmap" where
  "hs_collect kvs = fold (\<lambda>(k, v). hs_insert k v) kvs []"

text \<open>Equality of two hash maps ignores the order of the entries.\<close>

definition hm_eq :: "('k, 'v) hmap \<Rightarrow> ('k, 'v) hmap \<Rightarrow> bool" where
  "hm_eq a b = (list_all (\<lambda>(k, v). map_of b k = map_of a k) a \<and>
     list_all (\<lambda>(k, v). map_of a k = map_of b k) b)"

section \<open>B-tree maps\<close>

fun bt_insert :: "'k::linorder \<Rightarrow> 'v \<Rightarrow> ('k \<times> 'v) list \<Rightarrow> ('k \<times> 'v) list" where
  "bt_insert k v [] = [(k, v)]"
| "bt_insert k v (p # m) =
     (if fst p < k then p # bt_insert k v m
      else if fst p = k then (k, v) # m
      else (k, v) # p # m)"

definition bt_remove :: "'k::linorder \<Rightarrow> ('k \<times> 'v) list \<Rightarrow> ('k \<times> 'v) list" where
  "bt_remove k m = filter (\<lambda>p. fst p \<noteq> k) m"

definition bt_wf :: "('k::linorder \<times> 'v) list \<Rightarrow> bool" where
  "bt_wf m = sorted_wrt (<) (map fst m)"

definition bt_extend :: "('k::linorder \<times> 'v) list \<Rightarrow> ('k \<times> 'v) list \<Rightarrow> ('k \<times> 'v) list" where
  "bt_extend kvs m = fold (\<lambda>(k, v). bt_insert k v) kvs m"

section \<open>The interface of a map\<close>

lemma map_of_rev_distinct: "distinct (map fst kvs) \<Longrightarrow> map_of (rev kvs) = map_of kvs"
  by (rule map_of_eqI) (auto simp: rev_map[symmetric])

text \<open>
  What the code relies on of any of its map types. The clients' lemmas (a lookup after a run of
  inserts, the keys of the result, removal undoing insertion) are proved once here.
\<close>

locale rust_map =
  fixes lookup :: "'m \<Rightarrow> 'k \<Rightarrow> 'v option"
    and insert_kv :: "'k \<Rightarrow> 'v \<Rightarrow> 'm \<Rightarrow> 'm"
    and remove_k :: "'k \<Rightarrow> 'm \<Rightarrow> 'm"
    and wf :: "'m \<Rightarrow> bool"
  assumes lookup_insert: "lookup (insert_kv k v m) j = (if j = k then Some v else lookup m j)"
    and lookup_remove: "wf m \<Longrightarrow> lookup (remove_k k m) j = (if j = k then None else lookup m j)"
    and wf_insert: "wf m \<Longrightarrow> wf (insert_kv k v m)"
    and wf_remove: "wf m \<Longrightarrow> wf (remove_k k m)"
begin

lemma lookup_insert_same: "lookup (insert_kv k v m) k = Some v"
  by (simp add: lookup_insert)

lemma wf_fold_insert: "wf m \<Longrightarrow> wf (fold (\<lambda>(k, v). insert_kv k v) kvs m)"
  by (induction kvs arbitrary: m) (auto intro: wf_insert)

lemma lookup_fold_insert:
  "lookup (fold (\<lambda>(k, v). insert_kv k v) kvs m) j =
     (case map_of (rev kvs) j of None \<Rightarrow> lookup m j | Some v \<Rightarrow> Some v)"
proof (induction kvs arbitrary: m)
  case (Cons p kvs)
  obtain a b where "p = (a, b)" by (cases p)
  with Cons.IH show ?case
    by (auto simp: lookup_insert map_add_def split: option.splits)
qed simp

lemma lookup_fold_insert_distinct:
  "distinct (map fst kvs) \<Longrightarrow> lookup (fold (\<lambda>(k, v). insert_kv k v) kvs m) j =
     (case map_of kvs j of None \<Rightarrow> lookup m j | Some v \<Rightarrow> Some v)"
  by (simp add: lookup_fold_insert map_of_rev_distinct)

lemma wf_fold_remove: "wf m \<Longrightarrow> wf (fold remove_k ks m)"
  by (induction ks arbitrary: m) (auto intro: wf_remove)

lemma lookup_fold_remove:
  "wf m \<Longrightarrow> lookup (fold remove_k ks m) j = (if j \<in> set ks then None else lookup m j)"
  by (induction ks arbitrary: m) (auto simp: lookup_remove wf_remove)

lemma remove_insert: "wf m \<Longrightarrow> lookup m k = None \<Longrightarrow> lookup (remove_k k (insert_kv k v m)) = lookup m"
  by (rule ext) (simp add: lookup_insert lookup_remove wf_insert)

end

lemma map_of_update [simp, map_simps]: "map_of (AList.update k v m) j = (if j = k then Some v else map_of m j)"
  by (simp add: update_conv')

lemma map_of_delete [simp, map_simps]: "map_of (AList.delete k m) j = (if j = k then None else map_of m j)"
  by (simp add: delete_conv')

lemma hm_wf_Nil [simp]: "hm_wf []"
  by (simp add: hm_wf_def)

lemma hm_wf_single [simp]: "hm_wf [p]"
  by (simp add: hm_wf_def)

lemma hm_wf_update [simp, wf_intros]: "hm_wf m \<Longrightarrow> hm_wf (AList.update k v m)"
  by (simp add: hm_wf_def distinct_update)

lemma hm_wf_delete [simp, wf_intros]: "hm_wf m \<Longrightarrow> hm_wf (AList.delete k m)"
  by (simp add: hm_wf_def distinct_delete)

interpretation hm: rust_map map_of AList.update AList.delete hm_wf
  by unfold_locales auto

lemma hm_contains_iff: "hm_contains m k \<longleftrightarrow> k \<in> fst ` set m"
  by (simp add: hm_contains_def map_of_eq_None_iff)

lemma map_of_retain [map_simps]:
  assumes "hm_wf m"
  shows "map_of (hm_retain P m) j = (case map_of m j of None \<Rightarrow> None | Some v \<Rightarrow> if P j v then Some v else None)"
  using assms unfolding hm_retain_def hm_wf_def
proof (induction m)
  case (Cons p m)
  obtain a b where p: "p = (a, b)" by (cases p)
  with Cons.prems have "map_of m a = None" by (auto simp: map_of_eq_None_iff)
  with Cons p show ?case by (auto split: option.splits)
qed simp

lemma hm_wf_retain [simp, wf_intros]: "hm_wf m \<Longrightarrow> hm_wf (hm_retain P m)"
  by (simp add: hm_wf_def hm_retain_def distinct_map_filter)

lemma set_retain: "set (hm_retain P m) = {(k, v). (k, v) \<in> set m \<and> P k v}"
  by (auto simp: hm_retain_def)

lemma hm_wf_extend [simp, wf_intros]: "hm_wf m \<Longrightarrow> hm_wf (hm_extend kvs m)"
  by (simp add: hm_extend_def hm.wf_fold_insert)

lemma map_of_extend [map_simps]:
  "distinct (map fst kvs) \<Longrightarrow> map_of (hm_extend kvs m) j =
     (case map_of kvs j of None \<Rightarrow> map_of m j | Some v \<Rightarrow> Some v)"
  by (simp add: hm_extend_def hm.lookup_fold_insert_distinct)

lemma hm_wf_hs_insert [simp, wf_intros]: "hm_wf m \<Longrightarrow> hm_wf (hs_insert k v m)"
  by (simp add: hs_insert_def)

lemma map_of_hs_insert [map_simps]:
  "map_of (hs_insert k v m) j =
     (if j = k then (case map_of m k of None \<Rightarrow> Some v | Some w \<Rightarrow> Some w) else map_of m j)"
  by (auto simp: hs_insert_def hm_contains_def)

lemma hm_wf_hs_fold: "hm_wf m \<Longrightarrow> hm_wf (fold (\<lambda>(k, v). hs_insert k v) kvs m)"
  by (induction kvs arbitrary: m) auto

lemma hm_wf_hs_collect [simp, wf_intros]: "hm_wf (hs_collect kvs)"
  by (simp add: hs_collect_def hm_wf_hs_fold)

lemma hs_fold_conv:
  "map_of (fold (\<lambda>(k, v). hs_insert k v) kvs m) j = (case map_of m j of None \<Rightarrow> map_of kvs j | Some w \<Rightarrow> Some w)"
  by (induction kvs arbitrary: m) (auto simp: map_of_hs_insert split: option.splits)

lemma map_of_hs_collect [map_simps]: "map_of (hs_collect kvs) = map_of kvs"
  by (rule ext) (simp add: hs_collect_def hs_fold_conv)

text \<open>Filtering and changing entries under their keys.\<close>

lemma map_filter_keys: "fst ` set (List.map_filter (\<lambda>(k, v). map_option (Pair k) (g k v)) m) \<subseteq> fst ` set m"
  by (force simp: List.map_filter_def)

lemma hm_wf_map_filter [wf_intros]: "hm_wf m \<Longrightarrow> hm_wf (List.map_filter (\<lambda>(k, v). map_option (Pair k) (g k v)) m)"
proof (induction m)
  case (Cons p m)
  obtain k v where "p = (k, v)" by (cases p)
  with Cons map_filter_keys [of g m] show ?case
    by (cases "g k v") (auto simp: hm_wf_def map_filter_simps)
qed (simp add: map_filter_simps)

lemma map_of_map_filter [map_simps]:
  "hm_wf m \<Longrightarrow> map_of (List.map_filter (\<lambda>(k, v). map_option (Pair k) (g k v)) m) j =
     (case map_of m j of None \<Rightarrow> None | Some v \<Rightarrow> g j v)"
proof (induction m)
  case (Cons p m)
  obtain k v where p: "p = (k, v)" by (cases p)
  with Cons.prems have "map_of m k = None" by (auto simp: hm_wf_def map_of_eq_None_iff)
  with Cons p show ?case
    by (cases "g k v") (auto simp: hm_wf_def map_filter_simps split: option.splits)
qed (simp add: map_filter_simps)

lemma hm_eq_iff:
  assumes "hm_wf a" and "hm_wf b"
  shows "hm_eq a b \<longleftrightarrow> map_of a = map_of b"
proof
  assume eq: "hm_eq a b"
  show "map_of a = map_of b"
  proof
    fix k
    show "map_of a k = map_of b k"
    proof (cases "map_of a k")
      case None
      show ?thesis
      proof (cases "map_of b k")
        case (Some v)
        then have "(k, v) \<in> set b" by (rule map_of_SomeD)
        with eq show ?thesis by (auto simp: hm_eq_def list_all_iff)
      qed (simp add: None)
    next
      case (Some v)
      then have "(k, v) \<in> set a" by (rule map_of_SomeD)
      with eq show ?thesis by (auto simp: hm_eq_def list_all_iff)
    qed
  qed
qed (simp add: hm_eq_def list_all_iff)

section \<open>B-tree maps keep the key order\<close>

lemma map_of_bt_insert [simp, map_simps]: "map_of (bt_insert k v m) j = (if j = k then Some v else map_of m j)"
  by (induction m) auto

lemma keys_bt_insert [simp]: "fst ` set (bt_insert k v m) = insert k (fst ` set m)"
  by (induction m) auto

lemma bt_wf_Nil [simp]: "bt_wf []"
  by (simp add: bt_wf_def)

lemma bt_wf_Cons: "bt_wf (p # m) \<longleftrightarrow> (\<forall>x \<in> fst ` set m. fst p < x) \<and> bt_wf m"
  by (auto simp: bt_wf_def)

lemma bt_wf_insert [simp, wf_intros]: "bt_wf m \<Longrightarrow> bt_wf (bt_insert k v m)"
  by (induction m) (force simp: bt_wf_Cons)+

lemma bt_wf_remove [simp, wf_intros]: "bt_wf m \<Longrightarrow> bt_wf (bt_remove k m)"
  by (induction m) (auto simp: bt_wf_Cons bt_remove_def)

lemma map_of_bt_remove [simp, map_simps]: "map_of (bt_remove k m) j = (if j = k then None else map_of m j)"
  by (induction m) (auto simp: bt_remove_def)

interpretation bt: rust_map map_of bt_insert bt_remove bt_wf
  by unfold_locales auto

lemma bt_wf_extend [simp, wf_intros]: "bt_wf m \<Longrightarrow> bt_wf (bt_extend kvs m)"
  by (simp add: bt_extend_def bt.wf_fold_insert)

lemma map_of_bt_extend [map_simps]:
  "map_of (bt_extend kvs m) j = (case map_of (rev kvs) j of None \<Rightarrow> map_of m j | Some v \<Rightarrow> Some v)"
  by (simp add: bt_extend_def bt.lookup_fold_insert)

text \<open>Two B-tree maps with the same lookups are the same list: equality is structural.\<close>

lemma bt_wf_distinct: "bt_wf m \<Longrightarrow> distinct (map fst m)"
  by (auto simp: bt_wf_def strict_sorted_iff)

lemma map_of_Cons_lt: "bt_wf (p # m) \<Longrightarrow> j \<le> fst p \<Longrightarrow> map_of m j = None"
  by (force simp: bt_wf_Cons map_of_eq_None_iff)

lemma bt_eqI:
  assumes "bt_wf a" and "bt_wf b" and "map_of a = map_of b"
  shows "a = b"
proof -
  have "set a = set b"
    using assms by (metis bt_wf_distinct map_of_inject_set)
  moreover have "sorted (map fst a)" "sorted (map fst b)"
    using assms(1,2) by (auto simp: bt_wf_def strict_sorted_iff)
  moreover have "inj_on fst (set a \<union> set b)"
    using assms(1) \<open>set a = set b\<close> by (auto dest: bt_wf_distinct simp: distinct_map)
  ultimately show ?thesis
    using assms(1,2) by (auto intro: map_sorted_distinct_set_unique[of fst] dest: bt_wf_distinct)
qed

section \<open>Strings\<close>

text \<open>\<open>str::split\<close> on a character: never empty, the pieces joined again give the string.\<close>

fun split_on :: "char \<Rightarrow> string \<Rightarrow> string list" where
  "split_on c [] = [[]]"
| "split_on c (x # xs) =
     (if x = c then [] # split_on c xs
      else (case split_on c xs of [] \<Rightarrow> [[x]] | w # ws \<Rightarrow> (x # w) # ws))"

text \<open>\<open>str::split_once\<close>: before and after the first occurrence.\<close>

fun split_once :: "char \<Rightarrow> string \<Rightarrow> (string \<times> string) option" where
  "split_once c [] = None"
| "split_once c (x # xs) =
     (if x = c then Some ([], xs)
      else map_option (\<lambda>(a, b). (x # a, b)) (split_once c xs))"

fun join_with :: "string \<Rightarrow> string list \<Rightarrow> string" where
  "join_with sep [] = []"
| "join_with sep [w] = w"
| "join_with sep (w # ws) = w @ sep @ join_with sep ws"

definition starts_with :: "string \<Rightarrow> string \<Rightarrow> bool" where
  "starts_with p s = (take (length p) s = p)"

text \<open>
  \<open>str::trim\<close> removes white space, as Unicode defines it, at both ends. In UTF-8 no white space character
  is a proper suffix of another character, so that the end is trimmed on the reversed bytes.
\<close>

definition white_space :: "string list" where
  "white_space =
     [[CHR 0x09], [CHR 0x0A], [CHR 0x0B], [CHR 0x0C],
      [CHR 0x0D], [CHR 0x20], [CHR 0xC2, CHR 0x85], [CHR 0xC2, CHR 0xA0],
      [CHR 0xE1, CHR 0x9A, CHR 0x80], [CHR 0xE2, CHR 0x80, CHR 0x80], [CHR 0xE2, CHR 0x80, CHR 0x81], [CHR 0xE2, CHR 0x80, CHR 0x82],
      [CHR 0xE2, CHR 0x80, CHR 0x83], [CHR 0xE2, CHR 0x80, CHR 0x84], [CHR 0xE2, CHR 0x80, CHR 0x85], [CHR 0xE2, CHR 0x80, CHR 0x86],
      [CHR 0xE2, CHR 0x80, CHR 0x87], [CHR 0xE2, CHR 0x80, CHR 0x88], [CHR 0xE2, CHR 0x80, CHR 0x89], [CHR 0xE2, CHR 0x80, CHR 0x8A],
      [CHR 0xE2, CHR 0x80, CHR 0xA8], [CHR 0xE2, CHR 0x80, CHR 0xA9], [CHR 0xE2, CHR 0x80, CHR 0xAF], [CHR 0xE2, CHR 0x81, CHR 0x9F],
      [CHR 0xE3, CHR 0x80, CHR 0x80]]"

function trim_front :: "string list \<Rightarrow> string \<Rightarrow> string" where
  "trim_front ws s =
     (case find (\<lambda>w. w \<noteq> [] \<and> starts_with w s) ws of None \<Rightarrow> s | Some w \<Rightarrow> trim_front ws (drop (length w) s))"
  by pat_completeness auto

termination
proof (relation "measure (length \<circ> snd)")
  fix ws :: "string list" and s w :: string
  assume "find (\<lambda>w. w \<noteq> [] \<and> starts_with w s) ws = Some w"
  then have "w \<noteq> []" and "take (length w) s = w" by (auto simp: find_Some_iff starts_with_def)
  then have "s \<noteq> []" and "0 < length w" by (cases w; force)+
  then show "((ws, drop (length w) s), ws, s) \<in> measure (length \<circ> snd)" by (cases s) auto
qed simp

declare trim_front.simps [simp del]

definition trim :: "string \<Rightarrow> string" where
  "trim s = rev (trim_front (map rev white_space) (rev (trim_front white_space s)))"

text \<open>\<open>str::trim_matches\<close> with a set of characters.\<close>

definition trim_chars :: "char set \<Rightarrow> string \<Rightarrow> string" where
  "trim_chars cs s = rev (dropWhile (\<lambda>c. c \<in> cs) (rev (dropWhile (\<lambda>c. c \<in> cs) s)))"

text \<open>Decimal rendering of an unsigned number, as \<open>format!\<close> prints it.\<close>

fun show_nat :: "nat \<Rightarrow> string" where
  "show_nat n = (if n < 10 then [char_of (48 + n)] else show_nat (n div 10) @ [char_of (48 + n mod 10)])"

declare show_nat.simps [simp del]

lemma split_on_nonempty [simp]: "split_on c s \<noteq> []"
  by (induction s) (auto split: list.splits)

lemma join_split [simp]: "join_with [c] (split_on c s) = s"
proof (induction s)
  case (Cons x xs)
  obtain w ws where "split_on c xs = w # ws"
    by (cases "split_on c xs") auto
  with Cons.IH show ?case by (cases ws) auto
qed simp

lemma split_on_no_sep: "c \<notin> set s \<Longrightarrow> split_on c s = [s]"
  by (induction s) auto

lemma split_on_append: "c \<notin> set s \<Longrightarrow> split_on c (s @ c # t) = s # split_on c t"
  by (induction s) auto

lemma split_once_SomeD: "split_once c s = Some (a, b) \<Longrightarrow> s = a @ c # b \<and> c \<notin> set a"
  by (induction s arbitrary: a) (auto split: if_splits)

lemma split_once_None: "split_once c s = None \<longleftrightarrow> c \<notin> set s"
  by (induction s) auto

lemma starts_with_append [simp]: "starts_with p (p @ s)"
  by (simp add: starts_with_def)

end
