(* ===== verification/Oam_Types.thy ===== *)
theory Oam_Types
  imports Prelude
begin

text \<open>
  The application manifest (\<open>crates/wadm-types/src/lib.rs\<close>): its data as records and datatypes with
  the source's fields, the accessors of \<open>Manifest\<close>, \<open>Component\<close> and \<open>Trait\<close>, the search for missing
  shared components, and the hand-written deserializer of link properties. \<open>ComponentProperties\<close> and
  \<open>CapabilityProperties\<close> have the same fields and share one record.
\<close>

text \<open>A \<open>serde_json::Value\<close>; numbers keep their text.\<close>

datatype json =
    JNull
  | JBool bool
  | JNumber string
  | JString string
  | JArray "json list"
  | JObject "(string \<times> json) list"

fun json_get :: "json \<Rightarrow> string \<Rightarrow> json option" where
  "json_get (JObject kvs) k = map_of kvs k"
| "json_get _ k = None"

text \<open>Indexing by a missing key gives null.\<close>

definition json_index :: "json \<Rightarrow> string \<Rightarrow> json" where
  "json_index j k = (case json_get j k of None \<Rightarrow> JNull | Some v \<Rightarrow> v)"

fun json_as_str :: "json \<Rightarrow> string option" where
  "json_as_str (JString s) = Some s"
| "json_as_str _ = None"

fun json_as_array :: "json \<Rightarrow> json list option" where
  "json_as_array (JArray xs) = Some xs"
| "json_as_array _ = None"

section \<open>The data of a manifest\<close>

record metadata =
  md_name :: string
  md_annotations :: btree
  md_labels :: btree

record policy =
  pol_name :: string
  pol_properties :: btree
  pol_type :: string

record secret_source_property =
  ssp_policy :: string
  ssp_key :: string
  ssp_field :: "string option"
  ssp_version :: "string option"

record secret_property =
  sp_name :: string
  sp_properties :: secret_source_property

record config_property =
  cfg_name :: string
  cfg_properties :: "(string, string) hmap option"

record config_definition =
  cd_config :: "config_property list"
  cd_secrets :: "secret_property list"

record shared_application =
  sa_name :: string
  sa_component :: string

record component_properties =
  cp_image :: "string option"
  cp_application :: "shared_application option"
  cp_id :: "string option"
  cp_config :: "config_property list"
  cp_secrets :: "secret_property list"

datatype properties =
    PComponent component_properties
  | PCapability component_properties

record target_config =
  tc_name :: string
  tc_config :: "config_property list"
  tc_secrets :: "secret_property list"

record link_property =
  lp_namespace :: string
  lp_package :: string
  lp_interfaces :: "string list"
  lp_source :: "config_definition option"
  lp_target :: target_config
  lp_name :: "string option"

record spread =
  spr_name :: string
  spr_requirements :: btree
  spr_weight :: "usize option"

record spread_scaler_property =
  ssc_instances :: usize
  ssc_spread :: "spread list"

datatype trait_property =
    TPLink link_property
  | TPSpreadScaler spread_scaler_property
  | TPCustom json

record oam_trait =
  tr_type :: string
  tr_properties :: trait_property

record component =
  co_name :: string
  co_properties :: properties
  co_traits :: "oam_trait list option"

record manifest =
  mf_api_version :: string
  mf_kind :: string
  mf_metadata :: metadata
  mf_components :: "component list"
  mf_policies :: "policy list"

section \<open>Constants\<close>

definition DEFAULT_SPREAD_WEIGHT :: usize where "DEFAULT_SPREAD_WEIGHT = 100"
definition VERSION_ANNOTATION_KEY :: string where "VERSION_ANNOTATION_KEY = ''version''"
definition DESCRIPTION_ANNOTATION_KEY :: string where "DESCRIPTION_ANNOTATION_KEY = ''description''"
definition SHARED_ANNOTATION_KEY :: string where "SHARED_ANNOTATION_KEY = ''experimental.wasmcloud.dev/shared''"
definition SPREADSCALER_TRAIT :: string where "SPREADSCALER_TRAIT = ''spreadscaler''"
definition DAEMONSCALER_TRAIT :: string where "DAEMONSCALER_TRAIT = ''daemonscaler''"
definition LINK_TRAIT :: string where "LINK_TRAIT = ''link''"
definition LATEST_VERSION :: string where "LATEST_VERSION = ''latest''"
definition DEFAULT_LINK_NAME :: string where "DEFAULT_LINK_NAME = ''default''"

lemmas oam_consts = DEFAULT_SPREAD_WEIGHT_def VERSION_ANNOTATION_KEY_def DESCRIPTION_ANNOTATION_KEY_def
  SHARED_ANNOTATION_KEY_def SPREADSCALER_TRAIT_def DAEMONSCALER_TRAIT_def LINK_TRAIT_def
  LATEST_VERSION_def DEFAULT_LINK_NAME_def

definition default_spread :: spread where
  "default_spread = \<lparr>spr_name = ''default'', spr_requirements = [], spr_weight = None\<rparr>"

section \<open>Accessors\<close>

fun props_of :: "properties \<Rightarrow> component_properties" where
  "props_of (PComponent p) = p"
| "props_of (PCapability p) = p"

fun is_capability :: "properties \<Rightarrow> bool" where
  "is_capability (PComponent p) = False"
| "is_capability (PCapability p) = True"

definition traits_of :: "component \<Rightarrow> oam_trait list" where
  "traits_of c = (case co_traits c of None \<Rightarrow> [] | Some ts \<Rightarrow> ts)"

definition manifest_version :: "manifest \<Rightarrow> string" where
  "manifest_version m =
     (case map_of (md_annotations (mf_metadata m)) VERSION_ANNOTATION_KEY of
        None \<Rightarrow> [] | Some v \<Rightarrow> v)"

definition manifest_description :: "manifest \<Rightarrow> string option" where
  "manifest_description m = map_of (md_annotations (mf_metadata m)) DESCRIPTION_ANNOTATION_KEY"

text \<open>\<open>str::parse::<bool>\<close>.\<close>

definition parse_bool :: "string \<Rightarrow> bool option" where
  "parse_bool s = (if s = ''true'' then Some True else if s = ''false'' then Some False else None)"

definition manifest_shared :: "manifest \<Rightarrow> bool" where
  "manifest_shared m =
     (case map_of (md_annotations (mf_metadata m)) SHARED_ANNOTATION_KEY of
        None \<Rightarrow> False
      | Some v \<Rightarrow> (case parse_bool v of None \<Rightarrow> False | Some b \<Rightarrow> b))"

definition is_link :: "oam_trait \<Rightarrow> bool" where
  "is_link t = (tr_type t = LINK_TRAIT)"

definition is_scaler :: "oam_trait \<Rightarrow> bool" where
  "is_scaler t = (tr_type t = SPREADSCALER_TRAIT \<or> tr_type t = DAEMONSCALER_TRAIT)"

definition new_link :: "link_property \<Rightarrow> oam_trait" where
  "new_link p = \<lparr>tr_type = LINK_TRAIT, tr_properties = TPLink p\<rparr>"

definition new_spreadscaler :: "spread_scaler_property \<Rightarrow> oam_trait" where
  "new_spreadscaler p = \<lparr>tr_type = SPREADSCALER_TRAIT, tr_properties = TPSpreadScaler p\<rparr>"

definition new_daemonscaler :: "spread_scaler_property \<Rightarrow> oam_trait" where
  "new_daemonscaler p = \<lparr>tr_type = DAEMONSCALER_TRAIT, tr_properties = TPSpreadScaler p\<rparr>"

definition component_links :: "component \<Rightarrow> oam_trait list" where
  "component_links c = filter is_link (traits_of c)"

definition manifest_links :: "manifest \<Rightarrow> oam_trait list" where
  "manifest_links m = filter is_link (concat (map traits_of (mf_components m)))"

definition wasm_components :: "manifest \<Rightarrow> component list" where
  "wasm_components m = filter (\<lambda>c. \<not> is_capability (co_properties c)) (mf_components m)"

definition capability_providers :: "manifest \<Rightarrow> component list" where
  "capability_providers m = filter (\<lambda>c. is_capability (co_properties c)) (mf_components m)"

definition component_lookup :: "manifest \<Rightarrow> (string, component) hmap" where
  "component_lookup m = hm_extend (map (\<lambda>c. (co_name c, c)) (mf_components m)) []"

definition policy_lookup :: "manifest \<Rightarrow> (string, policy) hmap" where
  "policy_lookup m = hm_extend (map (\<lambda>p. (pol_name p, p)) (mf_policies m)) []"

fun link_secrets :: "trait_property \<Rightarrow> secret_property list" where
  "link_secrets (TPLink l) =
     tc_secrets (lp_target l) @ (case lp_source l of None \<Rightarrow> [] | Some s \<Rightarrow> cd_secrets s)"
| "link_secrets _ = []"

definition component_secrets :: "component \<Rightarrow> secret_property list" where
  "component_secrets c =
     concat (map (link_secrets \<circ> tr_properties) (traits_of c)) @ cp_secrets (props_of (co_properties c))"

section \<open>Shared components\<close>

text \<open>Whether a deployed shared application provides the shared component: names and kind agree.\<close>

definition provides_shared :: "manifest \<Rightarrow> shared_application \<Rightarrow> properties \<Rightarrow> bool" where
  "provides_shared m app props =
     (md_name (mf_metadata m) = sa_name app \<and>
      list_ex (\<lambda>c. co_name c = sa_component app \<and>
                   is_capability (co_properties c) = is_capability props) (mf_components m))"

definition missing_shared_components :: "manifest \<Rightarrow> manifest list \<Rightarrow> component list" where
  "missing_shared_components m deployed_apps =
     filter (\<lambda>c. let p = props_of (co_properties c) in
       case (cp_image p, cp_application p) of
         (None, Some app) \<Rightarrow>
           \<not> list_ex (\<lambda>a. provides_shared a app (co_properties c)) (filter manifest_shared deployed_apps)
       | _ \<Rightarrow> False) (mf_components m)"

section \<open>Deserializing link properties\<close>

text \<open>
  The derived deserializers of the inner blocks are library code: \<open>de_target\<close>, \<open>de_configs\<close> and
  \<open>de_source\<close> stand for \<open>serde_json::from_value\<close> at their types, with an error as \<open>None\<close>. The
  \<open>unwrap\<close>s of the source are panics.
\<close>

definition default_target :: target_config where
  "default_target = \<lparr>tc_name = [], tc_config = [], tc_secrets = []\<rparr>"

definition or_err :: "string \<Rightarrow> 'a option \<Rightarrow> 'a outcome" where
  "or_err e r = (case r of None \<Rightarrow> Err e | Some x \<Rightarrow> Ret x)"

definition or_panic :: "'a option \<Rightarrow> 'a outcome" where
  "or_panic r = (case r of None \<Rightarrow> Panic | Some x \<Rightarrow> Ret x)"

definition link_target_of_json ::
    "(json \<Rightarrow> target_config option) \<Rightarrow> (json \<Rightarrow> config_property list option) \<Rightarrow> json \<Rightarrow> target_config outcome" where
  "link_target_of_json de_target de_configs j =
     (case json_get j ''target'' of
        None \<Rightarrow> Ret default_target
      | Some t \<Rightarrow>
          (case json_as_str t of
             Some name \<Rightarrow>
               obind (case json_get j ''target_config'' of
                        None \<Rightarrow> Ret []
                      | Some tc \<Rightarrow> or_err ''invalid value'' (de_configs tc))
                 (\<lambda>tgt. Ret \<lparr>tc_name = name, tc_config = tgt, tc_secrets = []\<rparr>)
           | None \<Rightarrow> or_err ''invalid value'' (de_target t)))"

definition link_source_of_json ::
    "(json \<Rightarrow> config_definition option) \<Rightarrow> (json \<Rightarrow> config_property list option) \<Rightarrow> json \<Rightarrow>
     config_definition option outcome" where
  "link_source_of_json de_source de_configs j =
     obind (case json_get j ''source_config'' of
              None \<Rightarrow> Ret None
            | Some s \<Rightarrow> obind (or_err ''invalid value'' (de_configs s))
                          (\<lambda>src. Ret (Some \<lparr>cd_config = src, cd_secrets = []\<rparr>)))
       (\<lambda>old. case json_get j ''source'' of
          None \<Rightarrow> Ret old
        | Some s \<Rightarrow> obind (or_err ''invalid value'' (de_source s)) (\<lambda>d. Ret (Some d)))"

definition link_of_json ::
    "(json \<Rightarrow> target_config option) \<Rightarrow> (json \<Rightarrow> config_definition option) \<Rightarrow>
     (json \<Rightarrow> config_property list option) \<Rightarrow> json \<Rightarrow> link_property outcome" where
  "link_of_json de_target de_source de_configs j =
     obind (link_target_of_json de_target de_configs j) (\<lambda>target.
     obind (link_source_of_json de_source de_configs j) (\<lambda>source.
     if json_get j ''namespace'' = None then Err ''namespace is required''
     else if json_get j ''package'' = None then Err ''package is required''
     else if json_get j ''interfaces'' = None then Err ''interfaces is required''
     else
       obind (or_panic (json_as_str (json_index j ''namespace''))) (\<lambda>ns.
       obind (or_panic (json_as_str (json_index j ''package''))) (\<lambda>pkg.
       obind (or_panic (json_as_array (json_index j ''interfaces''))) (\<lambda>ifs.
       obind (omap_list (\<lambda>v. or_panic (json_as_str v)) ifs) (\<lambda>names.
       obind (case json_get j ''name'' of
                None \<Rightarrow> Ret None
              | Some v \<Rightarrow> obind (or_panic (json_as_str v)) (\<lambda>n. Ret (Some n))) (\<lambda>nm.
       Ret \<lparr>lp_namespace = ns, lp_package = pkg, lp_interfaces = names,
            lp_source = source, lp_target = target, lp_name = nm\<rparr>)))))))"

lemma or_panic_simps [simp]: "or_panic None = Panic" "or_panic (Some x) = Ret x"
  by (simp_all add: or_panic_def)

lemma or_err_simps [simp]: "or_err e None = Err e" "or_err e (Some x) = Ret x"
  by (simp_all add: or_err_def)

section \<open>Facts on the accessors\<close>

lemma or_err_no_Panic [simp]: "or_err e r \<noteq> Panic"
  by (cases r) simp_all

lemma link_target_no_Panic: "link_target_of_json dt dc j \<noteq> Panic"
  by (auto simp: link_target_of_json_def obind_eq_Panic split: option.splits)

lemma link_source_no_Panic: "link_source_of_json ds dc j \<noteq> Panic"
  by (auto simp: link_source_of_json_def obind_eq_Panic split: option.splits)

lemma extend_Nil_conv: "map_of (hm_extend kvs []) = map_of (rev kvs)"
  by (rule ext) (simp add: hm_extend_def hm.lookup_fold_insert split: option.splits)

lemma component_lookup_contains:
  "hm_contains (component_lookup m) n \<longleftrightarrow> n \<in> co_name ` set (mf_components m)"
  by (auto simp: hm_contains_def component_lookup_def extend_Nil_conv map_of_eq_None_iff image_comp)

lemma policy_lookup_Some: "map_of (policy_lookup m) n = Some p \<Longrightarrow> p \<in> set (mf_policies m) \<and> pol_name p = n"
  by (auto simp: policy_lookup_def extend_Nil_conv dest!: map_of_SomeD)

lemma missing_shared_iff:
  "c \<in> set (missing_shared_components m apps) \<longleftrightarrow>
     c \<in> set (mf_components m) \<and> cp_image (props_of (co_properties c)) = None \<and>
     (\<exists>app. cp_application (props_of (co_properties c)) = Some app \<and>
        (\<forall>a \<in> set apps. manifest_shared a \<longrightarrow> \<not> provides_shared a app (co_properties c)))"
  by (auto simp: missing_shared_components_def Let_def list_ex_iff split: option.splits)

text \<open>
  A manifest misses exactly those of its shared components (no image, a reference to another
  application) for which no deployed application is shared, has the referenced name and holds a
  component of the referenced name and of the same kind.
\<close>

theorem missing_shared_exact:
  "set (missing_shared_components m apps) =
     {c \<in> set (mf_components m). cp_image (props_of (co_properties c)) = None \<and>
        (\<exists>app. cp_application (props_of (co_properties c)) = Some app \<and>
           \<not> (\<exists>a \<in> set apps. manifest_shared a \<and> md_name (mf_metadata a) = sa_name app \<and>
                (\<exists>d \<in> set (mf_components a). co_name d = sa_component app \<and>
                   is_capability (co_properties d) = is_capability (co_properties c))))}"
  by (auto simp: missing_shared_iff provides_shared_def list_ex_iff)

definition is_string :: "json \<Rightarrow> bool" where
  "is_string j = (json_as_str j \<noteq> None)"

definition is_string_array :: "json \<Rightarrow> bool" where
  "is_string_array j = (case json_as_array j of None \<Rightarrow> False | Some xs \<Rightarrow> list_all is_string xs)"

lemma or_panic_eq_Panic [simp]: "or_panic r = Panic \<longleftrightarrow> r = None"
  by (cases r) simp_all

lemma omap_as_str_Panic: "omap_list (\<lambda>v. or_panic (json_as_str v)) xs = Panic \<longleftrightarrow> \<not> list_all is_string xs"
proof (induction xs)
  case (Cons x xs)
  then show ?case by (cases "json_as_str x") (auto simp: is_string_def obind_eq_Panic)
qed simp

lemma omap_as_str_Ret: "list_all is_string xs \<Longrightarrow> \<exists>ys. omap_list (\<lambda>v. or_panic (json_as_str v)) xs = Ret ys"
  by (induction xs) (auto simp: is_string_def)

text \<open>
  The hand-written deserializer of link properties never fails gracefully on a mistyped field:
  once the target and source blocks are read and the three required keys are present, it panics
  exactly when the namespace or the package is not a string, the interfaces are not an array of
  strings, or a name is given that is not a string.
\<close>

theorem link_of_json_panic_iff:
  "link_of_json de_target de_source de_configs j = Panic \<longleftrightarrow>
     (\<exists>t. link_target_of_json de_target de_configs j = Ret t) \<and>
     (\<exists>s. link_source_of_json de_source de_configs j = Ret s) \<and>
     (\<exists>ns pkg ifs. json_get j ''namespace'' = Some ns \<and> json_get j ''package'' = Some pkg \<and>
        json_get j ''interfaces'' = Some ifs \<and>
        \<not> (is_string ns \<and> is_string pkg \<and> is_string_array ifs \<and>
           (case json_get j ''name'' of None \<Rightarrow> True | Some v \<Rightarrow> is_string v)))"
proof (cases "json_get j ''namespace'' = None \<or> json_get j ''package'' = None \<or> json_get j ''interfaces'' = None")
  case True
  then show ?thesis
    by (auto simp: link_of_json_def obind_eq_Panic link_target_no_Panic link_source_no_Panic)
next
  case False
  then obtain ns pkg ifs where keys: "json_get j ''namespace'' = Some ns"
      "json_get j ''package'' = Some pkg" "json_get j ''interfaces'' = Some ifs"
    by auto
  show ?thesis
    by (cases "json_as_str ns"; cases "json_as_str pkg"; cases "json_as_array ifs";
        cases "link_target_of_json de_target de_configs j";
        cases "link_source_of_json de_source de_configs j")
      (auto simp: keys link_of_json_def obind_eq_Panic link_target_no_Panic link_source_no_Panic
        json_index_def is_string_def is_string_array_def omap_as_str_Panic
        split: option.splits outcome.splits dest: omap_as_str_Ret)
qed

end
