(* ===== verification/Commands_Events.thy ===== *)
theory Commands_Events
  imports Oam_Types
begin

text \<open>
  The commands wadm issues (\<open>commands/mod.rs\<close>), the lattice events it consumes (\<open>events/types.rs\<close>,
  \<open>events/data.rs\<close>) with their cloud event form, the event a command is expected to cause, the match
  of an incoming event against an expected one (\<open>evt_matches_expected\<close> in \<open>scaler/mod.rs\<close>), and the
  command worker (\<open>workers/command.rs\<close>), which turns a command into a control interface call.

  \<open>Link\<close>, \<open>ComponentDescription\<close> and \<open>ProviderDescription\<close> belong to the control interface crate; the
  records hold what its accessors return. Version numbers keep their text.
\<close>

section \<open>Commands\<close>

record scale_component =
  scc_component_id :: string
  scc_host_id :: string
  scc_count :: u32
  scc_reference :: string
  scc_model_name :: string
  scc_annotations :: btree
  scc_config :: "string list"

record start_provider =
  stp_reference :: string
  stp_provider_id :: string
  stp_host_id :: string
  stp_model_name :: string
  stp_config :: "string list"
  stp_annotations :: btree

record stop_provider =
  spp_provider_id :: string
  spp_host_id :: string
  spp_model_name :: string
  spp_annotations :: btree

record put_link =
  pl_source_id :: string
  pl_target :: string
  pl_name :: string
  pl_wit_namespace :: string
  pl_wit_package :: string
  pl_interfaces :: "string list"
  pl_source_config :: "string list"
  pl_target_config :: "string list"
  pl_model_name :: string

record delete_link =
  dl_source_id :: string
  dl_wit_namespace :: string
  dl_wit_package :: string
  dl_link_name :: string
  dl_model_name :: string

record put_config =
  pc_config_name :: string
  pc_config :: "(string, string) hmap"

datatype command =
    ScaleComponent scale_component
  | StartProvider start_provider
  | StopProvider stop_provider
  | PutLink put_link
  | DeleteLink delete_link
  | PutConfig put_config
  | DeleteConfig string

section \<open>Events\<close>

record lattice_link =
  lk_source_id :: string
  lk_target :: string
  lk_name :: string
  lk_wit_namespace :: string
  lk_wit_package :: string
  lk_interfaces :: "string list"
  lk_source_config :: "string list"
  lk_target_config :: "string list"

record component_description =
  cdsc_id :: string
  cdsc_image_ref :: string
  cdsc_name :: "string option"
  cdsc_annotations :: "btree option"
  cdsc_max_instances :: u32

record provider_description =
  pdsc_id :: string
  pdsc_image_ref :: "string option"
  pdsc_name :: "string option"
  pdsc_annotations :: "btree option"

record claims =
  cl_name :: string
  cl_issuer :: string

record component_scaled =
  cse_annotations :: btree
  cse_claims :: "claims option"
  cse_image_ref :: string
  cse_max_instances :: usize
  cse_component_id :: string
  cse_host_id :: string

record component_scale_failed =
  csf_annotations :: btree
  csf_claims :: "claims option"
  csf_image_ref :: string
  csf_max_instances :: usize
  csf_component_id :: string
  csf_host_id :: string
  csf_error :: string

record provider_started =
  pse_annotations :: btree
  pse_claims :: "claims option"
  pse_image_ref :: string
  pse_provider_id :: string
  pse_host_id :: string

record provider_start_failed =
  psf_error :: string
  psf_provider_id :: string
  psf_provider_ref :: string
  psf_host_id :: string

record provider_stopped =
  pst_annotations :: btree
  pst_provider_id :: string
  pst_reason :: string
  pst_host_id :: string

record provider_health_check_info =
  hci_provider_id :: string
  hci_host_id :: string

record linkdef_deleted =
  ldd_source_id :: string
  ldd_name :: string
  ldd_wit_namespace :: string
  ldd_wit_package :: string

record host_started =
  hse_labels :: "(string, string) hmap"
  hse_friendly_name :: string
  hse_id :: string

record host_stopped =
  hst_labels :: "(string, string) hmap"
  hst_id :: string

record host_heartbeat =
  hb_components :: "component_description list"
  hb_providers :: "provider_description list"
  hb_host_id :: string
  hb_issuer :: string
  hb_friendly_name :: string
  hb_labels :: "(string, string) hmap"
  hb_version :: string
  hb_uptime_human :: string
  hb_uptime_seconds :: "64 word"

datatype event =
    ComponentScaled component_scaled
  | ComponentScaleFailed component_scale_failed
  | ProviderStarted provider_started
  | ProviderStopped provider_stopped
  | ProviderStartFailed provider_start_failed
  | ProviderHealthCheckPassed provider_health_check_info
  | ProviderHealthCheckFailed provider_health_check_info
  | ProviderHealthCheckStatus provider_health_check_info
  | HostStarted host_started
  | HostStopped host_stopped
  | HostHeartbeat host_heartbeat
  | LinkdefSet lattice_link
  | LinkdefDeleted linkdef_deleted
  | ConfigSet string
  | ConfigDeleted string
  | ManifestPublished manifest
  | ManifestUnpublished string

section \<open>Cloud events\<close>

text \<open>The \<open>TYPE\<close> constant of each event, chosen when an event is converted into a cloud event.\<close>

fun event_type :: "event \<Rightarrow> string" where
  "event_type (ComponentScaled _) = ''com.wasmcloud.lattice.component_scaled''"
| "event_type (ComponentScaleFailed _) = ''com.wasmcloud.lattice.component_scale_failed''"
| "event_type (ProviderStarted _) = ''com.wasmcloud.lattice.provider_started''"
| "event_type (ProviderStopped _) = ''com.wasmcloud.lattice.provider_stopped''"
| "event_type (ProviderStartFailed _) = ''com.wasmcloud.lattice.provider_start_failed''"
| "event_type (ProviderHealthCheckPassed _) = ''com.wasmcloud.lattice.health_check_passed''"
| "event_type (ProviderHealthCheckFailed _) = ''com.wasmcloud.lattice.health_check_failed''"
| "event_type (ProviderHealthCheckStatus _) = ''com.wasmcloud.lattice.health_check_status''"
| "event_type (HostStarted _) = ''com.wasmcloud.lattice.host_started''"
| "event_type (HostStopped _) = ''com.wasmcloud.lattice.host_stopped''"
| "event_type (HostHeartbeat _) = ''com.wasmcloud.lattice.host_heartbeat''"
| "event_type (LinkdefSet _) = ''com.wasmcloud.lattice.linkdef_set''"
| "event_type (LinkdefDeleted _) = ''com.wasmcloud.lattice.linkdef_deleted''"
| "event_type (ConfigSet _) = ''com.wasmcloud.lattice.config_set''"
| "event_type (ConfigDeleted _) = ''com.wasmcloud.lattice.config_deleted''"
| "event_type (ManifestPublished _) = ''com.wadm.manifest_published''"
| "event_type (ManifestUnpublished _) = ''com.wadm.manifest_unpublished''"

definition event_types :: "string list" where
  "event_types =
     [''com.wasmcloud.lattice.component_scaled'', ''com.wasmcloud.lattice.component_scale_failed'',
      ''com.wasmcloud.lattice.provider_started'', ''com.wasmcloud.lattice.provider_stopped'',
      ''com.wasmcloud.lattice.provider_start_failed'', ''com.wasmcloud.lattice.health_check_passed'',
      ''com.wasmcloud.lattice.health_check_failed'', ''com.wasmcloud.lattice.health_check_status'',
      ''com.wasmcloud.lattice.host_started'', ''com.wasmcloud.lattice.host_stopped'',
      ''com.wasmcloud.lattice.host_heartbeat'', ''com.wasmcloud.lattice.linkdef_set'',
      ''com.wasmcloud.lattice.linkdef_deleted'', ''com.wasmcloud.lattice.config_set'',
      ''com.wasmcloud.lattice.config_deleted'', ''com.wadm.manifest_published'',
      ''com.wadm.manifest_unpublished'']"

text \<open>The type an event reports of itself: the arm of a failed provider start names the stopped event.\<close>

fun raw_type :: "event \<Rightarrow> string" where
  "raw_type (ProviderStartFailed _) = ''com.wasmcloud.lattice.provider_stopped''"
| "raw_type e = event_type e"

text \<open>
  The four-argument form of \<open>event_impl\<close> overwrites the host id with the source attribute of the
  cloud event; the other events have no such attribute.
\<close>

fun set_source :: "string \<Rightarrow> event \<Rightarrow> event" where
  "set_source s (ComponentScaled e) = ComponentScaled (e\<lparr>cse_host_id := s\<rparr>)"
| "set_source s (ComponentScaleFailed e) = ComponentScaleFailed (e\<lparr>csf_host_id := s\<rparr>)"
| "set_source s (ProviderStarted e) = ProviderStarted (e\<lparr>pse_host_id := s\<rparr>)"
| "set_source s (ProviderStartFailed e) = ProviderStartFailed (e\<lparr>psf_host_id := s\<rparr>)"
| "set_source s (ProviderStopped e) = ProviderStopped (e\<lparr>pst_host_id := s\<rparr>)"
| "set_source s (HostStarted e) = HostStarted (e\<lparr>hse_id := s\<rparr>)"
| "set_source s (HostStopped e) = HostStopped (e\<lparr>hst_id := s\<rparr>)"
| "set_source s (HostHeartbeat e) = HostHeartbeat (e\<lparr>hb_host_id := s\<rparr>)"
| "set_source s e = e"

datatype 'd ce_data = CBinary 'd | CJson 'd | CString string

record 'd cloud_event =
  ce_type :: string
  ce_source :: string
  ce_data :: "'d ce_data option"

definition WADM_SOURCE :: string where "WADM_SOURCE = ''wadm''"

text \<open>The serializer and the deserializer of the inner types are parameters.\<close>

definition event_to_cloud :: "(event \<Rightarrow> 'd) \<Rightarrow> event \<Rightarrow> 'd cloud_event" where
  "event_to_cloud ser e = \<lparr>ce_type = event_type e, ce_source = WADM_SOURCE, ce_data = Some (CJson (ser e))\<rparr>"

definition event_from_cloud :: "(string \<Rightarrow> 'd \<Rightarrow> event option) \<Rightarrow> 'd cloud_event \<Rightarrow> event outcome" where
  "event_from_cloud de v =
     (if ce_type v \<notin> set event_types then Err ''Wrong event type''
      else case ce_data v of
        None \<Rightarrow> Err ''No data found''
      | Some (CString _) \<Rightarrow> Err ''No data found''
      | Some (CBinary d) \<Rightarrow>
          obind (or_err ''Error when deserializing'' (de (ce_type v) d)) (\<lambda>e. Ret (set_source (ce_source v) e))
      | Some (CJson d) \<Rightarrow>
          obind (or_err ''Error when deserializing'' (de (ce_type v) d)) (\<lambda>e. Ret (set_source (ce_source v) e)))"

section \<open>Managed annotations and expected events\<close>

definition MANAGED_BY_ANNOTATION :: string where "MANAGED_BY_ANNOTATION = ''wasmcloud.dev/managed-by''"
definition MANAGED_BY_IDENTIFIER :: string where "MANAGED_BY_IDENTIFIER = ''wadm''"
definition APP_SPEC_ANNOTATION :: string where "APP_SPEC_ANNOTATION = ''wasmcloud.dev/appspec''"

lemmas annotation_consts = MANAGED_BY_ANNOTATION_def MANAGED_BY_IDENTIFIER_def APP_SPEC_ANNOTATION_def

definition insert_managed_annotations :: "string \<Rightarrow> btree \<Rightarrow> btree" where
  "insert_managed_annotations model_name annotations =
     bt_extend [(MANAGED_BY_ANNOTATION, MANAGED_BY_IDENTIFIER), (APP_SPEC_ANNOTATION, model_name)] annotations"

text \<open>The count of a command is widened to the size type of the event.\<close>

definition corresponding_event :: "command \<Rightarrow> (event \<times> event option) option" where
  "corresponding_event c =
     (case c of
        StartProvider p \<Rightarrow>
          let annotations = insert_managed_annotations (stp_model_name p) (stp_annotations p) in
          Some (ProviderStarted
                  \<lparr>pse_annotations = annotations, pse_claims = None, pse_image_ref = stp_reference p,
                   pse_provider_id = stp_provider_id p, pse_host_id = stp_host_id p\<rparr>,
                Some (ProviderStartFailed
                  \<lparr>psf_error = [], psf_provider_id = stp_provider_id p,
                   psf_provider_ref = stp_reference p, psf_host_id = stp_host_id p\<rparr>))
      | ScaleComponent s \<Rightarrow>
          let annotations = insert_managed_annotations (scc_model_name s) (scc_annotations s) in
          Some (ComponentScaled
                  \<lparr>cse_annotations = annotations, cse_claims = None, cse_image_ref = scc_reference s,
                   cse_max_instances = ucast (scc_count s), cse_component_id = scc_component_id s,
                   cse_host_id = scc_host_id s\<rparr>,
                Some (ComponentScaleFailed
                  \<lparr>csf_annotations = annotations, csf_claims = None, csf_image_ref = scc_reference s,
                   csf_max_instances = ucast (scc_count s), csf_component_id = scc_component_id s,
                   csf_host_id = scc_host_id s, csf_error = []\<rparr>))
      | _ \<Rightarrow> None)"

fun evt_matches_expected :: "event \<Rightarrow> event \<Rightarrow> bool" where
  "evt_matches_expected (ProviderStarted a) (ProviderStarted b) =
     (pse_annotations a = pse_annotations b \<and> pse_image_ref a = pse_image_ref b \<and>
      pse_provider_id a = pse_provider_id b \<and> pse_host_id a = pse_host_id b)"
| "evt_matches_expected (ProviderStartFailed a) (ProviderStartFailed b) =
     (psf_provider_id a = psf_provider_id b \<and> psf_host_id a = psf_host_id b \<and>
      psf_provider_ref a = psf_provider_ref b)"
| "evt_matches_expected (ComponentScaled a) (ComponentScaled b) =
     (cse_annotations a = cse_annotations b \<and> cse_image_ref a = cse_image_ref b \<and>
      cse_component_id a = cse_component_id b \<and> cse_host_id a = cse_host_id b)"
| "evt_matches_expected (ComponentScaleFailed a) (ComponentScaleFailed b) =
     (csf_annotations a = csf_annotations b \<and> csf_image_ref a = csf_image_ref b \<and>
      csf_component_id a = csf_component_id b \<and> csf_host_id a = csf_host_id b)"
| "evt_matches_expected _ _ = False"

section \<open>The command worker\<close>

text \<open>The calls of the control interface client, with their arguments.\<close>

datatype ctl_call =
    CallScale string string string u32 btree "string list"
  | CallStartProvider string string string btree "string list"
  | CallStopProvider string string
  | CallPutLink lattice_link
  | CallDeleteLink string string string string
  | CallPutConfig string "(string, string) hmap"
  | CallDeleteConfig string

text \<open>\<open>build\<close> stands for \<open>Link::builder().build()\<close>, which may refuse the fields.\<close>

definition link_of_put :: "(lattice_link \<Rightarrow> lattice_link option) \<Rightarrow> put_link \<Rightarrow> lattice_link option" where
  "link_of_put build p =
     build \<lparr>lk_source_id = pl_source_id p, lk_target = pl_target p, lk_name = pl_name p,
            lk_wit_namespace = pl_wit_namespace p, lk_wit_package = pl_wit_package p,
            lk_interfaces = pl_interfaces p, lk_source_config = pl_source_config p,
            lk_target_config = pl_target_config p\<rparr>"

definition command_call :: "(lattice_link \<Rightarrow> lattice_link option) \<Rightarrow> command \<Rightarrow> ctl_call option" where
  "command_call build c =
     (case c of
        ScaleComponent s \<Rightarrow>
          Some (CallScale (scc_host_id s) (scc_reference s) (scc_component_id s) (scc_count s)
            (insert_managed_annotations (scc_model_name s) (scc_annotations s)) (scc_config s))
      | StartProvider p \<Rightarrow>
          Some (CallStartProvider (stp_host_id p) (stp_reference p) (stp_provider_id p)
            (insert_managed_annotations (stp_model_name p) (stp_annotations p)) (stp_config p))
      | StopProvider p \<Rightarrow> Some (CallStopProvider (spp_host_id p) (spp_provider_id p))
      | PutLink l \<Rightarrow> map_option CallPutLink (link_of_put build l)
      | DeleteLink l \<Rightarrow>
          Some (CallDeleteLink (dl_source_id l) (dl_link_name l) (dl_wit_namespace l) (dl_wit_package l))
      | PutConfig p \<Rightarrow> Some (CallPutConfig (pc_config_name p) (pc_config p))
      | DeleteConfig n \<Rightarrow> Some (CallDeleteConfig n))"

datatype ack_action = Acked | Nacked | NotAcked

text \<open>The reply of the client: an error, or a response that succeeded or not.\<close>

datatype ctl_reply = ReplyErr | Reply bool

text \<open>The question mark on the link conversion leaves the worker before any acknowledgement.\<close>

definition command_do_work ::
    "(lattice_link \<Rightarrow> lattice_link option) \<Rightarrow> (ctl_call \<Rightarrow> ctl_reply) \<Rightarrow> command \<Rightarrow> ack_action" where
  "command_do_work build reply c =
     (case command_call build c of
        None \<Rightarrow> NotAcked
      | Some call \<Rightarrow> (case reply call of Reply ok \<Rightarrow> if \<not> ok then Nacked else Acked | ReplyErr \<Rightarrow> Nacked))"

section \<open>Facts\<close>

lemma map_of_managed [map_simps]:
  "map_of (insert_managed_annotations n a) k =
     (if k = APP_SPEC_ANNOTATION then Some n
      else if k = MANAGED_BY_ANNOTATION then Some MANAGED_BY_IDENTIFIER else map_of a k)"
  by (simp add: insert_managed_annotations_def map_of_bt_extend annotation_consts)

lemma bt_wf_managed [wf_intros]: "bt_wf a \<Longrightarrow> bt_wf (insert_managed_annotations n a)"
  by (simp add: insert_managed_annotations_def)

lemma managed_consts_neq: "APP_SPEC_ANNOTATION \<noteq> MANAGED_BY_ANNOTATION"
  by (simp add: annotation_consts)

lemma managed_idem: "bt_wf a \<Longrightarrow> insert_managed_annotations n (insert_managed_annotations m a) = insert_managed_annotations n a"
  by (rule bt_eqI) (auto intro!: bt_wf_managed simp: map_of_managed fun_eq_iff)

lemma evt_matches_sym: "evt_matches_expected a b \<Longrightarrow> evt_matches_expected b a"
  by (cases a; cases b) auto

lemma evt_matches_trans: "evt_matches_expected a b \<Longrightarrow> evt_matches_expected b c \<Longrightarrow> evt_matches_expected a c"
  by (cases a; cases b; cases c) auto

lemma evt_matches_type: "evt_matches_expected a b \<Longrightarrow> event_type a = event_type b"
  by (cases a; cases b) auto

lemma corresponding_event_kinds:
  assumes "corresponding_event c = Some (s, f)"
  obtains (scale) e g where "s = ComponentScaled e" "f = Some (ComponentScaleFailed g)"
  | (start) e g where "s = ProviderStarted e" "f = Some (ProviderStartFailed g)"
  using assms by (cases c) (auto simp: corresponding_event_def Let_def)

lemma corresponding_self: "corresponding_event c = Some (s, f) \<Longrightarrow> evt_matches_expected s s"
  by (erule corresponding_event_kinds) simp_all

lemma event_type_known: "event_type e \<in> set event_types"
  by (cases e) (simp_all add: event_types_def)

section \<open>Properties\<close>

text \<open>
  C18. The managed annotations cannot be overridden by the annotations of a command: whatever a
  manifest or a scaler puts there, the control interface call that starts a provider or scales a
  component carries the wadm marker and the name of the model, keeps every other annotation and
  stays a sorted map; and it carries exactly the annotations of the event the command's scaler
  then waits for.
\<close>

theorem managed_annotations_enforced:
  assumes "bt_wf (scc_annotations s)" and "bt_wf (stp_annotations p)"
  shows "(\<exists>a. command_call build (ScaleComponent s) =
       Some (CallScale (scc_host_id s) (scc_reference s) (scc_component_id s) (scc_count s) a (scc_config s)) \<and>
     bt_wf a \<and> map_of a MANAGED_BY_ANNOTATION = Some ''wadm'' \<and>
     map_of a APP_SPEC_ANNOTATION = Some (scc_model_name s) \<and>
     (\<forall>k. k \<noteq> MANAGED_BY_ANNOTATION \<and> k \<noteq> APP_SPEC_ANNOTATION \<longrightarrow> map_of a k = map_of (scc_annotations s) k) \<and>
     (\<exists>e f. corresponding_event (ScaleComponent s) = Some (ComponentScaled e, f) \<and> cse_annotations e = a \<and>
        cse_host_id e = scc_host_id s \<and> unat (cse_max_instances e) = unat (scc_count s))) \<and>
   (\<exists>a. command_call build (StartProvider p) =
       Some (CallStartProvider (stp_host_id p) (stp_reference p) (stp_provider_id p) a (stp_config p)) \<and>
     bt_wf a \<and> map_of a MANAGED_BY_ANNOTATION = Some ''wadm'' \<and>
     map_of a APP_SPEC_ANNOTATION = Some (stp_model_name p) \<and>
     (\<forall>k. k \<noteq> MANAGED_BY_ANNOTATION \<and> k \<noteq> APP_SPEC_ANNOTATION \<longrightarrow> map_of a k = map_of (stp_annotations p) k) \<and>
     (\<exists>e f. corresponding_event (StartProvider p) = Some (ProviderStarted e, f) \<and> pse_annotations e = a \<and>
        pse_host_id e = stp_host_id p))"
  using assms managed_consts_neq
  by (auto simp: command_call_def corresponding_event_def Let_def map_of_managed bt_wf_managed
      MANAGED_BY_IDENTIFIER_def)

theorem managed_annotations_enforced_witness:
  "\<exists>a. map_of a MANAGED_BY_ANNOTATION = Some ''wadm'' \<and>
     command_call Some (ScaleComponent \<lparr>scc_component_id = ''c'', scc_host_id = ''h'', scc_count = 2,
       scc_reference = ''r'', scc_model_name = ''m'',
       scc_annotations = [(''wasmcloud.dev/managed-by'', ''evil'')], scc_config = []\<rparr>) =
     Some (CallScale ''h'' ''r'' ''c'' 2 a [])"
  using managed_annotations_enforced
    [of "\<lparr>scc_component_id = ''c'', scc_host_id = ''h'', scc_count = 2, scc_reference = ''r'',
          scc_model_name = ''m'', scc_annotations = [(''wasmcloud.dev/managed-by'', ''evil'')], scc_config = []\<rparr>"
        "\<lparr>stp_reference = [], stp_provider_id = [], stp_host_id = [], stp_model_name = [],
          stp_config = [], stp_annotations = []\<rparr>" Some]
  by (auto simp: bt_wf_def)





text \<open>
  The type an event reports of itself is the type of its cloud event for every event but a
  failed provider start, which reports the type of a stopped provider.
\<close>

theorem raw_type_exact:
  "(raw_type e = event_type e \<longleftrightarrow> (\<forall>f. e \<noteq> ProviderStartFailed f)) \<and>
   (raw_type (ProviderStartFailed f) = event_type (ProviderStopped g))"
  by (cases e) simp_all

end
