(* ===== verification/Lattice_State.thy ===== *)
theory Lattice_State
  imports Commands_Events
begin

text \<open>
  The observed state of a lattice (\<open>storage/state.rs\<close>): hosts, components with their instances by host
  and annotations, providers with their status by host, and the conversions from events. A
  \<open>HashSet<WadmComponentInfo>\<close>, whose elements are equal when their annotations are, is a map
  from annotations to count; a \<open>HashSet<ProviderInfo>\<close> a map from provider id to the info. The
  current time is an argument.
\<close>

datatype provider_status = Pending | Running | ProvFailed

record provider =
  pr_id :: string
  pr_name :: string
  pr_issuer :: string
  pr_reference :: string
  pr_hosts :: "(string, provider_status) hmap"

definition provider_default :: provider where
  "provider_default = \<lparr>pr_id = [], pr_name = [], pr_issuer = [], pr_reference = [], pr_hosts = []\<rparr>"

type_synonym instance_set = "(btree, usize) hmap"

record lcomponent =
  lc_id :: string
  lc_name :: string
  lc_issuer :: string
  lc_instances :: "(string, instance_set) hmap"
  lc_reference :: string

record provider_info =
  pi_provider_id :: string
  pi_provider_ref :: string
  pi_annotations :: btree

record host =
  ho_components :: "(string, usize) hmap"
  ho_friendly_name :: string
  ho_labels :: "(string, string) hmap"
  ho_providers :: "(string, provider_info) hmap"
  ho_uptime_seconds :: usize
  ho_version :: "string option"
  ho_id :: string
  ho_last_seen :: int

fun provider_status_str :: "provider_status \<Rightarrow> string" where
  "provider_status_str Pending = ''pending''"
| "provider_status_str Running = ''running''"
| "provider_status_str ProvFailed = ''failed''"

section \<open>Counts\<close>

definition instance_sum :: "instance_set \<Rightarrow> usize" where
  "instance_sum is = sum_list (map snd is)"

definition component_count :: "lcomponent \<Rightarrow> usize" where
  "component_count c = sum_list (map (\<lambda>(h, is). instance_sum is) (lc_instances c))"

definition count_for_host :: "lcomponent \<Rightarrow> string \<Rightarrow> usize" where
  "count_for_host c h = (case map_of (lc_instances c) h of None \<Rightarrow> 0 | Some is \<Rightarrow> instance_sum is)"

section \<open>Conversions from events\<close>

definition claim_name :: "claims option \<Rightarrow> string" where
  "claim_name c = (case c of None \<Rightarrow> [] | Some x \<Rightarrow> cl_name x)"

definition claim_issuer :: "claims option \<Rightarrow> string" where
  "claim_issuer c = (case c of None \<Rightarrow> [] | Some x \<Rightarrow> cl_issuer x)"

definition provider_of_started :: "provider_started \<Rightarrow> provider" where
  "provider_of_started e =
     provider_default\<lparr>pr_id := pse_provider_id e, pr_name := claim_name (pse_claims e),
       pr_issuer := claim_issuer (pse_claims e), pr_reference := pse_image_ref e\<rparr>"

definition component_of_scaled :: "component_scaled \<Rightarrow> lcomponent" where
  "component_of_scaled e =
     \<lparr>lc_id = cse_component_id e, lc_name = claim_name (cse_claims e), lc_issuer = claim_issuer (cse_claims e),
      lc_instances = [(cse_host_id e, [(cse_annotations e, cse_max_instances e)])],
      lc_reference = cse_image_ref e\<rparr>"

definition host_of_started :: "int \<Rightarrow> host_started \<Rightarrow> host" where
  "host_of_started now e =
     \<lparr>ho_components = [], ho_friendly_name = hse_friendly_name e, ho_labels = hse_labels e,
      ho_providers = [], ho_uptime_seconds = 0, ho_version = None, ho_id = hse_id e, ho_last_seen = now\<rparr>"

definition or_empty :: "btree option \<Rightarrow> btree" where
  "or_empty a = (case a of None \<Rightarrow> [] | Some b \<Rightarrow> b)"

definition or_blank :: "string option \<Rightarrow> string" where
  "or_blank a = (case a of None \<Rightarrow> [] | Some b \<Rightarrow> b)"

definition host_of_heartbeat :: "int \<Rightarrow> host_heartbeat \<Rightarrow> host" where
  "host_of_heartbeat now hb =
     \<lparr>ho_components = hm_extend (map (\<lambda>c. (cdsc_id c, ucast (cdsc_max_instances c))) (hb_components hb)) [],
      ho_friendly_name = hb_friendly_name hb,
      ho_labels = hb_labels hb,
      ho_providers = hs_collect (map (\<lambda>p. (pdsc_id p,
          \<lparr>pi_provider_id = pdsc_id p, pi_provider_ref = or_blank (pdsc_image_ref p),
           pi_annotations = or_empty (pdsc_annotations p)\<rparr>)) (hb_providers hb)),
      ho_uptime_seconds = hb_uptime_seconds hb,
      ho_version = Some (hb_version hb),
      ho_id = hb_host_id hb,
      ho_last_seen = now\<rparr>"

section \<open>Well-formed state\<close>

definition provider_wf :: "string \<Rightarrow> provider \<Rightarrow> bool" where
  "provider_wf k p = (pr_id p = k \<and> hm_wf (pr_hosts p) \<and> pr_hosts p \<noteq> [])"

text \<open>A stored component runs on some host, and on each of its hosts under some annotations.\<close>

definition component_wf :: "string \<Rightarrow> lcomponent \<Rightarrow> bool" where
  "component_wf k c =
     (lc_id c = k \<and> hm_wf (lc_instances c) \<and> lc_instances c \<noteq> [] \<and>
      (\<forall>(h, is) \<in> set (lc_instances c). hm_wf is \<and> is \<noteq> []))"

definition host_wf :: "string \<Rightarrow> host \<Rightarrow> bool" where
  "host_wf k h =
     (ho_id h = k \<and> hm_wf (ho_components h) \<and> hm_wf (ho_providers h) \<and>
      (\<forall>(i, p) \<in> set (ho_providers h). pi_provider_id p = i))"

lemma hs_collect_set: "(k, v) \<in> set (hs_collect kvs) \<Longrightarrow> (k, v) \<in> set kvs"
proof -
  assume "(k, v) \<in> set (hs_collect kvs)"
  then have "map_of (hs_collect kvs) k = Some v"
    using hm_wf_hs_collect [of kvs] by (simp add: hm_wf_def)
  then show ?thesis by (simp add: map_of_hs_collect map_of_SomeD)
qed

lemma host_wf_heartbeat [wf_intros]: "host_wf (hb_host_id hb) (host_of_heartbeat now hb)"
  by (auto simp: host_wf_def host_of_heartbeat_def dest!: hs_collect_set)

lemma host_wf_started [wf_intros]: "host_wf (hse_id e) (host_of_started now e)"
  by (simp add: host_wf_def host_of_started_def)

lemma component_wf_scaled [wf_intros]: "component_wf (cse_component_id e) (component_of_scaled e)"
  by (simp add: component_wf_def component_of_scaled_def)

end
