(* ===== verification/Lattice_Store.thy ===== *)
theory Lattice_Store
  imports Lattice_State
begin

text \<open>
  The store of one lattice as the event worker and the reaper use it (the traits of \<open>storage/mod.rs\<close>):
  one map per kind with \<open>get\<close>, \<open>list\<close>, \<open>store\<close>, \<open>store_many\<close>, \<open>delete\<close> and \<open>delete_many\<close>. Every call may
  fail; the list \<open>la_faults\<close> says how the next calls end: normally, failing before the effect, or
  failing after it (the reply was lost). An action keeps the state it reached when it fails, so what a
  handler wrote before an error stays written.
\<close>

datatype fault = NoFault | FailBefore | FailAfter

record lattice =
  la_components :: "(string, lcomponent) hmap"
  la_hosts :: "(string, host) hmap"
  la_providers :: "(string, provider) hmap"
  la_faults :: "fault list"

type_synonym 'a act = "lattice \<Rightarrow> 'a option \<times> lattice"

definition act_ret :: "'a \<Rightarrow> 'a act" where
  "act_ret x s = (Some x, s)"

definition act_fail :: "'a act" where
  "act_fail s = (None, s)"

definition act_bind :: "'a act \<Rightarrow> ('a \<Rightarrow> 'b act) \<Rightarrow> 'b act" where
  "act_bind m f s = (case m s of (None, s') \<Rightarrow> (None, s') | (Some x, s') \<Rightarrow> f x s')"

text \<open>A call of the store: its result and its effect, under the next fault.\<close>

definition store_call :: "(lattice \<Rightarrow> 'a) \<Rightarrow> (lattice \<Rightarrow> lattice) \<Rightarrow> 'a act" where
  "store_call result effect s =
     (case la_faults s of
        [] \<Rightarrow> (Some (result s), effect s)
      | NoFault # fs \<Rightarrow> (Some (result s), effect (s\<lparr>la_faults := fs\<rparr>))
      | FailBefore # fs \<Rightarrow> (None, s\<lparr>la_faults := fs\<rparr>)
      | FailAfter # fs \<Rightarrow> (None, effect (s\<lparr>la_faults := fs\<rparr>)))"

text \<open>The operations at a kind, given by the map of the kind and its replacement.\<close>

definition st_list :: "(lattice \<Rightarrow> (string, 'a) hmap) \<Rightarrow> (string, 'a) hmap act" where
  "st_list view = store_call view (\<lambda>s. s)"

definition st_get :: "(lattice \<Rightarrow> (string, 'a) hmap) \<Rightarrow> string \<Rightarrow> 'a option act" where
  "st_get view i = store_call (\<lambda>s. map_of (view s) i) (\<lambda>s. s)"

definition st_store_many ::
    "(lattice \<Rightarrow> (string, 'a) hmap) \<Rightarrow> ((string, 'a) hmap \<Rightarrow> lattice \<Rightarrow> lattice) \<Rightarrow> (string \<times> 'a) list \<Rightarrow> unit act" where
  "st_store_many view put kvs = store_call (\<lambda>_. ()) (\<lambda>s. put (hm_extend kvs (view s)) s)"

definition st_delete_many ::
    "(lattice \<Rightarrow> (string, 'a) hmap) \<Rightarrow> ((string, 'a) hmap \<Rightarrow> lattice \<Rightarrow> lattice) \<Rightarrow> string list \<Rightarrow> unit act" where
  "st_delete_many view put is = store_call (\<lambda>_. ()) (\<lambda>s. put (fold AList.delete is (view s)) s)"

text \<open>The defaults of the trait: one item is a list of one.\<close>

definition st_store where
  "st_store view put i x = st_store_many view put [(i, x)]"

definition st_delete where
  "st_delete view put i = st_delete_many view put [i]"

definition put_components :: "(string, lcomponent) hmap \<Rightarrow> lattice \<Rightarrow> lattice" where
  "put_components m s = s\<lparr>la_components := m\<rparr>"

definition put_hosts :: "(string, host) hmap \<Rightarrow> lattice \<Rightarrow> lattice" where
  "put_hosts m s = s\<lparr>la_hosts := m\<rparr>"

definition put_providers :: "(string, provider) hmap \<Rightarrow> lattice \<Rightarrow> lattice" where
  "put_providers m s = s\<lparr>la_providers := m\<rparr>"

lemmas put_defs = put_components_def put_hosts_def put_providers_def

section \<open>Triples\<close>

text \<open>From \<open>P\<close> the action reaches \<open>Q\<close> with its result, or fails in \<open>E\<close>.\<close>

definition triple :: "(lattice \<Rightarrow> bool) \<Rightarrow> 'a act \<Rightarrow> ('a \<Rightarrow> lattice \<Rightarrow> bool) \<Rightarrow> (lattice \<Rightarrow> bool) \<Rightarrow> bool" where
  "triple P m Q E \<longleftrightarrow> (\<forall>s. P s \<longrightarrow> (case m s of (Some x, s') \<Rightarrow> Q x s' | (None, s') \<Rightarrow> E s'))"

lemma triple_ret: "(\<And>s. P s \<Longrightarrow> Q x s) \<Longrightarrow> triple P (act_ret x) Q E"
  by (simp add: triple_def act_ret_def)

lemma triple_fail: "(\<And>s. P s \<Longrightarrow> E s) \<Longrightarrow> triple P act_fail Q E"
  by (simp add: triple_def act_fail_def)

lemma triple_bind: "triple P m R E \<Longrightarrow> (\<And>x. triple (R x) (f x) Q E) \<Longrightarrow> triple P (act_bind m f) Q E"
  unfolding triple_def act_bind_def by (force split: option.splits prod.splits)

lemma triple_call:
  assumes "\<And>s fs. P s \<Longrightarrow> P (s\<lparr>la_faults := fs\<rparr>)"
    and "\<And>s. P s \<Longrightarrow> Q (result s) (effect s) \<and> E (effect s) \<and> E s"
    and "\<And>s fs. result (s\<lparr>la_faults := fs\<rparr>) = result s"
  shows "triple P (store_call result effect) Q E"
  unfolding triple_def
proof (intro allI impI)
  fix s
  assume P: "P s"
  have *: "Q (result s) (effect (s\<lparr>la_faults := fs\<rparr>)) \<and> E (effect (s\<lparr>la_faults := fs\<rparr>)) \<and> E (s\<lparr>la_faults := fs\<rparr>)" for fs
    using assms(2) [OF assms(1) [OF P, of fs]] assms(3) [of fs s] by simp
  show "case store_call result effect s of (None, s') \<Rightarrow> E s' | (Some x, s') \<Rightarrow> Q x s'"
    using * assms(2) [OF P] by (auto simp: store_call_def split: list.splits fault.splits)
qed

lemma triple_app:
  assumes "triple P m Q E" and "P s" and "m s = (r, s')"
  shows "r = None \<Longrightarrow> E s'" and "r = Some x \<Longrightarrow> Q x s'"
  using assms by (auto simp: triple_def split: option.splits)

lemma triple_weaken:
  "triple P m Q E \<Longrightarrow> (\<And>s. P' s \<Longrightarrow> P s) \<Longrightarrow> (\<And>x s. Q x s \<Longrightarrow> Q' x s) \<Longrightarrow> (\<And>s. E s \<Longrightarrow> E' s) \<Longrightarrow> triple P' m Q' E'"
  unfolding triple_def by (fastforce split: option.splits prod.splits)

text \<open>With no fault to come an action runs to its end.\<close>

definition total :: "'a act \<Rightarrow> bool" where
  "total m \<longleftrightarrow> (\<forall>s. la_faults s = [] \<longrightarrow> (\<exists>x s'. m s = (Some x, s') \<and> la_faults s' = []))"

lemma total_ret: "total (act_ret x)"
  by (simp add: total_def act_ret_def)

lemma total_bind: "total m \<Longrightarrow> (\<And>x. total (f x)) \<Longrightarrow> total (act_bind m f)"
  unfolding total_def act_bind_def by (metis (no_types, lifting) case_prod_conv option.simps(5))

lemma total_option: "total a \<Longrightarrow> (\<And>x. total (f x)) \<Longrightarrow> total (case r of None \<Rightarrow> a | Some x \<Rightarrow> f x)"
  by (cases r) simp_all

lemma total_if: "total a \<Longrightarrow> total b \<Longrightarrow> total (if c then a else b)"
  by simp

lemma total_run:
  assumes "total m" and "la_faults s = []"
  obtains x s' where "m s = (Some x, s')" and "la_faults s' = []"
  using assms unfolding total_def by blast

section \<open>The interface of a kind\<close>

text \<open>
  What a store of a kind promises: reading after writing gives what was written, the last write wins,
  and neither reads nor writes look at the faults still to come.
\<close>

locale kind_store =
  fixes view :: "lattice \<Rightarrow> (string, 'a) hmap"
    and put :: "(string, 'a) hmap \<Rightarrow> lattice \<Rightarrow> lattice"
  assumes view_put: "view (put m s) = m"
    and put_view: "put (view s) s = s"
    and put_put: "put m (put n s) = put m s"
    and view_faults: "view (s\<lparr>la_faults := fs\<rparr>) = view s"
    and put_faults: "put m (s\<lparr>la_faults := fs\<rparr>) = (put m s)\<lparr>la_faults := fs\<rparr>"
    and faults_put: "la_faults (put m s) = la_faults s"
begin

lemma list_ok: "la_faults s = [] \<Longrightarrow> st_list view s = (Some (view s), s)"
  by (simp add: st_list_def store_call_def)

lemma get_ok: "la_faults s = [] \<Longrightarrow> st_get view i s = (Some (map_of (view s) i), s)"
  by (simp add: st_get_def store_call_def)

lemma store_many_ok: "la_faults s = [] \<Longrightarrow> st_store_many view put kvs s = (Some (), put (hm_extend kvs (view s)) s)"
  by (simp add: st_store_many_def store_call_def)

lemma delete_many_ok: "la_faults s = [] \<Longrightarrow> st_delete_many view put is s = (Some (), put (fold AList.delete is (view s)) s)"
  by (simp add: st_delete_many_def store_call_def)

lemma store_ok: "la_faults s = [] \<Longrightarrow> st_store view put i x s = (Some (), put (AList.update i x (view s)) s)"
  by (simp add: st_store_def store_many_ok hm_extend_def)

lemma delete_ok: "la_faults s = [] \<Longrightarrow> st_delete view put i s = (Some (), put (AList.delete i (view s)) s)"
  by (simp add: st_delete_def delete_many_ok)

lemma totals:
  "total (st_list view)" "total (st_get view i)" "total (st_store_many view put kvs)"
  "total (st_delete_many view put is)" "total (st_store view put i x)" "total (st_delete view put i)"
  by (simp_all add: total_def list_ok get_ok store_many_ok delete_many_ok store_ok delete_ok faults_put)

lemmas ok = list_ok get_ok store_many_ok delete_many_ok store_ok delete_ok

lemma triple_list: "(\<And>s fs. P s \<Longrightarrow> P (s\<lparr>la_faults := fs\<rparr>)) \<Longrightarrow> (\<And>s. P s \<Longrightarrow> E s) \<Longrightarrow> triple P (st_list view) (\<lambda>m s. P s \<and> m = view s) E"
  unfolding st_list_def by (rule triple_call) (simp_all add: view_faults)

lemma triple_get: "(\<And>s fs. P s \<Longrightarrow> P (s\<lparr>la_faults := fs\<rparr>)) \<Longrightarrow> (\<And>s. P s \<Longrightarrow> E s) \<Longrightarrow> triple P (st_get view i) (\<lambda>x s. P s \<and> x = map_of (view s) i) E"
  unfolding st_get_def by (rule triple_call) (simp_all add: view_faults)

lemma triple_read_list:
  assumes "\<And>s fs. P s \<Longrightarrow> P (s\<lparr>la_faults := fs\<rparr>)" and "\<And>s. P s \<Longrightarrow> E s"
    and "\<And>m. triple (\<lambda>s. P s \<and> m = view s) (f m) Q E"
  shows "triple P (act_bind (st_list view) f) Q E"
  by (rule triple_bind [OF triple_list [where P = P and E = E, OF assms(1,2)] assms(3)])

text \<open>A write leads from \<open>P\<close> to \<open>R\<close>; a fault leaves the state before or after it.\<close>

lemma triple_write:
  assumes "\<And>s fs. P s \<Longrightarrow> P (s\<lparr>la_faults := fs\<rparr>)"
    and "\<And>s. P s \<Longrightarrow> R (put (hm_extend kvs (view s)) s) \<and> E (put (hm_extend kvs (view s)) s) \<and> E s"
  shows "triple P (st_store_many view put kvs) (\<lambda>_. R) E"
  unfolding st_store_many_def using assms by (intro triple_call) simp_all

lemma triple_erase:
  assumes "\<And>s fs. P s \<Longrightarrow> P (s\<lparr>la_faults := fs\<rparr>)"
    and "\<And>s. P s \<Longrightarrow> R (put (fold AList.delete is (view s)) s) \<and> E (put (fold AList.delete is (view s)) s) \<and> E s"
  shows "triple P (st_delete_many view put is) (\<lambda>_. R) E"
  unfolding st_delete_many_def using assms by (intro triple_call) simp_all

text \<open>A read keeps what is known, a write of entries that satisfy a predicate keeps it for all entries.\<close>

lemma triple_store_many:
  assumes "\<And>s fs. P s \<Longrightarrow> P (s\<lparr>la_faults := fs\<rparr>)" and "\<And>s. P s \<Longrightarrow> P (put (hm_extend kvs (view s)) s)"
  shows "triple P (st_store_many view put kvs) (\<lambda>_. P) P"
  unfolding st_store_many_def using assms by (intro triple_call) simp_all

lemma triple_delete_many:
  assumes "\<And>s fs. P s \<Longrightarrow> P (s\<lparr>la_faults := fs\<rparr>)" and "\<And>s. P s \<Longrightarrow> P (put (fold AList.delete is (view s)) s)"
  shows "triple P (st_delete_many view put is) (\<lambda>_. P) P"
  unfolding st_delete_many_def using assms by (intro triple_call) simp_all

end

interpretation comps: kind_store la_components put_components
  by unfold_locales (simp_all add: put_components_def)

interpretation hosts: kind_store la_hosts put_hosts
  by unfold_locales (simp_all add: put_hosts_def)

interpretation provs: kind_store la_providers put_providers
  by unfold_locales (simp_all add: put_providers_def)

section \<open>Well-formed lattices\<close>

definition entries_ok :: "(string \<Rightarrow> 'a \<Rightarrow> bool) \<Rightarrow> (string, 'a) hmap \<Rightarrow> bool" where
  "entries_ok W m = (hm_wf m \<and> (\<forall>k x. map_of m k = Some x \<longrightarrow> W k x))"

definition lattice_ok :: "lattice \<Rightarrow> bool" where
  "lattice_ok s =
     (entries_ok component_wf (la_components s) \<and> entries_ok host_wf (la_hosts s) \<and>
      entries_ok provider_wf (la_providers s))"

lemma entries_ok_extend [wf_intros]:
  assumes "entries_ok W m" and "\<forall>(k, x) \<in> set kvs. W k x"
  shows "entries_ok W (hm_extend kvs m)"
  using assms unfolding hm_extend_def
proof (induction kvs arbitrary: m)
  case (Cons p kvs)
  obtain k x where p: "p = (k, x)" by (cases p)
  have "entries_ok W (AList.update k x m)"
    using Cons.prems p by (auto simp: entries_ok_def)
  with Cons p show ?case by simp
qed simp

lemma entries_ok_delete [wf_intros]: "entries_ok W m \<Longrightarrow> entries_ok W (fold AList.delete is m)"
  by (auto simp: entries_ok_def hm.wf_fold_remove hm.lookup_fold_remove)

lemma lattice_ok_faults [simp]: "lattice_ok (s\<lparr>la_faults := fs\<rparr>) = lattice_ok s"
  by (simp add: lattice_ok_def)

lemma lattice_okD:
  assumes "lattice_ok s"
  shows "map_of (la_components s) k = Some c \<Longrightarrow> component_wf k c"
    and "map_of (la_hosts s) k = Some h \<Longrightarrow> host_wf k h"
    and "map_of (la_providers s) k = Some p \<Longrightarrow> provider_wf k p"
  using assms by (auto simp: lattice_ok_def entries_ok_def)

text \<open>An action keeps the lattice well formed, whatever fails, under a condition on what was read.\<close>

definition keeps :: "'a act \<Rightarrow> ('a \<Rightarrow> bool) \<Rightarrow> bool" where
  "keeps m Q = triple lattice_ok m (\<lambda>x s. lattice_ok s \<and> Q x) lattice_ok"

lemma keeps_ret: "Q x \<Longrightarrow> keeps (act_ret x) Q"
  unfolding keeps_def by (rule triple_ret) simp

lemma keeps_fail: "keeps act_fail Q"
  unfolding keeps_def by (rule triple_fail) simp

lemma keeps_bind:
  assumes "keeps m R" and "\<And>x. R x \<Longrightarrow> keeps (f x) Q"
  shows "keeps (act_bind m f) Q"
  unfolding keeps_def
  by (rule triple_bind [OF assms(1) [unfolded keeps_def]]) (use assms(2) in \<open>auto simp: triple_def keeps_def\<close>)

text \<open>
  The contract of a kind whose entries have an invariant of their own: the lattice stays well
  formed as long as well-formed entries are written.
\<close>

locale kind_store_wf = kind_store view put
  for view :: "lattice \<Rightarrow> (string, 'a) hmap" and put :: "(string, 'a) hmap \<Rightarrow> lattice \<Rightarrow> lattice" +
  fixes W :: "string \<Rightarrow> 'a \<Rightarrow> bool"
  assumes view_ok: "lattice_ok s \<Longrightarrow> entries_ok W (view s)"
    and put_ok: "lattice_ok s \<Longrightarrow> entries_ok W m \<Longrightarrow> lattice_ok (put m s)"
begin

lemma keeps_list: "keeps (st_list view) (entries_ok W)"
  unfolding keeps_def by (rule triple_weaken [OF triple_list]) (simp_all add: view_ok)

lemma keeps_get: "keeps (st_get view i) (\<lambda>x. \<forall>c. x = Some c \<longrightarrow> W i c)"
  unfolding keeps_def by (rule triple_weaken [OF triple_get [of lattice_ok lattice_ok]])
    (auto dest: view_ok simp: entries_ok_def)

lemma keeps_store_many: "\<forall>(k, x) \<in> set kvs. W k x \<Longrightarrow> keeps (st_store_many view put kvs) (\<lambda>_. True)"
  unfolding keeps_def by (rule triple_weaken [OF triple_store_many]) (simp_all add: put_ok entries_ok_extend view_ok)

lemma keeps_delete_many: "keeps (st_delete_many view put is) (\<lambda>_. True)"
  unfolding keeps_def by (rule triple_weaken [OF triple_delete_many]) (simp_all add: put_ok entries_ok_delete view_ok)

lemma keeps_store: "W i x \<Longrightarrow> keeps (st_store view put i x) (\<lambda>_. True)"
  unfolding st_store_def by (rule keeps_store_many) simp

lemma keeps_delete: "keeps (st_delete view put i) (\<lambda>_. True)"
  unfolding st_delete_def by (rule keeps_delete_many)

text \<open>
  A pass that lists the kind, stores the changed entries and deletes the emptied ones. \<open>sp\<close> says
  what each entry should become. The pass ends with every entry as \<open>sp\<close> says, and keeps on the way an
  invariant \<open>I\<close> that every mixture of old and new entries satisfies.
\<close>

lemma two_pass:
  assumes ups: "\<And>all. entries_ok W all \<Longrightarrow> \<forall>(k, x) \<in> set (ups all). W k x"
    and stored: "\<And>all k. entries_ok W all \<Longrightarrow>
      map_of (hm_extend (ups all) all) k = (case sp all k of None \<Rightarrow> map_of all k | Some x \<Rightarrow> Some x)"
    and dropped: "\<And>all k. entries_ok W all \<Longrightarrow> k \<in> set (dels all) \<longleftrightarrow> map_of all k \<noteq> None \<and> sp all k = None"
    and dom: "\<And>all k. map_of all k = None \<Longrightarrow> sp all k = None"
    and absorb: "\<And>m m'. (\<And>k. map_of m' k = map_of m k \<or> map_of m' k = sp m k) \<Longrightarrow> sp m' = sp m"
    and I_faults: "\<And>s fs. I s \<Longrightarrow> I (s\<lparr>la_faults := fs\<rparr>)" and I_ok: "\<And>s. I s \<Longrightarrow> lattice_ok s"
    and I_put: "\<And>s m. I s \<Longrightarrow> entries_ok W m \<Longrightarrow>
      (\<And>k. map_of m k = map_of (view s) k \<or> map_of m k = sp (view s) k) \<Longrightarrow> I (put m s)"
    and I_E: "\<And>s. I s \<Longrightarrow> E s"
    and rest: "triple (\<lambda>s. I s \<and> map_of (view s) = sp (view s)) rest Q E"
  shows "triple I (act_bind (st_list view) (\<lambda>all. act_bind (st_store_many view put (ups all)) (\<lambda>_.
     act_bind (st_delete_many view put (dels all)) (\<lambda>_. rest)))) Q E"
proof (rule triple_read_list)
  fix all
  let ?start = "\<lambda>s. I s \<and> all = view s"
  let ?half = "\<lambda>s. I s \<and> entries_ok W all \<and> sp (view s) = sp all \<and>
     map_of (view s) = (\<lambda>k. case sp all k of None \<Rightarrow> map_of all k | Some x \<Rightarrow> Some x)"
  let ?done = "\<lambda>s. I s \<and> map_of (view s) = sp (view s)"
  have step1: "?half (put (hm_extend (ups all) (view s)) s)" if "?start s" for s
  proof -
    have e: "entries_ok W all" using that I_ok view_ok by blast
    have m: "map_of (hm_extend (ups all) all) k = (case sp all k of None \<Rightarrow> map_of all k | Some x \<Rightarrow> Some x)" for k
      by (rule stored [OF e])
    then have mix: "map_of (hm_extend (ups all) all) k = map_of all k \<or> map_of (hm_extend (ups all) all) k = sp all k" for k
      by (simp split: option.split)
    show ?thesis
      using that e m mix I_put [of s "hm_extend (ups all) all"] absorb [OF mix] entries_ok_extend [OF e ups [OF e]]
      by (simp add: view_put fun_eq_iff)
  qed
  have step2: "?done (put (fold AList.delete (dels all) (view s)) s)" if s: "?half s" for s
  proof -
    have w: "entries_ok W (view s)" using s I_ok view_ok by blast
    have m: "map_of (fold AList.delete (dels all) (view s)) k = sp all k" for k
      using s w dom [of all k]
      by (auto simp: entries_ok_def hm.lookup_fold_remove dropped split: option.splits)
    show ?thesis
      using s m I_put [of s, OF _ entries_ok_delete [OF w]] absorb [of "fold AList.delete (dels all) (view s)" "view s"]
      by (simp add: view_put fun_eq_iff)
  qed
  show "triple ?start (act_bind (st_store_many view put (ups all)) (\<lambda>_.
     act_bind (st_delete_many view put (dels all)) (\<lambda>_. rest))) Q E"
  proof (rule triple_bind [OF triple_write [where P = ?start and R = ?half and E = E]])
    show "triple ?half (act_bind (st_delete_many view put (dels all)) (\<lambda>_. rest)) Q E"
      by (rule triple_bind [OF triple_erase [where P = ?half and R = ?done and E = E] rest])
        (use step2 I_E I_faults in \<open>auto simp: view_faults\<close>)
  qed (use step1 I_E I_faults in \<open>auto simp: view_faults\<close>)
qed (use I_faults I_E in auto)

lemmas keeps_ops = keeps_list keeps_get keeps_store_many keeps_delete_many keeps_store keeps_delete

end

interpretation comps: kind_store_wf la_components put_components component_wf
  by unfold_locales (simp_all add: lattice_ok_def put_components_def)

interpretation hosts: kind_store_wf la_hosts put_hosts host_wf
  by unfold_locales (simp_all add: lattice_ok_def put_hosts_def)

interpretation provs: kind_store_wf la_providers put_providers provider_wf
  by unfold_locales (simp_all add: lattice_ok_def put_providers_def)

lemmas keeps_rules = keeps_ret comps.keeps_ops hosts.keeps_ops provs.keeps_ops

lemmas total_rules = total_ret total_bind total_option total_if comps.totals hosts.totals provs.totals

lemmas store_oks = comps.ok hosts.ok provs.ok

section \<open>An example\<close>

text \<open>A lattice with one host, which runs one component and one provider.\<close>

definition ex_lattice :: lattice where
  "ex_lattice =
     \<lparr>la_components = [(''c'', \<lparr>lc_id = ''c'', lc_name = [], lc_issuer = [],
        lc_instances = [(''h1'', [([], 3)])], lc_reference = ''r''\<rparr>)],
      la_hosts = [(''h1'', \<lparr>ho_components = [(''c'', 3)], ho_friendly_name = [], ho_labels = [],
        ho_providers = [(''p'', \<lparr>pi_provider_id = ''p'', pi_provider_ref = [], pi_annotations = []\<rparr>)],
        ho_uptime_seconds = 0, ho_version = None, ho_id = ''h1'', ho_last_seen = 0\<rparr>)],
      la_providers = [(''p'', \<lparr>pr_id = ''p'', pr_name = [], pr_issuer = [], pr_reference = [],
        pr_hosts = [(''h1'', Running)]\<rparr>)],
      la_faults = []\<rparr>"

lemma ex_lattice_ok: "lattice_ok ex_lattice"
  by (auto simp: lattice_ok_def entries_ok_def ex_lattice_def component_wf_def host_wf_def provider_wf_def hm_wf_def)

lemma ex_lattice_faults: "la_faults ex_lattice = []"
  by (simp add: ex_lattice_def)

end
