(* ===== verification/Event_Worker.thy ===== *)
theory Event_Worker
  imports Lattice_Store
begin

text \<open>
  The event handlers of \<open>workers/event.rs\<close> that keep the observed state of a lattice: each is an action on
  the store, with the calls, guards and early returns of the source in order. Claims come from the control
  interface (\<open>None\<close> when the request fails). The part of \<open>do_work\<close> that chooses the handler and the
  name hint is \<open>update_state\<close>.
\<close>

section \<open>Component scaled\<close>

definition scaled_instances :: "component_scaled \<Rightarrow> lcomponent \<Rightarrow> (string, instance_set) hmap" where
  "scaled_instances e current =
     (let insts = lc_instances current;
          upd = (case map_of insts (cse_host_id e) of
              Some is \<Rightarrow>
                if cse_max_instances e = 0
                then hm_insert (cse_host_id e) (hm_remove (cse_annotations e) is) insts
                else hm_insert (cse_host_id e) (hm_insert (cse_annotations e) (cse_max_instances e) is) insts
            | None \<Rightarrow>
                if cse_max_instances e = 0 then insts
                else hm_insert (cse_host_id e) [(cse_annotations e, cse_max_instances e)] insts)
      in if map_of upd (cse_host_id e) = Some [] then hm_remove (cse_host_id e) upd else upd)"

definition scaled_host :: "component_scaled \<Rightarrow> host \<Rightarrow> host" where
  "scaled_host e h =
     (if cse_max_instances e = 0
      then h\<lparr>ho_components := hm_remove (cse_component_id e) (ho_components h)\<rparr>
      else h\<lparr>ho_components := hm_insert (cse_component_id e) (cse_max_instances e) (ho_components h)\<rparr>)"

definition handle_component_scaled :: "component_scaled \<Rightarrow> unit act" where
  "handle_component_scaled e =
     act_bind (st_get la_components (cse_component_id e)) (\<lambda>current.
     let data = (case current of None \<Rightarrow> component_of_scaled e
                 | Some c \<Rightarrow> component_of_scaled e\<lparr>lc_instances := scaled_instances e c\<rparr>) in
     act_bind (st_get la_hosts (cse_host_id e)) (\<lambda>host.
     act_bind (case host of None \<Rightarrow> act_ret ()
               | Some h \<Rightarrow> st_store la_hosts put_hosts (ho_id h) (scaled_host e h)) (\<lambda>_.
     if lc_instances data = []
     then st_delete la_components put_components (cse_component_id e)
     else st_store la_components put_components (cse_component_id e) data)))"

section \<open>Hosts\<close>

definition handle_host_started :: "int \<Rightarrow> host_started \<Rightarrow> unit act" where
  "handle_host_started now e = st_store la_hosts put_hosts (hse_id e) (host_of_started now e)"

text \<open>The components and the providers of a stopped host, with the host taken out of them.\<close>

definition stopped_components :: "host \<Rightarrow> (string, lcomponent) hmap \<Rightarrow> (string \<times> lcomponent) list" where
  "stopped_components current all =
     List.map_filter (\<lambda>(i, c). if hm_contains (ho_components current) i
         then Some (i, c\<lparr>lc_instances := hm_remove (ho_id current) (lc_instances c)\<rparr>) else None) all"

definition stopped_providers :: "string \<Rightarrow> host \<Rightarrow> (string, provider) hmap \<Rightarrow> (string \<times> provider) list" where
  "stopped_providers host_id current all =
     List.map_filter (\<lambda>(_, info). let key = pi_provider_id info in
         case map_of all key of
           Some p \<Rightarrow> if hm_contains (pr_hosts p) host_id
                     then Some (key, p\<lparr>pr_hosts := hm_remove host_id (pr_hosts p)\<rparr>) else None
         | None \<Rightarrow> None) (ho_providers current)"

definition handle_host_stopped :: "host_stopped \<Rightarrow> unit act" where
  "handle_host_stopped e =
     act_bind (st_get la_hosts (hst_id e)) (\<lambda>found.
     case found of
       None \<Rightarrow> act_ret ()
     | Some current \<Rightarrow>
         act_bind (st_list la_components) (\<lambda>all_components.
         let cs = stopped_components current all_components in
         act_bind (st_store_many la_components put_components (filter (\<lambda>(_, c). lc_instances c \<noteq> []) cs)) (\<lambda>_.
         act_bind (st_delete_many la_components put_components
             (map fst (filter (\<lambda>(_, c). lc_instances c = []) cs))) (\<lambda>_.
         act_bind (st_list la_providers) (\<lambda>all_providers.
         let ps = stopped_providers (hst_id e) current all_providers in
         act_bind (st_store_many la_providers put_providers (filter (\<lambda>(_, p). pr_hosts p \<noteq> []) ps)) (\<lambda>_.
         act_bind (st_delete_many la_providers put_providers
             (map fst (filter (\<lambda>(_, p). pr_hosts p = []) ps))) (\<lambda>_.
         st_delete la_hosts put_hosts (hst_id e))))))))"

section \<open>Providers\<close>

definition started_provider :: "provider_started \<Rightarrow> provider \<Rightarrow> provider \<times> bool" where
  "started_provider e current =
     (let (prov, needs_update) =
        (if hm_contains (pr_hosts current) (pse_host_id e) then (current, False)
         else (current\<lparr>pr_hosts := hm_insert (pse_host_id e) Pending (pr_hosts current)\<rparr>, True))
      in (if pr_issuer prov = [] \<or> pr_reference prov = []
          then prov\<lparr>pr_issuer := pr_issuer (provider_of_started e), pr_reference := pr_reference (provider_of_started e)\<rparr>
          else prov, needs_update))"

definition started_info :: "provider_started \<Rightarrow> provider_info" where
  "started_info e =
     \<lparr>pi_provider_id = pse_provider_id e, pi_provider_ref = pse_image_ref e, pi_annotations = pse_annotations e\<rparr>"

definition handle_provider_started :: "provider_started \<Rightarrow> unit act" where
  "handle_provider_started e =
     act_bind (st_get la_providers (pse_provider_id e)) (\<lambda>found.
     let (data, needs_host_update) =
       (case found of
          Some current \<Rightarrow> started_provider e current
        | None \<Rightarrow> (provider_of_started e\<lparr>pr_hosts := [(pse_host_id e, Pending)]\<rparr>, True)) in
     act_bind (st_get la_hosts (pse_host_id e)) (\<lambda>host.
     act_bind (case (host, needs_host_update) of
         (Some h, True) \<Rightarrow>
           st_store la_hosts put_hosts (ho_id h)
             (h\<lparr>ho_providers := hm_insert (pse_provider_id e) (started_info e) (ho_providers h)\<rparr>)
       | _ \<Rightarrow> act_ret ()) (\<lambda>_.
     st_store la_providers put_providers (pse_provider_id e) data)))"

definition handle_provider_stopped :: "provider_stopped \<Rightarrow> unit act" where
  "handle_provider_stopped e =
     act_bind (st_get la_hosts (pst_host_id e)) (\<lambda>host.
     act_bind (case host of
         Some h \<Rightarrow> st_store la_hosts put_hosts (ho_id h)
           (h\<lparr>ho_providers := hm_remove (pst_provider_id e) (ho_providers h)\<rparr>)
       | None \<Rightarrow> act_ret ()) (\<lambda>_.
     act_bind (st_get la_providers (pst_provider_id e)) (\<lambda>found.
     case found of
       Some current \<Rightarrow>
         if \<not> hm_contains (pr_hosts current) (pst_host_id e) then act_ret ()
         else (let current' = current\<lparr>pr_hosts := hm_remove (pst_host_id e) (pr_hosts current)\<rparr> in
           if pr_hosts current' = [] then st_delete la_providers put_providers (pst_provider_id e)
           else st_store la_providers put_providers (pst_provider_id e) current')
     | None \<Rightarrow> act_ret ())))"

text \<open>The status a health check leads to; \<open>None\<close> keeps the stored one.\<close>

definition health_status :: "provider_status option \<Rightarrow> bool option \<Rightarrow> provider_status option" where
  "health_status current failed =
     (case (current, failed) of
        (_, Some True) \<Rightarrow> Some ProvFailed
      | (_, Some False) \<Rightarrow> Some Running
      | (Some Pending, None) \<Rightarrow> Some Running
      | (None, None) \<Rightarrow> Some Running
      | _ \<Rightarrow> None)"

definition handle_provider_health_check :: "provider_health_check_info \<Rightarrow> bool option \<Rightarrow> unit act" where
  "handle_provider_health_check e failed =
     act_bind (st_get la_providers (hci_provider_id e)) (\<lambda>found.
     let current = (case found of Some p \<Rightarrow> p | None \<Rightarrow> provider_default\<lparr>pr_id := hci_provider_id e\<rparr>);
         current' = (case health_status (map_of (pr_hosts current) (hci_host_id e)) failed of
             Some st \<Rightarrow> current\<lparr>pr_hosts := hm_insert (hci_host_id e) st (pr_hosts current)\<rparr>
           | None \<Rightarrow> current)
     in st_store la_providers put_providers (hci_provider_id e) current')"

section \<open>Heartbeats\<close>

definition described_component ::
    "(string, lcomponent) hmap \<Rightarrow> (string, claims) hmap \<Rightarrow> string \<Rightarrow> component_description \<Rightarrow> string \<times> lcomponent" where
  "described_component components claims host_id d =
     (let instance = [(or_empty (cdsc_annotations d), ucast (cdsc_max_instances d))] in
      (cdsc_id d,
       case map_of components (cdsc_id d) of
         Some c \<Rightarrow> c\<lparr>lc_instances := hm_insert host_id instance (lc_instances c),
                      lc_reference := cdsc_image_ref d,
                      lc_name := (case cdsc_name d of None \<Rightarrow> lc_name c | Some n \<Rightarrow> n)\<rparr>
       | None \<Rightarrow>
           (case map_of claims (cdsc_id d) of
              Some cl \<Rightarrow> \<lparr>lc_id = cdsc_id d, lc_name = cl_name cl, lc_issuer = cl_issuer cl,
                           lc_instances = [(host_id, instance)], lc_reference = cdsc_image_ref d\<rparr>
            | None \<Rightarrow> \<lparr>lc_id = cdsc_id d, lc_name = [], lc_issuer = [],
                        lc_instances = [(host_id, instance)], lc_reference = cdsc_image_ref d\<rparr>)))"

definition populate_component_info ::
    "(string, claims) hmap option \<Rightarrow> (string, lcomponent) hmap \<Rightarrow> string \<Rightarrow> component_description list \<Rightarrow>
     (string \<times> lcomponent) list act" where
  "populate_component_info claims components host_id ds =
     (case claims of None \<Rightarrow> act_fail
      | Some cl \<Rightarrow> act_ret (map (described_component components cl host_id) ds))"

text \<open>Whether the stored component is taken to agree with the description, compared as the source does.\<close>

definition up_to_date :: "(string, lcomponent) hmap \<Rightarrow> string \<Rightarrow> component_description \<Rightarrow> bool" where
  "up_to_date components host_id d =
     (case map_of components (cdsc_id d) of
        None \<Rightarrow> False
      | Some c \<Rightarrow>
          cdsc_image_ref d = lc_reference c \<and>
          (case map_of (lc_instances c) host_id of
             None \<Rightarrow> False
           | Some is \<Rightarrow>
               if length is \<noteq> length (lc_instances c) then False
               else (case map_of is (or_empty (cdsc_annotations d)) of
                       None \<Rightarrow> False
                     | Some n \<Rightarrow> ucast (cdsc_max_instances d) = n)))"

definition heartbeat_component_update ::
    "(string, claims) hmap option \<Rightarrow> host_heartbeat \<Rightarrow> component_description list \<Rightarrow> unit act" where
  "heartbeat_component_update claims hb ds =
     act_bind (st_list la_components) (\<lambda>components.
     act_bind (populate_component_info claims components (hb_host_id hb)
         (filter (\<lambda>d. \<not> up_to_date components (hb_host_id hb) d) ds)) (\<lambda>to_store.
     st_store_many la_components put_components to_store))"

definition heartbeat_provider ::
    "(string, provider) hmap \<Rightarrow> string \<Rightarrow> provider_description \<Rightarrow> (string \<times> provider) option" where
  "heartbeat_provider providers host_id info =
     (case map_of providers (pdsc_id info) of
        Some prov \<Rightarrow>
          let (p1, ch1) = (if pr_name prov = [] then (prov\<lparr>pr_name := or_blank (pdsc_name info)\<rparr>, True) else (prov, False));
              (p2, ch2) = (if pr_reference p1 = [] then (p1\<lparr>pr_reference := or_blank (pdsc_image_ref info)\<rparr>, True) else (p1, ch1));
              (p3, ch3) = (if \<not> hm_contains (pr_hosts p2) host_id
                           then (p2\<lparr>pr_hosts := hm_insert host_id Pending (pr_hosts p2)\<rparr>, True) else (p2, ch2))
          in if ch3 then Some (pdsc_id info, p3) else None
      | None \<Rightarrow>
          Some (pdsc_id info, provider_default\<lparr>pr_id := pdsc_id info, pr_hosts := [(host_id, Pending)],
            pr_name := or_blank (pdsc_name info), pr_reference := or_blank (pdsc_image_ref info)\<rparr>))"

definition heartbeat_provider_update :: "host_heartbeat \<Rightarrow> provider_description list \<Rightarrow> unit act" where
  "heartbeat_provider_update hb infos =
     act_bind (st_list la_providers) (\<lambda>providers.
     st_store_many la_providers put_providers (List.map_filter (heartbeat_provider providers (hb_host_id hb)) infos))"

definition handle_host_heartbeat :: "int \<Rightarrow> (string, claims) hmap option \<Rightarrow> host_heartbeat \<Rightarrow> unit act" where
  "handle_host_heartbeat now claims hb =
     act_bind (st_store la_hosts put_hosts (hb_host_id hb) (host_of_heartbeat now hb)) (\<lambda>_.
     act_bind (heartbeat_provider_update hb (hb_providers hb)) (\<lambda>_.
     heartbeat_component_update claims hb (hb_components hb)))"

section \<open>Dispatch\<close>

text \<open>
  The handler of an event and the hint it returns: the model whose scalers have to run, or none for
  all of them. The events about manifests do not change the lattice state.
\<close>

definition update_state :: "int \<Rightarrow> (string, claims) hmap option \<Rightarrow> event \<Rightarrow> string option act" where
  "update_state now claims ev =
     (case ev of
        ComponentScaled e \<Rightarrow>
          act_bind (handle_component_scaled e) (\<lambda>_. act_ret (map_of (cse_annotations e) APP_SPEC_ANNOTATION))
      | HostHeartbeat e \<Rightarrow> act_bind (handle_host_heartbeat now claims e) (\<lambda>_. act_ret None)
      | HostStarted e \<Rightarrow> act_bind (handle_host_started now e) (\<lambda>_. act_ret None)
      | HostStopped e \<Rightarrow> act_bind (handle_host_stopped e) (\<lambda>_. act_ret None)
      | ProviderStarted e \<Rightarrow>
          act_bind (handle_provider_started e) (\<lambda>_. act_ret (map_of (pse_annotations e) APP_SPEC_ANNOTATION))
      | ProviderStopped e \<Rightarrow> act_bind (handle_provider_stopped e) (\<lambda>_. act_ret None)
      | ProviderHealthCheckStatus d \<Rightarrow> act_bind (handle_provider_health_check d None) (\<lambda>_. act_ret None)
      | ProviderHealthCheckPassed d \<Rightarrow> act_bind (handle_provider_health_check d (Some False)) (\<lambda>_. act_ret None)
      | ProviderHealthCheckFailed d \<Rightarrow> act_bind (handle_provider_health_check d (Some True)) (\<lambda>_. act_ret None)
      | _ \<Rightarrow> act_ret None)"

end
