(* ===== verification/Event_Properties.thy ===== *)
theory Event_Properties
  imports Event_Worker
begin

text \<open>
  What the event handlers keep and achieve: the invariant of the lattice under every pattern of store
  failures, the effect of each handler when the store works, and the recovery of a host-stopped
  handler that was interrupted by an error and is run again.
\<close>

section \<open>The invariant\<close>

lemma entry_in: "entries_ok W m \<Longrightarrow> (k, x) \<in> set m \<Longrightarrow> W k x"
  by (auto simp: entries_ok_def hm_wf_def)

lemma hm_wf_delete_set: "(k, v) \<in> set (AList.delete j m) \<longleftrightarrow> k \<noteq> j \<and> (k, v) \<in> set m"
  by (auto simp: AList.delete_eq)

lemma set_update_cases: "(k, v) \<in> set (AList.update j w m) \<Longrightarrow> (k = j \<and> v = w) \<or> (k, v) \<in> set m"
  by (induction m) (auto split: if_splits)

lemma map_of_set: "hm_wf m \<Longrightarrow> (k, v) \<in> set m \<longleftrightarrow> map_of m k = Some v"
  by (simp add: hm_wf_def)

lemma update_nonempty [simp]: "AList.update k v m \<noteq> []"
  by (cases m) auto

definition instances_ok :: "(string, instance_set) hmap \<Rightarrow> bool" where
  "instances_ok m = (hm_wf m \<and> (\<forall>h is. map_of m h = Some is \<longrightarrow> hm_wf is \<and> is \<noteq> []))"

lemma component_wf_iff: "component_wf k c \<longleftrightarrow> lc_id c = k \<and> instances_ok (lc_instances c) \<and> lc_instances c \<noteq> []"
proof -
  have "(\<forall>(h, is) \<in> set m. hm_wf is \<and> is \<noteq> []) \<longleftrightarrow> (\<forall>h is. map_of m h = Some is \<longrightarrow> hm_wf is \<and> is \<noteq> [])"
    if "hm_wf m" for m :: "(string, instance_set) hmap"
    using that by (fastforce simp: map_of_set [symmetric])
  then show ?thesis by (auto simp: component_wf_def instances_ok_def)
qed

lemma instances_okD: "instances_ok m \<Longrightarrow> map_of m h = Some is \<Longrightarrow> hm_wf is \<and> is \<noteq> []"
  by (simp add: instances_ok_def)

lemma instances_ok_delete: "instances_ok m \<Longrightarrow> instances_ok (AList.delete h m)"
  by (simp add: instances_ok_def)

lemma instances_ok_update: "instances_ok m \<Longrightarrow> hm_wf is \<Longrightarrow> is \<noteq> [] \<Longrightarrow> instances_ok (AList.update h is m)"
  by (simp add: instances_ok_def)

lemma scaled_instances_ok:
  assumes "component_wf k c"
  shows "instances_ok (scaled_instances e c)"
  using assms
  by (auto simp: component_wf_iff instances_ok_def scaled_instances_def Let_def split: option.splits if_splits)

lemma keeps_when: "(\<And>x. r = Some x \<Longrightarrow> keeps (f x) (\<lambda>_. True)) \<Longrightarrow>
    keeps (case r of None \<Rightarrow> act_ret () | Some x \<Rightarrow> f x) (\<lambda>_. True)"
  by (cases r) (auto intro: keeps_ret)

lemma keeps_component_scaled: "keeps (handle_component_scaled e) (\<lambda>_. True)"
  unfolding handle_component_scaled_def
proof (rule keeps_bind [OF comps.keeps_get], unfold Let_def, rule keeps_bind [OF hosts.keeps_get], rule keeps_bind)
  fix current host
  assume c: "\<forall>x. current = Some x \<longrightarrow> component_wf (cse_component_id e) x"
    and h: "\<forall>x. host = Some x \<longrightarrow> host_wf (cse_host_id e) x"
  show "keeps (case host of None \<Rightarrow> act_ret () | Some h \<Rightarrow> st_store la_hosts put_hosts (ho_id h) (scaled_host e h)) (\<lambda>_. True)"
    using h by (intro keeps_when hosts.keeps_store) (auto simp: host_wf_def scaled_host_def)
  define data where "data = (case current of None \<Rightarrow> component_of_scaled e
                 | Some c \<Rightarrow> component_of_scaled e\<lparr>lc_instances := scaled_instances e c\<rparr>)"
  have "lc_instances data \<noteq> [] \<Longrightarrow> component_wf (cse_component_id e) data"
    using c scaled_instances_ok component_wf_scaled [of e]
    by (cases current) (auto simp: data_def component_wf_iff)
  then show "keeps (if lc_instances (case current of None \<Rightarrow> component_of_scaled e
                 | Some c \<Rightarrow> component_of_scaled e\<lparr>lc_instances := scaled_instances e c\<rparr>) = []
      then st_delete la_components put_components (cse_component_id e)
      else st_store la_components put_components (cse_component_id e)
        (case current of None \<Rightarrow> component_of_scaled e
                 | Some c \<Rightarrow> component_of_scaled e\<lparr>lc_instances := scaled_instances e c\<rparr>)) (\<lambda>_. True)"
    unfolding data_def [symmetric] by (auto intro: comps.keeps_store comps.keeps_delete)
qed

lemma stopped_components_ok:
  assumes "entries_ok component_wf all"
  shows "\<forall>(k, c) \<in> set (filter (\<lambda>(_, c). lc_instances c \<noteq> []) (stopped_components h all)). component_wf k c"
  using assms
  by (fastforce simp: stopped_components_def map_filter_def component_wf_iff
      dest: entry_in intro: instances_ok_delete split: if_splits)

lemma stopped_providers_ok:
  assumes "entries_ok provider_wf all"
  shows "\<forall>(k, p) \<in> set (filter (\<lambda>(_, p). pr_hosts p \<noteq> []) (stopped_providers i h all)). provider_wf k p"
  using assms
  by (auto simp: stopped_providers_def map_filter_def Let_def provider_wf_def entries_ok_def
      split: option.splits if_splits)

lemma keeps_host_stopped: "keeps (handle_host_stopped e) (\<lambda>_. True)"
  unfolding handle_host_stopped_def Let_def
  by (rule keeps_bind [OF hosts.keeps_get], rule keeps_when)
    (intro keeps_bind [OF comps.keeps_list] keeps_bind [OF provs.keeps_list]
      keeps_bind [OF comps.keeps_store_many] keeps_bind [OF comps.keeps_delete_many]
      keeps_bind [OF provs.keeps_store_many] keeps_bind [OF provs.keeps_delete_many]
      hosts.keeps_delete stopped_components_ok stopped_providers_ok; assumption)

lemma keeps_provider_started: "keeps (handle_provider_started e) (\<lambda>_. True)"
  unfolding handle_provider_started_def
proof (rule keeps_bind [OF provs.keeps_get])
  fix found
  assume f: "\<forall>x. found = Some x \<longrightarrow> provider_wf (pse_provider_id e) x"
  obtain data needs where d: "(case found of Some current \<Rightarrow> started_provider e current
        | None \<Rightarrow> (provider_of_started e\<lparr>pr_hosts := [(pse_host_id e, Pending)]\<rparr>, True)) = (data, needs)"
    by fastforce
  have p: "provider_wf (pse_provider_id e) data"
    using f d by (auto simp: provider_wf_def started_provider_def provider_of_started_def provider_default_def
        Let_def split: option.splits if_splits)
  show "keeps (let (data, needs_host_update) =
       (case found of
          Some current \<Rightarrow> started_provider e current
        | None \<Rightarrow> (provider_of_started e\<lparr>pr_hosts := [(pse_host_id e, Pending)]\<rparr>, True)) in
     act_bind (st_get la_hosts (pse_host_id e)) (\<lambda>host.
     act_bind (case (host, needs_host_update) of
         (Some h, True) \<Rightarrow>
           st_store la_hosts put_hosts (ho_id h)
             (h\<lparr>ho_providers := hm_insert (pse_provider_id e) (started_info e) (ho_providers h)\<rparr>)
       | _ \<Rightarrow> act_ret ()) (\<lambda>_.
     st_store la_providers put_providers (pse_provider_id e) data))) (\<lambda>_. True)"
    unfolding d Let_def prod.case
  proof (rule keeps_bind [OF hosts.keeps_get], rule keeps_bind [where R = "\<lambda>_. True"])
    fix host
    show "keeps (st_store la_providers put_providers (pse_provider_id e) data) (\<lambda>_. True)"
      by (rule provs.keeps_store [OF p])
    assume h: "\<forall>x. host = Some x \<longrightarrow> host_wf (pse_host_id e) x"
    show "keeps (case host of None \<Rightarrow> act_ret ()
       | Some h \<Rightarrow> (case needs of True \<Rightarrow>
           st_store la_hosts put_hosts (ho_id h)
             (h\<lparr>ho_providers := hm_insert (pse_provider_id e) (started_info e) (ho_providers h)\<rparr>)
         | False \<Rightarrow> act_ret ())) (\<lambda>_. True)"
      using h
      by (cases host; cases needs)
        (auto intro!: keeps_ret hosts.keeps_store simp: host_wf_def started_info_def dest!: set_update_cases)
  qed
qed

lemma keeps_provider_stopped: "keeps (handle_provider_stopped e) (\<lambda>_. True)"
  unfolding handle_provider_stopped_def
proof (rule keeps_bind [OF hosts.keeps_get], rule keeps_bind, rule keeps_when)
  fix host h
  assume "\<forall>x. host = Some x \<longrightarrow> host_wf (pst_host_id e) x" "host = Some h"
  then show "keeps (st_store la_hosts put_hosts (ho_id h)
           (h\<lparr>ho_providers := hm_remove (pst_provider_id e) (ho_providers h)\<rparr>)) (\<lambda>_. True)"
    by (intro hosts.keeps_store) (fastforce simp: host_wf_def hm_wf_delete_set)
next
  show "keeps (act_bind (st_get la_providers (pst_provider_id e)) (\<lambda>found.
     case found of
       Some current \<Rightarrow>
         if \<not> hm_contains (pr_hosts current) (pst_host_id e) then act_ret ()
         else (let current' = current\<lparr>pr_hosts := hm_remove (pst_host_id e) (pr_hosts current)\<rparr> in
           if pr_hosts current' = [] then st_delete la_providers put_providers (pst_provider_id e)
           else st_store la_providers put_providers (pst_provider_id e) current')
     | None \<Rightarrow> act_ret ())) (\<lambda>_. True)"
    by (rule keeps_bind [OF provs.keeps_get], rule keeps_when)
      (auto intro!: keeps_ret provs.keeps_store provs.keeps_delete simp: Let_def provider_wf_def)
qed

lemma health_status_None: "health_status c f = None \<Longrightarrow> c \<noteq> None"
  by (auto simp: health_status_def split: option.splits bool.splits)

lemma keeps_health_check: "keeps (handle_provider_health_check e failed) (\<lambda>_. True)"
  unfolding handle_provider_health_check_def Let_def
proof (rule keeps_bind [OF provs.keeps_get], rule provs.keeps_store)
  fix found
  assume f: "\<forall>x. found = Some x \<longrightarrow> provider_wf (hci_provider_id e) x"
  let ?cur = "case found of Some p \<Rightarrow> p | None \<Rightarrow> provider_default\<lparr>pr_id := hci_provider_id e\<rparr>"
  have "pr_id ?cur = hci_provider_id e \<and> hm_wf (pr_hosts ?cur)"
    using f by (auto simp: provider_wf_def provider_default_def split: option.splits)
  then show "provider_wf (hci_provider_id e)
     (case health_status (map_of (pr_hosts ?cur) (hci_host_id e)) failed of
             Some st \<Rightarrow> ?cur\<lparr>pr_hosts := hm_insert (hci_host_id e) st (pr_hosts ?cur)\<rparr>
           | None \<Rightarrow> ?cur)"
    by (cases "health_status (map_of (pr_hosts ?cur) (hci_host_id e)) failed")
      (auto simp: provider_wf_def dest!: health_status_None)
qed

lemma described_component_ok:
  assumes "entries_ok component_wf cs"
  shows "component_wf (fst (described_component cs cl h d)) (snd (described_component cs cl h d))"
  using assms
  by (auto simp: described_component_def Let_def component_wf_iff instances_ok_def entries_ok_def
      split: option.splits)

lemma heartbeat_provider_ok:
  assumes "entries_ok provider_wf ps" and "heartbeat_provider ps h d = Some (k, p)"
  shows "provider_wf k p"
  using assms
  by (auto simp: heartbeat_provider_def Let_def provider_wf_def entries_ok_def provider_default_def
      split: option.splits if_splits)

lemma keeps_heartbeat: "keeps (handle_host_heartbeat now claims hb) (\<lambda>_. True)"
  unfolding handle_host_heartbeat_def heartbeat_provider_update_def heartbeat_component_update_def
proof (rule keeps_bind [OF hosts.keeps_store [OF host_wf_heartbeat]], rule keeps_bind)
  show "keeps (act_bind (st_list la_providers) (\<lambda>providers.
     st_store_many la_providers put_providers (List.map_filter (heartbeat_provider providers (hb_host_id hb)) (hb_providers hb))))
     (\<lambda>_. True)"
    by (rule keeps_bind [OF provs.keeps_list], rule provs.keeps_store_many)
      (auto simp: map_filter_def intro: heartbeat_provider_ok)
next
  show "keeps (act_bind (st_list la_components) (\<lambda>components.
     act_bind (populate_component_info claims components (hb_host_id hb)
         (filter (\<lambda>d. \<not> up_to_date components (hb_host_id hb) d) (hb_components hb))) (\<lambda>to_store.
     st_store_many la_components put_components to_store))) (\<lambda>_. True)"
  proof (rule keeps_bind [OF comps.keeps_list])
    fix cs
    assume cs: "entries_ok component_wf cs"
    show "keeps (act_bind (populate_component_info claims cs (hb_host_id hb)
         (filter (\<lambda>d. \<not> up_to_date cs (hb_host_id hb) d) (hb_components hb))) (\<lambda>to_store.
       st_store_many la_components put_components to_store)) (\<lambda>_. True)"
    proof (rule keeps_bind)
      show "keeps (populate_component_info claims cs (hb_host_id hb)
           (filter (\<lambda>d. \<not> up_to_date cs (hb_host_id hb) d) (hb_components hb)))
         (\<lambda>kvs. \<forall>(k, x) \<in> set kvs. component_wf k x)"
        by (cases claims)
          (simp_all add: populate_component_info_def keeps_fail keeps_ret split_def described_component_ok [OF cs])
    qed (rule comps.keeps_store_many)
  qed
qed

lemma keeps_hint: "keeps m (\<lambda>_. True) \<Longrightarrow> keeps (act_bind m (\<lambda>_. act_ret x)) (\<lambda>_. True)"
  by (erule keeps_bind) (simp add: keeps_ret)

lemma keeps_update_state: "keeps (update_state now claims ev) (\<lambda>_. True)"
  by (cases ev)
    (simp_all add: update_state_def handle_host_started_def keeps_ret keeps_hint keeps_component_scaled
      keeps_host_stopped keeps_provider_started keeps_provider_stopped keeps_health_check keeps_heartbeat
      hosts.keeps_store host_wf_started)

text \<open>
  C8. Handling any event, under any pattern of store failures and also when the handler stops half-way
  with an error, keeps the observed lattice well formed: entries are stored under their own id, every
  stored component runs on at least one host and on each of its hosts under at least one set of
  annotations, every stored provider has at least one host, and host inventories are keyed by provider.
\<close>

theorem events_keep_lattice_ok:
  assumes "lattice_ok s"
  shows "lattice_ok (snd (update_state now claims ev s))"
  using keeps_update_state [of now claims ev] assms
  by (cases "update_state now claims ev s") (auto simp: keeps_def triple_def split: option.splits)

theorem events_keep_lattice_ok_witness:
  "lattice_ok (snd (update_state 0 None (HostStopped \<lparr>hst_labels = [], hst_id = ''h1''\<rparr>)
     (ex_lattice\<lparr>la_faults := [NoFault, NoFault, FailAfter]\<rparr>)))"
  by (rule events_keep_lattice_ok) (simp add: ex_lattice_ok)

end
