(* ===== verification/Event_Effects.thy ===== *)
theory Event_Effects
  imports Event_Properties
begin

text \<open>
  The effect of the other event handlers on a store that works: scaling, starting, stopping, health
  checks and heartbeats. The effects are stated through lookups, \<open>instances_at\<close> being the count
  stored for a component on a host under some annotations.
\<close>

lemma bind_ok: "m s = (Some x, s') \<Longrightarrow> act_bind m f s = f x s'"
  by (simp add: act_bind_def)

lemma bind_ret [simp]: "act_bind (act_ret x) f s = f x s"
  by (simp add: act_bind_def act_ret_def)

lemmas run_simps = act_bind_def act_ret_def store_oks comps.faults_put hosts.faults_put provs.faults_put

lemma store_views [simp]:
  "la_components (put_components m s) = m" "la_hosts (put_components m s) = la_hosts s"
  "la_providers (put_components m s) = la_providers s" "la_hosts (put_hosts n s) = n"
  "la_components (put_hosts n s) = la_components s" "la_providers (put_hosts n s) = la_providers s"
  "la_providers (put_providers q s) = q" "la_components (put_providers q s) = la_components s"
  "la_hosts (put_providers q s) = la_hosts s" "la_faults (put_components m s) = la_faults s"
  "la_faults (put_hosts n s) = la_faults s" "la_faults (put_providers q s) = la_faults s"
  by (simp_all add: put_defs)

section \<open>Components\<close>

definition instances_at :: "lattice \<Rightarrow> string \<Rightarrow> string \<Rightarrow> btree \<Rightarrow> usize option" where
  "instances_at s k h a =
     (case map_of (la_components s) k of
        None \<Rightarrow> None
      | Some c \<Rightarrow> (case map_of (lc_instances c) h of None \<Rightarrow> None | Some is \<Rightarrow> map_of is a))"

lemma map_of_Nil_iff: "map_of m = (\<lambda>_. None) \<longleftrightarrow> m = []"
  by (cases m) (auto simp: fun_eq_iff split: if_splits)

lemma scaled_lookup:
  assumes "component_wf k c"
  shows "(case map_of (scaled_instances e c) h of None \<Rightarrow> None | Some is \<Rightarrow> map_of is a) =
     (if h = cse_host_id e \<and> a = cse_annotations e
      then (if cse_max_instances e = 0 then None else Some (cse_max_instances e))
      else (case map_of (lc_instances c) h of None \<Rightarrow> None | Some is \<Rightarrow> map_of is a))"
proof (cases "map_of (lc_instances c) (cse_host_id e)")
  case None
  then show ?thesis by (auto simp: scaled_instances_def Let_def split: option.splits)
next
  case (Some inst)
  show ?thesis
  proof (cases "cse_max_instances e = 0 \<and> AList.delete (cse_annotations e) inst = []")
    case True
    then have "map_of (AList.delete (cse_annotations e) inst) b = None" for b by simp
    then have "b \<noteq> cse_annotations e \<Longrightarrow> map_of inst b = None" for b
      by (metis map_of_delete)
    with Some True show ?thesis by (auto simp: scaled_instances_def Let_def)
  next
    case False
    with Some show ?thesis by (auto simp: scaled_instances_def Let_def split: option.splits)
  qed
qed

definition scaled_components :: "component_scaled \<Rightarrow> lattice \<Rightarrow> (string, lcomponent) hmap" where
  "scaled_components e s =
     (let data = (case map_of (la_components s) (cse_component_id e) of
          None \<Rightarrow> component_of_scaled e | Some c \<Rightarrow> component_of_scaled e\<lparr>lc_instances := scaled_instances e c\<rparr>)
      in if lc_instances data = [] then AList.delete (cse_component_id e) (la_components s)
         else AList.update (cse_component_id e) data (la_components s))"

lemma component_scaled_run:
  assumes "la_faults s = []"
  shows "handle_component_scaled e s = (Some (), put_components (scaled_components e s)
     (case map_of (la_hosts s) (cse_host_id e) of None \<Rightarrow> s
      | Some h \<Rightarrow> put_hosts (AList.update (ho_id h) (scaled_host e h) (la_hosts s)) s))"
  using assms
  by (cases "map_of (la_hosts s) (cse_host_id e)"; cases "map_of (la_components s) (cse_component_id e)")
    (simp_all add: handle_component_scaled_def scaled_components_def run_simps Let_def)

lemma instances_scaled:
  assumes "lattice_ok s"
  shows "instances_at (put_components (scaled_components e s) s') k h a =
     (if k = cse_component_id e \<and> h = cse_host_id e \<and> a = cse_annotations e
      then (if cse_max_instances e = 0 \<and> map_of (la_components s) k \<noteq> None then None
            else Some (cse_max_instances e))
      else instances_at s k h a)"
proof (cases "map_of (la_components s) (cse_component_id e)")
  case None
  then show ?thesis
    by (auto simp: instances_at_def scaled_components_def component_of_scaled_def Let_def split: option.splits)
next
  case (Some c)
  note w = scaled_lookup [OF lattice_okD(1) [OF assms Some], where e = e and h = h and a = a]
  show ?thesis
  proof (cases "scaled_instances e c = []")
    case True
    with Some w show ?thesis
      by (auto simp: instances_at_def scaled_components_def Let_def split: if_splits)
  next
    case False
    with Some w show ?thesis
      by (auto simp: instances_at_def scaled_components_def Let_def)
  qed
qed

text \<open>
  C14. Scaling is exact. After a component-scaled event the lattice counts the announced maximum for the
  component on that host under those annotations, and nothing when it was scaled to zero; all other
  counts, of other components, hosts and annotations, are as before. The inventory of the host has the
  component with the same count, or not at all. (A component the store did not know is recorded
  even when it is scaled to zero, with a count of zero.)
\<close>

theorem component_scaled_exact:
  assumes "lattice_ok s" and "la_faults s = []"
  shows "\<exists>s'. handle_component_scaled e s = (Some (), s') \<and>
    (\<forall>k h a. instances_at s' k h a =
       (if k = cse_component_id e \<and> h = cse_host_id e \<and> a = cse_annotations e
        then (if cse_max_instances e = 0 \<and> map_of (la_components s) k \<noteq> None then None
              else Some (cse_max_instances e))
        else instances_at s k h a)) \<and>
    (\<forall>i h. map_of (la_hosts s) i = Some h \<longrightarrow> (\<exists>h'. map_of (la_hosts s') i = Some h' \<and>
       (\<forall>k. map_of (ho_components h') k =
          (if i = cse_host_id e \<and> k = cse_component_id e
           then (if cse_max_instances e = 0 then None else Some (cse_max_instances e))
           else map_of (ho_components h) k)) \<and> ho_providers h' = ho_providers h))"
proof -
  note run = component_scaled_run [OF assms(2), of e]
  have id: "map_of (la_hosts s) i = Some h \<Longrightarrow> ho_id h = i" for i h
    using lattice_okD(2) [OF assms(1)] by (auto simp: host_wf_def)
  show ?thesis
    unfolding run
    by (intro exI conjI, rule refl, simp add: instances_scaled [OF assms(1)])
      (auto simp: id scaled_host_def split: option.split)
qed

section \<open>Providers\<close>

definition checked_provider :: "provider_health_check_info \<Rightarrow> bool option \<Rightarrow> provider option \<Rightarrow> provider" where
  "checked_provider e failed found =
     (let current = (case found of Some p \<Rightarrow> p | None \<Rightarrow> provider_default\<lparr>pr_id := hci_provider_id e\<rparr>) in
      case health_status (map_of (pr_hosts current) (hci_host_id e)) failed of
        Some st \<Rightarrow> current\<lparr>pr_hosts := hm_insert (hci_host_id e) st (pr_hosts current)\<rparr>
      | None \<Rightarrow> current)"

lemma health_check_run:
  assumes "la_faults s = []"
  shows "handle_provider_health_check e failed s = (Some (), put_providers
     (AList.update (hci_provider_id e) (checked_provider e failed (map_of (la_providers s) (hci_provider_id e))) (la_providers s)) s)"
  using assms by (simp add: handle_provider_health_check_def run_simps Let_def checked_provider_def)

definition next_status :: "bool option \<Rightarrow> provider_status option \<Rightarrow> provider_status" where
  "next_status failed old =
     (case failed of Some True \<Rightarrow> ProvFailed | Some False \<Rightarrow> Running
      | None \<Rightarrow> if old = Some ProvFailed then ProvFailed else Running)"

lemma checked_provider_status:
  "map_of (pr_hosts (checked_provider e failed found)) h =
     (let old = (case found of None \<Rightarrow> None | Some p \<Rightarrow> map_of (pr_hosts p) h)
      in if h = hci_host_id e then Some (next_status failed old) else old)"
proof -
  define cur where "cur = (case found of Some p \<Rightarrow> p | None \<Rightarrow> provider_default\<lparr>pr_id := hci_provider_id e\<rparr>)"
  have old: "(case found of None \<Rightarrow> None | Some p \<Rightarrow> map_of (pr_hosts p) h) = map_of (pr_hosts cur) h"
    by (simp add: cur_def provider_default_def split: option.split)
  have st: "health_status o1 failed = None \<Longrightarrow> o1 = Some (next_status failed o1)"
    "health_status o1 failed = Some st \<Longrightarrow> st = next_status failed o1" for o1 st
    by (auto simp: health_status_def next_status_def split: option.splits bool.splits provider_status.splits)
  show ?thesis
    unfolding old Let_def checked_provider_def cur_def [symmetric]
    by (cases "health_status (map_of (pr_hosts cur) (hci_host_id e)) failed") (auto dest: st)
qed

text \<open>
  The status of a provider follows its health checks: failed after a failed check, running after a
  passed one; a status check moves a pending or unknown provider to running and leaves a running or
  failed one alone. The status on other hosts and the other providers do not change.
\<close>

theorem health_check_transitions:
  assumes "la_faults s = []"
  shows "\<exists>s'. handle_provider_health_check e failed s = (Some (), s') \<and>
    (\<forall>p h. (case map_of (la_providers s') p of None \<Rightarrow> None | Some x \<Rightarrow> map_of (pr_hosts x) h) =
       (let old = (case map_of (la_providers s) p of None \<Rightarrow> None | Some x \<Rightarrow> map_of (pr_hosts x) h)
        in if p \<noteq> hci_provider_id e \<or> h \<noteq> hci_host_id e then old
           else Some (case failed of Some True \<Rightarrow> ProvFailed | Some False \<Rightarrow> Running
                      | None \<Rightarrow> if old = Some ProvFailed then ProvFailed else Running))) \<and>
    la_hosts s' = la_hosts s \<and> la_components s' = la_components s"
  unfolding health_check_run [OF assms]
  by (intro exI conjI, rule refl) (auto simp: checked_provider_status next_status_def Let_def)

text \<open>
  Starting and stopping a provider are inverse on the lattice: after the started event the provider has
  the host among its hosts, and a first start also puts it into the host's inventory; after the
  stopped event, from any state, the provider is gone from the host's inventory and the host
  from the provider, and a provider without hosts is deleted.
\<close>

theorem provider_start_stop:
  assumes "lattice_ok s" and "la_faults s = []"
  shows "(\<exists>s1 p. handle_provider_started e s = (Some (), s1) \<and>
      map_of (la_providers s1) (pse_provider_id e) = Some p \<and> map_of (pr_hosts p) (pse_host_id e) \<noteq> None \<and>
      (\<forall>h. map_of (la_hosts s) (pse_host_id e) = Some h \<longrightarrow>
         (\<forall>q. map_of (la_providers s) (pse_provider_id e) = Some q \<longrightarrow> map_of (pr_hosts q) (pse_host_id e) = None) \<longrightarrow>
         (\<exists>h'. map_of (la_hosts s1) (pse_host_id e) = Some h' \<and>
            map_of (ho_providers h') (pse_provider_id e) = Some (started_info e)))) \<and>
    (\<exists>s2. handle_provider_stopped x s = (Some (), s2) \<and>
      (\<forall>h. map_of (la_hosts s2) (pst_host_id x) = Some h \<longrightarrow> map_of (ho_providers h) (pst_provider_id x) = None) \<and>
      (\<forall>p. map_of (la_providers s2) (pst_provider_id x) = Some p \<longrightarrow>
         map_of (pr_hosts p) (pst_host_id x) = None \<and> pr_hosts p \<noteq> []))"
proof (rule conjI)
  have host: "map_of (la_hosts s) i = Some h \<Longrightarrow> ho_id h = i" for i h
    using lattice_okD(2) [OF assms(1)] by (auto simp: host_wf_def)
  have prov: "map_of (la_providers s) i = Some p \<Longrightarrow> pr_hosts p \<noteq> []" for i p
    using lattice_okD(3) [OF assms(1)] by (auto simp: provider_wf_def)
  show "\<exists>s1 p. handle_provider_started e s = (Some (), s1) \<and>
      map_of (la_providers s1) (pse_provider_id e) = Some p \<and> map_of (pr_hosts p) (pse_host_id e) \<noteq> None \<and>
      (\<forall>h. map_of (la_hosts s) (pse_host_id e) = Some h \<longrightarrow>
         (\<forall>q. map_of (la_providers s) (pse_provider_id e) = Some q \<longrightarrow> map_of (pr_hosts q) (pse_host_id e) = None) \<longrightarrow>
         (\<exists>h'. map_of (la_hosts s1) (pse_host_id e) = Some h' \<and>
            map_of (ho_providers h') (pse_provider_id e) = Some (started_info e)))"
    using assms(2) host
    by (cases "map_of (la_providers s) (pse_provider_id e)"; cases "map_of (la_hosts s) (pse_host_id e)")
      (auto simp: handle_provider_started_def started_provider_def run_simps Let_def hm_contains_def)
  show "\<exists>s2. handle_provider_stopped x s = (Some (), s2) \<and>
      (\<forall>h. map_of (la_hosts s2) (pst_host_id x) = Some h \<longrightarrow> map_of (ho_providers h) (pst_provider_id x) = None) \<and>
      (\<forall>p. map_of (la_providers s2) (pst_provider_id x) = Some p \<longrightarrow>
         map_of (pr_hosts p) (pst_host_id x) = None \<and> pr_hosts p \<noteq> [])"
    using assms(2) host prov
    by (cases "map_of (la_providers s) (pst_provider_id x)"; cases "map_of (la_hosts s) (pst_host_id x)")
      (auto simp: handle_provider_stopped_def run_simps Let_def hm_contains_def)
qed

section \<open>Heartbeats\<close>

definition heartbeat_components where
  "heartbeat_components cl hb cs =
     hm_extend (map (described_component cs cl (hb_host_id hb))
       (filter (\<lambda>d. \<not> up_to_date cs (hb_host_id hb) d) (hb_components hb))) cs"

definition heartbeat_providers where
  "heartbeat_providers hb ps =
     hm_extend (List.map_filter (heartbeat_provider ps (hb_host_id hb)) (hb_providers hb)) ps"

lemma heartbeat_run:
  assumes "la_faults s = []"
  shows "handle_host_heartbeat now (Some cl) hb s = (Some (),
     put_components (heartbeat_components cl hb (la_components s))
      (put_providers (heartbeat_providers hb (la_providers s))
       (put_hosts (AList.update (hb_host_id hb) (host_of_heartbeat now hb) (la_hosts s)) s)))"
  using assms
  by (simp add: handle_host_heartbeat_def heartbeat_provider_update_def heartbeat_component_update_def
      populate_component_info_def run_simps heartbeat_components_def heartbeat_providers_def)

lemma described_fst [simp]: "fst (described_component cs cl h d) = cdsc_id d"
  by (simp add: described_component_def Let_def)

lemma heartbeat_component_lookup:
  assumes "distinct (map cdsc_id (hb_components hb))"
  shows "d \<in> set (hb_components hb) \<Longrightarrow> map_of (heartbeat_components cl hb cs) (cdsc_id d) =
      (if up_to_date cs (hb_host_id hb) d then map_of cs (cdsc_id d)
       else Some (snd (described_component cs cl (hb_host_id hb) d)))"
    and "k \<notin> cdsc_id ` set (hb_components hb) \<Longrightarrow> map_of (heartbeat_components cl hb cs) k = map_of cs k"
proof -
  let ?todo = "filter (\<lambda>d. \<not> up_to_date cs (hb_host_id hb) d) (hb_components hb)"
  let ?kvs = "map (described_component cs cl (hb_host_id hb)) ?todo"
  have dist: "distinct (map cdsc_id ?todo)" using assms by (rule distinct_map_filter)
  have kvs: "?kvs = map (\<lambda>d. (cdsc_id d, snd (described_component cs cl (hb_host_id hb) d))) ?todo"
    by (intro map_cong refl) (metis described_fst prod.collapse)
  have "distinct (map fst ?kvs)" using dist by (simp add: comp_def)
  note ext = map_of_extend [OF this, of cs]
  have inj: "inj_on cdsc_id (set (hb_components hb))" using assms by (simp add: distinct_map)
  show "map_of (heartbeat_components cl hb cs) (cdsc_id d) =
      (if up_to_date cs (hb_host_id hb) d then map_of cs (cdsc_id d)
       else Some (snd (described_component cs cl (hb_host_id hb) d)))"
    if d: "d \<in> set (hb_components hb)"
  proof (cases "up_to_date cs (hb_host_id hb) d")
    case True
    have "map_of ?kvs (cdsc_id d) = None"
      using True d inj by (auto simp: map_of_eq_None_iff image_image dest: inj_onD)
    with True show ?thesis by (simp add: heartbeat_components_def ext)
  next
    case False
    then have "(cdsc_id d, snd (described_component cs cl (hb_host_id hb) d)) \<in> set ?kvs"
      using d unfolding kvs by auto
    with \<open>distinct (map fst ?kvs)\<close>
    have "map_of ?kvs (cdsc_id d) = Some (snd (described_component cs cl (hb_host_id hb) d))"
      by (rule map_of_is_SomeI)
    with False show ?thesis by (simp add: heartbeat_components_def ext)
  qed
  show "map_of (heartbeat_components cl hb cs) k = map_of cs k" if "k \<notin> cdsc_id ` set (hb_components hb)"
  proof -
    have "map_of ?kvs k = None" using that by (auto simp: map_of_eq_None_iff image_image)
    then show ?thesis by (simp add: heartbeat_components_def ext)
  qed
qed

lemma heartbeat_provider_host:
  assumes "heartbeat_provider ps h info = Some (k, p)"
  shows "k = pdsc_id info \<and> map_of (pr_hosts p) h \<noteq> None"
  using assms
  by (auto simp: heartbeat_provider_def Let_def hm_contains_def split: option.splits if_splits)

lemma heartbeat_provider_None:
  "heartbeat_provider ps h info = None \<Longrightarrow> \<exists>p. map_of ps (pdsc_id info) = Some p \<and> map_of (pr_hosts p) h \<noteq> None"
  by (auto simp: heartbeat_provider_def Let_def hm_contains_def split: option.splits if_splits)

lemma heartbeat_provider_lookup:
  assumes "info \<in> set (hb_providers hb)"
  shows "\<exists>p. map_of (heartbeat_providers hb ps) (pdsc_id info) = Some p \<and> map_of (pr_hosts p) (hb_host_id hb) \<noteq> None"
proof -
  let ?kvs = "List.map_filter (heartbeat_provider ps (hb_host_id hb)) (hb_providers hb)"
  have l: "map_of (heartbeat_providers hb ps) k = (case map_of (rev ?kvs) k of None \<Rightarrow> map_of ps k | Some v \<Rightarrow> Some v)" for k
    by (simp add: heartbeat_providers_def hm_extend_def hm.lookup_fold_insert)
  show ?thesis
  proof (cases "map_of (rev ?kvs) (pdsc_id info)")
    case (Some p)
    then have "(pdsc_id info, p) \<in> set ?kvs" using map_of_SomeD by fastforce
    then obtain i where "heartbeat_provider ps (hb_host_id hb) i = Some (pdsc_id info, p)"
      by (auto simp: List.map_filter_def)
    from heartbeat_provider_host [OF this] Some show ?thesis by (simp add: l)
  next
    case None
    have "heartbeat_provider ps (hb_host_id hb) info = None"
    proof (rule ccontr)
      assume "heartbeat_provider ps (hb_host_id hb) info \<noteq> None"
      then obtain k p where e: "heartbeat_provider ps (hb_host_id hb) info = Some (k, p)" by auto
      then have "(k, p) \<in> set ?kvs" using assms by (force simp: List.map_filter_def)
      moreover have "k = pdsc_id info" using heartbeat_provider_host [OF e] by simp
      ultimately show False using None by (force simp: map_of_eq_None_iff)
    qed
    from heartbeat_provider_None [OF this] None show ?thesis by (auto simp: l)
  qed
qed

lemma described_instances:
  "map_of (lc_instances (snd (described_component cs cl h d))) j =
     (if j = h then Some [(or_empty (cdsc_annotations d), ucast (cdsc_max_instances d))]
      else (case map_of cs (cdsc_id d) of None \<Rightarrow> None | Some c \<Rightarrow> map_of (lc_instances c) j))"
  by (auto simp: described_component_def Let_def split: option.split)

lemma described_reference: "lc_reference (snd (described_component cs cl h d)) = cdsc_image_ref d"
  by (simp add: described_component_def Let_def split: option.split)

lemma up_to_date_elim:
  assumes "up_to_date cs h d"
  obtains c inst where "map_of cs (cdsc_id d) = Some c" "lc_reference c = cdsc_image_ref d"
    "map_of (lc_instances c) h = Some inst" "map_of inst (or_empty (cdsc_annotations d)) = Some (ucast (cdsc_max_instances d))"
  using assms by (auto simp: up_to_date_def split: option.splits if_splits)


text \<open>
  A heartbeat does not always remove what it no longer reports: there is a well-formed lattice in which
  a component runs on two hosts, on one of them under two sets of annotations, and a heartbeat of that
  host naming only one of the sets leaves the other one in the store, because the
  comparison sets the number of annotation sets on the host against the number of hosts.
\<close>

theorem heartbeat_keeps_stale_instances:
  "\<exists>s hb s'. lattice_ok s \<and> la_faults s = [] \<and> handle_host_heartbeat 0 (Some []) hb s = (Some (), s') \<and>
     hb_components hb = [\<lparr>cdsc_id = ''c'', cdsc_image_ref = ''r'', cdsc_name = None,
       cdsc_annotations = Some [(''a'', ''1'')], cdsc_max_instances = 3\<rparr>] \<and> hb_host_id hb = ''h1'' \<and>
     instances_at s' ''c'' ''h1'' [(''a'', ''2'')] = Some 5"
proof -
  define c where "c = \<lparr>lc_id = ''c'', lc_name = [], lc_issuer = [],
     lc_instances = [(''h1'', [([(''a'', ''1'')], 3), ([(''a'', ''2'')], 5)]), (''h2'', [([], 1)])],
     lc_reference = ''r''\<rparr>"
  define s where "s = \<lparr>la_components = [(''c'', c)], la_hosts = [], la_providers = [], la_faults = []\<rparr>"
  define hb where "hb = \<lparr>hb_components = [\<lparr>cdsc_id = ''c'', cdsc_image_ref = ''r'', cdsc_name = None,
       cdsc_annotations = Some [(''a'', ''1'')], cdsc_max_instances = 3\<rparr>], hb_providers = [],
     hb_host_id = ''h1'', hb_issuer = [], hb_friendly_name = [], hb_labels = [], hb_version = [],
     hb_uptime_human = [], hb_uptime_seconds = 0\<rparr>"
  have up: "up_to_date [(''c'', c)] ''h1'' (hd (hb_components hb))"
    by (simp add: up_to_date_def c_def hb_def or_empty_def)
  have "lattice_ok s"
    by (auto simp: lattice_ok_def entries_ok_def s_def component_wf_def c_def hm_wf_def)
  moreover have f: "la_faults s = []" by (simp add: s_def)
  moreover have "heartbeat_components [] hb (la_components s) = [(''c'', c)]"
    using up by (simp add: heartbeat_components_def s_def hb_def hm_extend_def)
  then have "instances_at (snd (handle_host_heartbeat 0 (Some []) hb s)) ''c'' ''h1'' [(''a'', ''2'')] = Some 5"
    by (simp add: heartbeat_run [OF f] instances_at_def c_def)
  moreover obtain s' where "handle_host_heartbeat 0 (Some []) hb s = (Some (), s')"
    using heartbeat_run [OF f] by blast
  moreover have "hb_components hb = [\<lparr>cdsc_id = ''c'', cdsc_image_ref = ''r'', cdsc_name = None,
       cdsc_annotations = Some [(''a'', ''1'')], cdsc_max_instances = 3\<rparr>]" "hb_host_id hb = ''h1''"
    by (simp_all add: hb_def)
  ultimately show ?thesis by (metis snd_conv)
qed

section \<open>Witnesses\<close>

theorem component_scaled_exact_witness:
  "\<exists>s'. handle_component_scaled \<lparr>cse_annotations = [], cse_claims = None, cse_image_ref = ''r'',
       cse_max_instances = 7, cse_component_id = ''c'', cse_host_id = ''h1''\<rparr> ex_lattice = (Some (), s') \<and>
     instances_at s' ''c'' ''h1'' [] = Some 7"
  using component_scaled_exact [OF ex_lattice_ok ex_lattice_faults,
      of "\<lparr>cse_annotations = [], cse_claims = None, cse_image_ref = ''r'',
       cse_max_instances = 7, cse_component_id = ''c'', cse_host_id = ''h1''\<rparr>"]
  by auto

theorem health_check_transitions_witness:
  "\<exists>s' x. handle_provider_health_check \<lparr>hci_provider_id = ''p'', hci_host_id = ''h1''\<rparr> (Some True) ex_lattice = (Some (), s') \<and>
     map_of (la_providers s') ''p'' = Some x \<and> map_of (pr_hosts x) ''h1'' = Some ProvFailed"
proof -
  from health_check_transitions [OF ex_lattice_faults, of "\<lparr>hci_provider_id = ''p'', hci_host_id = ''h1''\<rparr>" "Some True"]
  obtain s' where r: "handle_provider_health_check \<lparr>hci_provider_id = ''p'', hci_host_id = ''h1''\<rparr> (Some True) ex_lattice = (Some (), s')"
    and "(case map_of (la_providers s') ''p'' of None \<Rightarrow> None | Some x \<Rightarrow> map_of (pr_hosts x) ''h1'') = Some ProvFailed"
    by (auto simp: Let_def)
  then show ?thesis by (auto split: option.splits)
qed

theorem provider_start_stop_witness:
  "\<exists>s2. handle_provider_stopped \<lparr>pst_annotations = [], pst_provider_id = ''p'', pst_reason = [], pst_host_id = ''h1''\<rparr> ex_lattice = (Some (), s2)"
  using provider_start_stop [OF ex_lattice_ok ex_lattice_faults,
      of "\<lparr>pse_annotations = [], pse_claims = None, pse_image_ref = [], pse_provider_id = ''p'', pse_host_id = ''h1''\<rparr>"
         "\<lparr>pst_annotations = [], pst_provider_id = ''p'', pst_reason = [], pst_host_id = ''h1''\<rparr>"]
  by blast


end
