(* ===== verification/Host_Stopped.thy ===== *)
theory Host_Stopped
  imports Event_Properties
begin

text \<open>
  The handler of a stopped host in detail: what it leaves behind, and that running it again
  after a failure at any of its store calls leads to the state an undisturbed run leads to. The proof
  follows the handler with triples whose error condition is \<open>recoverable\<close>.
\<close>

text \<open>What the handler makes of a component, of a provider: the host is taken out, an empty entry goes.\<close>

definition without_host_c :: "host \<Rightarrow> (string, lcomponent) hmap \<Rightarrow> string \<Rightarrow> lcomponent option" where
  "without_host_c h m k =
     (case map_of m k of
        None \<Rightarrow> None
      | Some c \<Rightarrow>
          if hm_contains (ho_components h) k
          then (let c' = c\<lparr>lc_instances := hm_remove (ho_id h) (lc_instances c)\<rparr> in
                if lc_instances c' = [] then None else Some c')
          else Some c)"

definition without_host_p :: "host \<Rightarrow> (string, provider) hmap \<Rightarrow> string \<Rightarrow> provider option" where
  "without_host_p h m k =
     (case map_of m k of
        None \<Rightarrow> None
      | Some p \<Rightarrow>
          if hm_contains (ho_providers h) k \<and> hm_contains (pr_hosts p) (ho_id h)
          then (let p' = p\<lparr>pr_hosts := hm_remove (ho_id h) (pr_hosts p)\<rparr> in
                if pr_hosts p' = [] then None else Some p')
          else Some p)"

section \<open>The two passes as map updates\<close>

definition drop_c :: "host \<Rightarrow> string \<Rightarrow> lcomponent \<Rightarrow> lcomponent option" where
  "drop_c h k c = (if hm_contains (ho_components h) k
     then Some (c\<lparr>lc_instances := hm_remove (ho_id h) (lc_instances c)\<rparr>) else None)"

lemma stopped_components_filter:
  "filter (\<lambda>(k, c). Q c) (stopped_components h all) =
   List.map_filter (\<lambda>(k, c). map_option (Pair k) (case drop_c h k c of None \<Rightarrow> None | Some c' \<Rightarrow> if Q c' then Some c' else None)) all"
  by (induction all) (auto simp: stopped_components_def drop_c_def map_filter_simps split: option.splits if_splits)

definition drop_p :: "host \<Rightarrow> (string, provider) hmap \<Rightarrow> string \<Rightarrow> provider option" where
  "drop_p h all k = (case map_of all k of
       Some p \<Rightarrow> if hm_contains (pr_hosts p) (ho_id h)
                 then Some (p\<lparr>pr_hosts := hm_remove (ho_id h) (pr_hosts p)\<rparr>) else None
     | None \<Rightarrow> None)"

lemma stopped_providers_filter:
  assumes "\<forall>(k, info) \<in> set infos. pi_provider_id info = k"
    and "ho_providers h = infos"
  shows "filter (\<lambda>(k, p). Q p) (stopped_providers (ho_id h) h all) =
   List.map_filter (\<lambda>(k, info). map_option (Pair k) (case drop_p h all k of None \<Rightarrow> None | Some p \<Rightarrow> if Q p then Some p else None)) infos"
  using assms(1) unfolding stopped_providers_def assms(2)
  by (induction infos) (auto simp: drop_p_def Let_def map_filter_simps split: option.splits if_splits)

lemma extend_lookup:
  "hm_wf kvs \<Longrightarrow> map_of (hm_extend kvs m) k = (case map_of kvs k of None \<Rightarrow> map_of m k | Some v \<Rightarrow> Some v)"
  by (simp add: hm_wf_def map_of_extend)

lemma keys_mem: "hm_wf m \<Longrightarrow> k \<in> set (map fst m) \<longleftrightarrow> map_of m k \<noteq> None"
  by (simp add: map_of_eq_None_iff)

lemma components_stored:
  assumes "hm_wf all"
  shows "map_of (hm_extend (filter (\<lambda>(_, c). lc_instances c \<noteq> []) (stopped_components h all)) all) k =
     (case without_host_c h all k of None \<Rightarrow> map_of all k | Some c \<Rightarrow> Some c)"
  using assms
  by (auto simp: stopped_components_filter extend_lookup hm_wf_map_filter map_of_map_filter
      without_host_c_def drop_c_def Let_def split: option.splits)

lemma components_dropped:
  assumes "hm_wf all"
  shows "k \<in> set (map fst (filter (\<lambda>(_, c). lc_instances c = []) (stopped_components h all))) \<longleftrightarrow>
     map_of all k \<noteq> None \<and> without_host_c h all k = None"
  unfolding stopped_components_filter
    keys_mem [OF hm_wf_map_filter [OF assms]] map_of_map_filter [OF assms]
  by (auto simp: without_host_c_def drop_c_def Let_def split: option.splits)

lemma providers_stored:
  assumes "host_wf i h"
  shows "map_of (hm_extend (filter (\<lambda>(_, p). pr_hosts p \<noteq> []) (stopped_providers (ho_id h) h all)) all) k =
     (case without_host_p h all k of None \<Rightarrow> map_of all k | Some c \<Rightarrow> Some c)"
proof -
  have w: "hm_wf (ho_providers h)" "\<forall>(k, info) \<in> set (ho_providers h). pi_provider_id info = k"
    using assms by (simp_all add: host_wf_def)
  show ?thesis
    unfolding stopped_providers_filter [OF w(2) refl] extend_lookup [OF hm_wf_map_filter [OF w(1)]]
      map_of_map_filter [OF w(1)]
    by (auto simp: without_host_p_def drop_p_def Let_def hm_contains_def split: option.splits)
qed

lemma providers_dropped:
  assumes "host_wf i h"
  shows "k \<in> set (map fst (filter (\<lambda>(_, p). pr_hosts p = []) (stopped_providers (ho_id h) h all))) \<longleftrightarrow>
     map_of all k \<noteq> None \<and> without_host_p h all k = None"
proof -
  have w: "hm_wf (ho_providers h)" "\<forall>(k, info) \<in> set (ho_providers h). pi_provider_id info = k"
    using assms by (simp_all add: host_wf_def)
  show ?thesis
    unfolding stopped_providers_filter [OF w(2) refl] keys_mem [OF hm_wf_map_filter [OF w(1)]]
      map_of_map_filter [OF w(1)]
    by (auto simp: without_host_p_def drop_p_def Let_def hm_contains_def split: option.splits)
qed

text \<open>Every state in between leads to the same end.\<close>

lemma without_c_absorb:
  assumes "\<And>k. map_of m' k = map_of m k \<or> map_of m' k = without_host_c h m k"
  shows "without_host_c h m' = without_host_c h m"
proof
  fix k
  show "without_host_c h m' k = without_host_c h m k"
    using assms [of k] by (auto simp: without_host_c_def Let_def delete_idem split: option.splits if_splits)
qed

lemma without_p_absorb:
  assumes "\<And>k. map_of m' k = map_of m k \<or> map_of m' k = without_host_p h m k"
  shows "without_host_p h m' = without_host_p h m"
proof
  fix k
  show "without_host_p h m' k = without_host_p h m k"
    using assms [of k] by (auto simp: without_host_p_def Let_def hm_contains_def split: option.splits if_splits)
qed

section \<open>The run\<close>

text \<open>The end of the handler, and the states from which it can be run again.\<close>

definition host_gone :: "string \<Rightarrow> lattice \<Rightarrow> lattice \<Rightarrow> bool" where
  "host_gone i s0 s \<longleftrightarrow>
     (case map_of (la_hosts s0) i of
        None \<Rightarrow> map_of (la_hosts s) = map_of (la_hosts s0) \<and> map_of (la_components s) = map_of (la_components s0) \<and>
          map_of (la_providers s) = map_of (la_providers s0)
      | Some h \<Rightarrow>
          map_of (la_hosts s) = (map_of (la_hosts s0))(i := None) \<and>
          map_of (la_components s) = without_host_c h (la_components s0) \<and>
          map_of (la_providers s) = without_host_p h (la_providers s0))"

definition on_the_way :: "host \<Rightarrow> lattice \<Rightarrow> lattice \<Rightarrow> bool" where
  "on_the_way h s0 s \<longleftrightarrow> lattice_ok s \<and> map_of (la_hosts s) = map_of (la_hosts s0) \<and>
     without_host_c h (la_components s) = without_host_c h (la_components s0) \<and>
     without_host_p h (la_providers s) = without_host_p h (la_providers s0)"

definition recoverable :: "string \<Rightarrow> lattice \<Rightarrow> lattice \<Rightarrow> bool" where
  "recoverable i s0 s \<longleftrightarrow> host_gone i s0 s \<or> (\<exists>h. map_of (la_hosts s0) i = Some h \<and> on_the_way h s0 s)"

lemma host_gone_faults [simp]: "host_gone i s0 (s\<lparr>la_faults := fs\<rparr>) = host_gone i s0 s"
  by (simp add: host_gone_def split: option.split)

lemma on_the_way_faults [simp]: "on_the_way h s0 (s\<lparr>la_faults := fs\<rparr>) = on_the_way h s0 s"
  by (simp add: on_the_way_def)

lemma recoverableI: "map_of (la_hosts s0) i = Some h \<Longrightarrow> on_the_way h s0 s \<Longrightarrow> recoverable i s0 s"
  by (auto simp: recoverable_def)

lemma on_the_way_components:
  assumes "on_the_way h s0 s" and "entries_ok component_wf m"
    and "\<And>k. map_of m k = map_of (la_components s) k \<or> map_of m k = without_host_c h (la_components s) k"
  shows "on_the_way h s0 (put_components m s)"
  using assms without_c_absorb [of m "la_components s" h] comps.put_ok [of s m]
  by (simp add: on_the_way_def put_components_def)

lemma on_the_way_providers:
  assumes "on_the_way h s0 s" and "entries_ok provider_wf m"
    and "\<And>k. map_of m k = map_of (la_providers s) k \<or> map_of m k = without_host_p h (la_providers s) k"
  shows "on_the_way h s0 (put_providers m s)"
  using assms without_p_absorb [of m "la_providers s" h] provs.put_ok [of s m]
  by (simp add: on_the_way_def put_providers_def)

section \<open>The two passes\<close>

lemma component_pass:
  assumes h: "map_of (la_hosts s0) i = Some h"
    and rest: "triple (\<lambda>s. on_the_way h s0 s \<and> map_of (la_components s) = without_host_c h (la_components s)) rest Q (recoverable i s0)"
  shows "triple (on_the_way h s0)
    (act_bind (st_list la_components) (\<lambda>all.
     act_bind (st_store_many la_components put_components
         (filter (\<lambda>(_, c). lc_instances c \<noteq> []) (stopped_components h all))) (\<lambda>_.
     act_bind (st_delete_many la_components put_components
         (map fst (filter (\<lambda>(_, c). lc_instances c = []) (stopped_components h all)))) (\<lambda>_. rest))))
    Q (recoverable i s0)"
proof (rule comps.two_pass [where sp = "without_host_c h"], goal_cases)
  case (1 all)
  then show ?case by (rule stopped_components_ok)
next
  case (2 all k)
  then show ?case by (intro components_stored) (simp add: entries_ok_def)
next
  case (3 all k)
  then show ?case by (intro components_dropped) (simp add: entries_ok_def)
next
  case (4 all k)
  then show ?case by (simp add: without_host_c_def)
next
  case (5 m m')
  then show ?case by (rule without_c_absorb)
next
  case (8 s m)
  then show ?case by (rule on_the_way_components)
next
  case (9 s)
  then show ?case by (rule recoverableI [OF h])
qed (use rest in \<open>simp_all add: on_the_way_def\<close>)

lemma provider_pass:
  assumes h: "map_of (la_hosts s0) i = Some h" "host_wf i h"
    and P: "\<And>s fs. P s \<Longrightarrow> P (s\<lparr>la_faults := fs\<rparr>)" "\<And>s m. P s \<Longrightarrow> P (put_providers m s)"
    and rest: "triple (\<lambda>s. (on_the_way h s0 s \<and> P s) \<and> map_of (la_providers s) = without_host_p h (la_providers s)) rest Q (recoverable i s0)"
  shows "triple (\<lambda>s. on_the_way h s0 s \<and> P s)
    (act_bind (st_list la_providers) (\<lambda>all.
     act_bind (st_store_many la_providers put_providers
         (filter (\<lambda>(_, p). pr_hosts p \<noteq> []) (stopped_providers i h all))) (\<lambda>_.
     act_bind (st_delete_many la_providers put_providers
         (map fst (filter (\<lambda>(_, p). pr_hosts p = []) (stopped_providers i h all)))) (\<lambda>_. rest))))
    Q (recoverable i s0)"
proof -
  have i: "i = ho_id h" using h(2) by (simp add: host_wf_def)
  show ?thesis
  proof (rule provs.two_pass [where sp = "without_host_p h"], goal_cases)
    case (1 all)
    then show ?case by (rule stopped_providers_ok)
  next
    case (2 all k)
    show ?case unfolding i by (rule providers_stored [OF h(2)])
  next
    case (3 all k)
    show ?case unfolding i by (rule providers_dropped [OF h(2)])
  next
    case (4 all k)
    then show ?case by (simp add: without_host_p_def)
  next
    case (5 m m')
    then show ?case by (rule without_p_absorb)
  next
    case (8 s m)
    then show ?case using P(2) on_the_way_providers [of h s0 s m] by blast
  next
    case (9 s)
    then show ?case using recoverableI [OF h(1)] by blast
  qed (use rest P(1) in \<open>simp_all add: on_the_way_def\<close>)
qed

section \<open>The handler\<close>

text \<open>From the state \<open>s0\<close>, or any state on the way, the handler ends with the host gone or fails recoverably.\<close>

lemma host_stopped_run:
  assumes h: "map_of (la_hosts s0) (hst_id e) = Some h" "host_wf (hst_id e) h"
  shows "triple (on_the_way h s0) (handle_host_stopped e) (\<lambda>_. host_gone (hst_id e) s0) (recoverable (hst_id e) s0)"
  unfolding handle_host_stopped_def Let_def
proof (rule triple_bind [OF hosts.triple_get [where P = "on_the_way h s0" and E = "recoverable (hst_id e) s0"]])
  fix found
  let ?comps_done = "\<lambda>s. map_of (la_components s) = without_host_c h (la_components s0)"
  let ?provs_done = "\<lambda>s. map_of (la_providers s) = without_host_p h (la_providers s0)"
  let ?delete = "st_delete la_hosts put_hosts (hst_id e)"
  have last: "triple (\<lambda>s. on_the_way h s0 s \<and> ?comps_done s \<and> ?provs_done s) ?delete
      (\<lambda>_. host_gone (hst_id e) s0) (recoverable (hst_id e) s0)"
    unfolding st_delete_def
    by (rule hosts.triple_erase)
      (auto simp: host_gone_def h(1) on_the_way_def put_hosts_def recoverable_def fun_eq_iff)
  have provs: "triple (\<lambda>s. on_the_way h s0 s \<and> ?comps_done s)
     (act_bind (st_list la_providers) (\<lambda>all.
      act_bind (st_store_many la_providers put_providers
         (filter (\<lambda>(_, p). pr_hosts p \<noteq> []) (stopped_providers (hst_id e) h all))) (\<lambda>_.
      act_bind (st_delete_many la_providers put_providers
         (map fst (filter (\<lambda>(_, p). pr_hosts p = []) (stopped_providers (hst_id e) h all)))) (\<lambda>_. ?delete))))
     (\<lambda>_. host_gone (hst_id e) s0) (recoverable (hst_id e) s0)"
    by (rule provider_pass [OF h]) (auto intro!: triple_weaken [OF last] simp: put_providers_def on_the_way_def)
  show "triple (\<lambda>s. on_the_way h s0 s \<and> found = map_of (la_hosts s) (hst_id e))
     (case found of None \<Rightarrow> act_ret () | Some current \<Rightarrow>
         act_bind (st_list la_components) (\<lambda>all_components.
         act_bind (st_store_many la_components put_components
             (filter (\<lambda>(_, c). lc_instances c \<noteq> []) (stopped_components current all_components))) (\<lambda>_.
         act_bind (st_delete_many la_components put_components
             (map fst (filter (\<lambda>(_, c). lc_instances c = []) (stopped_components current all_components)))) (\<lambda>_.
         act_bind (st_list la_providers) (\<lambda>all_providers.
         act_bind (st_store_many la_providers put_providers
             (filter (\<lambda>(_, p). pr_hosts p \<noteq> []) (stopped_providers (hst_id e) current all_providers))) (\<lambda>_.
         act_bind (st_delete_many la_providers put_providers
             (map fst (filter (\<lambda>(_, p). pr_hosts p = []) (stopped_providers (hst_id e) current all_providers)))) (\<lambda>_.
         ?delete)))))))
     (\<lambda>_. host_gone (hst_id e) s0) (recoverable (hst_id e) s0)"
  proof (cases "found = Some h")
    case True
    show ?thesis
      unfolding True option.case
      by (rule triple_weaken [OF component_pass [OF h(1)]])
        (auto intro!: triple_weaken [OF provs] simp: on_the_way_def)
  next
    case False
    with h(1) show ?thesis by (auto simp: triple_def on_the_way_def)
  qed
qed (auto intro: recoverableI [OF h(1)])

lemma host_stopped_total: "total (handle_host_stopped e)"
  unfolding handle_host_stopped_def Let_def by (intro total_rules)

lemma on_the_way_start: "lattice_ok s \<Longrightarrow> on_the_way h s s"
  by (simp add: on_the_way_def)

lemma host_stopped_missing:
  assumes "map_of (la_hosts s) (hst_id e) = None"
  shows "la_faults s = [] \<Longrightarrow> handle_host_stopped e s = (Some (), s)"
    and "host_gone (hst_id e) s (snd (handle_host_stopped e s))"
  using assms
  by (auto simp: handle_host_stopped_def act_bind_def act_ret_def st_get_def store_call_def host_gone_def
      split: list.splits fault.splits)

text \<open>Every run, faulty or not, ends recoverably; a successful one ends with the host gone.\<close>

lemma host_stopped_cases:
  assumes "lattice_ok s" and "handle_host_stopped e s = (r, s')"
  shows "recoverable (hst_id e) s s' \<and> (r \<noteq> None \<longrightarrow> host_gone (hst_id e) s s')"
proof (cases "map_of (la_hosts s) (hst_id e)")
  case None
  with host_stopped_missing(2) [OF None] assms(2) show ?thesis by (simp add: recoverable_def)
next
  case (Some h)
  then have "host_wf (hst_id e) h" using assms(1) by (rule lattice_okD(2) [rotated])
  note app = triple_app [OF host_stopped_run [OF Some this] on_the_way_start [OF assms(1)] assms(2)]
  from app show ?thesis by (cases r) (auto simp: recoverable_def)
qed

text \<open>A fault-free run from a recoverable state ends with the host gone.\<close>

lemma host_stopped_again:
  assumes "lattice_ok s0" and "recoverable (hst_id e) s0 s" and "la_faults s = []"
  shows "\<exists>s'. handle_host_stopped e s = (Some (), s') \<and> host_gone (hst_id e) s0 s'"
proof -
  obtain s' where run: "handle_host_stopped e s = (Some (), s')"
    using total_run [OF host_stopped_total assms(3)] by (metis old.unit.exhaust)
  show ?thesis
  proof (cases "\<exists>h. map_of (la_hosts s0) (hst_id e) = Some h \<and> on_the_way h s0 s")
    case True
    then obtain h where h: "map_of (la_hosts s0) (hst_id e) = Some h" "on_the_way h s0 s" by blast
    from h(1) have "host_wf (hst_id e) h" using assms(1) by (rule lattice_okD(2) [rotated])
    from host_stopped_run [OF h(1) this] h(2) run have "host_gone (hst_id e) s0 s'" by (rule triple_app(2)) simp
    with run show ?thesis by blast
  next
    case False
    then have gone: "host_gone (hst_id e) s0 s" using assms(2) by (auto simp: recoverable_def)
    then have "map_of (la_hosts s) (hst_id e) = None"
      by (auto simp: host_gone_def split: option.splits)
    from host_stopped_missing(1) [OF this assms(3)] gone show ?thesis by simp
  qed
qed

text \<open>
  C10. A stopped host is taken out completely. When the handler succeeds, the host has no entry any
  more and all other hosts are as before; every component of its inventory has lost its
  instances on the host, every provider of its inventory its status there, entries left empty are
  deleted, and nothing else has changed.
\<close>

theorem host_stopped_removes:
  assumes "lattice_ok s" and "map_of (la_hosts s) (hst_id e) = Some h"
    and "handle_host_stopped e s = (Some (), s')"
  shows "map_of (la_hosts s') = (map_of (la_hosts s))(hst_id e := None) \<and>
    (\<forall>k. map_of (la_components s') k =
       (case map_of (la_components s) k of
          None \<Rightarrow> None
        | Some c \<Rightarrow>
            if k \<notin> fst ` set (ho_components h) then Some c
            else (let left = AList.delete (hst_id e) (lc_instances c)
                  in if left = [] then None else Some (c\<lparr>lc_instances := left\<rparr>)))) \<and>
    (\<forall>k. map_of (la_providers s') k =
       (case map_of (la_providers s) k of
          None \<Rightarrow> None
        | Some p \<Rightarrow>
            if k \<notin> fst ` set (ho_providers h) \<or> hst_id e \<notin> fst ` set (pr_hosts p) then Some p
            else (let left = AList.delete (hst_id e) (pr_hosts p)
                  in if left = [] then None else Some (p\<lparr>pr_hosts := left\<rparr>))))"
proof -
  have "ho_id h = hst_id e" using lattice_okD(2) [OF assms(1,2)] by (simp add: host_wf_def)
  then show ?thesis
    using host_stopped_cases [OF assms(1,3)] assms(2)
    by (simp add: host_gone_def without_host_c_def without_host_p_def hm_contains_iff Let_def split: option.split)
qed

text \<open>
  C11. A host-stopped event that was interrupted can be redelivered. Whatever store calls fail during a
  first run, before or after their effect, a second run without failures succeeds and leads to
  the same hosts, components and providers as one undisturbed run.
\<close>

theorem host_stopped_retry:
  fixes s :: lattice and e :: host_stopped
  assumes "lattice_ok s"
  defines "first \<equiv> snd (handle_host_stopped e s)"
    and "once \<equiv> handle_host_stopped e (s\<lparr>la_faults := []\<rparr>)"
    and "again \<equiv> handle_host_stopped e ((snd (handle_host_stopped e s))\<lparr>la_faults := []\<rparr>)"
  shows "fst once = Some () \<and> fst again = Some () \<and>
    map_of (la_hosts (snd again)) = map_of (la_hosts (snd once)) \<and>
    map_of (la_components (snd again)) = map_of (la_components (snd once)) \<and>
    map_of (la_providers (snd again)) = map_of (la_providers (snd once))"
proof -
  have "recoverable (hst_id e) s first"
    using host_stopped_cases [OF assms(1)] unfolding first_def by (metis prod.collapse)
  then have "recoverable (hst_id e) s (first\<lparr>la_faults := []\<rparr>)" by (simp add: recoverable_def)
  from host_stopped_again [OF assms(1) this]
  obtain a where a: "again = (Some (), a)" "host_gone (hst_id e) s a"
    by (auto simp: again_def first_def)
  have "recoverable (hst_id e) s (s\<lparr>la_faults := []\<rparr>)"
    using on_the_way_start [OF assms(1)]
    by (cases "map_of (la_hosts s) (hst_id e)") (simp_all add: recoverable_def host_gone_def)
  from host_stopped_again [OF assms(1) this]
  obtain b where b: "once = (Some (), b)" "host_gone (hst_id e) s b" by (auto simp: once_def)
  from a b show ?thesis by (simp add: host_gone_def split: option.splits)
qed

section \<open>Witnesses\<close>

theorem host_stopped_removes_witness:
  "\<exists>s'. handle_host_stopped \<lparr>hst_labels = [], hst_id = ''h1''\<rparr> ex_lattice = (Some (), s') \<and>
     map_of (la_hosts s') ''h1'' = None \<and> map_of (la_components s') ''c'' = None"
proof -
  obtain s' where r: "handle_host_stopped \<lparr>hst_labels = [], hst_id = ''h1''\<rparr> ex_lattice = (Some (), s')"
    using total_run [OF host_stopped_total ex_lattice_faults] by (metis old.unit.exhaust)
  have "map_of (la_hosts ex_lattice) (hst_id \<lparr>hst_labels = [], hst_id = ''h1''\<rparr>) = Some (snd (hd (la_hosts ex_lattice)))"
    by (simp add: ex_lattice_def)
  from host_stopped_removes [OF ex_lattice_ok this r]
  have "map_of (la_hosts s') ''h1'' = None \<and> map_of (la_components s') ''c'' = None"
    by (simp add: ex_lattice_def)
  with r show ?thesis by blast
qed

theorem host_stopped_retry_witness:
  "fst (handle_host_stopped \<lparr>hst_labels = [], hst_id = ''h1''\<rparr>
     ((snd (handle_host_stopped \<lparr>hst_labels = [], hst_id = ''h1''\<rparr> (ex_lattice\<lparr>la_faults := [NoFault, FailAfter]\<rparr>)))\<lparr>la_faults := []\<rparr>)) = Some ()"
  using host_stopped_retry [of "ex_lattice\<lparr>la_faults := [NoFault, FailAfter]\<rparr>" "\<lparr>hst_labels = [], hst_id = ''h1''\<rparr>"]
  by (simp add: ex_lattice_ok)

end
