(* ===== verification/Reaper.thy ===== *)
theory Reaper
  imports Lattice_Store
begin

text \<open>
  The reaper (\<open>storage/reaper.rs\<close>): on every tick it removes hosts not seen for two intervals and then
  the component instances and provider entries whose host is gone. Errors are logged and the pass is
  left; \<open>act_catch\<close> is that. Times are integers, and \<open>now i\<close> is the clock as it is read for host \<open>i\<close>.
\<close>

definition act_catch :: "unit act \<Rightarrow> unit act" where
  "act_catch m s = (Some (), snd (m s))"

definition stale_host :: "int \<Rightarrow> (string \<Rightarrow> int) \<Rightarrow> string \<times> host \<Rightarrow> bool" where
  "stale_host interval now = (\<lambda>(i, h). now i - ho_last_seen h > interval * 2)"

definition reap_hosts :: "int \<Rightarrow> (string \<Rightarrow> int) \<Rightarrow> unit act" where
  "reap_hosts interval now = act_catch (
     act_bind (st_list la_hosts) (\<lambda>hs.
     st_delete_many la_hosts put_hosts (map fst (filter (stale_host interval now) hs))))"

definition live_on :: "(string, host) hmap \<Rightarrow> string \<Rightarrow> string \<Rightarrow> bool" where
  "live_on hs component_id host_id =
     (case map_of hs host_id of Some h \<Rightarrow> hm_contains (ho_components h) component_id | None \<Rightarrow> False)"

definition keep_instances :: "(string, host) hmap \<Rightarrow> lcomponent \<Rightarrow> lcomponent" where
  "keep_instances hs c =
     c\<lparr>lc_instances := hm_retain (\<lambda>host_id _. live_on hs (lc_id c) host_id) (lc_instances c)\<rparr>"

definition components_pass :: "(string, host) hmap \<Rightarrow> unit act" where
  "components_pass hs =
     act_bind (st_list la_components) (\<lambda>all.
     let kept = map (\<lambda>(i, c). (i, keep_instances hs c)) all in
     act_bind (st_store_many la_components put_components (filter (\<lambda>(_, c). lc_instances c \<noteq> []) kept)) (\<lambda>_.
     act_bind (st_delete_many la_components put_components (map fst (filter (\<lambda>(_, c). lc_instances c = []) kept))) (\<lambda>_.
     act_ret ())))"

definition reap_components :: "(string, host) hmap \<Rightarrow> unit act" where
  "reap_components hs = act_catch (components_pass hs)"

definition keep_hosts :: "(string, host) hmap \<Rightarrow> provider \<Rightarrow> provider" where
  "keep_hosts hs p = p\<lparr>pr_hosts := hm_retain (\<lambda>host_id _. hm_contains hs host_id) (pr_hosts p)\<rparr>"

definition providers_pass :: "(string, host) hmap \<Rightarrow> unit act" where
  "providers_pass hs =
     act_bind (st_list la_providers) (\<lambda>all.
     let changed = List.map_filter (\<lambda>(i, p).
           if length (pr_hosts p) \<noteq> length (pr_hosts (keep_hosts hs p)) then Some (i, keep_hosts hs p) else None) all in
     act_bind (st_store_many la_providers put_providers (filter (\<lambda>(_, p). pr_hosts p \<noteq> []) changed)) (\<lambda>_.
     act_bind (st_delete_many la_providers put_providers (map fst (filter (\<lambda>(_, p). pr_hosts p = []) changed))) (\<lambda>_.
     act_ret ())))"

definition reap_providers :: "(string, host) hmap \<Rightarrow> unit act" where
  "reap_providers hs = act_catch (providers_pass hs)"

text \<open>One turn of the loop in \<open>reap\<close>; a failing list of hosts ends the turn.\<close>

definition reap_tick :: "int \<Rightarrow> (string \<Rightarrow> int) \<Rightarrow> unit act" where
  "reap_tick interval now =
     act_bind (reap_hosts interval now) (\<lambda>_. act_catch (
     act_bind (st_list la_hosts) (\<lambda>hs.
     act_bind (reap_components hs) (\<lambda>_. reap_providers hs))))"

section \<open>What a pass should leave\<close>

definition live_c :: "(string, host) hmap \<Rightarrow> (string, lcomponent) hmap \<Rightarrow> string \<Rightarrow> lcomponent option" where
  "live_c hs m k = (case map_of m k of None \<Rightarrow> None
     | Some c \<Rightarrow> if lc_instances (keep_instances hs c) = [] then None else Some (keep_instances hs c))"

definition live_p :: "(string, host) hmap \<Rightarrow> (string, provider) hmap \<Rightarrow> string \<Rightarrow> provider option" where
  "live_p hs m k = (case map_of m k of None \<Rightarrow> None
     | Some p \<Rightarrow> if pr_hosts (keep_hosts hs p) = [] then None else Some (keep_hosts hs p))"

lemma retain_idem [simp]: "hm_retain P (hm_retain P m) = hm_retain P m"
  by (simp add: hm_retain_def)

lemma keep_instances_idem [simp]: "keep_instances hs (keep_instances hs c) = keep_instances hs c"
  by (simp add: keep_instances_def)

lemma keep_hosts_idem [simp]: "keep_hosts hs (keep_hosts hs p) = keep_hosts hs p"
  by (simp add: keep_hosts_def)

lemma live_c_absorb:
  assumes "\<And>k. map_of m' k = map_of m k \<or> map_of m' k = live_c hs m k"
  shows "live_c hs m' = live_c hs m"
proof
  fix k
  show "live_c hs m' k = live_c hs m k"
    using assms [of k] by (auto simp: live_c_def split: option.splits if_splits)
qed

lemma live_p_absorb:
  assumes "\<And>k. map_of m' k = map_of m k \<or> map_of m' k = live_p hs m k"
  shows "live_p hs m' = live_p hs m"
proof
  fix k
  show "live_p hs m' k = live_p hs m k"
    using assms [of k] by (auto simp: live_p_def split: option.splits if_splits)
qed

lemma filter_same_length: "length (filter P xs) = length xs \<longleftrightarrow> filter P xs = xs"
  by (metis filter_id_conv length_filter_less less_irrefl)

lemma keep_hosts_eq: "keep_hosts hs p = p \<longleftrightarrow> pr_hosts (keep_hosts hs p) = pr_hosts p"
  by (cases p) (simp add: keep_hosts_def)

lemma keep_hosts_same: "length (pr_hosts p) = length (pr_hosts (keep_hosts hs p)) \<longleftrightarrow> keep_hosts hs p = p"
  unfolding keep_hosts_eq
  using filter_same_length [of "\<lambda>(k, v). hm_contains hs k" "pr_hosts p"]
  by (auto simp: keep_hosts_def hm_retain_def)

text \<open>The stored and the deleted entries of the two passes, as map updates.\<close>

lemma kept_components_filter:
  "filter (\<lambda>(_, c). Q c) (map (\<lambda>(i, c). (i, keep_instances hs c)) all) =
   List.map_filter (\<lambda>(i, c). map_option (Pair i) (if Q (keep_instances hs c) then Some (keep_instances hs c) else None)) all"
  by (induction all) (auto simp: map_filter_simps)

lemma changed_providers_filter:
  "filter (\<lambda>(_, p). Q p) (List.map_filter (\<lambda>(i, p).
      if length (pr_hosts p) \<noteq> length (pr_hosts (keep_hosts hs p)) then Some (i, keep_hosts hs p) else None) all) =
   List.map_filter (\<lambda>(i, p). map_option (Pair i)
      (if keep_hosts hs p \<noteq> p \<and> Q (keep_hosts hs p) then Some (keep_hosts hs p) else None)) all"
  by (induction all) (auto simp: map_filter_simps keep_hosts_same)

lemma keep_instances_ok: "component_wf k c \<Longrightarrow> lc_instances (keep_instances hs c) \<noteq> [] \<Longrightarrow> component_wf k (keep_instances hs c)"
  by (auto simp: component_wf_def keep_instances_def set_retain)

lemma keep_hosts_ok: "provider_wf k p \<Longrightarrow> pr_hosts (keep_hosts hs p) \<noteq> [] \<Longrightarrow> provider_wf k (keep_hosts hs p)"
  by (simp add: provider_wf_def keep_hosts_def)

lemma entry_wf: "entries_ok W m \<Longrightarrow> (k, x) \<in> set m \<Longrightarrow> W k x"
  by (auto simp: entries_ok_def hm_wf_def)

section \<open>The passes\<close>

text \<open>A caught action ends in one of its two outcomes.\<close>

lemma triple_catch:
  assumes "triple P m (\<lambda>_. R) R"
  shows "triple P (act_catch m) (\<lambda>_. R) E"
  unfolding triple_def act_catch_def
proof (intro allI impI)
  fix s
  assume "P s"
  with assms show "case (Some (), snd (m s)) of (None, s') \<Rightarrow> E s' | (Some x, s') \<Rightarrow> R s'"
    by (cases "m s") (auto simp: triple_def split: option.splits)
qed

lemma total_catch: "total m \<Longrightarrow> total (act_catch m)"
  unfolding total_def act_catch_def by (metis snd_conv)

text \<open>
  What the passes keep: the lattice is well formed, the hosts are as given, and the components and
  providers have the same live part as in the state \<open>s0\<close>.
\<close>

definition reap_inv :: "(string, host) hmap \<Rightarrow> lattice \<Rightarrow> lattice \<Rightarrow> bool" where
  "reap_inv hs s0 s \<longleftrightarrow> lattice_ok s \<and> la_hosts s = la_hosts s0 \<and>
     live_c hs (la_components s) = live_c hs (la_components s0) \<and>
     live_p hs (la_providers s) = live_p hs (la_providers s0)"

lemma reap_inv_faults [simp]: "reap_inv hs s0 (s\<lparr>la_faults := fs\<rparr>) = reap_inv hs s0 s"
  by (simp add: reap_inv_def)

lemma reap_inv_components:
  assumes "reap_inv hs s0 s" and "entries_ok component_wf m"
    and "\<And>k. map_of m k = map_of (la_components s) k \<or> map_of m k = live_c hs (la_components s) k"
  shows "reap_inv hs s0 (put_components m s)"
  using assms live_c_absorb [of m "la_components s" hs] comps.put_ok [of s m]
  by (simp add: reap_inv_def put_components_def)

lemma reap_inv_providers:
  assumes "reap_inv hs s0 s" and "entries_ok provider_wf m"
    and "\<And>k. map_of m k = map_of (la_providers s) k \<or> map_of m k = live_p hs (la_providers s) k"
  shows "reap_inv hs s0 (put_providers m s)"
  using assms live_p_absorb [of m "la_providers s" hs] provs.put_ok [of s m]
  by (simp add: reap_inv_def put_providers_def)

lemma components_pass_run:
  "triple (reap_inv hs s0) (components_pass hs)
   (\<lambda>_ s. reap_inv hs s0 s \<and> map_of (la_components s) = live_c hs (la_components s)) (reap_inv hs s0)"
  unfolding components_pass_def Let_def
proof (rule comps.two_pass [where sp = "live_c hs"], goal_cases)
  case (1 all)
  then show ?case by (auto intro: keep_instances_ok dest: entry_wf)
next
  case (2 all k)
  then have w: "hm_wf all" by (simp add: entries_ok_def)
  show ?case
    unfolding kept_components_filter map_of_extend [OF hm_wf_map_filter [OF w, unfolded hm_wf_def]]
      map_of_map_filter [OF w]
    by (auto simp: live_c_def split: option.split)
next
  case (3 all k)
  then have w: "hm_wf all" by (simp add: entries_ok_def)
  have "k \<in> set (map fst m) \<longleftrightarrow> map_of m k \<noteq> None" for m :: "(string, lcomponent) hmap"
    by (simp add: map_of_eq_None_iff)
  then show ?case
    unfolding kept_components_filter
    by (auto simp: map_of_map_filter [OF w] live_c_def split: option.split)
next
  case (4 all k)
  then show ?case by (simp add: live_c_def)
next
  case (5 m m')
  then show ?case by (rule live_c_absorb)
next
  case (8 s m)
  then show ?case by (rule reap_inv_components)
next
  case 10
  show ?case by (rule triple_ret) simp
qed (simp_all add: reap_inv_def)

lemma providers_pass_run:
  assumes P: "\<And>s fs. P s \<Longrightarrow> P (s\<lparr>la_faults := fs\<rparr>)" "\<And>s m. P s \<Longrightarrow> P (put_providers m s)"
  shows "triple (\<lambda>s. reap_inv hs s0 s \<and> P s) (providers_pass hs)
   (\<lambda>_ s. (reap_inv hs s0 s \<and> P s) \<and> map_of (la_providers s) = live_p hs (la_providers s)) (\<lambda>s. reap_inv hs s0 s \<and> P s)"
  unfolding providers_pass_def Let_def
proof (rule provs.two_pass [where sp = "live_p hs"], goal_cases)
  case (1 all)
  then have "provider_wf i p" if "(i, p) \<in> set all" for i p using that by (rule entry_wf)
  then show ?case by (auto simp: List.map_filter_def intro!: keep_hosts_ok split: if_splits)
next
  case (2 all k)
  then have w: "hm_wf all" and ne: "\<And>p. map_of all k = Some p \<Longrightarrow> pr_hosts p \<noteq> []"
    by (auto simp: entries_ok_def provider_wf_def)
  show ?case
    unfolding changed_providers_filter map_of_extend [OF hm_wf_map_filter [OF w, unfolded hm_wf_def]]
      map_of_map_filter [OF w]
    using ne by (auto simp: live_p_def split: option.split)
next
  case (3 all k)
  then have w: "hm_wf all" and ne: "\<And>p. map_of all k = Some p \<Longrightarrow> pr_hosts p \<noteq> []"
    by (auto simp: entries_ok_def provider_wf_def)
  have "k \<in> set (map fst m) \<longleftrightarrow> map_of m k \<noteq> None" for m :: "(string, provider) hmap"
    by (simp add: map_of_eq_None_iff)
  then show ?case
    unfolding changed_providers_filter
    using ne by (auto simp: map_of_map_filter [OF w] live_p_def split: option.split)
next
  case (4 all k)
  then show ?case by (simp add: live_p_def)
next
  case (5 m m')
  then show ?case by (rule live_p_absorb)
next
  case (8 s m)
  then show ?case using P(2) reap_inv_providers [of hs s0 s m] by blast
next
  case 10
  show ?case by (rule triple_ret) simp
qed (use P(1) in \<open>simp_all add: reap_inv_def\<close>)

section \<open>A turn of the reaper\<close>

definition fresh_hosts :: "int \<Rightarrow> (string \<Rightarrow> int) \<Rightarrow> (string, host) hmap \<Rightarrow> (string, host) hmap" where
  "fresh_hosts interval now hs = fold AList.delete (map fst (filter (stale_host interval now) hs)) hs"

lemma fresh_hosts_lookup:
  assumes "hm_wf hs"
  shows "map_of (fresh_hosts interval now hs) i =
     (case map_of hs i of None \<Rightarrow> None
      | Some h \<Rightarrow> if now i - ho_last_seen h > interval * 2 then None else Some h)"
proof -
  have "i \<in> set (map fst (filter (stale_host interval now) hs)) \<longleftrightarrow>
      (\<exists>h. map_of hs i = Some h \<and> now i - ho_last_seen h > interval * 2)"
    using assms by (force simp: stale_host_def hm_wf_def)
  then show ?thesis
    unfolding fresh_hosts_def hm.lookup_fold_remove [OF assms] by (auto split: option.split)
qed

text \<open>After the hosts, whatever failed: nothing else has changed, and the hosts are all or the fresh ones.\<close>

definition hosts_reaped :: "int \<Rightarrow> (string \<Rightarrow> int) \<Rightarrow> lattice \<Rightarrow> lattice \<Rightarrow> bool" where
  "hosts_reaped interval now s0 s \<longleftrightarrow>
     la_components s = la_components s0 \<and> la_providers s = la_providers s0 \<and>
     (la_hosts s = la_hosts s0 \<or> la_hosts s = fresh_hosts interval now (la_hosts s0))"

lemma hosts_pass:
  "triple (\<lambda>s. la_components s = la_components s0 \<and> la_providers s = la_providers s0 \<and> la_hosts s = la_hosts s0)
     (reap_hosts interval now) (\<lambda>_. hosts_reaped interval now s0) E"
  unfolding reap_hosts_def
proof (rule triple_catch, rule hosts.triple_read_list)
  fix hs
  show "triple (\<lambda>s. (la_components s = la_components s0 \<and> la_providers s = la_providers s0 \<and>
        la_hosts s = la_hosts s0) \<and> hs = la_hosts s)
     (st_delete_many la_hosts put_hosts (map fst (filter (stale_host interval now) hs)))
     (\<lambda>_. hosts_reaped interval now s0) (hosts_reaped interval now s0)"
    by (rule hosts.triple_erase) (auto simp: hosts_reaped_def fresh_hosts_def put_hosts_def)
qed (auto simp: hosts_reaped_def)

lemma fresh_hosts_ok: "lattice_ok s \<Longrightarrow> entries_ok host_wf (fresh_hosts interval now (la_hosts s))"
  unfolding fresh_hosts_def by (intro entries_ok_delete) (simp add: lattice_ok_def)

lemma hosts_reaped_inv:
  assumes "lattice_ok s0" and "hosts_reaped interval now s0 s"
  shows "reap_inv (la_hosts s) (put_hosts (la_hosts s) s0) s"
  using assms fresh_hosts_ok [OF assms(1), of interval now]
  by (auto simp: hosts_reaped_def reap_inv_def put_hosts_def lattice_ok_def)

lemma reap_components_inv: "triple (reap_inv hs s0) (reap_components hs) (\<lambda>_. reap_inv hs s0) E"
  unfolding reap_components_def
  by (rule triple_catch, rule triple_weaken [OF components_pass_run]) auto

lemma reap_providers_inv: "triple (reap_inv hs s0) (reap_providers hs) (\<lambda>_. reap_inv hs s0) E"
  unfolding reap_providers_def
  by (rule triple_catch, rule triple_weaken [OF providers_pass_run [where P = "\<lambda>_. True"]]) auto

text \<open>What every turn, faulty or not, guarantees.\<close>

definition reaped :: "int \<Rightarrow> (string \<Rightarrow> int) \<Rightarrow> lattice \<Rightarrow> lattice \<Rightarrow> bool" where
  "reaped interval now s0 s \<longleftrightarrow>
     (\<exists>hs. (hs = la_hosts s0 \<or> hs = fresh_hosts interval now (la_hosts s0)) \<and> reap_inv hs (put_hosts hs s0) s)"

lemma hosts_reaped_reaped: "lattice_ok s0 \<Longrightarrow> hosts_reaped interval now s0 s \<Longrightarrow> reaped interval now s0 s"
  unfolding reaped_def using hosts_reaped_inv [of s0 interval now s] by (auto simp: hosts_reaped_def)

lemma tick_run:
  assumes "lattice_ok s0"
  shows "triple (\<lambda>s. la_components s = la_components s0 \<and> la_providers s = la_providers s0 \<and> la_hosts s = la_hosts s0)
     (reap_tick interval now) (\<lambda>_. reaped interval now s0) (reaped interval now s0)"
  unfolding reap_tick_def
proof (rule triple_bind [OF hosts_pass], rule triple_catch, rule hosts.triple_read_list)
  fix hs
  let ?P = "\<lambda>s. hosts_reaped interval now s0 s \<and> hs = la_hosts s"
  show "triple ?P (act_bind (reap_components hs) (\<lambda>_. reap_providers hs)) (\<lambda>_. reaped interval now s0) (reaped interval now s0)"
  proof (cases "hs = la_hosts s0 \<or> hs = fresh_hosts interval now (la_hosts s0)")
    case True
    have "triple (reap_inv hs (put_hosts hs s0)) (act_bind (reap_components hs) (\<lambda>_. reap_providers hs))
        (\<lambda>_. reap_inv hs (put_hosts hs s0)) (reaped interval now s0)"
      by (rule triple_bind [OF reap_components_inv reap_providers_inv])
    then show ?thesis
      by (rule triple_weaken) (use True hosts_reaped_inv [OF assms] in \<open>auto simp: reaped_def\<close>)
  qed (auto simp: triple_def hosts_reaped_def)
qed (auto intro: hosts_reaped_reaped [OF assms] simp: hosts_reaped_def)

lemma live_c_keeps:
  assumes ok: "lattice_ok s0" "lattice_ok s"
    and same: "live_c hs (la_components s) = live_c hs (la_components s0)"
    and c: "map_of (la_components s0) k = Some c" "map_of (lc_instances c) h = Some inst"
    and live: "live_on hs k h"
  shows "\<exists>c'. map_of (la_components s) k = Some c' \<and> map_of (lc_instances c') h = Some inst"
proof -
  have w: "component_wf k c" using lattice_okD(1) [OF ok(1) c(1)] .
  then have "map_of (lc_instances (keep_instances hs c)) h = Some inst"
    using c(2) live by (simp add: keep_instances_def component_wf_def map_of_retain)
  moreover from this have "live_c hs (la_components s0) k = Some (keep_instances hs c)"
    using c(1) by (auto simp: live_c_def)
  ultimately have "live_c hs (la_components s) k = Some (keep_instances hs c)"
      "map_of (lc_instances (keep_instances hs c)) h = Some inst"
    using same by simp_all
  then obtain c' where c': "map_of (la_components s) k = Some c'" "keep_instances hs c' = keep_instances hs c"
      "map_of (lc_instances (keep_instances hs c')) h = Some inst"
    by (auto simp: live_c_def split: option.splits if_splits)
  have "hm_wf (lc_instances c')" using lattice_okD(1) [OF ok(2) c'(1)] by (simp add: component_wf_def)
  with c'(3) have "map_of (lc_instances c') h = Some inst"
    by (auto simp: keep_instances_def map_of_retain split: option.splits if_splits)
  with c'(1) show ?thesis by blast
qed

lemma live_p_keeps:
  assumes ok: "lattice_ok s0" "lattice_ok s"
    and same: "live_p hs (la_providers s) = live_p hs (la_providers s0)"
    and p: "map_of (la_providers s0) k = Some p" "map_of (pr_hosts p) h = Some st"
    and live: "hm_contains hs h"
  shows "\<exists>p'. map_of (la_providers s) k = Some p' \<and> map_of (pr_hosts p') h = Some st"
proof -
  have w: "provider_wf k p" using lattice_okD(3) [OF ok(1) p(1)] .
  then have "map_of (pr_hosts (keep_hosts hs p)) h = Some st"
    using p(2) live by (simp add: keep_hosts_def provider_wf_def map_of_retain)
  moreover from this have "live_p hs (la_providers s0) k = Some (keep_hosts hs p)"
    using p(1) by (auto simp: live_p_def)
  ultimately have "live_p hs (la_providers s) k = Some (keep_hosts hs p)"
      "map_of (pr_hosts (keep_hosts hs p)) h = Some st"
    using same by simp_all
  then obtain p' where p': "map_of (la_providers s) k = Some p'" "map_of (pr_hosts (keep_hosts hs p')) h = Some st"
    by (auto simp: live_p_def split: option.splits if_splits)
  have "hm_wf (pr_hosts p')" using lattice_okD(3) [OF ok(2) p'(1)] by (simp add: provider_wf_def)
  with p'(2) have "map_of (pr_hosts p') h = Some st"
    by (auto simp: keep_hosts_def map_of_retain split: option.splits if_splits)
  with p'(1) show ?thesis by blast
qed

lemma live_c_only:
  assumes "lattice_ok s" and "map_of (la_components s) = live_c hs (la_components s)"
    and "map_of (la_components s) k = Some c" and "map_of (lc_instances c) i = Some inst"
  shows "\<exists>h. map_of hs i = Some h \<and> k \<in> fst ` set (ho_components h)"
proof -
  have w: "component_wf k c" using lattice_okD(1) [OF assms(1,3)] .
  have "live_c hs (la_components s) k = Some c" using assms(2,3) by metis
  then have "c = keep_instances hs c" using assms(3) by (auto simp: live_c_def split: if_splits)
  then have "map_of (lc_instances (keep_instances hs c)) i = Some inst" using assms(4) by simp
  then have "live_on hs k i"
    using w by (auto simp: keep_instances_def component_wf_def map_of_retain split: option.splits if_splits)
  then show ?thesis by (auto simp: live_on_def hm_contains_iff split: option.splits)
qed

lemma live_p_only:
  assumes "lattice_ok s" and "map_of (la_providers s) = live_p hs (la_providers s)"
    and "map_of (la_providers s) k = Some p" and "map_of (pr_hosts p) i = Some st"
  shows "\<exists>h. map_of hs i = Some h"
proof -
  have w: "provider_wf k p" using lattice_okD(3) [OF assms(1,3)] .
  have "live_p hs (la_providers s) k = Some p" using assms(2,3) by metis
  then have "p = keep_hosts hs p" using assms(3) by (auto simp: live_p_def split: if_splits)
  then have "map_of (pr_hosts (keep_hosts hs p)) i = Some st" using assms(4) by simp
  then have "hm_contains hs i"
    using w by (auto simp: keep_hosts_def provider_wf_def map_of_retain split: option.splits if_splits)
  then show ?thesis by (auto simp: hm_contains_def split: option.splits)
qed

section \<open>Properties\<close>



text \<open>
  C13. The reaper is complete. When no store call fails, after a turn every host left was seen within the last
  two intervals, every component instance left is on such a host that lists the component,
  and every provider is left only with such hosts.
\<close>

theorem reaper_leaves_only_live:
  assumes "lattice_ok s" and "la_faults s = []"
  shows "\<exists>s'. reap_tick interval now s = (Some (), s') \<and>
    (\<forall>i h. map_of (la_hosts s') i = Some h \<longrightarrow> map_of (la_hosts s) i = Some h \<and> now i - ho_last_seen h \<le> interval * 2) \<and>
    (\<forall>k c i inst. map_of (la_components s') k = Some c \<and> map_of (lc_instances c) i = Some inst \<longrightarrow>
       (\<exists>h. map_of (la_hosts s') i = Some h \<and> k \<in> fst ` set (ho_components h))) \<and>
    (\<forall>k p i st. map_of (la_providers s') k = Some p \<and> map_of (pr_hosts p) i = Some st \<longrightarrow>
       (\<exists>h. map_of (la_hosts s') i = Some h))"
proof -
  define hs where "hs = fresh_hosts interval now (la_hosts s)"
  have tc: "total (components_pass hs)" and tp: "total (providers_pass hs)"
    unfolding components_pass_def providers_pass_def Let_def by (intro total_rules)+
  let ?s1 = "put_hosts hs s"
  have ok1: "lattice_ok ?s1" using hosts.put_ok [OF assms(1) fresh_hosts_ok [OF assms(1)]] by (simp add: hs_def)
  have tick: "reap_tick interval now s = act_catch (act_bind (reap_components hs) (\<lambda>_. reap_providers hs)) ?s1"
    using assms(2)
    by (simp add: reap_tick_def reap_hosts_def act_bind_def act_catch_def store_oks hosts.faults_put hosts.view_put
        hs_def fresh_hosts_def)
  obtain s2 where c: "components_pass hs ?s1 = (Some (), s2)" and f2: "la_faults s2 = []"
    by (rule total_run [OF tc, of ?s1]) (auto simp: assms(2) hosts.faults_put)
  have start: "reap_inv hs ?s1 ?s1" using ok1 by (simp add: reap_inv_def)
  note i2 = triple_app(2) [OF components_pass_run start c refl]
  let ?P = "\<lambda>s. map_of (la_components s) = live_c hs (la_components s)"
  obtain s3 where p: "providers_pass hs s2 = (Some (), s3)"
    by (rule total_run [OF tp f2]) auto
  have i3: "(reap_inv hs ?s1 s3 \<and> ?P s3) \<and> map_of (la_providers s3) = live_p hs (la_providers s3)"
    by (rule triple_app(2) [OF providers_pass_run [where P = ?P] _ p refl])
      (use i2 in \<open>auto simp: put_providers_def\<close>)
  have run: "reap_tick interval now s = (Some (), s3)"
    by (simp add: tick act_catch_def act_bind_def reap_components_def reap_providers_def c p)
  have left: "lattice_ok s3" "la_hosts s3 = hs" "map_of (la_components s3) = live_c hs (la_components s3)"
      "map_of (la_providers s3) = live_p hs (la_providers s3)"
    using i3 by (simp_all add: reap_inv_def hosts.view_put)
  have "hm_wf (la_hosts s)" using assms(1) by (simp add: lattice_ok_def entries_ok_def)
  then have "map_of (la_hosts s) i = Some h \<and> now i - ho_last_seen h \<le> interval * 2"
    if "map_of (la_hosts s3) i = Some h" for i h
    using that by (auto simp: left(2) hs_def fresh_hosts_lookup split: option.splits if_splits)
  with live_c_only [OF left(1,3)] live_p_only [OF left(1,4)] show ?thesis
    by (intro exI [of _ s3] conjI run; unfold left(2); blast)
qed

lemma reaper_leaves_only_live_witness:
  "\<exists>s'. reap_tick 30 (\<lambda>_. 100) ex_lattice = (Some (), s') \<and>
    (\<forall>i h. map_of (la_hosts s') i = Some h \<longrightarrow> map_of (la_hosts ex_lattice) i = Some h \<and> 100 - ho_last_seen h \<le> 60)"
  using reaper_leaves_only_live [OF ex_lattice_ok ex_lattice_faults, where interval = 30 and now = "\<lambda>_. 100"] by auto

end
