(* ===== verification/Stored_Manifest.thy ===== *)
theory Stored_Manifest
  imports Oam_Types
begin

text \<open>
  The stored manifest with its version history (\<open>crates/wadm/src/model/mod.rs\<close>): an index map from
  version to manifest in insertion order, and the deployed version. \<open>shift_remove\<close> keeps the order, as
  \<open>AList.delete\<close> does, and \<open>AList.update\<close> of a new key appends, as \<open>IndexMap::insert\<close> does. A fresh
  ULID is an argument of \<open>add_version\<close>.
\<close>

record stored_manifest =
  sm_manifests :: "(string, manifest) hmap"
  sm_deployed :: "string option"

definition sm_default :: stored_manifest where
  "sm_default = \<lparr>sm_manifests = [], sm_deployed = None\<rparr>"

definition current_version :: "stored_manifest \<Rightarrow> string" where
  "current_version s = (case sm_manifests s of [] \<Rightarrow> [] | _ \<Rightarrow> fst (last (sm_manifests s)))"

definition add_version :: "string \<Rightarrow> manifest \<Rightarrow> stored_manifest \<Rightarrow> stored_manifest \<times> bool" where
  "add_version ulid m s =
     (let (version, m') =
        (case map_of (md_annotations (mf_metadata m)) VERSION_ANNOTATION_KEY of
           Some v \<Rightarrow> (v, m)
         | None \<Rightarrow> (ulid, m\<lparr>mf_metadata := (mf_metadata m)
             \<lparr>md_annotations := bt_insert VERSION_ANNOTATION_KEY ulid (md_annotations (mf_metadata m))\<rparr>\<rparr>))
      in if hm_contains (sm_manifests s) version then (s, False)
         else (s\<lparr>sm_manifests := hm_insert version m' (sm_manifests s)\<rparr>, True))"

definition delete_version :: "string \<Rightarrow> stored_manifest \<Rightarrow> stored_manifest \<times> bool" where
  "delete_version version s =
     (s\<lparr>sm_manifests := hm_remove version (sm_manifests s)\<rparr>, hm_contains (sm_manifests s) version)"

definition all_versions :: "stored_manifest \<Rightarrow> string list" where
  "all_versions s = map fst (sm_manifests s)"

definition is_deployed :: "string \<Rightarrow> stored_manifest \<Rightarrow> bool" where
  "is_deployed version s = (case sm_deployed s of None \<Rightarrow> False | Some v \<Rightarrow> v = version)"

definition sm_undeploy :: "stored_manifest \<Rightarrow> stored_manifest \<times> bool" where
  "sm_undeploy s = (s\<lparr>sm_deployed := None\<rparr>, sm_deployed s \<noteq> None)"

definition sm_deploy :: "string option \<Rightarrow> stored_manifest \<Rightarrow> stored_manifest \<times> bool" where
  "sm_deploy version s =
     (case version of
        Some v \<Rightarrow>
          if v = LATEST_VERSION then (s\<lparr>sm_deployed := Some (current_version s)\<rparr>, True)
          else if hm_contains (sm_manifests s) v then (s\<lparr>sm_deployed := Some v\<rparr>, True)
          else (s, False)
      | None \<Rightarrow> (s\<lparr>sm_deployed := Some (current_version s)\<rparr>, True))"

text \<open>\<open>expect\<close> on an empty history is a panic.\<close>

definition get_current :: "stored_manifest \<Rightarrow> manifest outcome" where
  "get_current s = (case sm_manifests s of [] \<Rightarrow> Panic | _ \<Rightarrow> Ret (snd (last (sm_manifests s))))"

definition sm_name :: "stored_manifest \<Rightarrow> string outcome" where
  "sm_name s = obind (get_current s) (\<lambda>m. Ret (md_name (mf_metadata m)))"

definition get_version :: "stored_manifest \<Rightarrow> string \<Rightarrow> manifest option" where
  "get_version s version = map_of (sm_manifests s) version"

definition get_deployed :: "stored_manifest \<Rightarrow> manifest option" where
  "get_deployed s = (case sm_deployed s of None \<Rightarrow> None | Some v \<Rightarrow> map_of (sm_manifests s) v)"

definition sm_is_empty :: "stored_manifest \<Rightarrow> bool" where
  "sm_is_empty s = (sm_manifests s = [])"

definition sm_count :: "stored_manifest \<Rightarrow> nat" where
  "sm_count s = length (sm_manifests s)"

section \<open>The invariant\<close>

text \<open>Versions are distinct, each manifest carries the version it is stored under, and a deployed version exists.\<close>

definition sm_ok :: "stored_manifest \<Rightarrow> bool" where
  "sm_ok s =
     (hm_wf (sm_manifests s) \<and>
      (\<forall>(v, m) \<in> set (sm_manifests s). manifest_version m = v) \<and>
      (case sm_deployed s of None \<Rightarrow> True | Some v \<Rightarrow> v \<in> set (all_versions s)))"

lemma sm_ok_default [wf_intros]: "sm_ok sm_default"
  by (simp add: sm_ok_def sm_default_def)

lemma update_fresh: "\<not> hm_contains m k \<Longrightarrow> AList.update k v m = m @ [(k, v)]"
  by (induction m) (auto simp: hm_contains_def split: if_splits)

lemma contains_versions: "hm_contains (sm_manifests s) v \<longleftrightarrow> v \<in> set (all_versions s)"
  by (simp add: hm_contains_iff all_versions_def)

lemma add_version_cases:
  obtains (kept) "add_version ulid m s = (s, False)"
  | (added) v m' where "add_version ulid m s = (s\<lparr>sm_manifests := sm_manifests s @ [(v, m')]\<rparr>, True)"
      and "v \<notin> set (all_versions s)" and "manifest_version m' = v"
      and "md_name (mf_metadata m') = md_name (mf_metadata m)"
      and "mf_components m' = mf_components m"
      and "case map_of (md_annotations (mf_metadata m)) VERSION_ANNOTATION_KEY of
             None \<Rightarrow> v = ulid | Some w \<Rightarrow> v = w \<and> m' = m"
proof -
  define m2 where "m2 = m\<lparr>mf_metadata := (mf_metadata m)
     \<lparr>md_annotations := bt_insert VERSION_ANNOTATION_KEY ulid (md_annotations (mf_metadata m))\<rparr>\<rparr>"
  define v where "v = (case map_of (md_annotations (mf_metadata m)) VERSION_ANNOTATION_KEY of None \<Rightarrow> ulid | Some w \<Rightarrow> w)"
  define m' where "m' = (case map_of (md_annotations (mf_metadata m)) VERSION_ANNOTATION_KEY of None \<Rightarrow> m2 | Some w \<Rightarrow> m)"
  have eq: "add_version ulid m s = (if hm_contains (sm_manifests s) v then (s, False)
      else (s\<lparr>sm_manifests := hm_insert v m' (sm_manifests s)\<rparr>, True))"
    by (simp add: add_version_def v_def m'_def m2_def split: option.split)
  have "manifest_version m' = v" "md_name (mf_metadata m') = md_name (mf_metadata m)"
    "mf_components m' = mf_components m"
    "case map_of (md_annotations (mf_metadata m)) VERSION_ANNOTATION_KEY of None \<Rightarrow> v = ulid | Some w \<Rightarrow> v = w \<and> m' = m"
    by (simp_all add: m'_def v_def m2_def manifest_version_def split: option.split)
  note added [OF _ _ this]
  with kept eq show thesis
    by (cases "hm_contains (sm_manifests s) v") (simp_all add: update_fresh contains_versions)
qed

lemma sm_ok_add [wf_intros]: "sm_ok s \<Longrightarrow> sm_ok (fst (add_version ulid m s))"
  by (rule add_version_cases [of ulid m s])
    (auto simp: sm_ok_def hm_wf_def all_versions_def split: option.splits)

lemma sm_ok_undeploy [wf_intros]: "sm_ok s \<Longrightarrow> sm_ok (fst (sm_undeploy s))"
  by (simp add: sm_undeploy_def sm_ok_def)

lemma current_version_if: "current_version s = (if sm_manifests s = [] then [] else fst (last (sm_manifests s)))"
  by (simp add: current_version_def split: list.split)

lemma get_current_if: "get_current s = (if sm_manifests s = [] then Panic else Ret (snd (last (sm_manifests s))))"
  by (simp add: get_current_def split: list.split)

lemma current_version_in: "sm_manifests s \<noteq> [] \<Longrightarrow> current_version s \<in> set (all_versions s)"
  by (auto simp: current_version_def all_versions_def split: list.splits)

lemma sm_ok_deploy [wf_intros]: "sm_ok s \<Longrightarrow> sm_manifests s \<noteq> [] \<Longrightarrow> sm_ok (fst (sm_deploy v s))"
  using current_version_in [of s]
  by (auto simp: sm_deploy_def sm_ok_def contains_versions all_versions_def split: option.splits)

lemma versions_delete: "all_versions (fst (delete_version v s)) = filter (\<lambda>w. w \<noteq> v) (all_versions s)"
  by (simp add: delete_version_def all_versions_def delete_keys removeAll_filter_not_eq eq_commute)

lemma sm_ok_delete [wf_intros]:
  assumes "sm_ok s" and "\<not> is_deployed v s"
  shows "sm_ok (fst (delete_version v s))"
proof -
  have "set (AList.delete v (sm_manifests s)) \<subseteq> set (sm_manifests s)"
    by (auto simp: AList.delete_eq)
  with assms versions_delete [of v s] show ?thesis
    by (auto simp: sm_ok_def is_deployed_def delete_version_def split: option.splits)
qed

lemma get_deployed_ok:
  assumes "sm_ok s"
  shows "get_deployed s = None \<longleftrightarrow> sm_deployed s = None"
  using assms by (auto simp: get_deployed_def sm_ok_def all_versions_def map_of_eq_None_iff split: option.splits)

lemma map_of_last: "distinct (map fst m) \<Longrightarrow> m \<noteq> [] \<Longrightarrow> map_of m (fst (last m)) = Some (snd (last m))"
  by (intro map_of_is_SomeI) (auto simp: last_in_set)

section \<open>Properties\<close>

text \<open>
  C16. Adding a version either changes nothing and returns false, exactly when the version named by
  the manifest is already stored, or appends the manifest to the history under its version
  annotation (a fresh identifier when it has none): the added version becomes the current one,
  every earlier version keeps its manifest and its place, and the deployed version does not change.
\<close>

theorem add_version_appends:
  assumes "sm_ok s" and "add_version ulid m s = (s', added)"
  defines "v \<equiv> (case map_of (md_annotations (mf_metadata m)) VERSION_ANNOTATION_KEY of None \<Rightarrow> ulid | Some w \<Rightarrow> w)"
  shows "sm_ok s' \<and> (added \<longleftrightarrow> v \<notin> set (all_versions s)) \<and> (\<not> added \<longrightarrow> s' = s) \<and>
    (added \<longrightarrow> all_versions s' = all_versions s @ [v] \<and> current_version s' = v \<and>
       (\<exists>m'. get_current s' = Ret m' \<and> get_version s' v = Some m' \<and> manifest_version m' = v \<and>
             mf_components m' = mf_components m) \<and>
       (\<forall>w \<in> set (all_versions s). get_version s' w = get_version s w) \<and>
       sm_deployed s' = sm_deployed s)"
proof -
  have ok: "sm_ok s'" using sm_ok_add [OF assms(1), of ulid m] assms(2) by simp
  have dup: "v \<in> set (all_versions s) \<Longrightarrow> \<not> added"
    using assms(2) by (auto simp: v_def add_version_def contains_versions split: option.splits if_splits)
  have new: "v \<notin> set (all_versions s) \<Longrightarrow> added"
    using assms(2) by (auto simp: v_def add_version_def contains_versions split: option.splits if_splits)
  show ?thesis
  proof (rule add_version_cases [of ulid m s])
    assume "add_version ulid m s = (s, False)"
    with assms(2) ok dup new show ?thesis by auto
  next
    fix w m'
    assume a: "add_version ulid m s = (s\<lparr>sm_manifests := sm_manifests s @ [(w, m')]\<rparr>, True)"
      and w: "w \<notin> set (all_versions s)" "manifest_version m' = w" "mf_components m' = mf_components m"
      and c: "case map_of (md_annotations (mf_metadata m)) VERSION_ANNOTATION_KEY of
             None \<Rightarrow> w = ulid | Some u \<Rightarrow> w = u \<and> m' = m"
    from c have wv: "w = v" by (auto simp: v_def split: option.splits)
    have s': "s' = s\<lparr>sm_manifests := sm_manifests s @ [(w, m')]\<rparr>" "added"
      using a assms(2) by simp_all
    have none: "map_of (sm_manifests s) w = None"
      using w(1) by (simp add: map_of_eq_None_iff all_versions_def)
    have "get_version s' u = get_version s u" if "u \<in> set (all_versions s)" for u
      using that w(1) by (auto simp: s' get_version_def map_add_def all_versions_def split: option.splits)
    with none have "get_version s' w = Some m'" "current_version s' = w" "get_current s' = Ret m'"
      "\<forall>u \<in> set (all_versions s). get_version s' u = get_version s u"
      "all_versions s' = all_versions s @ [w]" "sm_deployed s' = sm_deployed s"
      by (simp_all add: s' get_version_def current_version_if get_current_if all_versions_def map_add_def)
    with s'(2) w wv ok show ?thesis by auto
  qed
qed

text \<open>
  C17. Deploying on a non-empty history succeeds exactly for no version, the version \<open>latest\<close> and a
  stored version. On success the deployed manifest is the requested one, the newest one for no version
  and for \<open>latest\<close>; on failure nothing changes. Undeploying then leaves nothing deployed and reports
  whether something was.
\<close>

theorem deploy_spec:
  assumes "sm_ok s" and "sm_manifests s \<noteq> []" and "sm_deploy v s = (s', ok)"
  shows "sm_ok s' \<and> all_versions s' = all_versions s \<and>
    (ok \<longleftrightarrow> v = None \<or> v = Some LATEST_VERSION \<or> (\<exists>w \<in> set (all_versions s). v = Some w)) \<and>
    (\<not> ok \<longrightarrow> s' = s) \<and>
    (ok \<longrightarrow> (\<exists>d. get_deployed s' = Some d \<and>
       (if v = None \<or> v = Some LATEST_VERSION then get_current s = Ret d else get_version s (the v) = Some d))) \<and>
    get_deployed (fst (sm_undeploy s')) = None \<and> snd (sm_undeploy s') = (sm_deployed s' \<noteq> None)"
proof -
  have inv: "sm_ok s'" using sm_ok_deploy [OF assms(1,2), of v] assms(3) by simp
  have "distinct (map fst (sm_manifests s))" using assms(1) by (simp add: sm_ok_def hm_wf_def)
  note last = map_of_last [OF this assms(2)]
  have cv: "current_version s = fst (last (sm_manifests s))"
    and gc: "get_current s = Ret (snd (last (sm_manifests s)))"
    using assms(2) by (auto simp: current_version_def get_current_def split: list.splits)
  have un: "get_deployed (fst (sm_undeploy s')) = None \<and> snd (sm_undeploy s') = (sm_deployed s' \<noteq> None)"
    by (simp add: sm_undeploy_def get_deployed_def)
  consider "v = None \<or> v = Some LATEST_VERSION" | w where "v = Some w" "w \<noteq> LATEST_VERSION" by (cases v) auto
  then show ?thesis
  proof cases
    case 1
    then have "s' = s\<lparr>sm_deployed := Some (current_version s)\<rparr> \<and> ok"
      using assms(3) by (auto simp: sm_deploy_def)
    then show ?thesis using inv un 1 last by (auto simp: get_deployed_def cv gc all_versions_def)
  next
    case (2 w)
    have mem: "w \<in> set (all_versions s) \<longleftrightarrow> map_of (sm_manifests s) w \<noteq> None"
      by (simp add: all_versions_def map_of_eq_None_iff)
    show ?thesis
    proof (cases "map_of (sm_manifests s) w")
      case None
      with 2 assms(3) have "s' = s \<and> \<not> ok" by (simp add: sm_deploy_def hm_contains_def)
      with inv un 2 mem None show ?thesis by simp
    next
      case (Some d)
      with 2 assms(3) have "s' = s\<lparr>sm_deployed := Some w\<rparr> \<and> ok" by (simp add: sm_deploy_def hm_contains_def)
      moreover from this have "get_deployed s' = Some d" by (simp add: get_deployed_def Some)
      ultimately show ?thesis
        using inv un 2 mem Some by (simp add: get_version_def) (simp add: all_versions_def)
    qed
  qed
qed

section \<open>Witnesses\<close>

definition ex_stored :: stored_manifest where
  "ex_stored = fst (add_version ''u1'' \<lparr>mf_api_version = ''core.oam.dev/v1beta1'', mf_kind = ''Application'',
     mf_metadata = \<lparr>md_name = ''shop'', md_annotations = [], md_labels = []\<rparr>,
     mf_components = [], mf_policies = []\<rparr> sm_default)"

lemma ex_stored_ok: "sm_ok ex_stored"
  unfolding ex_stored_def by (intro wf_intros)

theorem add_version_appends_witness:
  "\<exists>m. snd (add_version ''u1'' m ex_stored) = False \<and> snd (add_version ''u2'' m ex_stored) = True"
proof -
  define m where "m = \<lparr>mf_api_version = ''core.oam.dev/v1beta1'', mf_kind = ''Application'',
     mf_metadata = \<lparr>md_name = ''shop'', md_annotations = [], md_labels = []\<rparr>,
     mf_components = [], mf_policies = []\<rparr>"
  have v: "all_versions ex_stored = [''u1'']" by code_simp
  obtain s1 a1 s2 a2 where e: "add_version ''u1'' m ex_stored = (s1, a1)" "add_version ''u2'' m ex_stored = (s2, a2)"
    by (metis prod.exhaust)
  have n: "map_of (md_annotations (mf_metadata m)) VERSION_ANNOTATION_KEY = None"
    by (simp add: m_def)
  have "\<not> a1" using add_version_appends [OF ex_stored_ok e(1)] by (simp add: v n)
  moreover have "a2" using add_version_appends [OF ex_stored_ok e(2)] by (simp add: v n)
  ultimately show ?thesis using e by (intro exI [of _ m]) simp
qed

theorem deploy_spec_witness: "get_deployed (fst (sm_deploy None ex_stored)) \<noteq> None"
proof -
  have "sm_manifests ex_stored \<noteq> []" by code_simp
  from deploy_spec [OF ex_stored_ok this, of None "fst (sm_deploy None ex_stored)" True]
  show ?thesis by (auto simp: sm_deploy_def)
qed

end
