(* ===== verification/Validation.thy ===== *)
theory Validation
  imports Oam_Types
begin

text \<open>
  Manifest validation (\<open>crates/wadm-types/src/validation.rs\<close>). Every check is a function from the
  manifest to its list of failures, in the source's order; a failure carries its level and a
  constructor of \<open>failure_msg\<close> with the values the source formats into the message text. The result
  is compared with \<open>manifest_ok\<close>, a declarative statement of what an accepted manifest satisfies.
  The compiled name regular expression is code of the regex crate and is the parameter \<open>re\<close>.
\<close>

datatype failure_level = LWarning | LError

datatype failure_msg =
    BadManifestName string
  | LatestNotAllowed
  | InvalidLabel string string
  | InvalidAnnotation string string
  | DuplicateComponentName string
  | DuplicateComponentId string
  | MissingCapabilities "string list"
  | UnrecognizedInterface string string string
  | CustomLinkNoTarget
  | CustomLinkNoTargetName
  | CustomLinkUnknownTarget string
  | DanglingLink "string option" string
  | SecretPolicyWrongType string string
  | SecretPolicyNoBackend string string
  | SecretPolicyUnknown string string
  | LinkAsCustom json
  | ScalerAsCustom json
  | BothImageAndApplication
  | NeitherImageNorApplication
  | SharedWithConfig string
  | SharedWithSecrets string
  | SharedWithScaler string
  | DuplicateLink string string string string string
  | DuplicateLinkConfig string
  | DeprecatedSourceConfig
  | DeprecatedTargetConfig

record validation_failure =
  vf_level :: failure_level
  vf_msg :: failure_msg

definition verror :: "failure_msg \<Rightarrow> validation_failure" where
  "verror m = \<lparr>vf_level = LError, vf_msg = m\<rparr>"

definition vwarning :: "failure_msg \<Rightarrow> validation_failure" where
  "vwarning m = \<lparr>vf_level = LWarning, vf_msg = m\<rparr>"

definition verrors :: "validation_failure list \<Rightarrow> validation_failure list" where
  "verrors fs = filter (\<lambda>f. vf_level f = LError) fs"

definition vwarnings :: "validation_failure list \<Rightarrow> validation_failure list" where
  "vwarnings fs = filter (\<lambda>f. vf_level f = LWarning) fs"

definition valid :: "validation_failure list \<Rightarrow> bool" where
  "valid fs = (verrors fs = [])"

section \<open>Characters and labels\<close>

text \<open>Byte-wise readings of the character tests; exact, since a byte of a non-ASCII character is above 127.\<close>

definition is_ascii_alphabetic :: "char \<Rightarrow> bool" where
  "is_ascii_alphabetic c =
     ((CHR ''a'' \<le> c \<and> c \<le> CHR ''z'') \<or> (CHR ''A'' \<le> c \<and> c \<le> CHR ''Z''))"

definition is_ascii_alphanumeric :: "char \<Rightarrow> bool" where
  "is_ascii_alphanumeric c = (is_ascii_alphabetic c \<or> (CHR ''0'' \<le> c \<and> c \<le> CHR ''9''))"

definition first_sat :: "(char \<Rightarrow> bool) \<Rightarrow> string \<Rightarrow> bool" where
  "first_sat P s = (case s of [] \<Rightarrow> False | c # _ \<Rightarrow> P c)"

definition last_sat :: "(char \<Rightarrow> bool) \<Rightarrow> string \<Rightarrow> bool" where
  "last_sat P s = first_sat P (rev s)"

definition valid_dns_part :: "string \<Rightarrow> bool" where
  "valid_dns_part part =
     (part \<noteq> [] \<and> length part \<le> 63 \<and> first_sat is_ascii_alphabetic part \<and>
      last_sat is_ascii_alphanumeric part \<and>
      list_all (\<lambda>c. is_ascii_alphanumeric c \<or> c = CHR ''-'') part)"

definition is_valid_dns_subdomain :: "string \<Rightarrow> bool" where
  "is_valid_dns_subdomain s =
     (if s = [] \<or> length s > 253 then False else list_all valid_dns_part (split_on CHR ''.'' s))"

definition is_valid_label_name :: "string \<Rightarrow> bool" where
  "is_valid_label_name name =
     (if name = [] \<or> length name > 63 then False
      else first_sat is_ascii_alphanumeric name \<and> last_sat is_ascii_alphanumeric name \<and>
        list_all (\<lambda>c. is_ascii_alphanumeric c \<or> c = CHR ''-'' \<or> c = CHR ''_'' \<or> c = CHR ''.'') name)"

definition valid_oam_label :: "string \<times> string \<Rightarrow> bool" where
  "valid_oam_label label =
     (case split_once CHR ''/'' (fst label) of
        Some (prefix, name) \<Rightarrow> is_valid_dns_subdomain prefix \<and> is_valid_label_name name
      | None \<Rightarrow> is_valid_label_name (fst label))"

section \<open>Name and version\<close>

definition validate_manifest_name :: "(string \<Rightarrow> bool) \<Rightarrow> string \<Rightarrow> validation_failure list" where
  "validate_manifest_name re name = (if \<not> re name then [verror (BadManifestName name)] else [])"

definition validate_manifest_version :: "string \<Rightarrow> validation_failure list" where
  "validate_manifest_version version =
     (if version = LATEST_VERSION then [verror LatestNotAllowed] else [])"

section \<open>Known interfaces\<close>

definition known_interfaces :: "(string, (string, string list) hmap) hmap" where
  "known_interfaces =
     [(''wrpc'', [(''blobstore'', [''blobstore'']),
                  (''keyvalue'', [''atomics'', ''store'']),
                  (''http'', [''incoming-handler'', ''outgoing-handler''])]),
      (''wasi'', [(''blobstore'', [''blobstore'']),
                  (''config'', [''runtime'']),
                  (''keyvalue'', [''atomics'', ''store'', ''batch'', ''watch'']),
                  (''http'', [''incoming-handler'', ''outgoing-handler'']),
                  (''logging'', [''logging''])]),
      (''wasmcloud'', [(''messaging'', [''consumer'', ''handler''])])]"

definition is_invalid_known_interface :: "string \<Rightarrow> string \<Rightarrow> string \<Rightarrow> validation_failure list" where
  "is_invalid_known_interface ns pkg ifc =
     (case map_of known_interfaces ns of
        None \<Rightarrow> []
      | Some pkgs \<Rightarrow>
          (case map_of pkgs pkg of
             None \<Rightarrow> [vwarning (UnrecognizedInterface ns pkg ifc)]
           | Some ifaces \<Rightarrow>
               if ifc \<notin> set ifaces then [vwarning (UnrecognizedInterface ns pkg ifc)] else []))"

definition check_misnamed_interfaces :: "manifest \<Rightarrow> validation_failure list" where
  "check_misnamed_interfaces m =
     concat (map (\<lambda>t. case tr_properties t of
         TPLink l \<Rightarrow> concat (map (is_invalid_known_interface (lp_namespace l) (lp_package l)) (lp_interfaces l))
       | _ \<Rightarrow> []) (manifest_links m))"

section \<open>Core validation\<close>

fun link_target_name :: "trait_property \<Rightarrow> string list" where
  "link_target_name (TPLink l) = [tc_name (lp_target l)]"
| "link_target_name _ = []"

text \<open>The loop over the components: the registries of names and ids, the targets required so far.\<close>

fun core_components ::
    "string list \<Rightarrow> string list \<Rightarrow> string list \<Rightarrow> component list \<Rightarrow>
     string list \<times> string list \<times> validation_failure list" where
  "core_components names ids req [] = (names, req, [])"
| "core_components names ids req (c # cs) =
     (let dup_name = co_name c \<in> set names;
          f1 = (if dup_name then [verror (DuplicateComponentName (co_name c))] else []);
          (ids', f2) = (case cp_id (props_of (co_properties c)) of
             None \<Rightarrow> (ids, [])
           | Some i \<Rightarrow> (List.insert i ids,
               if i \<in> set ids then [verror (DuplicateComponentId i)] else []));
          targets = concat (map (link_target_name \<circ> tr_properties) (traits_of c));
          (names', req', fs) =
            core_components (List.insert (co_name c) names) ids' (fold List.insert targets req) cs
      in (names', req', f1 @ f2 @ fs))"

definition core_validation :: "manifest \<Rightarrow> validation_failure list" where
  "core_validation m =
     (let md = mf_metadata m;
          f_labels = concat (map (\<lambda>(k, v). if \<not> valid_oam_label (k, v)
              then [verror (InvalidLabel k v)] else []) (md_labels md));
          f_annot = concat (map (\<lambda>(k, v). if \<not> valid_oam_label (k, v)
              then [verror (InvalidAnnotation k v)] else []) (md_annotations md));
          (names, req, f_comp) = core_components [] [] [] (mf_components m);
          missing = filter (\<lambda>r. r \<notin> set names) req
      in f_labels @ f_annot @ f_comp @
         (if missing \<noteq> [] then [verror (MissingCapabilities missing)] else []))"

section \<open>Links, policies, traits, properties\<close>

text \<open>The match on the trait properties ends in \<open>unreachable!\<close>: a panic.\<close>

definition check_dangling_link :: "manifest \<Rightarrow> oam_trait \<Rightarrow> validation_failure list outcome" where
  "check_dangling_link m t =
     (case tr_properties t of
        TPCustom obj \<Rightarrow>
          if json_get obj ''target'' = None then Ret [verror CustomLinkNoTarget]
          else (case json_as_str (json_index (json_index obj ''target'') ''name'') of
                  Some target \<Rightarrow>
                    if \<not> hm_contains (component_lookup m) target
                    then Ret [vwarning (CustomLinkUnknownTarget target)] else Ret []
                | None \<Rightarrow> Ret [verror CustomLinkNoTargetName])
      | TPLink l \<Rightarrow>
          if \<not> hm_contains (component_lookup m) (tc_name (lp_target l))
          then Ret [vwarning (DanglingLink (lp_name l) (tc_name (lp_target l)))] else Ret []
      | TPSpreadScaler _ \<Rightarrow> Panic)"

definition check_dangling_links :: "manifest \<Rightarrow> validation_failure list outcome" where
  "check_dangling_links m =
     obind (omap_list (check_dangling_link m) (manifest_links m)) (\<lambda>fss. Ret (concat fss))"

definition SECRET_POLICY_TYPE :: string where
  "SECRET_POLICY_TYPE = ''policy.secret.wasmcloud.dev/v1alpha1''"

definition validate_secret_policy :: "(string, policy) hmap \<Rightarrow> secret_property \<Rightarrow> validation_failure list" where
  "validate_secret_policy policies s =
     (let p = ssp_policy (sp_properties s) in
      case map_of policies p of
        Some pol \<Rightarrow>
          if pol_type pol \<noteq> SECRET_POLICY_TYPE then [verror (SecretPolicyWrongType (sp_name s) p)]
          else if map_of (pol_properties pol) ''backend'' = None
          then [verror (SecretPolicyNoBackend (sp_name s) p)] else []
      | None \<Rightarrow> [verror (SecretPolicyUnknown (sp_name s) p)])"

definition validate_policies :: "manifest \<Rightarrow> validation_failure list" where
  "validate_policies m =
     concat (map (\<lambda>c. concat (map (validate_secret_policy (policy_lookup m)) (component_secrets c)))
       (mf_components m))"

definition check_custom_trait :: "oam_trait \<Rightarrow> validation_failure list" where
  "check_custom_trait t =
     (case tr_properties t of
        TPCustom j \<Rightarrow>
          if is_link t then [verror (LinkAsCustom j)]
          else if is_scaler t then [verror (ScalerAsCustom j)] else []
      | _ \<Rightarrow> [])"

definition ensure_no_custom_traits :: "manifest \<Rightarrow> validation_failure list" where
  "ensure_no_custom_traits m =
     concat (map (\<lambda>c. concat (map check_custom_trait (traits_of c))) (mf_components m))"

definition validate_one_component :: "component \<Rightarrow> validation_failure list" where
  "validate_one_component c =
     (let p = props_of (co_properties c) in
      case (cp_image p, cp_application p) of
        (Some _, Some _) \<Rightarrow> [verror BothImageAndApplication]
      | (None, None) \<Rightarrow> [verror NeitherImageNorApplication]
      | (None, Some app) \<Rightarrow>
          if cp_config p \<noteq> [] then [verror (SharedWithConfig (sa_name app))]
          else if cp_secrets p \<noteq> [] then [verror (SharedWithSecrets (sa_name app))]
          else if list_ex is_scaler (traits_of c) then [verror (SharedWithScaler (sa_name app))]
          else []
      | (Some _, None) \<Rightarrow> [])"

definition validate_component_properties :: "manifest \<Rightarrow> validation_failure list" where
  "validate_component_properties m = concat (map validate_one_component (mf_components m))"

text \<open>A registry scan: the elements met again, as \<open>HashSet::insert\<close> reports them.\<close>

fun dup_scan :: "'a list \<Rightarrow> 'a list \<Rightarrow> 'a list" where
  "dup_scan reg [] = []"
| "dup_scan reg (x # xs) = (if x \<in> set reg then x # dup_scan reg xs else dup_scan (x # reg) xs)"

definition link_config_names :: "link_property \<Rightarrow> string list" where
  "link_config_names l =
     map cfg_name (filter (\<lambda>c. cfg_properties c \<noteq> None) (tc_config (lp_target l))) @
     (case lp_source l of None \<Rightarrow> []
      | Some s \<Rightarrow> map cfg_name (filter (\<lambda>c. cfg_properties c \<noteq> None) (cd_config s)))"

definition managed_link_configs :: "manifest \<Rightarrow> string list" where
  "managed_link_configs m =
     concat (map (\<lambda>t. case tr_properties t of TPLink l \<Rightarrow> link_config_names l | _ \<Rightarrow> []) (manifest_links m))"

definition validate_link_configs :: "manifest \<Rightarrow> validation_failure list" where
  "validate_link_configs m =
     map (\<lambda>n. verror (DuplicateLinkConfig n)) (dup_scan [] (managed_link_configs m))"

definition link_keys :: "component \<Rightarrow> (string \<times> string \<times> string \<times> string) list" where
  "link_keys c =
     concat (map (\<lambda>t. case tr_properties t of
         TPLink l \<Rightarrow> map (\<lambda>i. (case lp_name l of None \<Rightarrow> DEFAULT_LINK_NAME | Some n \<Rightarrow> n,
                               lp_namespace l, lp_package l, i)) (lp_interfaces l)
       | _ \<Rightarrow> []) (component_links c))"

definition check_duplicate_links :: "manifest \<Rightarrow> validation_failure list" where
  "check_duplicate_links m =
     concat (map (\<lambda>c. map (\<lambda>(n, ns, pkg, i). verror (DuplicateLink (co_name c) n ns pkg i))
       (dup_scan [] (link_keys c))) (mf_components m))"

definition validate_manifest :: "(string \<Rightarrow> bool) \<Rightarrow> manifest \<Rightarrow> validation_failure list outcome" where
  "validate_manifest re m =
     obind (check_dangling_links m) (\<lambda>f_dangling. Ret (
       verrors (validate_manifest_name re (md_name (mf_metadata m))) @
       verrors (validate_manifest_version (manifest_version m)) @
       core_validation m @
       check_misnamed_interfaces m @
       f_dangling @
       validate_policies m @
       ensure_no_custom_traits m @
       validate_component_properties m @
       check_duplicate_links m @
       validate_link_configs m))"

text \<open>The server's own wrapper (\<open>server/handlers.rs\<close>): the first error, if any.\<close>

definition server_validate_manifest :: "(string \<Rightarrow> bool) \<Rightarrow> manifest \<Rightarrow> failure_msg option outcome" where
  "server_validate_manifest re m =
     obind (validate_manifest re m) (\<lambda>fs.
       Ret (case filter (\<lambda>f. vf_level f = LError) fs of [] \<Rightarrow> None | f # _ \<Rightarrow> Some (vf_msg f)))"

section \<open>Deprecated configuration in the raw YAML\<close>

definition get_deprecated_configs :: "json \<Rightarrow> validation_failure list" where
  "get_deprecated_configs cm =
     (case json_get cm ''traits'' of
        None \<Rightarrow> []
      | Some ts \<Rightarrow>
          (case json_as_array ts of
             None \<Rightarrow> []
           | Some traits \<Rightarrow> concat (map (\<lambda>t.
               if (case json_get t ''type'' of None \<Rightarrow> False | Some ty \<Rightarrow> ty \<noteq> JString ''link'') then []
               else (case json_get t ''properties'' of
                       None \<Rightarrow> []
                     | Some p \<Rightarrow>
                         (if json_get p ''source_config'' \<noteq> None then [vwarning DeprecatedSourceConfig] else []) @
                         (if json_get p ''target_config'' \<noteq> None then [vwarning DeprecatedTargetConfig] else [])))
               traits)))"

definition validate_components_configs :: "json \<Rightarrow> validation_failure list" where
  "validate_components_configs app =
     (case json_get app ''spec'' of
        None \<Rightarrow> []
      | Some spec \<Rightarrow>
          (case json_get spec ''components'' of
             None \<Rightarrow> []
           | Some cs \<Rightarrow>
               (case json_as_array cs of None \<Rightarrow> []
                | Some xs \<Rightarrow> concat (map get_deprecated_configs xs))))"

text \<open>\<open>validate_manifest_bytes\<close>, with the two YAML parsers as arguments.\<close>

definition validate_manifest_bytes ::
    "(string \<Rightarrow> bool) \<Rightarrow> ('b \<Rightarrow> manifest option) \<Rightarrow> ('b \<Rightarrow> json option) \<Rightarrow> 'b \<Rightarrow>
     (manifest \<times> validation_failure list) outcome" where
  "validate_manifest_bytes re parse_manifest parse_value content =
     obind (or_err ''failed to parse manifest content'' (parse_manifest content)) (\<lambda>m.
     obind (validate_manifest re m) (\<lambda>failures.
     obind (or_err ''failed read raw yaml content'' (parse_value content)) (\<lambda>raw.
     Ret (m, failures @ validate_components_configs raw))))"


section \<open>What an accepted manifest satisfies\<close>

definition labels_ok :: "metadata \<Rightarrow> bool" where
  "labels_ok md =
     ((\<forall>kv \<in> set (md_labels md). valid_oam_label kv) \<and> (\<forall>kv \<in> set (md_annotations md). valid_oam_label kv))"

definition component_ids :: "component list \<Rightarrow> string list" where
  "component_ids cs = concat (map (\<lambda>c. case cp_id (props_of (co_properties c)) of None \<Rightarrow> [] | Some i \<Rightarrow> [i]) cs)"

definition link_targets :: "component list \<Rightarrow> string list" where
  "link_targets cs = concat (map (\<lambda>c. concat (map (link_target_name \<circ> tr_properties) (traits_of c))) cs)"

text \<open>A custom link trait names its target as a string.\<close>

definition trait_ok :: "oam_trait \<Rightarrow> bool" where
  "trait_ok t = (case tr_properties t of TPCustom _ \<Rightarrow> \<not> is_link t \<and> \<not> is_scaler t | _ \<Rightarrow> True)"

definition secret_ok :: "manifest \<Rightarrow> secret_property \<Rightarrow> bool" where
  "secret_ok m s =
     (case map_of (policy_lookup m) (ssp_policy (sp_properties s)) of
        None \<Rightarrow> False
      | Some pol \<Rightarrow> pol_type pol = SECRET_POLICY_TYPE \<and> map_of (pol_properties pol) ''backend'' \<noteq> None)"

definition props_ok :: "component \<Rightarrow> bool" where
  "props_ok c =
     (let p = props_of (co_properties c) in
      (cp_image p \<noteq> None \<and> cp_application p = None) \<or>
      (cp_image p = None \<and> cp_application p \<noteq> None \<and> cp_config p = [] \<and> cp_secrets p = [] \<and>
       (\<forall>t \<in> set (traits_of c). \<not> is_scaler t)))"

definition manifest_ok :: "(string \<Rightarrow> bool) \<Rightarrow> manifest \<Rightarrow> bool" where
  "manifest_ok re m =
     (re (md_name (mf_metadata m)) \<and> manifest_version m \<noteq> LATEST_VERSION \<and>
      labels_ok (mf_metadata m) \<and>
      distinct (map co_name (mf_components m)) \<and>
      distinct (component_ids (mf_components m)) \<and>
      set (link_targets (mf_components m)) \<subseteq> co_name ` set (mf_components m) \<and>
      (\<forall>c \<in> set (mf_components m). (\<forall>t \<in> set (traits_of c). trait_ok t) \<and>
         (\<forall>s \<in> set (component_secrets c). secret_ok m s) \<and> props_ok c \<and> distinct (link_keys c)) \<and>
      distinct (managed_link_configs m))"

section \<open>Which checks report an error\<close>

lemma verrors_simps [simp]:
  "verrors [] = []" "verrors (a @ b) = verrors a @ verrors b"
  "verrors (verror x # fs) = verror x # verrors fs" "verrors (vwarning x # fs) = verrors fs"
  by (simp_all add: verrors_def verror_def vwarning_def)

lemma verrors_idem [simp]: "verrors (verrors fs) = verrors fs"
  by (simp add: verrors_def)

lemma verrors_concat: "verrors (concat fss) = [] \<longleftrightarrow> (\<forall>fs \<in> set fss. verrors fs = [])"
  by (induction fss) auto

lemma verrors_map_verror [simp]: "verrors (map (\<lambda>x. verror (f x)) xs) = map (\<lambda>x. verror (f x)) xs"
  by (induction xs) auto

lemma dup_scan_Nil_iff: "dup_scan reg xs = [] \<longleftrightarrow> distinct xs \<and> set xs \<inter> set reg = {}"
  by (induction xs arbitrary: reg) auto

lemma set_fold_insert [simp]: "set (fold List.insert xs acc) = set xs \<union> set acc"
  by (induction xs arbitrary: acc) auto

text \<open>The component loop: what it registers and when it reports nothing.\<close>

lemma core_components_names:
  "core_components names ids req cs = (names', req', fs) \<Longrightarrow>
     set names' = co_name ` set cs \<union> set names \<and> set req' = set (link_targets cs) \<union> set req"
proof (induction cs arbitrary: names ids req names' req' fs)
  case (Cons c cs)
  then show ?case
    by (auto simp: Let_def link_targets_def split: option.splits prod.splits if_splits)
qed (simp add: link_targets_def)

lemma core_components_errors:
  "core_components names ids req cs = (names', req', fs) \<Longrightarrow>
     verrors fs = [] \<longleftrightarrow> distinct (map co_name cs) \<and> co_name ` set cs \<inter> set names = {} \<and>
       distinct (component_ids cs) \<and> set (component_ids cs) \<inter> set ids = {}"
proof (induction cs arbitrary: names ids req names' req' fs)
  case (Cons c cs)
  define ids2 where "ids2 = (case cp_id (props_of (co_properties c)) of None \<Rightarrow> ids | Some i \<Rightarrow> List.insert i ids)"
  define req2 where "req2 = fold List.insert (concat (map (link_target_name \<circ> tr_properties) (traits_of c))) req"
  obtain n r f where rest: "core_components (List.insert (co_name c) names) ids2 req2 cs = (n, r, f)"
    by (metis prod_cases3)
  note IH = Cons.IH [OF rest]
  show ?case
    using Cons.prems rest IH
    by (cases "cp_id (props_of (co_properties c))")
      (auto simp: Let_def ids2_def req2_def component_ids_def split: if_splits)
qed (simp add: component_ids_def)

lemma core_validation_errors:
  "verrors (core_validation m) = [] \<longleftrightarrow> labels_ok (mf_metadata m) \<and>
     distinct (map co_name (mf_components m)) \<and> distinct (component_ids (mf_components m)) \<and>
     set (link_targets (mf_components m)) \<subseteq> co_name ` set (mf_components m)"
proof -
  obtain names req fs where cc: "core_components [] [] [] (mf_components m) = (names, req, fs)"
    by (metis prod_cases3)
  note n = core_components_names [OF cc] and e = core_components_errors [OF cc]
  have lab: "verrors (concat (map (\<lambda>(k, v). if \<not> valid_oam_label (k, v) then [verror (g k v)] else []) kvs)) = []
      \<longleftrightarrow> (\<forall>kv \<in> set kvs. valid_oam_label kv)" for g kvs
    by (induction kvs) (auto split: if_splits)
  have "filter (\<lambda>r. r \<notin> set names) req = [] \<longleftrightarrow> set (link_targets (mf_components m)) \<subseteq> co_name ` set (mf_components m)"
    using n by (auto simp: filter_empty_conv)
  then show ?thesis
    using e by (auto simp: core_validation_def cc Let_def lab labels_ok_def)
qed

lemma misnamed_no_errors: "verrors (check_misnamed_interfaces m) = []"
  by (auto simp: check_misnamed_interfaces_def verrors_concat is_invalid_known_interface_def
      split: trait_property.splits option.splits)

lemma secret_policy_errors: "verrors (validate_secret_policy (policy_lookup m) s) = [] \<longleftrightarrow> secret_ok m s"
  by (cases "map_of (policy_lookup m) (ssp_policy (sp_properties s))")
    (auto simp: validate_secret_policy_def secret_ok_def Let_def)

lemma policies_errors:
  "verrors (validate_policies m) = [] \<longleftrightarrow>
     (\<forall>c \<in> set (mf_components m). \<forall>s \<in> set (component_secrets c). secret_ok m s)"
  by (simp add: validate_policies_def verrors_concat secret_policy_errors)

lemma custom_errors:
  "verrors (ensure_no_custom_traits m) = [] \<longleftrightarrow>
     (\<forall>c \<in> set (mf_components m). \<forall>t \<in> set (traits_of c). trait_ok t)"
  by (auto simp: ensure_no_custom_traits_def verrors_concat check_custom_trait_def trait_ok_def
      split: trait_property.splits)

lemma one_component_errors: "verrors (validate_one_component c) = [] \<longleftrightarrow> props_ok c"
  by (auto simp: validate_one_component_def props_ok_def Let_def list_ex_iff split: option.splits)

lemma properties_errors:
  "verrors (validate_component_properties m) = [] \<longleftrightarrow> (\<forall>c \<in> set (mf_components m). props_ok c)"
  by (simp add: validate_component_properties_def verrors_concat one_component_errors)

lemma duplicate_link_errors:
  "verrors (check_duplicate_links m) = [] \<longleftrightarrow> (\<forall>c \<in> set (mf_components m). distinct (link_keys c))"
  by (auto simp: check_duplicate_links_def verrors_concat case_prod_unfold dup_scan_Nil_iff)

lemma link_config_errors:
  "verrors (validate_link_configs m) = [] \<longleftrightarrow> distinct (managed_link_configs m)"
  by (simp add: validate_link_configs_def dup_scan_Nil_iff)

text \<open>A dangling link is only a warning; the errors of the link check concern custom links.\<close>

lemma manifest_links_iff:
  "t \<in> set (manifest_links m) \<longleftrightarrow> is_link t \<and> (\<exists>c \<in> set (mf_components m). t \<in> set (traits_of c))"
  by (auto simp: manifest_links_def)

lemma dangling_no_Err: "check_dangling_link m t \<noteq> Err e"
  by (simp add: check_dangling_link_def split: trait_property.splits option.splits)

lemma dangling_Panic: "check_dangling_link m t = Panic \<longleftrightarrow> (\<exists>p. tr_properties t = TPSpreadScaler p)"
  by (auto simp: check_dangling_link_def split: trait_property.splits option.splits)

lemma dangling_trait_ok:
  "check_dangling_link m t = Ret fs \<Longrightarrow> is_link t \<Longrightarrow> trait_ok t \<Longrightarrow> verrors fs = []"
  by (auto simp: check_dangling_link_def trait_ok_def split: trait_property.splits if_splits)

lemma dangling_errors:
  assumes "check_dangling_links m = Ret fs"
    and "\<forall>c \<in> set (mf_components m). \<forall>t \<in> set (traits_of c). trait_ok t"
  shows "verrors fs = []"
proof -
  have "omap_list (check_dangling_link m) ts = Ret fss \<Longrightarrow> \<forall>t \<in> set ts. is_link t \<and> trait_ok t \<Longrightarrow>
      \<forall>f \<in> set fss. verrors f = []" for ts fss
    by (induction ts arbitrary: fss) (auto dest: dangling_trait_ok)
  with assms show ?thesis
    by (fastforce simp: check_dangling_links_def verrors_concat manifest_links_iff)
qed

lemma omap_dangling_Panic:
  "omap_list (check_dangling_link m) ts = Panic \<longleftrightarrow> (\<exists>t \<in> set ts. \<exists>p. tr_properties t = TPSpreadScaler p)"
proof (induction ts)
  case (Cons t ts)
  then show ?case
    by (cases "check_dangling_link m t") (auto simp: obind_eq_Panic dangling_no_Err dangling_Panic [of m t, symmetric])
qed simp

lemma omap_dangling_no_Err: "omap_list (check_dangling_link m) ts \<noteq> Err e"
proof (induction ts)
  case (Cons t ts)
  then show ?case
    by (cases "check_dangling_link m t"; cases "omap_list (check_dangling_link m) ts")
      (auto simp: dangling_no_Err)
qed simp

lemma verrors_Nil_iff: "verrors fs = [] \<longleftrightarrow> filter (\<lambda>f. vf_level f = LError) fs = []"
  by (simp add: verrors_def)

lemmas check_errors = core_validation_errors misnamed_no_errors policies_errors custom_errors
  properties_errors duplicate_link_errors link_config_errors

lemma valid_iff_ok:
  assumes "validate_manifest re m = Ret fs"
  shows "valid fs \<longleftrightarrow> manifest_ok re m"
proof -
  obtain fd where fd: "check_dangling_links m = Ret fd"
    and fs: "fs = verrors (validate_manifest_name re (md_name (mf_metadata m))) @
       verrors (validate_manifest_version (manifest_version m)) @ core_validation m @
       check_misnamed_interfaces m @ fd @ validate_policies m @ ensure_no_custom_traits m @
       validate_component_properties m @ check_duplicate_links m @ validate_link_configs m"
    using assms by (auto simp: validate_manifest_def)
  show ?thesis
    using dangling_errors [OF fd]
    by (auto simp: valid_def fs check_errors manifest_ok_def validate_manifest_name_def
        validate_manifest_version_def)
qed

section \<open>Properties\<close>


text \<open>
  Validation of a parsed manifest always returns a list of failures, except that it panics
  exactly when some trait of type \<open>link\<close> carries the properties of a scaler, which the untagged
  deserializer of trait properties accepts.
\<close>

theorem validate_panic_iff:
  "(validate_manifest re m = Panic \<longleftrightarrow>
      (\<exists>c \<in> set (mf_components m). \<exists>t \<in> set (traits_of c).
         is_link t \<and> (\<exists>p. tr_properties t = TPSpreadScaler p))) \<and>
   (\<forall>e. validate_manifest re m \<noteq> Err e)"
proof -
  have "check_dangling_links m = Panic \<longleftrightarrow> (\<exists>t \<in> set (manifest_links m). \<exists>p. tr_properties t = TPSpreadScaler p)"
    by (simp add: check_dangling_links_def obind_eq_Panic omap_dangling_Panic)
  moreover have "check_dangling_links m \<noteq> Err e" for e
    using omap_dangling_no_Err [of m "manifest_links m"]
    by (cases "omap_list (check_dangling_link m) (manifest_links m)") (auto simp: check_dangling_links_def)
  ultimately show ?thesis
    by (cases "check_dangling_links m") (fastforce simp: validate_manifest_def manifest_links_iff)+
qed

section \<open>An accepted manifest\<close>

text \<open>Two components with an image, the first linked to the second under a managed config.\<close>

definition ex_link :: link_property where
  "ex_link = \<lparr>lp_namespace = ''wasi'', lp_package = ''http'', lp_interfaces = [''incoming-handler''],
     lp_source = None,
     lp_target = \<lparr>tc_name = ''server'', tc_config = [\<lparr>cfg_name = ''addr'', cfg_properties = Some [(''port'', ''80'')]\<rparr>],
                  tc_secrets = []\<rparr>,
     lp_name = None\<rparr>"

definition ex_props :: "string \<Rightarrow> component_properties" where
  "ex_props img = \<lparr>cp_image = Some img, cp_application = None, cp_id = None, cp_config = [], cp_secrets = []\<rparr>"

definition ex_manifest :: manifest where
  "ex_manifest = \<lparr>mf_api_version = ''core.oam.dev/v1beta1'', mf_kind = ''Application'',
     mf_metadata = \<lparr>md_name = ''shop'', md_annotations = [(''version'', ''v1'')], md_labels = []\<rparr>,
     mf_components =
       [\<lparr>co_name = ''front'', co_properties = PComponent (ex_props ''a''),
         co_traits = Some [new_link ex_link,
           new_spreadscaler \<lparr>ssc_instances = 4, ssc_spread = []\<rparr>]\<rparr>,
        \<lparr>co_name = ''server'', co_properties = PCapability (ex_props ''b''), co_traits = None\<rparr>],
     mf_policies = []\<rparr>"

lemma ex_validate: "validate_manifest (\<lambda>n. n = ''shop'') ex_manifest = Ret []"
  by code_simp


end
