(* ===== verification/Nats_Kv.thy ===== *)
theory Nats_Kv
  imports Prelude
begin

text \<open>
  The NATS backed store (\<open>storage/nats_kv.rs\<close>): one encoded map per kind and lattice, updated by
  optimistic concurrency. The bucket is an external service: its \<open>entry\<close> and \<open>update\<close> operations are
  parameters acting on a world state \<open>'w\<close>, in which other writers may act too. What the code relies on
  is \<open>kv_contract\<close>. The encoder and decoder of the map are parameters as well, and so is the type \<open>'b\<close>
  of the octets they produce. The timeout
  around the retry loop is the number of rounds it allows.
\<close>

type_synonym 'b bytes = "'b list"

record 'b kv_entry =
  ke_removed :: bool
  ke_value :: "'b bytes"
  ke_revision :: nat

definition generate_key :: "string \<Rightarrow> string \<Rightarrow> string" where
  "generate_key kind lattice_id = kind @ ''_'' @ lattice_id"

datatype store_error = EIo | ENats string | ESerDe | EOther string

type_synonym ('w, 'b) kv_read = "string \<Rightarrow> 'w \<Rightarrow> (string + 'b kv_entry option) \<times> 'w"
type_synonym ('w, 'b) kv_write = "string \<Rightarrow> 'b bytes \<Rightarrow> nat \<Rightarrow> 'w \<Rightarrow> (string + unit) \<times> 'w"

text \<open>A deleted or purged entry reads as the empty map at its revision, a missing one as revision 0.\<close>

definition internal_list ::
    "('w, 'b) kv_read \<Rightarrow> ('b bytes \<Rightarrow> (string, 'a) hmap option) \<Rightarrow> string \<Rightarrow> 'w \<Rightarrow>
     (store_error + (string, 'a) hmap \<times> nat) \<times> 'w" where
  "internal_list entry de key w =
     (case entry key w of
        (Inl e, w') \<Rightarrow> (Inl (ENats e), w')
      | (Inr None, w') \<Rightarrow> (Inr ([], 0), w')
      | (Inr (Some e), w') \<Rightarrow>
          if ke_removed e then (Inr ([], ke_revision e), w')
          else (case de (ke_value e) of None \<Rightarrow> (Inl ESerDe, w') | Some d \<Rightarrow> (Inr (d, ke_revision e), w')))"

fun contains_str :: "string \<Rightarrow> string \<Rightarrow> bool" where
  "contains_str p [] = (p = [])"
| "contains_str p (c # cs) = (starts_with p (c # cs) \<or> contains_str p cs)"

fun update_with_retries ::
    "('w, 'b) kv_read \<Rightarrow> ('w, 'b) kv_write \<Rightarrow> ('b bytes \<Rightarrow> (string, 'a) hmap option) \<Rightarrow>
     ((string, 'a) hmap \<Rightarrow> store_error + 'b bytes) \<Rightarrow> string \<Rightarrow> nat \<Rightarrow> 'w \<Rightarrow> (store_error + unit) \<times> 'w" where
  "update_with_retries entry upd de updater key 0 w =
     (Inl (EOther ''Timed out while retrying updates to key''), w)"
| "update_with_retries entry upd de updater key (Suc n) w =
     (case internal_list entry de key w of
        (Inl e, w1) \<Rightarrow> (Inl e, w1)
      | (Inr (current, revision), w1) \<Rightarrow>
          (case updater current of
             Inl e \<Rightarrow> (Inl e, w1)
           | Inr updated \<Rightarrow>
               if updated = [] then (Inr (), w1)
               else (case upd key updated revision w1 of
                       (Inr _, w2) \<Rightarrow> (Inr (), w2)
                     | (Inl e, w2) \<Rightarrow>
                         if contains_str ''wrong last sequence'' e
                         then update_with_retries entry upd de updater key n w2
                         else (Inl (ENats e), w2))))"

text \<open>The two updaters: insert every pair in turn; remove every id, no data when nothing was removed.\<close>

definition store_updater ::
    "((string, 'a) hmap \<Rightarrow> 'b bytes option) \<Rightarrow> (string \<times> 'a) list \<Rightarrow> (string, 'a) hmap \<Rightarrow> store_error + 'b bytes" where
  "store_updater ser data current =
     (case ser (hm_extend data current) of None \<Rightarrow> Inl ESerDe | Some b \<Rightarrow> Inr b)"

definition delete_updater ::
    "((string, 'a) hmap \<Rightarrow> 'b bytes option) \<Rightarrow> string list \<Rightarrow> (string, 'a) hmap \<Rightarrow> store_error + 'b bytes" where
  "delete_updater ser ids current =
     (let (current', updated) = fold (\<lambda>i (m, u). (hm_remove i m, u \<or> hm_contains m i)) ids (current, False)
      in if \<not> updated then Inr []
         else case ser current' of None \<Rightarrow> Inl ESerDe | Some b \<Rightarrow> Inr b)"

definition nats_list where
  "nats_list entry de kind lattice_id w =
     (case internal_list entry de (generate_key kind lattice_id) w of
        (Inl e, w') \<Rightarrow> (Inl e, w') | (Inr (d, _), w') \<Rightarrow> (Inr d, w'))"

definition nats_get where
  "nats_get entry de kind lattice_id i w =
     (case nats_list entry de kind lattice_id w of
        (Inl e, w') \<Rightarrow> (Inl e, w') | (Inr d, w') \<Rightarrow> (Inr (map_of d i), w'))"

definition nats_store_many where
  "nats_store_many entry upd de ser kind lattice_id rounds data w =
     update_with_retries entry upd de (store_updater ser data) (generate_key kind lattice_id) rounds w"

definition nats_delete_many where
  "nats_delete_many entry upd de ser kind lattice_id rounds ids w =
     update_with_retries entry upd de (delete_updater ser ids) (generate_key kind lattice_id) rounds w"

section \<open>The contract of the bucket\<close>

definition revision_of :: "'b kv_entry option \<Rightarrow> nat" where
  "revision_of e = (case e of None \<Rightarrow> 0 | Some x \<Rightarrow> ke_revision x)"

text \<open>
  \<open>view w k\<close> is the entry of key \<open>k\<close> in the world \<open>w\<close>, \<open>later w w'\<close> that \<open>w'\<close> follows from \<open>w\<close> by the
  acts of any writers. A read returns the entry of some later world, in which it ends. An accepted
  write found the expected revision in a later world and replaced the value of that key alone. As time
  passes, equal revisions of a key mean the same entry.
\<close>

definition kv_contract ::
    "('w \<Rightarrow> string \<Rightarrow> 'b kv_entry option) \<Rightarrow> ('w \<Rightarrow> 'w \<Rightarrow> bool) \<Rightarrow> ('w, 'b) kv_read \<Rightarrow> ('w, 'b) kv_write \<Rightarrow> bool" where
  "kv_contract view later entry upd =
     ((\<forall>w. later w w) \<and> (\<forall>a b c. later a b \<and> later b c \<longrightarrow> later a c) \<and>
      (\<forall>w w' k. later w w' \<and> revision_of (view w k) = revision_of (view w' k) \<longrightarrow> view w' k = view w k) \<and>
      (\<forall>k w r w'. entry k w = (r, w') \<longrightarrow> later w w' \<and> (\<forall>e. r = Inr e \<longrightarrow> view w' k = e)) \<and>
      (\<forall>k b rv w r w'. upd k b rv w = (r, w') \<longrightarrow> later w w' \<and>
         (r = Inr () \<longrightarrow> (\<exists>w1 e. later w w1 \<and> later w1 w' \<and> revision_of (view w1 k) = rv \<and>
            view w' = (view w1)(k \<mapsto> e) \<and> ke_value e = b \<and> \<not> ke_removed e))))"

lemma kv_later_refl: "kv_contract v l e u \<Longrightarrow> l w w"
  by (simp add: kv_contract_def)

lemma kv_later_trans: "kv_contract v l e u \<Longrightarrow> l a b \<Longrightarrow> l b c \<Longrightarrow> l a c"
  unfolding kv_contract_def by blast

lemma kv_same: "kv_contract v l e u \<Longrightarrow> l a b \<Longrightarrow> revision_of (v a k) = revision_of (v b k) \<Longrightarrow> v b k = v a k"
  unfolding kv_contract_def by blast

lemma kv_entry: "kv_contract v l e u \<Longrightarrow> e k w = (r, w') \<Longrightarrow> l w w' \<and> (\<forall>x. r = Inr x \<longrightarrow> v w' k = x)"
  unfolding kv_contract_def by blast

lemma kv_update:
  assumes "kv_contract v l e u" and "u k b rv w = (r, w')"
  shows "l w w' \<and> (r = Inr () \<longrightarrow> (\<exists>w1 x. l w w1 \<and> l w1 w' \<and> revision_of (v w1 k) = rv \<and>
        v w' = (v w1)(k \<mapsto> x) \<and> ke_value x = b \<and> \<not> ke_removed x))"
proof -
  from assms(1) have "\<forall>k b rv w r w'. u k b rv w = (r, w') \<longrightarrow> l w w' \<and>
     (r = Inr () \<longrightarrow> (\<exists>w1 x. l w w1 \<and> l w1 w' \<and> revision_of (v w1 k) = rv \<and>
        v w' = (v w1)(k \<mapsto> x) \<and> ke_value x = b \<and> \<not> ke_removed x))"
    unfolding kv_contract_def by (elim conjE)
  from this [rule_format, OF assms(2)] show ?thesis by simp
qed

text \<open>The map a key holds, when its value decodes.\<close>

definition decoded :: "('b bytes \<Rightarrow> (string, 'a) hmap option) \<Rightarrow> 'b kv_entry option \<Rightarrow> (string, 'a) hmap option" where
  "decoded de e =
     (case e of None \<Rightarrow> Some [] | Some x \<Rightarrow> if ke_removed x then Some [] else de (ke_value x))"

lemma internal_list_Ok:
  assumes "kv_contract view later entry upd" and "internal_list entry de key w = (Inr (d, rv), w')"
  shows "later w w' \<and> decoded de (view w' key) = Some d \<and> revision_of (view w' key) = rv"
proof -
  obtain r w2 where e: "entry key w = (r, w2)" by fastforce
  note c = kv_entry [OF assms(1) e]
  show ?thesis
    using assms(2) c
    by (auto simp: internal_list_def e decoded_def revision_of_def split: sum.splits option.splits if_splits)
qed

lemma internal_list_later:
  assumes "kv_contract view later entry upd" and "internal_list entry de key w = (r, w')"
  shows "later w w'"
proof -
  obtain q w2 where e: "entry key w = (q, w2)" by fastforce
  show ?thesis
    using assms(2) kv_entry [OF assms(1) e]
    by (auto simp: internal_list_def e split: sum.splits option.splits if_splits)
qed

text \<open>An accepted update is the updater applied to the contents right before the write.\<close>

lemma update_linearizes:
  assumes c: "kv_contract view later entry upd"
    and "update_with_retries entry upd de updater key n w = (Inr (), w')"
  shows "\<exists>w1 d b. later w w1 \<and> later w1 w' \<and> decoded de (view w1 key) = Some d \<and> updater d = Inr b \<and>
     (if b = [] then w' = w1
      else \<exists>e. view w' = (view w1)(key \<mapsto> e) \<and> ke_value e = b \<and> \<not> ke_removed e)"
  using assms(2)
proof (induction n arbitrary: w)
  case (Suc n)
  obtain d rv wr where l: "internal_list entry de key w = (Inr (d, rv), wr)"
    using Suc.prems by (auto split: sum.splits prod.splits)
  note r = internal_list_Ok [OF c l]
  obtain b where b: "updater d = Inr b"
    using Suc.prems l by (auto split: sum.splits)
  show ?case
  proof (cases "b = []")
    case True
    with Suc.prems l b r kv_later_refl [OF c] show ?thesis by auto
  next
    case False
    obtain q wu where u: "upd key b rv wr = (q, wu)" by fastforce
    note uu = kv_update [OF c u]
    show ?thesis
    proof (cases q)
      case (Inr x)
      with Suc.prems l b False u have "w' = wu" by simp
      from uu Inr obtain w1 e where w1: "later wr w1" "later w1 wu" "revision_of (view w1 key) = rv"
        "view wu = (view w1)(key \<mapsto> e)" "ke_value e = b" "\<not> ke_removed e" by auto
      have "view w1 key = view wr key" using kv_same [OF c w1(1)] w1(3) r by simp
      with r w1 b False \<open>w' = wu\<close> kv_later_trans [OF c] show ?thesis by (metis (no_types, lifting))
    next
      case (Inl e)
      with Suc.prems l b False u have "update_with_retries entry upd de updater key n wu = (Inr (), w')"
        by (simp split: if_splits)
      from Suc.IH [OF this] uu r kv_later_trans [OF c] show ?thesis by blast
    qed
  qed
qed simp

lemma delete_fold:
  "hm_wf m \<Longrightarrow> fold (\<lambda>i (m, u). (hm_remove i m, u \<or> hm_contains m i)) ids (m, u) = (m', u') \<Longrightarrow>
     hm_wf m' \<and> map_of m' = (\<lambda>k. if k \<in> set ids then None else map_of m k) \<and>
     (u' \<longleftrightarrow> u \<or> (\<exists>i \<in> set ids. hm_contains m i))"
proof (induction ids arbitrary: m u)
  case (Cons i ids)
  have "hm_wf (hm_remove i m)" using Cons.prems(1) by simp
  from Cons.IH [OF this, of "u \<or> hm_contains m i"] Cons.prems(2) show ?case
    by (auto simp: fun_eq_iff hm_contains_def)
qed simp

section \<open>Properties\<close>

text \<open>
  C9. No lost updates. If storing many items reports success, then, however many other writers
  interfered and however many rounds were retried, there is a moment at which the map of the
  lattice was decoded, and the write replaced it, at that moment and touching no other key, by that very
  map with the items inserted. If deleting many items reports success, the map at that moment was either
  replaced by itself without the items, or left alone because it held none of them.
\<close>

theorem no_lost_updates:
  assumes "kv_contract view later entry upd" and "\<And>m b. ser m = Some b \<Longrightarrow> b \<noteq> [] \<and> de b = Some m"
    and key: "key = generate_key kind lattice_id"
  shows "(nats_store_many entry upd de ser kind lattice_id n data w = (Inr (), w') \<longrightarrow>
       (\<exists>w1 d. later w w1 \<and> later w1 w' \<and> decoded de (view w1 key) = Some d \<and>
          decoded de (view w' key) = Some (hm_extend data d) \<and> (\<forall>k. k \<noteq> key \<longrightarrow> view w' k = view w1 k))) \<and>
     (nats_delete_many entry upd de ser kind lattice_id n ids w = (Inr (), w') \<longrightarrow>
       (\<exists>w1 d d'. later w w1 \<and> later w1 w' \<and> decoded de (view w1 key) = Some d \<and>
          decoded de (view w' key) = Some d' \<and> (\<forall>k. k \<noteq> key \<longrightarrow> view w' k = view w1 k) \<and>
          (hm_wf d \<longrightarrow> map_of d' = (\<lambda>i. if i \<in> set ids then None else map_of d i))))"
proof (intro conjI impI)
  assume "nats_store_many entry upd de ser kind lattice_id n data w = (Inr (), w')"
  from update_linearizes [OF assms(1) this [unfolded nats_store_many_def]]
  obtain w1 d b where l: "later w w1" "later w1 w'" "decoded de (view w1 key) = Some d"
      "store_updater ser data d = Inr b"
    and e: "if b = [] then w' = w1 else \<exists>e. view w' = (view w1)(key \<mapsto> e) \<and> ke_value e = b \<and> \<not> ke_removed e"
    unfolding key by blast
  from l(4) have s: "ser (hm_extend data d) = Some b" by (simp add: store_updater_def split: option.splits)
  note ser = assms(2) [OF s]
  with e have "decoded de (view w' key) = Some (hm_extend data d) \<and> (\<forall>k. k \<noteq> key \<longrightarrow> view w' k = view w1 k)"
    by (auto simp: decoded_def)
  with l show "\<exists>w1 d. later w w1 \<and> later w1 w' \<and> decoded de (view w1 key) = Some d \<and>
      decoded de (view w' key) = Some (hm_extend data d) \<and> (\<forall>k. k \<noteq> key \<longrightarrow> view w' k = view w1 k)"
    by blast
next
  assume "nats_delete_many entry upd de ser kind lattice_id n ids w = (Inr (), w')"
  from update_linearizes [OF assms(1) this [unfolded nats_delete_many_def]]
  obtain w1 d b where l: "later w w1" "later w1 w'" "decoded de (view w1 key) = Some d"
      "delete_updater ser ids d = Inr b"
    and e: "if b = [] then w' = w1 else \<exists>e. view w' = (view w1)(key \<mapsto> e) \<and> ke_value e = b \<and> \<not> ke_removed e"
    unfolding key by blast
  obtain d1 u where f: "fold (\<lambda>i (m, u). (hm_remove i m, u \<or> hm_contains m i)) ids (d, False) = (d1, u)"
    by fastforce
  show "\<exists>w1 d d'. later w w1 \<and> later w1 w' \<and> decoded de (view w1 key) = Some d \<and>
      decoded de (view w' key) = Some d' \<and> (\<forall>k. k \<noteq> key \<longrightarrow> view w' k = view w1 k) \<and>
      (hm_wf d \<longrightarrow> map_of d' = (\<lambda>i. if i \<in> set ids then None else map_of d i))"
  proof (cases u)
    case True
    with l(4) f have "ser d1 = Some b" by (simp add: delete_updater_def split: option.splits)
    from assms(2) [OF this] e have "decoded de (view w' key) = Some d1 \<and> (\<forall>k. k \<noteq> key \<longrightarrow> view w' k = view w1 k)"
      by (auto simp: decoded_def)
    with l f delete_fold [of d ids False d1 u] show ?thesis by blast
  next
    case False
    with l(4) f e have "w' = w1" by (auto simp: delete_updater_def split: if_splits)
    moreover have "hm_wf d \<longrightarrow> map_of d = (\<lambda>i. if i \<in> set ids then None else map_of d i)"
      using delete_fold [OF _ f] False by (auto simp: hm_contains_def)
    ultimately show ?thesis using l by blast
  qed
qed

section \<open>A bucket without other writers\<close>

text \<open>The contract is met by a bucket that only this process writes.\<close>

definition ex_entry :: "(string \<Rightarrow> 'b kv_entry option, 'b) kv_read" where
  "ex_entry k w = (Inr (w k), w)"

definition ex_upd :: "(string \<Rightarrow> 'b kv_entry option, 'b) kv_write" where
  "ex_upd k b rv w =
     (if revision_of (w k) = rv
      then (Inr (), w(k \<mapsto> \<lparr>ke_removed = False, ke_value = b, ke_revision = Suc rv\<rparr>))
      else (Inl ''wrong last sequence'', w))"

definition ex_later :: "(string \<Rightarrow> 'b kv_entry option) \<Rightarrow> (string \<Rightarrow> 'b kv_entry option) \<Rightarrow> bool" where
  "ex_later w w' = (\<forall>k. w' k = w k \<or> revision_of (w k) < revision_of (w' k))"

lemma ex_contract: "kv_contract (\<lambda>w :: string \<Rightarrow> 'b kv_entry option. w) ex_later ex_entry ex_upd"
proof -
  have "ex_later w w" for w :: "string \<Rightarrow> 'b kv_entry option" by (simp add: ex_later_def)
  moreover have "ex_later a b \<Longrightarrow> ex_later b c \<Longrightarrow> ex_later a c" for a b c :: "string \<Rightarrow> 'b kv_entry option"
    unfolding ex_later_def by (metis order_less_trans)
  moreover have "ex_later w w' \<Longrightarrow> revision_of (w k) = revision_of (w' k) \<Longrightarrow> w' k = w k" for w w' :: "string \<Rightarrow> 'b kv_entry option" and k
    unfolding ex_later_def by (metis less_irrefl)
  moreover have "ex_upd k b rv w = (r, w') \<Longrightarrow> ex_later w w' \<and> (r = Inr () \<longrightarrow>
      (\<exists>w1 e. ex_later w w1 \<and> ex_later w1 w' \<and> revision_of (w1 k) = rv \<and> w' = w1(k \<mapsto> e) \<and>
         ke_value e = b \<and> \<not> ke_removed e))" for k b rv and w :: "string \<Rightarrow> 'b kv_entry option" and r w'
    by (cases "revision_of (w k) = rv")
      (auto simp: ex_upd_def ex_later_def revision_of_def intro!: exI [of _ w])
  ultimately show ?thesis
    unfolding kv_contract_def by (auto simp: ex_entry_def)
qed

definition ex_ser :: "(string, bool) hmap \<Rightarrow> nat bytes option" where
  "ex_ser m = (if m = [] then Some [0] else if m = [(''h'', True)] then Some [1] else None)"

definition ex_de :: "nat bytes \<Rightarrow> (string, bool) hmap option" where
  "ex_de b = (if b = [0] then Some [] else if b = [1] then Some [(''h'', True)] else None)"

theorem no_lost_updates_witness:
  "\<exists>w'. nats_store_many ex_entry ex_upd ex_de ex_ser ''host'' ''default'' 2 [(''h'', True)] (\<lambda>k. None) = (Inr (), w') \<and>
     decoded ex_de (w' ''host_default'') = Some [(''h'', True)]"
proof -
  let ?r = "nats_store_many ex_entry ex_upd ex_de ex_ser ''host'' ''default'' 2 [(''h'', True)] (\<lambda>k. None)"
  have ser: "ex_ser m = Some b \<Longrightarrow> b \<noteq> [] \<and> ex_de b = Some m" for m b
    by (auto simp: ex_ser_def ex_de_def split: if_splits)
  have "fst ?r = Inr ()"
    by (simp add: nats_store_many_def numeral_2_eq_2 internal_list_def ex_entry_def ex_upd_def
        store_updater_def ex_ser_def hm_extend_def revision_of_def)
  then obtain w' where r: "?r = (Inr (), w')" by (metis prod.collapse)
  from no_lost_updates [OF ex_contract ser refl, THEN conjunct1, rule_format, OF _ r]
  obtain w1 d where d: "decoded ex_de (w1 ''host_default'') = Some d"
    "decoded ex_de (w' ''host_default'') = Some (hm_extend [(''h'', True)] d)"
    by (auto simp: generate_key_def)
  have "d = [] \<or> d = [(''h'', True)]"
    using d(1) by (auto simp: decoded_def ex_de_def split: option.splits if_splits)
  then have "hm_extend [(''h'', True)] d = [(''h'', True)]" by (auto simp: hm_extend_def)
  with d r show ?thesis by auto
qed

end
