(* ===== verification/Api_Status.thy ===== *)
theory Api_Status
  imports Prelude
begin

text \<open>
  The status types of the wadm API (\<open>crates/wadm-types/src/api.rs\<close>): the status of a manifest,
  of its scalers, and the addition of status types that aggregates them. The types are ordered by
  severity, and the aggregate is shown to be the maximum of that order.
\<close>

datatype status_type = Waiting | Undeployed | Reconciling | Deployed | Failed | Unhealthy

record status_info =
  si_type :: status_type
  si_message :: string

record scaler_status =
  ss_id :: string
  ss_kind :: string
  ss_name :: string
  ss_info :: status_info

record trait_status =
  ts_type :: string
  ts_info :: status_info

record component_status =
  cs_name :: string
  cs_type :: string
  cs_info :: status_info
  cs_traits :: "trait_status list"

record status =
  st_info :: status_info
  st_scalers :: "scaler_status list"
  st_version :: string
  st_components :: "component_status list"

definition status_new :: "status_info \<Rightarrow> scaler_status list \<Rightarrow> status" where
  "status_new info scalers =
     \<lparr>st_info = info, st_scalers = scalers, st_version = [], st_components = []\<rparr>"

definition si_undeployed :: "string \<Rightarrow> status_info" where
  "si_undeployed m = \<lparr>si_type = Undeployed, si_message = m\<rparr>"

definition si_deployed :: "string \<Rightarrow> status_info" where
  "si_deployed m = \<lparr>si_type = Deployed, si_message = m\<rparr>"

definition si_failed :: "string \<Rightarrow> status_info" where
  "si_failed m = \<lparr>si_type = Failed, si_message = m\<rparr>"

definition si_reconciling :: "string \<Rightarrow> status_info" where
  "si_reconciling m = \<lparr>si_type = Reconciling, si_message = m\<rparr>"

definition si_waiting :: "string \<Rightarrow> status_info" where
  "si_waiting m = \<lparr>si_type = Waiting, si_message = m\<rparr>"

definition si_unhealthy :: "string \<Rightarrow> status_info" where
  "si_unhealthy m = \<lparr>si_type = Unhealthy, si_message = m\<rparr>"

lemmas si_defs = si_undeployed_def si_deployed_def si_failed_def si_reconciling_def
  si_waiting_def si_unhealthy_def

lemma si_type_simps [simp]:
  "si_type (si_undeployed m) = Undeployed" "si_type (si_deployed m) = Deployed"
  "si_type (si_failed m) = Failed" "si_type (si_reconciling m) = Reconciling"
  "si_type (si_waiting m) = Waiting" "si_type (si_unhealthy m) = Unhealthy"
  by (simp_all add: si_defs)

section \<open>Addition of status types\<close>

text \<open>The arms of the match are tried in the source's order.\<close>

definition status_add :: "status_type \<Rightarrow> status_type \<Rightarrow> status_type" where
  "status_add a b =
     (if a = b then a
      else case (a, b) of
        (Failed, _) \<Rightarrow> Failed
      | (_, Failed) \<Rightarrow> Failed
      | (Undeployed, _) \<Rightarrow> Undeployed
      | (_, Undeployed) \<Rightarrow> Undeployed
      | (Waiting, _) \<Rightarrow> Waiting
      | (_, Waiting) \<Rightarrow> Waiting
      | (Reconciling, _) \<Rightarrow> Reconciling
      | (_, Reconciling) \<Rightarrow> Reconciling
      | (Unhealthy, _) \<Rightarrow> Unhealthy
      | (_, Unhealthy) \<Rightarrow> Unhealthy
      | (Deployed, Deployed) \<Rightarrow> Deployed)"

text \<open>The sum starts from the first status, \<open>Undeployed\<close> for an empty iterator.\<close>

definition status_sum :: "status_type list \<Rightarrow> status_type" where
  "status_sum xs =
     (case xs of [] \<Rightarrow> Undeployed | first # rest \<Rightarrow> fold (\<lambda>b a. status_add a b) rest first)"

section \<open>Severity\<close>

fun severity :: "status_type \<Rightarrow> nat" where
  "severity Deployed = 0"
| "severity Unhealthy = 1"
| "severity Reconciling = 2"
| "severity Waiting = 3"
| "severity Undeployed = 4"
| "severity Failed = 5"

instantiation status_type :: linorder
begin

definition less_eq_status_type :: "status_type \<Rightarrow> status_type \<Rightarrow> bool" where
  "less_eq_status_type a b = (severity a \<le> severity b)"

definition less_status_type :: "status_type \<Rightarrow> status_type \<Rightarrow> bool" where
  "less_status_type a b = (severity a < severity b)"

instance
proof
  fix x y :: status_type
  show "x \<le> y \<Longrightarrow> y \<le> x \<Longrightarrow> x = y"
    by (cases x; cases y) (simp_all add: less_eq_status_type_def)
qed (auto simp: less_eq_status_type_def less_status_type_def)

end

lemma status_add_max: "status_add a b = max a b"
  by (cases a; cases b) (simp_all add: status_add_def max_def less_eq_status_type_def)

lemma fold_status_add: "fold (\<lambda>b a. status_add a b) xs a = Max (insert a (set xs))"
proof (induction xs arbitrary: a)
  case (Cons x xs)
  have "Max (insert (max a x) (set xs)) = Max (insert a (insert x (set xs)))"
    by (cases "xs = []") (simp_all add: max.assoc)
  with Cons.IH show ?case by (simp add: status_add_max)
qed simp

lemma status_sum_Max: "xs \<noteq> [] \<Longrightarrow> status_sum xs = Max (set xs)"
  by (cases xs) (simp_all add: status_sum_def fold_status_add)

lemma status_top: "(s :: status_type) \<le> Failed"
  by (cases s) (simp_all add: less_eq_status_type_def)

lemma status_bot: "Deployed \<le> (s :: status_type)"
  by (cases s) (simp_all add: less_eq_status_type_def)

lemma status_sum_eq_Deployed:
  "status_sum xs = Deployed \<longleftrightarrow> xs \<noteq> [] \<and> (\<forall>s \<in> set xs. s = Deployed)"
proof (cases "xs = []")
  case True
  then show ?thesis by (simp add: status_sum_def)
next
  case False
  then show ?thesis
    by (auto simp: status_sum_Max Max_eq_iff status_bot)
      (metis antisym list.set_sel(1) status_bot)+
qed

lemma status_sum_eq_Failed: "status_sum xs = Failed \<longleftrightarrow> Failed \<in> set xs"
proof (cases "xs = []")
  case True
  then show ?thesis by (simp add: status_sum_def)
next
  case False
  then show ?thesis by (simp add: status_sum_Max Max_eq_iff status_top)
qed

text \<open>
  The aggregate status of a list of scalers, computed by adding the status types one after
  the other with the order-sensitive match, is the most severe of them (deployed, unhealthy,
  reconciling, waiting, undeployed, failed, in this order), and undeployed when there is no scaler.
  It does not depend on the order of the scalers.
\<close>

theorem status_sum_most_severe:
  "status_sum xs = (if xs = [] then Undeployed else Max (set xs))"
  by (simp add: status_sum_Max) (simp add: status_sum_def)

text \<open>
  An application is reported as deployed exactly when it has scalers and every one of them is
  deployed, and as failed exactly when some scaler failed.
\<close>

theorem status_sum_deployed_failed:
  "(status_sum xs = Deployed \<longleftrightarrow> xs \<noteq> [] \<and> set xs \<subseteq> {Deployed}) \<and>
   (status_sum xs = Failed \<longleftrightarrow> Failed \<in> set xs)"
  by (auto simp: status_sum_eq_Deployed status_sum_eq_Failed)

end
