(* ===== verification/Scaler_Base.thy ===== *)
theory Scaler_Base
  imports Lattice_State Api_Status
begin

text \<open>
  What all scalers share (\<open>scaler/mod.rs\<close> and the helpers of \<open>scaler/spreadscaler/mod.rs\<close>): the answers
  a scaler gets when it reads the lattice, the annotations of a spread, the eligible hosts of a spread,
  the id of a scaler, and the contract of the \<open>Scaler\<close> trait as a locale.

  A scaler reads the store and the control interface through \<open>lattice_view\<close>: one answer, possibly an
  error, for every read of one call. A method is a function of the view and the scaler's state; it
  returns its result and the new state. \<open>'c\<close> is the secret configuration type of the host's crates.
\<close>

record 'c lattice_view =
  lv_component :: "string \<Rightarrow> lcomponent option outcome"
  lv_provider :: "string \<Rightarrow> provider option outcome"
  lv_hosts :: "(string, host) hmap outcome"
  lv_links :: "lattice_link list outcome"
  lv_config :: "string \<Rightarrow> (string, string) hmap option outcome"
  lv_secret :: "string \<Rightarrow> 'c option outcome"

definition SCALER_KEY :: string where "SCALER_KEY = ''wasmcloud.dev/scaler''"
definition SPREAD_KEY :: string where "SPREAD_KEY = ''wasmcloud.dev/spread_name''"
definition SPREAD_SCALER_KIND :: string where "SPREAD_SCALER_KIND = ''SpreadScaler''"
definition DAEMON_SCALER_KIND :: string where "DAEMON_SCALER_KIND = ''DaemonScaler''"

text \<open>The digest is a parameter; the parameters are fed to it one after the other.\<close>

definition compute_id :: "(string \<Rightarrow> string) \<Rightarrow> string list \<Rightarrow> string" where
  "compute_id digest params = digest (concat params)"

definition spreadscaler_annotations :: "string \<Rightarrow> string \<Rightarrow> btree" where
  "spreadscaler_annotations spread_name scaler_id =
     bt_extend [(SCALER_KEY, scaler_id), (SPREAD_KEY, spread_name)] []"

text \<open>Every required pair is among the given ones.\<close>

definition covers :: "(string, string) hmap \<Rightarrow> (string \<times> string) list \<Rightarrow> bool" where
  "covers given required = list_all (\<lambda>(k, v). map_of given k = Some v) required"

definition eligible_hosts :: "(string, host) hmap \<Rightarrow> spread \<Rightarrow> (string, host) hmap" where
  "eligible_hosts all_hosts s = filter (\<lambda>(_, h). covers (ho_labels h) (spr_requirements s)) all_hosts"

definition compute_ineligible_hosts :: "(string, host) hmap \<Rightarrow> spread list \<Rightarrow> (string, host) hmap" where
  "compute_ineligible_hosts all_hosts spreads =
     (let eligible_ids = concat (map (\<lambda>s. map fst (eligible_hosts all_hosts s)) spreads) in
      filter (\<lambda>(i, _). i \<notin> set eligible_ids) all_hosts)"

text \<open>The guard of the host events: the labels satisfy some spread.\<close>

definition matches_some_spread :: "(string, string) hmap \<Rightarrow> spread list \<Rightarrow> bool" where
  "matches_some_spread labels spreads = list_ex (\<lambda>s. covers labels (spr_requirements s)) spreads"

text \<open>The status after a pass: failures first, then commands, else deployed.\<close>

definition pass_status :: "string \<Rightarrow> status_info list \<Rightarrow> command list \<Rightarrow> status_info" where
  "pass_status what failures commands =
     (if failures = [] \<and> commands = [] then si_deployed []
      else if failures = []
      then si_reconciling (''Scaling '' @ what @ '' on '' @ show_nat (length commands) @ '' host(s)'')
      else si_failed (join_with '' '' (map si_message failures)))"

section \<open>Lemmas\<close>

lemma eligible_iff:
  "(i, h) \<in> set (eligible_hosts hosts s) \<longleftrightarrow> (i, h) \<in> set hosts \<and> covers (ho_labels h) (spr_requirements s)"
  by (auto simp: eligible_hosts_def)

lemma eligible_wf: "hm_wf hosts \<Longrightarrow> hm_wf (eligible_hosts hosts s)"
  unfolding hm_wf_def eligible_hosts_def by (rule distinct_map_filter)

lemma eligible_map_of:
  "hm_wf hosts \<Longrightarrow> map_of (eligible_hosts hosts s) i =
     (case map_of hosts i of None \<Rightarrow> None | Some h \<Rightarrow> if covers (ho_labels h) (spr_requirements s) then Some h else None)"
  using map_of_retain [of hosts "\<lambda>_ h. covers (ho_labels h) (spr_requirements s)" i]
  by (auto simp: hm_retain_def eligible_hosts_def split: option.split)

lemma eligible_id:
  assumes "hm_wf hosts" and "(i, h) \<in> set hosts"
  shows "i \<in> fst ` set (eligible_hosts hosts s) \<longleftrightarrow> covers (ho_labels h) (spr_requirements s)"
proof
  assume "i \<in> fst ` set (eligible_hosts hosts s)"
  then obtain h' where h': "(i, h') \<in> set hosts" "covers (ho_labels h') (spr_requirements s)"
    by (auto simp: eligible_iff)
  with assms have "h' = h" by (metis eq_key_imp_eq_value hm_wf_def)
  with h' show "covers (ho_labels h) (spr_requirements s)" by simp
next
  assume "covers (ho_labels h) (spr_requirements s)"
  with assms(2) have "(i, h) \<in> set (eligible_hosts hosts s)" by (simp add: eligible_iff)
  then show "i \<in> fst ` set (eligible_hosts hosts s)" by force
qed

lemma ineligible_iff:
  assumes "hm_wf hosts"
  shows "(i, h) \<in> set (compute_ineligible_hosts hosts spreads) \<longleftrightarrow>
    (i, h) \<in> set hosts \<and> (\<forall>s \<in> set spreads. \<not> covers (ho_labels h) (spr_requirements s))"
proof -
  have "(i, h) \<in> set (compute_ineligible_hosts hosts spreads) \<longleftrightarrow>
      (i, h) \<in> set hosts \<and> (\<forall>s \<in> set spreads. i \<notin> fst ` set (eligible_hosts hosts s))"
    unfolding compute_ineligible_hosts_def Let_def set_filter set_concat set_map image_image by simp
  then show ?thesis using eligible_id [OF assms] by meson
qed

lemma annotations_lookup:
  "map_of (spreadscaler_annotations n i) k =
     (if k = SPREAD_KEY then Some n else if k = SCALER_KEY then Some i else None)"
  by (simp add: spreadscaler_annotations_def map_of_bt_extend SCALER_KEY_def SPREAD_KEY_def)

lemma annotations_wf [simp]: "bt_wf (spreadscaler_annotations n i)"
  by (simp add: spreadscaler_annotations_def)

lemma covers_annotations:
  "covers a (spreadscaler_annotations n i) \<longleftrightarrow> map_of a SCALER_KEY = Some i \<and> map_of a SPREAD_KEY = Some n"
  by (auto simp: covers_def spreadscaler_annotations_def bt_extend_def SCALER_KEY_def SPREAD_KEY_def)

lemma pass_status_deployed: "si_type (pass_status w fs cs) = Deployed \<longleftrightarrow> fs = [] \<and> cs = []"
  by (simp add: pass_status_def)

section \<open>The contract of a scaler\<close>

text \<open>
  What the wrapper and the manager rely on of a scaler: an event is either answered by a full
  reconcile or causes no command, the commands are the scaler's own, its configuration is
  not changed by running it, and a reconcile that ends deployed has nothing to do.
\<close>

locale scaler =
  fixes reconcile :: "'c lattice_view \<Rightarrow> 's \<Rightarrow> command list outcome \<times> 's"
    and handle_event :: "'c lattice_view \<Rightarrow> event \<Rightarrow> 's \<Rightarrow> command list outcome \<times> 's"
    and cleanup :: "'c lattice_view \<Rightarrow> 's \<Rightarrow> command list outcome"
    and status_of :: "'s \<Rightarrow> status_info"
    and own :: "'s \<Rightarrow> command \<Rightarrow> bool"
  assumes handle_reconciles:
      "fst (handle_event v e s) = Ret cs \<Longrightarrow> cs \<noteq> [] \<Longrightarrow> handle_event v e s = reconcile v s"
    and reconcile_own: "fst (reconcile v s) = Ret cs \<Longrightarrow> c \<in> set cs \<Longrightarrow> own s c"
    and cleanup_own: "cleanup v s = Ret cs \<Longrightarrow> c \<in> set cs \<Longrightarrow> own s c"
    and reconcile_keeps: "own (snd (reconcile v s)) = own s"
    and handle_keeps: "own (snd (handle_event v e s)) = own s"
    and deployed_idle:
      "fst (reconcile v s) = Ret cs \<Longrightarrow> si_type (status_of (snd (reconcile v s))) = Deployed \<Longrightarrow> cs = []"
begin

lemma handle_own: "fst (handle_event v e s) = Ret cs \<Longrightarrow> c \<in> set cs \<Longrightarrow> own s c"
  using handle_reconciles [of v e s cs] reconcile_own [of v s cs c] by fastforce

text \<open>The scaler after a run of events, each with the view of its time.\<close>

definition after :: "('c lattice_view \<times> event) list \<Rightarrow> 's \<Rightarrow> 's" where
  "after es s = fold (\<lambda>(v, e) s. snd (handle_event v e s)) es s"

lemma after_keeps: "own (after es s) = own s"
  unfolding after_def by (induction es arbitrary: s) (auto simp: handle_keeps)

lemma always_own:
  "fst (handle_event v e (after es s)) = Ret cs \<Longrightarrow> c \<in> set cs \<Longrightarrow> own s c"
  using handle_own [of v e "after es s" cs c] by (simp add: after_keeps)

lemma after_reconcile_own:
  "fst (reconcile v (after es s)) = Ret cs \<Longrightarrow> c \<in> set cs \<Longrightarrow> own s c"
  using reconcile_own [of v "after es s" cs c] by (simp add: after_keeps)

end

end
