(* ===== verification/Spread_Scaler.thy ===== *)
theory Spread_Scaler
  imports Scaler_Base
begin

text \<open>
  The component spread scaler (\<open>scaler/spreadscaler/mod.rs\<close>): how many instances each spread gets,
  the commands that bring a component to these numbers, the detection of conflicting spreads and the
  methods of the \<open>Scaler\<close> trait. Counts are \<open>usize\<close> with wrap-around; a division by a zero total weight
  panics; a count is narrowed to \<open>u32\<close> in a command.
\<close>

record component_spread_config =
  csc_reference :: string
  csc_component_id :: string
  csc_lattice_id :: string
  csc_model_name :: string
  csc_spread :: spread_scaler_property

record spread_scaler =
  sps_config :: component_spread_config
  sps_requirements :: "(spread \<times> usize) list"
  sps_id :: string
  sps_status :: status_info
  sps_named_config :: "string list"

section \<open>The number of instances of each spread\<close>

definition spread_weight :: "spread \<Rightarrow> usize" where
  "spread_weight s = (case spr_weight s of None \<Rightarrow> DEFAULT_SPREAD_WEIGHT | Some w \<Rightarrow> w)"

text \<open>Stable, heaviest first.\<close>

definition sort_spreads :: "spread list \<Rightarrow> spread list" where
  "sort_spreads ss = sort_key (\<lambda>s. - int (unat (spread_weight s))) ss"

fun distribute :: "usize \<Rightarrow> (spread \<times> usize) list \<Rightarrow> (spread \<times> usize) list" where
  "distribute diff [] = []"
| "distribute diff ((s, count) # rest) =
     (if diff > 0 then (s, count + 1) # distribute (diff - 1) rest
      else (s, count + 0) # distribute diff rest)"

definition compute_spread :: "spread_scaler_property \<Rightarrow> (spread \<times> usize) list outcome" where
  "compute_spread p =
     (let requested_instances = ssc_instances p;
          requested_spreads = sort_spreads (ssc_spread p);
          total_weight = sum_list (map spread_weight requested_spreads) in
      obind (omap_list (\<lambda>s. if total_weight = 0 then Panic
                            else Ret (s, (requested_instances * spread_weight s) div total_weight)) requested_spreads)
        (\<lambda>cs. let computed = (if cs = [] then [(default_spread, requested_instances)] else cs);
                  computed_instances = sum_list (map snd computed) in
          Ret (if computed_instances < requested_instances
               then distribute (requested_instances - computed_instances) computed
               else computed)))"

section \<open>The commands of a spread\<close>

text \<open>The instances whose annotations carry the spread and this scaler, by host; hosts with none are left out.\<close>

definition spread_count :: "string \<Rightarrow> spread \<Rightarrow> instance_set \<Rightarrow> usize" where
  "spread_count scaler_id s insts =
     sum_list (map snd (filter (\<lambda>(a, _). covers a (spreadscaler_annotations (spr_name s) scaler_id)) insts))"

definition running_per_host :: "string \<Rightarrow> spread \<Rightarrow> lcomponent option \<Rightarrow> (string, usize) hmap" where
  "running_per_host scaler_id s c =
     (case c of None \<Rightarrow> []
      | Some c \<Rightarrow> List.map_filter (\<lambda>(h, insts). let count = spread_count scaler_id s insts in
          if count > 0 then Some (h, count) else None) (lc_instances c))"

definition scale_command :: "spread_scaler \<Rightarrow> string \<Rightarrow> u32 \<Rightarrow> btree \<Rightarrow> command" where
  "scale_command sc host_id count annotations =
     ScaleComponent \<lparr>scc_component_id = csc_component_id (sps_config sc), scc_host_id = host_id, scc_count = count,
       scc_reference = csc_reference (sps_config sc), scc_model_name = csc_model_name (sps_config sc),
       scc_annotations = annotations, scc_config = sps_named_config sc\<rparr>"

fun stop_commands :: "(string \<Rightarrow> u32 \<Rightarrow> command) \<Rightarrow> usize \<Rightarrow> usize \<Rightarrow> (string, usize) hmap \<Rightarrow> command list" where
  "stop_commands scale count_to_stop current_stopped [] = []"
| "stop_commands scale count_to_stop current_stopped ((host_id, instance_count) # rest) =
     (let remaining_to_stop = count_to_stop - current_stopped;
          count = (if instance_count < remaining_to_stop then 0 else instance_count - remaining_to_stop) in
      if instance_count > 0
      then scale host_id (ucast count) #
           stop_commands scale count_to_stop (current_stopped + min instance_count remaining_to_stop) rest
      else stop_commands scale count_to_stop current_stopped rest)"

definition spread_commands ::
    "(string \<Rightarrow> u32 \<Rightarrow> command) \<Rightarrow> (string, host) hmap \<Rightarrow> usize \<Rightarrow> (string, usize) hmap \<Rightarrow> command list" where
  "spread_commands scale eligible count running =
     (let current_count = sum_list (map snd running) in
      if current_count = count then []
      else if current_count < count then [scale (fst (hd eligible)) (ucast count)]
      else stop_commands scale (current_count - count) 0 running)"

definition add_running :: "(string, usize) hmap \<Rightarrow> (string, usize) hmap \<Rightarrow> (string, usize) hmap" where
  "add_running running acc =
     fold (\<lambda>(h, n) acc. hm_insert h (case map_of acc h of None \<Rightarrow> n | Some e \<Rightarrow> e + n) acc) running acc"

text \<open>The loop over the requirements: commands, running instances per host, failures.\<close>

fun spread_pass ::
    "spread_scaler \<Rightarrow> lcomponent option \<Rightarrow> (string, host) hmap \<Rightarrow> (string, usize) hmap \<Rightarrow> (spread \<times> usize) list \<Rightarrow>
     command list \<times> (string, usize) hmap \<times> status_info list" where
  "spread_pass sc c hosts acc [] = ([], acc, [])"
| "spread_pass sc c hosts acc ((s, count) # rest) =
     (let eligible = eligible_hosts hosts s in
      if eligible \<noteq> [] then
        let running = running_per_host (sps_id sc) s c;
            cmds = spread_commands
              (\<lambda>h n. scale_command sc h n (spreadscaler_annotations (spr_name s) (sps_id sc))) eligible count running;
            (cs, acc', fs) = spread_pass sc c hosts (add_running running acc) rest
        in (cmds @ cs, acc', fs)
      else
        let (cs, acc', fs) = spread_pass sc c hosts acc rest
        in (cs, acc', si_failed (''Could not satisfy spread '' @ spr_name s @ '' for '' @
             csc_reference (sps_config sc) @ '', 0/1 eligible hosts found.'') # fs))"

section \<open>Conflicting spreads\<close>

definition eligible_instances ::
    "(spread \<times> usize) list \<Rightarrow> (string, host) hmap \<Rightarrow> (string, usize) hmap \<Rightarrow> (string, usize) hmap" where
  "eligible_instances reqs hosts running =
     fold (\<lambda>(s, _). fold (\<lambda>(i, h) m. if covers (ho_labels h) (spr_requirements s)
         then hm_insert i (case map_of running i of None \<Rightarrow> 0 | Some n \<Rightarrow> n) m else m) hosts) reqs []"

text \<open>The largest count per host, the earliest command for equal counts.\<close>

fun changeset_from :: "usize \<Rightarrow> command list \<Rightarrow> (string, usize \<times> usize) hmap \<Rightarrow> (string, usize \<times> usize) hmap" where
  "changeset_from idx [] m = m"
| "changeset_from idx (ScaleComponent s # cs) m =
     (let entry = (case map_of m (scc_host_id s) of None \<Rightarrow> (0, - 1) | Some e \<Rightarrow> e);
          n = ucast (scc_count s);
          entry' = (if n > fst entry \<or> n = fst entry \<and> idx < snd entry then (n, idx) else entry) in
      changeset_from (idx + 1) cs (hm_insert (scc_host_id s) entry' m))"
| "changeset_from idx (_ # cs) m = changeset_from (idx + 1) cs m"

definition projected_instances :: "command list \<Rightarrow> (string, usize) hmap \<Rightarrow> (string, usize) hmap" where
  "projected_instances commands m =
     fold (\<lambda>(h, (n, _)) m. if hm_contains m h then hm_insert h n m else m) (changeset_from 0 commands []) m"

text \<open>Every key of the projected map is a host, so the lookup that unwraps always finds one.\<close>

definition projected_count :: "(string, host) hmap \<Rightarrow> (string, usize) hmap \<Rightarrow> spread \<Rightarrow> usize" where
  "projected_count hosts projected s =
     sum_list (map snd (filter (\<lambda>(i, _). case map_of hosts i of None \<Rightarrow> False
         | Some h \<Rightarrow> covers (ho_labels h) (spr_requirements s)) projected))"

definition conflict_message :: "string \<Rightarrow> usize \<Rightarrow> usize \<Rightarrow> string" where
  "conflict_message spread_name target projected =
     ''Spread requirement conflict: '' @ spread_name @ '' spread requires '' @ show_nat (unat target) @
     '' instances vs '' @ show_nat (unat projected) @ '' computed from reconciliation commands''"

definition detect_conflicts ::
    "(spread \<times> usize) list \<Rightarrow> (string, host) hmap \<Rightarrow> (string, usize) hmap \<Rightarrow> command list \<Rightarrow> string option" where
  "detect_conflicts reqs hosts running commands =
     (let projected = projected_instances commands (eligible_instances reqs hosts running);
          spread_instances = fold (\<lambda>(s, target). hm_insert (spr_name s) (projected_count hosts projected s, target)) reqs [];
          conflicts = map (\<lambda>(n, (p, t)). conflict_message n t p) (filter (\<lambda>(_, (p, t)). p \<noteq> t) spread_instances)
      in if conflicts = [] then None else Some (join_with '', '' conflicts))"

section \<open>The methods of the scaler\<close>

definition remove_ineligible :: "spread_scaler \<Rightarrow> (string, host) hmap \<Rightarrow> command list" where
  "remove_ineligible sc hosts =
     List.map_filter (\<lambda>(host_id, h). if hm_contains (ho_components h) (csc_component_id (sps_config sc))
         then Some (scale_command sc host_id 0 []) else None)
       (compute_ineligible_hosts hosts (map fst (sps_requirements sc)))"

definition spread_decide ::
    "spread_scaler \<Rightarrow> lcomponent option \<Rightarrow> (string, host) hmap \<Rightarrow> command list \<times> status_info" where
  "spread_decide sc c hosts =
     (let removals = remove_ineligible sc hosts in
      if removals \<noteq> [] then (removals, si_reconciling ''Found components running on ineligible hosts, removing them.'')
      else
        let (commands, running, failures) = spread_pass sc c hosts [] (sps_requirements sc) in
        case detect_conflicts (sps_requirements sc) hosts running commands of
          Some message \<Rightarrow> ([], si_failed message)
        | None \<Rightarrow> (commands, pass_status ''component'' failures commands))"

definition spread_reconcile :: "'c lattice_view \<Rightarrow> spread_scaler \<Rightarrow> command list outcome \<times> spread_scaler" where
  "spread_reconcile v sc =
     (case obind (lv_component v (csc_component_id (sps_config sc))) (\<lambda>c.
           obind (lv_hosts v) (\<lambda>hosts. Ret (spread_decide sc c hosts))) of
        Ret (commands, st) \<Rightarrow> (Ret commands, sc\<lparr>sps_status := st\<rparr>)
      | Err e \<Rightarrow> (Err e, sc)
      | Panic \<Rightarrow> (Panic, sc))"

definition spread_handle_event ::
    "'c lattice_view \<Rightarrow> event \<Rightarrow> spread_scaler \<Rightarrow> command list outcome \<times> spread_scaler" where
  "spread_handle_event v e sc =
     (let on_labels = (\<lambda>labels. if matches_some_spread labels (map fst (sps_requirements sc))
                               then spread_reconcile v sc else (Ret [], sc)) in
      case e of
        ComponentScaled evt \<Rightarrow>
          if cse_component_id evt = csc_component_id (sps_config sc) then spread_reconcile v sc else (Ret [], sc)
      | HostStopped h \<Rightarrow> on_labels (hst_labels h)
      | HostStarted h \<Rightarrow> on_labels (hse_labels h)
      | HostHeartbeat h \<Rightarrow> on_labels (hb_labels h)
      | ConfigSet name \<Rightarrow> if name \<in> set (sps_named_config sc) then spread_reconcile v sc else (Ret [], sc)
      | _ \<Rightarrow> (Ret [], sc))"

definition spread_cleanup :: "'c lattice_view \<Rightarrow> spread_scaler \<Rightarrow> command list outcome" where
  "spread_cleanup v sc =
     (let config = (sps_config sc)\<lparr>csc_spread := (csc_spread (sps_config sc))\<lparr>ssc_instances := 0\<rparr>\<rparr> in
      obind (compute_spread (csc_spread config)) (\<lambda>reqs.
        fst (spread_reconcile v
          \<lparr>sps_config = config, sps_requirements = reqs, sps_id = sps_id sc, sps_status = si_reconciling [],
           sps_named_config = sps_named_config sc\<rparr>)))"

definition spread_update_config ::
    "'c lattice_view \<Rightarrow> trait_property \<Rightarrow> spread_scaler \<Rightarrow> command list outcome \<times> spread_scaler" where
  "spread_update_config v config sc =
     (case config of
        TPSpreadScaler p \<Rightarrow>
          let sc1 = sc\<lparr>sps_config := (sps_config sc)\<lparr>csc_spread := p\<rparr>\<rparr> in
          (case compute_spread p of
             Ret reqs \<Rightarrow> spread_reconcile v (sc1\<lparr>sps_requirements := reqs\<rparr>)
           | Err e \<Rightarrow> (Err e, sc1)
           | Panic \<Rightarrow> (Panic, sc1))
      | _ \<Rightarrow> (Err ''Given config was not a spread scaler config object'', sc))"

definition spread_status :: "'c lattice_view \<Rightarrow> spread_scaler \<Rightarrow> status_info \<times> spread_scaler" where
  "spread_status v sc = (let sc' = snd (spread_reconcile v sc) in (sps_status sc', sc'))"

definition spread_new ::
    "(string \<Rightarrow> string) \<Rightarrow> string \<Rightarrow> string \<Rightarrow> string \<Rightarrow> string \<Rightarrow> spread_scaler_property \<Rightarrow> string \<Rightarrow> string list \<Rightarrow>
     spread_scaler outcome" where
  "spread_new digest reference component_id lattice_id model_name spread component_name config =
     obind (compute_spread spread) (\<lambda>reqs.
     Ret \<lparr>sps_config = \<lparr>csc_reference = reference, csc_component_id = component_id, csc_lattice_id = lattice_id,
                         csc_model_name = model_name, csc_spread = spread\<rparr>,
          sps_requirements = reqs,
          sps_id = compute_id digest ([SPREAD_SCALER_KIND, model_name, component_name, component_id, reference] @ config),
          sps_status = si_reconciling [], sps_named_config = config\<rparr>)"

end
