(* ===== verification/Spread_Compute.thy ===== *)
theory Spread_Compute
  imports Spread_Scaler "HOL-Library.Multiset"
begin

text \<open>
  How the requested instances are divided among the spreads: the shares add up to the
  request, and each is its weighted share rounded down or up.
\<close>

section \<open>Sums of machine integers\<close>

lemma len64: "LENGTH(64) = 64"
  by simp

lemma usize_bound: "unat (x :: usize) < 2 ^ 64"
  using unsigned_less [of x] by simp

lemma unat_add_small:
  fixes a b :: "'a::len word"
  shows "unat a + unat b < 2 ^ LENGTH('a) \<Longrightarrow> unat (a + b) = unat a + unat b"
  using unat_add_lem by blast

lemma unat_sum_list:
  fixes xs :: "'a::len word list"
  assumes "sum_list (map unat xs) < 2 ^ LENGTH('a)"
  shows "unat (sum_list xs) = sum_list (map unat xs)"
  using assms by (induction xs) (simp_all add: unat_add_small)

lemma unat_mult_small:
  fixes a b :: "'a::len word"
  shows "unat a * unat b < 2 ^ LENGTH('a) \<Longrightarrow> unat (a * b) = unat a * unat b"
  using unat_mult_lem by blast

lemma unat_diff_le:
  fixes a b :: "'a::len word"
  shows "a \<le> b \<Longrightarrow> unat (b - a) = unat b - unat a"
  by (rule unat_sub)

lemma sum_list_map_le: "(\<And>x. x \<in> set xs \<Longrightarrow> f x \<le> (g x :: nat)) \<Longrightarrow> sum_list (map f xs) \<le> sum_list (map g xs)"
  by (induction xs) (auto intro: add_mono)

text \<open>Rounding down loses less than one instance per spread.\<close>

lemma floor_step:
  fixes y w f a :: nat
  assumes "0 < w"
  shows "y div w * w \<le> y" "y < (y div w + 1) * w"
  using assms by (simp_all add: dividend_less_times_div mult.commute)

lemma floors_sum:
  fixes n w :: nat
  assumes "0 < w"
  shows "sum_list (map (\<lambda>x. n * x div w) xs) * w \<le> n * sum_list xs"
    and "n * sum_list xs \<le> (sum_list (map (\<lambda>x. n * x div w) xs) + length xs) * w"
    and "xs \<noteq> [] \<Longrightarrow> n * sum_list xs < (sum_list (map (\<lambda>x. n * x div w) xs) + length xs) * w"
proof (induction xs)
  case (Cons x xs)
  note f = floor_step [OF assms, of "n * x"]
  {
    case 1
    show ?case using add_mono [OF f(1) Cons.IH(1)] by (simp add: distrib_left distrib_right)
  next
    case 2
    show ?case using add_mono [OF less_imp_le [OF f(2)] Cons.IH(2)] by (simp add: distrib_left distrib_right)
  next
    case 3
    show ?case using add_less_le_mono [OF f(2) Cons.IH(2)] by (simp add: distrib_left distrib_right)
  }
qed simp_all

section \<open>Distributing the remainder\<close>

definition tally :: "('a \<times> usize) list \<Rightarrow> nat" where
  "tally cs = sum_list (map (\<lambda>(_, n). unat n) cs)"

lemma tally_simps [simp]: "tally [] = 0" "tally ((s, n) # cs) = unat n + tally cs"
  by (simp_all add: tally_def)

lemma total_words: "tally cs < 2 ^ 64 \<Longrightarrow> unat (sum_list (map snd cs)) = tally cs"
  using unat_sum_list [of "map snd cs"] by (simp add: tally_def case_prod_beta' comp_def)

lemma distribute_fst [simp]: "map fst (distribute d cs) = map fst cs"
  by (induction d cs rule: distribute.induct) auto

lemma distribute_zero: "distribute 0 cs = cs"
  by (induction cs) auto

lemma distribute_spec:
  assumes "unat d \<le> length cs" and "tally cs + unat d < 2 ^ 64"
  shows "tally (distribute d cs) = tally cs + unat d \<and>
    list_all2 (\<lambda>(s, n) (s', n'). s' = s \<and> unat n \<le> unat n' \<and> unat n' \<le> unat n + 1) cs (distribute d cs)"
  using assms
proof (induction d cs rule: distribute.induct)
  case (1 d)
  then show ?case by simp
next
  case (2 d s n cs)
  show ?case
  proof (cases "d > 0")
    case True
    then have d: "unat (d - 1) = unat d - 1" "unat d > 0"
      by (simp_all add: unat_minus_one unat_gt_0)
    have "unat (n + 1) = unat n + 1" using 2(4) d(2) unat_add_small [of n 1] by simp
    moreover note 2(1) [OF True]
    ultimately show ?thesis using 2(3,4) d True by simp
  next
    case False
    then have "d = 0" by (simp add: word_gt_0)
    then show ?thesis by (auto simp: distribute_zero list_all2_same)
  qed
qed

section \<open>The spreads of a scaler\<close>

abbreviation weights :: "spread list \<Rightarrow> nat" where
  "weights ss \<equiv> sum_list (map (\<lambda>s. unat (spread_weight s)) ss)"

lemma sort_spreads_set [simp]: "set (sort_spreads ss) = set ss" "length (sort_spreads ss) = length ss"
  by (simp_all add: sort_spreads_def)

lemma sort_spreads_Nil [simp]: "sort_spreads ss = [] \<longleftrightarrow> ss = []"
  using sort_spreads_set(2) [of ss] by (metis length_0_conv)

lemma sum_list_sorted: "sum_list (map f (sort_spreads ss)) = (sum_list (map f ss) :: 'a::comm_monoid_add)"
proof -
  have "mset (map f (sort_spreads ss)) = mset (map f ss)" by (simp add: sort_spreads_def)
  then show ?thesis by (simp only: sum_mset_sum_list [symmetric])
qed

lemma omap_list_const: "omap_list (\<lambda>s. if b then Panic else Ret (f s)) xs =
    (if b \<and> xs \<noteq> [] then Panic else Ret (map f xs))"
  by (induction xs) auto

lemma compute_spread_eq:
  "compute_spread p =
     (if ssc_spread p = [] then Ret [(default_spread, ssc_instances p)]
      else if sum_list (map spread_weight (ssc_spread p)) = 0 then Panic
      else let computed = map (\<lambda>s. (s, (ssc_instances p * spread_weight s) div
             sum_list (map spread_weight (ssc_spread p)))) (sort_spreads (ssc_spread p));
          n = sum_list (map snd computed) in
        Ret (if n < ssc_instances p then distribute (ssc_instances p - n) computed else computed))"
  by (simp add: compute_spread_def Let_def omap_list_const sum_list_sorted)

lemma share_exact:
  assumes "weights ss < 2 ^ 64" and "unat n * unat (spread_weight s) < 2 ^ 64"
  shows "unat ((n * spread_weight s) div sum_list (map spread_weight ss)) =
    unat n * unat (spread_weight s) div weights ss"
  using assms unat_sum_list [of "map spread_weight ss"]
  by (simp add: unat_div unat_mult_small comp_def)

lemma shares_total:
  assumes "0 < weights ss" "weights ss < 2 ^ 64" "\<forall>s \<in> set ss. unat n * unat (spread_weight s) < 2 ^ 64" "ss \<noteq> []"
  defines "computed \<equiv> map (\<lambda>s. (s, (n * spread_weight s) div sum_list (map spread_weight ss))) (sort_spreads ss)"
  shows "tally computed \<le> unat n" and "unat n < tally computed + length ss"
proof -
  let ?f = "\<lambda>s. unat n * unat (spread_weight s) div weights ss"
  have "tally computed = sum_list (map ?f (sort_spreads ss))"
    unfolding tally_def computed_def
    using share_exact [OF assms(2)] assms(3) by (intro arg_cong [of _ _ sum_list]) auto
  then have t: "tally computed = sum_list (map (\<lambda>x. unat n * x div weights ss) (map (\<lambda>s. unat (spread_weight s)) ss))"
    by (simp add: sum_list_sorted comp_def)
  note f = floors_sum [OF assms(1), where n = "unat n" and xs = "map (\<lambda>s. unat (spread_weight s)) ss"]
  have "tally computed * weights ss \<le> unat n * weights ss" using f(1) t by simp
  then show "tally computed \<le> unat n" using assms(1) by (metis mult_le_cancel2 not_less)
  have "unat n * weights ss < (tally computed + length ss) * weights ss" using f(3) t assms(4) by simp
  then show "unat n < tally computed + length ss" by simp
qed

text \<open>
  C22. The instances are divided exactly. When the weights and the products of the request with each weight
  fit the machine size and some weight is positive, every spread gets its weighted share of the
  requested instances, rounded down or up, in order of descending weight, and the shares add up
  to the request: no instance is lost to rounding and none is invented.
\<close>

theorem compute_spread_exact:
  assumes "ssc_spread p \<noteq> []" and "0 < weights (ssc_spread p)" and "weights (ssc_spread p) < 2 ^ 64"
    and "\<forall>s \<in> set (ssc_spread p). unat (ssc_instances p) * unat (spread_weight s) < 2 ^ 64"
  shows "\<exists>cs. compute_spread p = Ret cs \<and> map fst cs = sort_spreads (ssc_spread p) \<and>
    sum_list (map (\<lambda>(_, n). unat n) cs) = unat (ssc_instances p) \<and>
    (\<forall>(s, n) \<in> set cs. let share = unat (ssc_instances p) * unat (spread_weight s) div weights (ssc_spread p)
       in share \<le> unat n \<and> unat n \<le> share + 1)"
proof -
  define computed where "computed = map (\<lambda>s. (s, (ssc_instances p * spread_weight s) div
      sum_list (map spread_weight (ssc_spread p)))) (sort_spreads (ssc_spread p))"
  note le = shares_total [OF assms(2,3,4,1), folded computed_def]
  have small: "tally computed < 2 ^ 64" using le(1) usize_bound [of "ssc_instances p"] by simp
  have share: "unat n = unat (ssc_instances p) * unat (spread_weight s) div weights (ssc_spread p)"
    if "(s, n) \<in> set computed" for s n
    using that assms(4) by (auto simp: computed_def share_exact [OF assms(3)])
  have sum: "unat (sum_list (map snd computed)) = tally computed" using total_words small by blast
  have "sum_list (map spread_weight (ssc_spread p)) \<noteq> 0"
    using assms(2,3) unat_sum_list [of "map spread_weight (ssc_spread p)"]
    unfolding map_map comp_def len64 by (metis less_irrefl unsigned_0)
  then have ret: "compute_spread p = Ret (if sum_list (map snd computed) < ssc_instances p
      then distribute (ssc_instances p - sum_list (map snd computed)) computed else computed)"
    using assms(1) by (simp add: compute_spread_eq Let_def computed_def)
  have order: "map fst computed = sort_spreads (ssc_spread p)" by (simp add: computed_def comp_def)
  show ?thesis
  proof (cases "sum_list (map snd computed) < ssc_instances p")
    case False
    then have "tally computed = unat (ssc_instances p)" using le(1) sum by (simp add: word_less_nat_alt)
    moreover have "\<forall>(s, n) \<in> set computed.
        let share = unat (ssc_instances p) * unat (spread_weight s) div weights (ssc_spread p)
        in share \<le> unat n \<and> unat n \<le> share + 1"
      using share by (fastforce simp: Let_def)
    ultimately show ?thesis
      using ret False order by (intro exI [of _ computed]) (simp add: tally_def)
  next
    case True
    let ?d = "ssc_instances p - sum_list (map snd computed)"
    have d: "unat ?d = unat (ssc_instances p) - tally computed"
      using True sum unat_diff_le [of "sum_list (map snd computed)" "ssc_instances p"] by simp
    have "unat ?d \<le> length computed" using le d by (simp add: computed_def)
    moreover have "tally computed + unat ?d < 2 ^ 64" using le d usize_bound [of "ssc_instances p"] by simp
    ultimately have spec: "tally (distribute ?d computed) = unat (ssc_instances p)"
      "list_all2 (\<lambda>(s, n) (s', n'). s' = s \<and> unat n \<le> unat n' \<and> unat n' \<le> unat n + 1) computed (distribute ?d computed)"
      using distribute_spec [of ?d computed] le d by simp_all
    have "\<exists>n'. (s, n') \<in> set computed \<and> unat n' \<le> unat n \<and> unat n \<le> unat n' + 1"
      if "(s, n) \<in> set (distribute ?d computed)" for s n
      using spec(2) that by (fastforce simp: list_all2_conv_all_nth in_set_conv_nth)
    then have "\<forall>(s, n) \<in> set (distribute ?d computed).
        let share = unat (ssc_instances p) * unat (spread_weight s) div weights (ssc_spread p)
        in share \<le> unat n \<and> unat n \<le> share + 1"
      using share by (fastforce simp: Let_def)
    then show ?thesis
      using ret True spec(1) order by (intro exI [of _ "distribute ?d computed"]) (simp add: tally_def)
  qed
qed

lemma compute_spread_exact_witness:
  "\<exists>cs. compute_spread \<lparr>ssc_instances = 10, ssc_spread =
      [\<lparr>spr_name = ''a'', spr_requirements = [], spr_weight = Some 1\<rparr>,
       \<lparr>spr_name = ''b'', spr_requirements = [], spr_weight = Some 2\<rparr>]\<rparr> = Ret cs \<and>
    sum_list (map (\<lambda>(_, n). unat n) cs) = 10"
  using compute_spread_exact [of "\<lparr>ssc_instances = 10, ssc_spread =
      [\<lparr>spr_name = ''a'', spr_requirements = [], spr_weight = Some 1\<rparr>,
       \<lparr>spr_name = ''b'', spr_requirements = [], spr_weight = Some 2\<rparr>]\<rparr>"]
  by (auto simp: spread_weight_def)

text \<open>
  Dividing the instances panics, by a division by zero, exactly when there are spreads and their
  weights add up to zero modulo the machine size, for example when every weight is zero.
\<close>

theorem compute_spread_panic_iff:
  "compute_spread p = Panic \<longleftrightarrow> ssc_spread p \<noteq> [] \<and> sum_list (map spread_weight (ssc_spread p)) = 0"
  by (simp add: compute_spread_eq Let_def)

end
