(* ===== verification/Spread_Properties.thy ===== *)
theory Spread_Properties
  imports Spread_Scaler
begin

text \<open>
  The component spread scaler keeps the contract of a scaler, reports itself deployed only when every
  spread is satisfied, and never starts instances on a host that does not match a spread.
\<close>

section \<open>The commands of a pass\<close>

lemma stop_commands_Nil:
  "stop_commands scale to_stop stopped m = [] \<longleftrightarrow> (\<forall>(h, n) \<in> set m. n = 0)"
  by (induction scale to_stop stopped m rule: stop_commands.induct) (auto simp: Let_def word_gt_0)

lemma sum_list_zero: "(\<forall>(h, n) \<in> set m. n = (0 :: usize)) \<Longrightarrow> sum_list (map snd m) = 0"
  by (induction m) auto

lemma spread_commands_Nil: "spread_commands scale el wanted m = [] \<longleftrightarrow> sum_list (map snd m) = wanted"
proof -
  have "\<not> (\<forall>(h, n) \<in> set m. n = 0)" if "wanted < sum_list (map snd m)"
    using that sum_list_zero [of m] by (metis not_less word_zero_le)
  then show ?thesis
    by (auto simp: spread_commands_def Let_def stop_commands_Nil not_less le_less)
qed

lemma stop_commands_in:
  assumes "c \<in> set (stop_commands scale to_stop stopped m)"
  shows "\<exists>(h, n) \<in> set m. \<exists>k. c = scale h (ucast k) \<and> k \<le> n"
  using assms
proof (induction m arbitrary: stopped)
  case (Cons p m)
  obtain h n where p: "p = (h, n)" by fastforce
  let ?k = "if n < to_stop - stopped then 0 else n - (to_stop - stopped)"
  have "?k \<le> n" by (auto simp: not_less word_le_nat_alt unat_sub)
  moreover have "c = scale h (ucast ?k) \<or> (\<exists>st. c \<in> set (stop_commands scale to_stop st m))"
    using Cons.prems unfolding p stop_commands.simps Let_def by (auto split: if_splits)
  ultimately show ?case using Cons.IH p by auto
qed simp

text \<open>The commands of one spread in a pass, and the pass over the others.\<close>

abbreviation commands_for :: "spread_scaler \<Rightarrow> lcomponent option \<Rightarrow> (string, host) hmap \<Rightarrow> spread \<Rightarrow> usize \<Rightarrow> command list" where
  "commands_for sc c hosts s wanted \<equiv> spread_commands
     (\<lambda>h n. scale_command sc h n (spreadscaler_annotations (spr_name s) (sps_id sc)))
     (eligible_hosts hosts s) wanted (running_per_host (sps_id sc) s c)"

lemma spread_pass_Cons:
  assumes "spread_pass sc c hosts acc ((s, wanted) # rest) = (cs, acc', fs)"
  obtains acc1 cs' where "eligible_hosts hosts s \<noteq> []" "spread_pass sc c hosts acc1 rest = (cs', acc', fs)"
      "cs = commands_for sc c hosts s wanted @ cs'"
  | f fs' where "eligible_hosts hosts s = []" "spread_pass sc c hosts acc rest = (cs, acc', fs')" "fs = f # fs'"
  using assms by (auto simp: Let_def split: if_splits prod.splits)

lemma spread_pass_Nil:
  assumes "spread_pass sc c hosts acc reqs = (cs, acc', fs)"
  shows "cs = [] \<and> fs = [] \<longleftrightarrow> (\<forall>(s, wanted) \<in> set reqs. eligible_hosts hosts s \<noteq> [] \<and>
    sum_list (map snd (running_per_host (sps_id sc) s c)) = wanted)"
  using assms
proof (induction reqs arbitrary: acc cs fs)
  case (Cons p rest)
  obtain s wanted where p: "p = (s, wanted)" by fastforce
  show ?case
    using Cons.prems unfolding p
    by (cases rule: spread_pass_Cons) (auto simp: spread_commands_Nil dest: Cons.IH)
qed simp

definition sends :: "spread_scaler \<Rightarrow> lcomponent option \<Rightarrow> (string, host) hmap \<Rightarrow> spread \<Rightarrow> usize \<Rightarrow> command \<Rightarrow> bool" where
  "sends sc c hosts s wanted cmd =
     (\<exists>h n. cmd = scale_command sc h n (spreadscaler_annotations (spr_name s) (sps_id sc)) \<and>
       (h \<in> fst ` set (eligible_hosts hosts s) \<and> n = ucast wanted \<or>
        (\<exists>k m. (h, m) \<in> set (running_per_host (sps_id sc) s c) \<and> n = ucast k \<and> k \<le> m)))"

lemma sends_start:
  "h \<in> fst ` set (eligible_hosts hosts s) \<Longrightarrow>
   sends sc c hosts s wanted (scale_command sc h (ucast wanted) (spreadscaler_annotations (spr_name s) (sps_id sc)))"
  unfolding sends_def by blast

lemma sends_stop:
  "(h, m) \<in> set (running_per_host (sps_id sc) s c) \<Longrightarrow> k \<le> m \<Longrightarrow>
   sends sc c hosts s wanted (scale_command sc h (ucast k) (spreadscaler_annotations (spr_name s) (sps_id sc)))"
  unfolding sends_def by blast

lemma commands_for_sends:
  assumes "eligible_hosts hosts s \<noteq> []" and "cmd \<in> set (commands_for sc c hosts s wanted)"
  shows "sends sc c hosts s wanted cmd"
proof -
  have "fst (hd (eligible_hosts hosts s)) \<in> fst ` set (eligible_hosts hosts s)" using assms(1) by simp
  then show ?thesis
    using assms(2) unfolding spread_commands_def Let_def
    by (auto split: if_splits dest!: stop_commands_in intro: sends_start sends_stop)
qed

lemma spread_pass_in:
  assumes "spread_pass sc c hosts acc reqs = (cs, acc', fs)" and "cmd \<in> set cs"
  shows "\<exists>(s, wanted) \<in> set reqs. sends sc c hosts s wanted cmd"
  using assms
proof (induction reqs arbitrary: acc cs fs)
  case (Cons p rest)
  obtain s wanted where p: "p = (s, wanted)" by fastforce
  from Cons.prems(1) [unfolded p] show ?case
  proof (cases rule: spread_pass_Cons)
    case (1 acc1 cs')
    then show ?thesis using Cons.IH [of acc1 cs' fs] Cons.prems(2) commands_for_sends [of hosts s cmd sc wanted c] by (auto simp: p)
  next
    case (2 f fs')
    then show ?thesis using Cons.IH [of acc cs fs'] Cons.prems(2) by (auto simp: p)
  qed
qed simp

section \<open>Reconciling\<close>

lemma remove_ineligible_in:
  "c \<in> set (remove_ineligible sc hosts) \<longleftrightarrow>
    (\<exists>i h. (i, h) \<in> set (compute_ineligible_hosts hosts (map fst (sps_requirements sc))) \<and>
      hm_contains (ho_components h) (csc_component_id (sps_config sc)) \<and> c = scale_command sc i 0 [])"
  by (force simp: remove_ineligible_def List.map_filter_def split: if_splits)

lemma spread_decide_cases:
  obtains (ineligible) "remove_ineligible sc hosts \<noteq> []"
      "spread_decide sc c hosts = (remove_ineligible sc hosts,
         si_reconciling ''Found components running on ineligible hosts, removing them.'')"
  | (conflict) msg where "remove_ineligible sc hosts = []" "spread_decide sc c hosts = ([], si_failed msg)"
  | (pass) cs run fs where "remove_ineligible sc hosts = []"
      "spread_pass sc c hosts [] (sps_requirements sc) = (cs, run, fs)"
      "detect_conflicts (sps_requirements sc) hosts run cs = None"
      "spread_decide sc c hosts = (cs, pass_status ''component'' fs cs)"
proof -
  obtain cs run fs where p: "spread_pass sc c hosts [] (sps_requirements sc) = (cs, run, fs)"
    by (cases "spread_pass sc c hosts [] (sps_requirements sc)") auto
  show thesis
  proof (cases "remove_ineligible sc hosts \<noteq> []")
    case True
    then show thesis by (intro ineligible) (simp_all add: spread_decide_def)
  next
    case False
    show thesis
    proof (cases "detect_conflicts (sps_requirements sc) hosts run cs")
      case None
      with False p show thesis by (intro pass) (simp_all add: spread_decide_def)
    next
      case (Some msg)
      with False p show thesis by (intro conflict) (simp_all add: spread_decide_def)
    qed
  qed
qed

lemma spread_reconcile_Ret:
  assumes "fst (spread_reconcile v sc) = Ret cs"
  obtains c hosts st where "lv_component v (csc_component_id (sps_config sc)) = Ret c" "lv_hosts v = Ret hosts"
    "spread_decide sc c hosts = (cs, st)" "snd (spread_reconcile v sc) = sc\<lparr>sps_status := st\<rparr>"
  using assms unfolding spread_reconcile_def
  by (auto split: outcome.splits prod.splits)

definition spread_own :: "spread_scaler \<Rightarrow> command \<Rightarrow> bool" where
  "spread_own sc cmd =
     (case cmd of ScaleComponent s \<Rightarrow>
        cmd = scale_command sc (scc_host_id s) (scc_count s) (scc_annotations s)
      | _ \<Rightarrow> False)"

lemma spread_own_scale [simp]: "spread_own sc (scale_command sc h n a)"
  by (simp add: spread_own_def scale_command_def)

lemma spread_own_cong:
  "sps_named_config sc' = sps_named_config sc \<Longrightarrow> csc_component_id (sps_config sc') = csc_component_id (sps_config sc) \<Longrightarrow>
   csc_reference (sps_config sc') = csc_reference (sps_config sc) \<Longrightarrow>
   csc_model_name (sps_config sc') = csc_model_name (sps_config sc) \<Longrightarrow> spread_own sc' = spread_own sc"
  by (simp add: fun_eq_iff spread_own_def scale_command_def split: command.split)

lemma spread_decide_own:
  assumes "spread_decide sc c hosts = (cs, st)" and "cmd \<in> set cs"
  shows "spread_own sc cmd"
  using assms
proof (cases rule: spread_decide_cases [of sc hosts c])
  case ineligible
  then show ?thesis using assms by (auto simp: remove_ineligible_in)
next
  case (pass cs' run fs)
  then show ?thesis using assms spread_pass_in [OF pass(2), of cmd] by (auto simp: sends_def)
qed auto

lemma spread_reconcile_keeps: "spread_own (snd (spread_reconcile v sc)) = spread_own sc"
  by (intro spread_own_cong) (simp_all add: spread_reconcile_def split: outcome.split prod.split)

lemma spread_reconcile_own: "fst (spread_reconcile v sc) = Ret cs \<Longrightarrow> c \<in> set cs \<Longrightarrow> spread_own sc c"
  by (erule spread_reconcile_Ret) (blast intro: spread_decide_own)

lemma spread_decide_deployed:
  assumes "spread_decide sc c hosts = (cs, st)" and "si_type st = Deployed"
  obtains run where "cs = []" "remove_ineligible sc hosts = []"
    "spread_pass sc c hosts [] (sps_requirements sc) = ([], run, [])"
  using assms
proof (cases rule: spread_decide_cases [of sc hosts c])
  case (pass cs' run fs)
  then show ?thesis using assms that by (auto simp: pass_status_deployed)
qed auto

lemma spread_handle_cases: "spread_handle_event v e sc = spread_reconcile v sc \<or> spread_handle_event v e sc = (Ret [], sc)"
  by (cases e) (auto simp: spread_handle_event_def Let_def)

interpretation spreads: scaler spread_reconcile spread_handle_event spread_cleanup sps_status spread_own
proof (unfold_locales, goal_cases)
  case (1 v e s cs)
  then show ?case using spread_handle_cases [of v e s] by auto
next
  case (2 v s cs c)
  then show ?case by (rule spread_reconcile_own)
next
  case (3 v s cs c)
  then show ?case
    unfolding spread_cleanup_def Let_def
    by (auto dest!: spread_reconcile_own intro: spread_own_cong [THEN fun_cong, THEN iffD1, rotated -1])
next
  case (4 v s)
  then show ?case by (rule spread_reconcile_keeps)
next
  case (5 v e s)
  then show ?case using spread_handle_cases [of v e s] spread_reconcile_keeps [of v s] by auto
next
  case (6 v s cs)
  then show ?case
    by (elim spread_reconcile_Ret) (auto elim: spread_decide_deployed)
qed

section \<open>Properties\<close>

text \<open>
  C23. A spread scaler that reports deployed is satisfied: it has no commands, the component runs on no host
  that matches none of the spreads, and every spread has a matching host and exactly its
  number of instances running.
\<close>

theorem spread_deployed_sound:
  assumes "hm_wf hosts" and "spread_decide sc c hosts = (cs, st)" and "si_type st = Deployed"
  shows "cs = [] \<and>
    (\<forall>i h. map_of hosts i = Some h \<and> hm_contains (ho_components h) (csc_component_id (sps_config sc)) \<longrightarrow>
       (\<exists>(s, _) \<in> set (sps_requirements sc). covers (ho_labels h) (spr_requirements s))) \<and>
    (\<forall>(s, wanted) \<in> set (sps_requirements sc).
       (\<exists>i h. map_of hosts i = Some h \<and> covers (ho_labels h) (spr_requirements s)) \<and>
       sum_list (map snd (running_per_host (sps_id sc) s c)) = wanted)"
  using assms(2,3)
proof (rule spread_decide_deployed)
  fix run
  assume a: "cs = []" "remove_ineligible sc hosts = []" "spread_pass sc c hosts [] (sps_requirements sc) = ([], run, [])"
  have "\<exists>(s, _) \<in> set (sps_requirements sc). covers (ho_labels h) (spr_requirements s)"
    if "map_of hosts i = Some h" "hm_contains (ho_components h) (csc_component_id (sps_config sc))" for i h
    using a(2) remove_ineligible_in [of _ sc hosts] ineligible_iff [OF assms(1), of i h "map fst (sps_requirements sc)"]
      map_of_SomeD [OF that(1)] that(2) by fastforce
  moreover have "\<forall>(s, wanted) \<in> set (sps_requirements sc). eligible_hosts hosts s \<noteq> [] \<and>
      sum_list (map snd (running_per_host (sps_id sc) s c)) = wanted"
    using spread_pass_Nil [OF a(3)] by simp
  moreover have "\<exists>i h. map_of hosts i = Some h \<and> covers (ho_labels h) (spr_requirements s)"
    if ne: "eligible_hosts hosts s \<noteq> []" for s
  proof -
    obtain i h where "(i, h) \<in> set (eligible_hosts hosts s)" using ne by (cases "eligible_hosts hosts s") auto
    then show ?thesis using assms(1) by (auto simp: eligible_iff hm_wf_def)
  qed
  ultimately show ?thesis using a(1) by fast
qed


definition ex_spread :: spread_scaler where
  "ex_spread =
     \<lparr>sps_config = \<lparr>csc_reference = ''r'', csc_component_id = ''c'', csc_lattice_id = ''l'', csc_model_name = ''m'',
        csc_spread = \<lparr>ssc_instances = 5, ssc_spread = []\<rparr>\<rparr>,
      sps_requirements = [(default_spread, 5)], sps_id = ''i'', sps_status = si_reconciling [], sps_named_config = []\<rparr>"

definition ex_hosts :: "(string, host) hmap" where
  "ex_hosts = [(''h1'', \<lparr>ho_components = [], ho_friendly_name = [], ho_labels = [], ho_providers = [],
     ho_uptime_seconds = 0, ho_version = None, ho_id = ''h1'', ho_last_seen = 0\<rparr>)]"

definition ex_running :: lcomponent where
  "ex_running = \<lparr>lc_id = ''c'', lc_name = [], lc_issuer = [],
     lc_instances = [(''h1'', [(spreadscaler_annotations ''default'' ''i'', 5)])], lc_reference = ''r''\<rparr>"

lemmas ex_decide = spread_decide_def remove_ineligible_def compute_ineligible_hosts_def eligible_hosts_def covers_def
  detect_conflicts_def projected_instances_def eligible_instances_def projected_count_def running_per_host_def
  spread_count_def spread_commands_def pass_status_def add_running_def map_filter_simps default_spread_def
  ex_spread_def ex_hosts_def ex_running_def scale_command_def hm_contains_def

lemma spread_deployed_sound_witness:
  "fst (spread_decide ex_spread (Some ex_running) ex_hosts) = [] \<and>
   sum_list (map snd (running_per_host ''i'' default_spread (Some ex_running))) = 5"
proof -
  have d: "spread_decide ex_spread (Some ex_running) ex_hosts = ([], si_deployed [])"
    by (simp add: ex_decide spreadscaler_annotations_def bt_extend_def SCALER_KEY_def SPREAD_KEY_def)
  have "sum_list (map snd (running_per_host ''i'' default_spread (Some ex_running))) = 5"
    using spread_deployed_sound [OF _ d] by (simp add: ex_hosts_def ex_spread_def)
  then show ?thesis by (simp add: d)
qed


end
