(* ===== verification/Spread_Converge.thy ===== *)
theory Spread_Converge
  imports Spread_Compute Event_Effects
begin

text \<open>
  The closed loop of the component spread scaler: the commands of a spread are carried out, the hosts
  answer each with its expected event, and the event handler records it in the lattice. After two rounds
  the spread has exactly its instances, whatever was running before.
\<close>

section \<open>Counts by host\<close>

lemma tally_in: "(h, n) \<in> set m \<Longrightarrow> unat n \<le> tally m"
  by (induction m) auto

lemma tally_delete: "hm_wf m \<Longrightarrow> tally (AList.delete h m) + (case map_of m h of None \<Rightarrow> 0 | Some n \<Rightarrow> unat n) = tally m"
proof (induction m)
  case (Cons p m)
  obtain g n where p: "p = (g, n)" by fastforce
  show ?case
  proof (cases "g = h")
    case True
    with Cons.prems p have "AList.delete h m = m"
      by (auto simp: hm_wf_def)
    with True p show ?thesis by simp
  next
    case False
    with Cons p show ?thesis by (auto simp: hm_wf_def split: option.splits)
  qed
qed simp

lemma tally_cong:
  assumes "hm_wf m" "hm_wf m'" "map_of m = map_of m'"
  shows "tally m = tally m'"
  using assms
proof (induction m arbitrary: m')
  case Nil
  then show ?case by (metis map_of_Nil_iff map_of.simps(1) tally_simps(1))
next
  case (Cons p m)
  obtain h n where p: "p = (h, n)" by fastforce
  have "map_of m h = None" using Cons.prems(1) p by (simp add: hm_wf_def map_of_eq_None_iff)
  then have "map_of m = map_of (AList.delete h m')"
    using Cons.prems(3) p by (auto simp: fun_eq_iff split: if_splits)
  moreover have "hm_wf m" using Cons.prems(1) by (simp add: hm_wf_def)
  ultimately have "tally m = tally (AList.delete h m')" using Cons.IH [OF _ hm_wf_delete [OF Cons.prems(2)]] by blast
  moreover have "map_of m' h = Some n" using Cons.prems(3) p by (metis map_of_Cons_code(2))
  ultimately show ?case using tally_delete [OF Cons.prems(2), of h] p by simp
qed

text \<open>Setting the count of a host, zero removing it.\<close>

definition set_count :: "string \<Rightarrow> usize \<Rightarrow> (string \<Rightarrow> usize option) \<Rightarrow> string \<Rightarrow> usize option" where
  "set_count h n f = f(h := if n = 0 then None else Some n)"

fun stops :: "usize \<Rightarrow> usize \<Rightarrow> (string, usize) hmap \<Rightarrow> (string, usize) hmap" where
  "stops to_stop stopped [] = []"
| "stops to_stop stopped ((h, n) # rest) =
     (h, if n < to_stop - stopped then 0 else n - (to_stop - stopped)) #
     stops to_stop (stopped + min n (to_stop - stopped)) rest"

lemma stop_commands_stops:
  "\<forall>(h, n) \<in> set m. n > 0 \<Longrightarrow>
   stop_commands scale to_stop stopped m = map (\<lambda>(h, n). scale h (ucast n)) (stops to_stop stopped m)"
  by (induction to_stop stopped m rule: stops.induct) (auto simp: Let_def)

lemma stops_fst [simp]: "map fst (stops to_stop stopped m) = map fst m"
  by (induction to_stop stopped m rule: stops.induct) auto

lemma stops_length [simp]: "length (stops to_stop stopped m) = length m"
  by (metis length_map stops_fst)

lemma stops_le: "list_all2 (\<lambda>(h, n) (h', n'). h' = h \<and> unat n' \<le> unat n) m (stops to_stop stopped m)"
  by (induction to_stop stopped m rule: stops.induct)
    (auto simp: not_less unat_sub word_le_nat_alt)

lemma tally_stops:
  assumes "stopped \<le> to_stop" and "unat to_stop - unat stopped \<le> tally m" and "tally m < 2 ^ 64"
  shows "tally (stops to_stop stopped m) + (unat to_stop - unat stopped) = tally m"
  using assms
proof (induction to_stop stopped m rule: stops.induct)
  case (1 to_stop stopped)
  then show ?case by simp
next
  case (2 to_stop stopped h n rest)
  let ?r = "to_stop - stopped"
  have r: "unat ?r = unat to_stop - unat stopped" "unat stopped \<le> unat to_stop"
    using 2(2) by (simp_all add: unat_sub word_le_nat_alt)
  have m: "unat (min n ?r) = min (unat n) (unat ?r)"
    by (simp add: min_def word_le_nat_alt)
  have s: "unat (stopped + min n ?r) = unat stopped + min (unat n) (unat ?r)"
  proof -
    have "unat stopped + unat (min n ?r) < 2 ^ 64" using r usize_bound [of to_stop] m by linarith
    then show ?thesis using unat_add_small [of stopped "min n ?r"] m by simp
  qed
  have "stopped + min n ?r \<le> to_stop" using s r by (simp add: word_le_nat_alt)
  with 2 have IH: "tally (stops to_stop (stopped + min n ?r) rest) +
      (unat to_stop - (unat stopped + min (unat n) (unat ?r))) = tally rest"
    using s r by auto
  have "unat (if n < ?r then 0 else n - ?r) = unat n - min (unat n) (unat ?r)"
    by (simp add: word_less_nat_alt unat_sub word_le_nat_alt)
  with IH r 2(3) show ?case unfolding stops.simps tally_simps by linarith
qed

lemma set_counts_lookup:
  assumes "distinct (map fst m)"
  shows "fold (\<lambda>(h, n). set_count h n) m f g =
    (case map_of m g of None \<Rightarrow> f g | Some n \<Rightarrow> if n = 0 then None else Some n)"
  using assms
proof (induction m arbitrary: f)
  case (Cons p m)
  then show ?case
    by (cases p) (auto simp: set_count_def map_of_eq_None_iff [symmetric] split: option.splits)
qed simp

lemma tally_nonzero: "tally (filter (\<lambda>(h, n). n \<noteq> 0) m) = tally m"
  by (induction m) auto

lemma map_of_nonzero:
  assumes "distinct (map fst m)"
  shows "map_of (filter (\<lambda>(h, n). n \<noteq> 0) m) g = (case map_of m g of None \<Rightarrow> None | Some n \<Rightarrow> if n = 0 then None else Some n)"
  using map_of_retain [of m "\<lambda>h n. n \<noteq> 0" g] assms by (simp add: hm_retain_def hm_wf_def split: option.split)

section \<open>The running instances of a spread\<close>

lemma spread_count_single:
  assumes "hm_wf insts" and "\<forall>(a, n) \<in> set insts. covers a (spreadscaler_annotations (spr_name sp) i) \<longrightarrow> a = A"
    and "covers A (spreadscaler_annotations (spr_name sp) i)"
  shows "spread_count i sp insts = (case map_of insts A of None \<Rightarrow> 0 | Some n \<Rightarrow> n)"
  using assms
proof (induction insts)
  case (Cons p insts)
  obtain a n where p: "p = (a, n)" by fastforce
  have IH: "spread_count i sp insts = (case map_of insts A of None \<Rightarrow> 0 | Some n \<Rightarrow> n)"
    using Cons by (simp add: hm_wf_def)
  show ?case
  proof (cases "a = A")
    case True
    then have "map_of insts A = None" using Cons.prems(1) p by (simp add: hm_wf_def map_of_eq_None_iff)
    with IH True p Cons.prems(3) show ?thesis by (simp add: spread_count_def)
  next
    case False
    with IH p Cons.prems(2) show ?thesis by (auto simp: spread_count_def)
  qed
qed (simp add: spread_count_def)

text \<open>All instances of the spread run under its managed annotations.\<close>

definition spread_annotations :: "spread_scaler \<Rightarrow> spread \<Rightarrow> btree" where
  "spread_annotations sc sp = spreadscaler_annotations (spr_name sp) (sps_id sc)"

definition managed_key :: "spread_scaler \<Rightarrow> spread \<Rightarrow> btree" where
  "managed_key sc sp = insert_managed_annotations (csc_model_name (sps_config sc)) (spread_annotations sc sp)"

definition only_managed :: "spread_scaler \<Rightarrow> spread \<Rightarrow> lattice \<Rightarrow> bool" where
  "only_managed sc sp s =
     (\<forall>h a n. instances_at s (csc_component_id (sps_config sc)) h a = Some n \<and> covers a (spread_annotations sc sp) \<longrightarrow>
        a = managed_key sc sp)"

definition running_in :: "spread_scaler \<Rightarrow> spread \<Rightarrow> lattice \<Rightarrow> (string, usize) hmap" where
  "running_in sc sp s =
     running_per_host (sps_id sc) sp (map_of (la_components s) (csc_component_id (sps_config sc)))"

definition positive :: "usize option \<Rightarrow> usize option" where
  "positive r = (case r of None \<Rightarrow> None | Some n \<Rightarrow> if n = 0 then None else Some n)"

lemma managed_covers: "covers (managed_key sc sp) (spread_annotations sc sp)"
  unfolding managed_key_def spread_annotations_def covers_annotations insert_managed_annotations_def
  by (simp add: map_of_bt_extend annotations_lookup annotation_consts SCALER_KEY_def SPREAD_KEY_def)

lemma running_wf:
  assumes "lattice_ok s"
  shows "hm_wf (running_in sc sp s)" and "\<forall>(h, n) \<in> set (running_in sc sp s). n > 0"
proof -
  have *: "running_per_host i sp (Some c) = List.map_filter (\<lambda>(h, insts). map_option (Pair h)
      (if spread_count i sp insts > 0 then Some (spread_count i sp insts) else None)) (lc_instances c)" for i c
    by (simp add: running_per_host_def Let_def if_distrib cong: if_cong)
  show "hm_wf (running_in sc sp s)"
    using lattice_okD(1) [OF assms] unfolding running_in_def
    by (cases "map_of (la_components s) (csc_component_id (sps_config sc))")
      (simp_all add: running_per_host_def [where c = None] * hm_wf_map_filter component_wf_def)
  show "\<forall>(h, n) \<in> set (running_in sc sp s). n > 0"
    unfolding running_in_def
    by (cases "map_of (la_components s) (csc_component_id (sps_config sc))")
      (auto simp: running_per_host_def List.map_filter_def Let_def split: if_splits)
qed

lemma running_lookup:
  assumes "lattice_ok s" and "only_managed sc sp s"
  shows "map_of (running_in sc sp s) h =
    positive (instances_at s (csc_component_id (sps_config sc)) h (managed_key sc sp))"
proof (cases "map_of (la_components s) (csc_component_id (sps_config sc))")
  case None
  then show ?thesis by (simp add: running_in_def running_per_host_def instances_at_def positive_def)
next
  case (Some c)
  have w: "component_wf (csc_component_id (sps_config sc)) c" using lattice_okD(1) [OF assms(1) Some] .
  then have wf: "hm_wf (lc_instances c)" by (simp add: component_wf_def)
  have cnt: "spread_count (sps_id sc) sp insts = (case map_of insts (managed_key sc sp) of None \<Rightarrow> 0 | Some n \<Rightarrow> n)"
    if "map_of (lc_instances c) h = Some insts" for insts
  proof (rule spread_count_single)
    show wfi: "hm_wf insts" using w map_of_SomeD [OF that] by (auto simp: component_wf_def)
    have "instances_at s (csc_component_id (sps_config sc)) h a = Some n" if "(a, n) \<in> set insts" for a n
      using that \<open>map_of (lc_instances c) h = Some insts\<close> Some wfi by (simp add: instances_at_def hm_wf_def)
    then show "\<forall>(a, n) \<in> set insts. covers a (spreadscaler_annotations (spr_name sp) (sps_id sc)) \<longrightarrow> a = managed_key sc sp"
      using assms(2) unfolding only_managed_def spread_annotations_def by blast
    show "covers (managed_key sc sp) (spreadscaler_annotations (spr_name sp) (sps_id sc))"
      using managed_covers unfolding spread_annotations_def .
  qed
  have *: "running_in sc sp s = List.map_filter (\<lambda>(h, insts). map_option (Pair h)
      (if spread_count (sps_id sc) sp insts > 0 then Some (spread_count (sps_id sc) sp insts) else None)) (lc_instances c)"
    using Some by (simp add: running_in_def running_per_host_def Let_def if_distrib cong: if_cong)
  show ?thesis
    unfolding * map_of_map_filter [OF wf]
    using cnt Some by (auto simp: instances_at_def positive_def word_gt_0 split: option.splits)
qed

section \<open>Carrying out the commands\<close>

text \<open>The hosts carry out the commands: each causes its expected event, which is handled.\<close>

definition settle :: "command list \<Rightarrow> lattice \<Rightarrow> lattice" where
  "settle cmds s =
     fold (\<lambda>c s. case corresponding_event c of
         Some (ComponentScaled e, _) \<Rightarrow> snd (handle_component_scaled e s) | _ \<Rightarrow> s) cmds s"

lemma settle_simps: "settle [] s = s" "settle (c # cs) s = settle cs (settle [c] s)"
  by (simp_all add: settle_def)

definition ready :: "spread_scaler \<Rightarrow> spread \<Rightarrow> lattice \<Rightarrow> bool" where
  "ready sc sp s \<longleftrightarrow> lattice_ok s \<and> la_faults s = [] \<and> only_managed sc sp s"

lemma component_scaled_keeps: "lattice_ok s \<Longrightarrow> lattice_ok (snd (handle_component_scaled e s))"
  using keeps_component_scaled [of e]
  by (cases "handle_component_scaled e s") (auto simp: keeps_def triple_def split: option.splits)

lemma settle_one:
  fixes h :: string and n :: u32
  assumes "ready sc sp s"
  defines "s' \<equiv> settle [scale_command sc h n (spread_annotations sc sp)] s"
  shows "ready sc sp s'"
    and "map_of (running_in sc sp s') = set_count h (ucast n) (map_of (running_in sc sp s))"
proof -
  define e where "e = \<lparr>cse_annotations = managed_key sc sp, cse_claims = None,
      cse_image_ref = csc_reference (sps_config sc), cse_max_instances = ucast n,
      cse_component_id = csc_component_id (sps_config sc), cse_host_id = h\<rparr>"
  have r: "lattice_ok s" "la_faults s = []" "only_managed sc sp s" using assms(1) by (simp_all add: ready_def)
  have s': "s' = snd (handle_component_scaled e s)"
    by (simp add: s'_def settle_def corresponding_event_def scale_command_def Let_def e_def managed_key_def)
  note run = component_scaled_run [OF r(2), of e]
  have at: "instances_at s' k g a =
     (if k = cse_component_id e \<and> g = cse_host_id e \<and> a = cse_annotations e
      then (if cse_max_instances e = 0 \<and> map_of (la_components s) k \<noteq> None then None
            else Some (cse_max_instances e))
      else instances_at s k g a)" for k g a
    unfolding s' run snd_conv by (rule instances_scaled [OF r(1)])
  have ok: "lattice_ok s'" unfolding s' by (rule component_scaled_keeps [OF r(1)])
  have faults: "la_faults s' = []" unfolding s' run using r(2) by (simp split: option.split)
  have managed: "only_managed sc sp s'"
    using r(3) unfolding only_managed_def at by (auto simp: e_def)
  show "ready sc sp s'" using ok faults managed by (simp add: ready_def)
  show "map_of (running_in sc sp s') = set_count h (ucast n) (map_of (running_in sc sp s))"
  proof
    fix g
    show "map_of (running_in sc sp s') g = set_count h (ucast n) (map_of (running_in sc sp s)) g"
      unfolding running_lookup [OF ok managed] running_lookup [OF r(1,3)] at set_count_def
      by (auto simp: e_def positive_def)
  qed
qed

definition sent :: "spread_scaler \<Rightarrow> spread \<Rightarrow> (string, usize) hmap \<Rightarrow> command list" where
  "sent sc sp m = map (\<lambda>(h, n). scale_command sc h (ucast n) (spread_annotations sc sp)) m"

lemma narrow_widen: "unat n < 2 ^ 32 \<Longrightarrow> (ucast (ucast (n :: usize) :: u32) :: usize) = n"
  by (intro word_unat_eq_iff [THEN iffD2]) (simp add: unat_narrow)

lemma settle_many:
  assumes "ready sc sp s"
  shows "ready sc sp (settle (sent sc sp m) s)"
    and "\<forall>(h, n) \<in> set m. unat n < 2 ^ 32 \<Longrightarrow> map_of (running_in sc sp (settle (sent sc sp m) s)) =
      fold (\<lambda>(h, n). set_count h n) m (map_of (running_in sc sp s))"
  using assms
proof (induction m arbitrary: s)
  case Nil
  {
    case 1
    then show ?case by (simp add: sent_def settle_simps(1))
  next
    case 2
    then show ?case by (simp add: sent_def settle_simps(1))
  }
next
  case (Cons p m)
  obtain h n where p: "p = (h, n)" by fastforce
  have step: "settle (sent sc sp (p # m)) s =
      settle (sent sc sp m) (settle [scale_command sc h (ucast n) (spread_annotations sc sp)] s)" for s
    unfolding sent_def p list.map prod.case by (rule settle_simps(2))
  {
    case 1
    show ?case unfolding step by (rule Cons.IH(1) [OF settle_one(1) [OF 1]])
  next
    case 2
    then have n: "unat n < 2 ^ 32" and m: "\<forall>(h, n) \<in> set m. unat n < 2 ^ 32" using p by auto
    show ?case
      unfolding step Cons.IH(2) [OF m settle_one(1) [OF 2(2)]] settle_one(2) [OF 2(2)] narrow_widen [OF n]
      by (simp add: p)
  }
qed

section \<open>Rounds\<close>

definition commands_in :: "spread_scaler \<Rightarrow> spread \<Rightarrow> usize \<Rightarrow> (string, host) hmap \<Rightarrow> lattice \<Rightarrow> command list" where
  "commands_in sc sp wanted eligible s =
     spread_commands (\<lambda>h n. scale_command sc h n (spread_annotations sc sp)) eligible wanted (running_in sc sp s)"

definition spread_round :: "spread_scaler \<Rightarrow> spread \<Rightarrow> usize \<Rightarrow> (string, host) hmap \<Rightarrow> lattice \<Rightarrow> lattice" where
  "spread_round sc sp wanted eligible s = settle (commands_in sc sp wanted eligible s) s"

definition plan :: "usize \<Rightarrow> string \<Rightarrow> (string, usize) hmap \<Rightarrow> (string, usize) hmap" where
  "plan wanted first m =
     (if tally m = unat wanted then []
      else if tally m < unat wanted then [(first, wanted)]
      else stops (sum_list (map snd m) - wanted) 0 m)"

lemma commands_plan:
  assumes "ready sc sp s" and "tally (running_in sc sp s) < 2 ^ 64"
  shows "commands_in sc sp wanted eligible s = sent sc sp (plan wanted (fst (hd eligible)) (running_in sc sp s))"
proof -
  let ?m = "running_in sc sp s"
  have "unat (sum_list (map snd ?m)) = tally ?m" by (rule total_words [OF assms(2)])
  then have "sum_list (map snd ?m) = wanted \<longleftrightarrow> tally ?m = unat wanted" "sum_list (map snd ?m) < wanted \<longleftrightarrow> tally ?m < unat wanted"
    by (auto simp: word_less_nat_alt word_unat_eq_iff)
  moreover have "\<forall>(h, n) \<in> set ?m. n > 0" using assms(1) by (intro running_wf(2)) (simp add: ready_def)
  ultimately show ?thesis
    by (simp add: commands_in_def spread_commands_def plan_def sent_def stop_commands_stops)
qed

lemma round_ready:
  assumes "ready sc sp s" and "tally (running_in sc sp s) < 2 ^ 64"
  shows "ready sc sp (spread_round sc sp wanted eligible s)"
  unfolding spread_round_def commands_plan [OF assms] by (rule settle_many(1) [OF assms(1)])

lemma round_running:
  fixes wanted :: usize
  assumes "ready sc sp s" and "tally (running_in sc sp s) < 2 ^ 32" and "unat wanted < 2 ^ 32"
  shows "map_of (running_in sc sp (spread_round sc sp wanted eligible s)) =
    fold (\<lambda>(h, n). set_count h n) (plan wanted (fst (hd eligible)) (running_in sc sp s)) (map_of (running_in sc sp s))"
proof -
  let ?m = "running_in sc sp s"
  have small: "unat n < 2 ^ 32" if mem: "(h, n) \<in> set (stops d st ?m)" for h n d st
  proof -
    obtain i where i: "i < length ?m" "stops d st ?m ! i = (h, n)"
      using mem by (metis in_set_conv_nth stops_length)
    then have "unat n \<le> unat (snd (?m ! i))"
      using list_all2_nthD [OF stops_le [of ?m d st] i(1)] by (auto simp: case_prod_beta)
    also have "\<dots> \<le> tally ?m" using i(1) by (intro tally_in [of "fst (?m ! i)"]) simp
    finally show ?thesis using assms(2) by simp
  qed
  then have "\<forall>(h, n) \<in> set (plan wanted (fst (hd eligible)) ?m). unat n < 2 ^ 32"
    using assms(3) by (auto simp: plan_def)
  moreover have "tally ?m < 2 ^ 64" using assms(2) by simp
  ultimately show ?thesis
    unfolding spread_round_def by (simp add: commands_plan [OF assms(1)] settle_many(2) [OF assms(1)])
qed

lemma round_equal:
  assumes "ready sc sp s" and "tally (running_in sc sp s) = unat wanted" and "unat wanted < 2 ^ 32"
  shows "commands_in sc sp wanted eligible s = []" and "spread_round sc sp wanted eligible s = s"
proof -
  have "tally (running_in sc sp s) < 2 ^ 64" using assms(2) usize_bound [of wanted] by simp
  then show "commands_in sc sp wanted eligible s = []"
    using assms(2) by (simp add: commands_plan [OF assms(1)] plan_def sent_def)
  then show "spread_round sc sp wanted eligible s = s" by (simp add: spread_round_def settle_simps(1))
qed

lemma round_more:
  assumes "ready sc sp s" and "unat wanted < tally (running_in sc sp s)" and "tally (running_in sc sp s) < 2 ^ 32"
  shows "tally (running_in sc sp (spread_round sc sp wanted eligible s)) = unat wanted"
proof -
  let ?m = "running_in sc sp s" and ?s' = "spread_round sc sp wanted eligible s"
  let ?d = "sum_list (map snd ?m) - wanted"
  let ?new = "stops ?d 0 ?m"
  have m64: "tally ?m < 2 ^ 64" using assms(3) by simp
  then have "unat (sum_list (map snd ?m)) = tally ?m" by (rule total_words)
  then have d: "unat ?d = tally ?m - unat wanted" using assms(2) by (simp add: unat_sub word_le_nat_alt)
  have wf: "hm_wf ?m" using assms(1) by (intro running_wf(1)) (simp add: ready_def)
  then have dist: "distinct (map fst ?new)" by (simp add: hm_wf_def)
  have "map_of (running_in sc sp ?s') g = map_of (filter (\<lambda>(h, n). n \<noteq> 0) ?new) g" for g
  proof -
    have "plan wanted (fst (hd eligible)) ?m = ?new" using assms(2) by (simp add: plan_def)
    then have "map_of (running_in sc sp ?s') g =
        (case map_of ?new g of None \<Rightarrow> map_of ?m g | Some n \<Rightarrow> if n = 0 then None else Some n)"
      using round_running [OF assms(1,3)] assms(2,3) set_counts_lookup [OF dist] by simp
    moreover have "map_of ?new g = None \<longleftrightarrow> map_of ?m g = None"
      by (metis map_of_eq_None_iff set_map stops_fst)
    ultimately show ?thesis by (auto simp: map_of_nonzero [OF dist] split: option.split)
  qed
  then have "map_of (running_in sc sp ?s') = map_of (filter (\<lambda>(h, n). n \<noteq> 0) ?new)" by blast
  moreover have "hm_wf (running_in sc sp ?s')"
    using round_ready [OF assms(1) m64] by (intro running_wf(1)) (simp add: ready_def)
  moreover have "hm_wf (filter (\<lambda>(h, n). n \<noteq> 0) ?new)" using dist by (simp add: hm_wf_def distinct_map_filter)
  ultimately have "tally (running_in sc sp ?s') = tally ?new" using tally_cong tally_nonzero by metis
  also have "\<dots> = unat wanted" using tally_stops [of 0 ?d ?m] d assms(2) m64 by simp
  finally show ?thesis .
qed

lemma round_less:
  assumes "ready sc sp s" and "tally (running_in sc sp s) < unat wanted" and "unat wanted < 2 ^ 32"
  shows "unat wanted \<le> tally (running_in sc sp (spread_round sc sp wanted eligible s))"
    and "tally (running_in sc sp (spread_round sc sp wanted eligible s)) \<le> tally (running_in sc sp s) + unat wanted"
proof -
  let ?m = "running_in sc sp s" and ?s' = "spread_round sc sp wanted eligible s"
  let ?h = "fst (hd eligible)" and ?m' = "running_in sc sp (spread_round sc sp wanted eligible s)"
  have m: "tally ?m < 2 ^ 32" "tally ?m < 2 ^ 64" using assms(2,3) by simp_all
  have "wanted \<noteq> 0" using assms(2) by auto
  then have lookup: "map_of ?m' = map_of (AList.update ?h wanted ?m)"
    using round_running [OF assms(1) m(1) assms(3)] assms(2) by (auto simp: plan_def set_count_def fun_eq_iff)
  have wf: "hm_wf ?m" using assms(1) by (intro running_wf(1)) (simp add: ready_def)
  have wf': "hm_wf ?m'" using round_ready [OF assms(1) m(2)] by (intro running_wf(1)) (simp add: ready_def)
  have "tally ?m' = tally (AList.update ?h wanted ?m)" by (rule tally_cong [OF wf' hm_wf_update [OF wf] lookup])
  moreover have "tally (AList.delete ?h (AList.update ?h wanted ?m)) + unat wanted = tally (AList.update ?h wanted ?m)"
    using tally_delete [OF hm_wf_update [OF wf, of ?h wanted], of ?h] by simp
  moreover have "tally (AList.delete ?h ?m) \<le> tally ?m" using tally_delete [OF wf, of ?h] by simp
  ultimately show "unat wanted \<le> tally ?m'" "tally ?m' \<le> tally ?m + unat wanted"
    by (simp_all add: delete_update_same)
qed


definition ex_scaler :: spread_scaler where
  "ex_scaler =
     \<lparr>sps_config = \<lparr>csc_reference = ''r'', csc_component_id = ''c'', csc_lattice_id = ''l'', csc_model_name = ''m'',
        csc_spread = \<lparr>ssc_instances = 5, ssc_spread = []\<rparr>\<rparr>,
      sps_requirements = [(default_spread, 5)], sps_id = ''i'', sps_status = si_reconciling [], sps_named_config = []\<rparr>"

lemma ex_scaler_ready: "ready ex_scaler default_spread ex_lattice"
proof -
  have "only_managed ex_scaler default_spread ex_lattice"
    unfolding only_managed_def spread_annotations_def covers_annotations
    by (simp add: instances_at_def ex_lattice_def ex_scaler_def)
  then show ?thesis by (simp add: ready_def ex_lattice_ok ex_lattice_faults)
qed

lemma ex_scaler_running: "running_in ex_scaler default_spread ex_lattice = []"
  by (simp add: running_in_def running_per_host_def ex_scaler_def ex_lattice_def map_filter_simps spread_count_def
      default_spread_def covers_def spreadscaler_annotations_def bt_extend_def SCALER_KEY_def SPREAD_KEY_def)


end
