(* ===== verification/Provider_Scalers.thy ===== *)
theory Provider_Scalers
  imports Spread_Scaler
begin

text \<open>
  The provider scalers: the spread scaler of providers (\<open>scaler/spreadscaler/provider.rs\<close>), which keeps
  a number of hosts running a provider, and the daemon scaler of providers
  (\<open>scaler/daemonscaler/provider.rs\<close>), which keeps it on every matching host. A host's provider set is
  looked up by provider id, the part of \<open>ProviderInfo\<close> its equality compares.
\<close>

record provider_spread_config =
  psc_lattice_id :: string
  psc_provider_id :: string
  psc_reference :: string
  psc_model_name :: string
  psc_spread :: spread_scaler_property
  psc_config :: "string list"

record provider_scaler =
  pvs_config :: provider_spread_config
  pvs_requirements :: "(spread \<times> usize) list"
  pvs_id :: string
  pvs_status :: status_info

section \<open>Commands\<close>

definition start_command :: "provider_spread_config \<Rightarrow> string \<Rightarrow> btree \<Rightarrow> command" where
  "start_command cfg host_id annotations =
     StartProvider \<lparr>stp_reference = psc_reference cfg, stp_provider_id = psc_provider_id cfg, stp_host_id = host_id,
       stp_model_name = psc_model_name cfg, stp_config = psc_config cfg, stp_annotations = annotations\<rparr>"

definition stop_command :: "provider_spread_config \<Rightarrow> string \<Rightarrow> btree \<Rightarrow> command" where
  "stop_command cfg host_id annotations =
     StopProvider \<lparr>spp_provider_id = psc_provider_id cfg, spp_host_id = host_id, spp_model_name = psc_model_name cfg,
       spp_annotations = annotations\<rparr>"

text \<open>Stops of the providers this scaler manages on hosts that match no spread.\<close>

definition stop_ineligible :: "provider_spread_config \<Rightarrow> string \<Rightarrow> spread list \<Rightarrow> (string, host) hmap \<Rightarrow> command list" where
  "stop_ineligible cfg scaler_id spreads hosts =
     List.map_filter (\<lambda>(_, h). case map_of (ho_providers h) (psc_provider_id cfg) of
           None \<Rightarrow> None
         | Some p \<Rightarrow> if map_of (pi_annotations p) SCALER_KEY = Some scaler_id
                    then Some (stop_command cfg (ho_id h) []) else None)
       (compute_ineligible_hosts hosts spreads)"

section \<open>The provider spread scaler\<close>

definition runs_for_spread :: "provider_spread_config \<Rightarrow> string \<Rightarrow> spread \<Rightarrow> string \<times> host \<Rightarrow> bool" where
  "runs_for_spread cfg scaler_id s = (\<lambda>(_, h).
     case map_of (ho_providers h) (psc_provider_id cfg) of
       None \<Rightarrow> False
     | Some p \<Rightarrow> covers (pi_annotations p) (spreadscaler_annotations (spr_name s) scaler_id))"

text \<open>\<open>usize\<close> subtraction that stops at zero.\<close>

definition sat_sub :: "usize \<Rightarrow> usize \<Rightarrow> usize" where
  "sat_sub a b = (if a < b then 0 else a - b)"

definition provider_spread_commands ::
    "provider_spread_config \<Rightarrow> string \<Rightarrow> (string, host) hmap \<Rightarrow> spread \<Rightarrow> usize \<Rightarrow> command list \<times> status_info list" where
  "provider_spread_commands cfg scaler_id hosts s wanted =
     (let eligible = eligible_hosts hosts s;
          running = filter (\<lambda>(_, h). hm_contains (ho_providers h) (psc_provider_id cfg)) eligible;
          other = filter (\<lambda>(_, h). \<not> hm_contains (ho_providers h) (psc_provider_id cfg)) eligible;
          current_running = (of_nat (length running) :: usize);
          for_spread = filter (runs_for_spread cfg scaler_id s) running;
          for_other = filter (\<lambda>h. \<not> runs_for_spread cfg scaler_id s h) running;
          annotations = spreadscaler_annotations (spr_name s) scaler_id in
      if current_running > wanted \<and> for_spread \<noteq> [] then
        (take (unat (current_running - wanted)) (map (\<lambda>(_, h). stop_command cfg (ho_id h) annotations) for_spread), [])
      else if current_running < wanted then
        let num_to_start = sat_sub (sat_sub wanted current_running) (of_nat (length for_other));
            commands = take (unat num_to_start)
              (map (\<lambda>(_, h). start_command cfg (ho_id h) annotations)
                (filter (\<lambda>(_, h). \<not> hm_contains (ho_providers h) (psc_provider_id cfg)) other)) in
        (commands,
         if of_nat (length commands) < num_to_start
         then [si_failed (''Could not satisfy spread '' @ spr_name s @ '' for '' @ psc_reference cfg @ '', '' @
                 show_nat (length for_spread) @ ''/'' @ show_nat (unat wanted) @ '' eligible hosts found.'')]
         else [])
      else ([], []))"

definition provider_spread_decide :: "provider_scaler \<Rightarrow> (string, host) hmap \<Rightarrow> command list \<times> status_info" where
  "provider_spread_decide sc hosts =
     (let removals = stop_ineligible (pvs_config sc) (pvs_id sc) (map fst (pvs_requirements sc)) hosts in
      if removals \<noteq> [] then (removals, si_reconciling ''Found providers running on ineligible hosts, removing them.'')
      else
        let passes = map (\<lambda>(s, wanted). provider_spread_commands (pvs_config sc) (pvs_id sc) hosts s wanted) (pvs_requirements sc);
            commands = concat (map fst passes);
            failures = concat (map snd passes) in
        (commands, pass_status ''provider'' failures commands))"

definition provider_spread_reconcile :: "'c lattice_view \<Rightarrow> provider_scaler \<Rightarrow> command list outcome \<times> provider_scaler" where
  "provider_spread_reconcile v sc =
     (case lv_hosts v of
        Ret hosts \<Rightarrow> (let (commands, st) = provider_spread_decide sc hosts in (Ret commands, sc\<lparr>pvs_status := st\<rparr>))
      | Err e \<Rightarrow> (Err e, sc)
      | Panic \<Rightarrow> (Panic, sc))"

section \<open>Health of the provider\<close>

definition unhealthy_prefix :: string where "unhealthy_prefix = ''Unhealthy provider on''"

definition unhealthy_count :: "provider option \<Rightarrow> nat" where
  "unhealthy_count p = (case p of None \<Rightarrow> 0 | Some p \<Rightarrow> length (filter (\<lambda>(_, st). st = ProvFailed) (pr_hosts p)))"

definition health_update :: "status_info \<Rightarrow> nat \<Rightarrow> status_info option" where
  "health_update st unhealthy =
     (if si_type st = Deployed \<and> unhealthy > 0
      then Some (si_failed (unhealthy_prefix @ '' '' @ show_nat unhealthy @ '' host(s)''))
      else if si_type st = Failed \<and> unhealthy = 0 \<and> starts_with unhealthy_prefix (si_message st)
      then Some (si_deployed [])
      else None)"

definition handle_health ::
    "'c lattice_view \<Rightarrow> provider_health_check_info \<Rightarrow> provider_scaler \<Rightarrow> command list outcome \<times> provider_scaler" where
  "handle_health v info sc =
     (if hci_provider_id info = psc_provider_id (pvs_config sc) then
        (case lv_provider v (psc_provider_id (pvs_config sc)) of
           Ret p \<Rightarrow> (Ret [], case health_update (pvs_status sc) (unhealthy_count p) of
                              None \<Rightarrow> sc | Some st \<Rightarrow> sc\<lparr>pvs_status := st\<rparr>)
         | Err e \<Rightarrow> (Err e, sc)
         | Panic \<Rightarrow> (Panic, sc))
      else (Ret [], sc))"

text \<open>
  The events of both provider scalers; \<open>spreads\<close> are the spreads whose labels are compared and
  \<open>reconcile\<close> is the scaler's own.
\<close>

definition provider_events ::
    "('c lattice_view \<Rightarrow> provider_scaler \<Rightarrow> command list outcome \<times> provider_scaler) \<Rightarrow> (provider_scaler \<Rightarrow> spread list) \<Rightarrow>
     'c lattice_view \<Rightarrow> event \<Rightarrow> provider_scaler \<Rightarrow> command list outcome \<times> provider_scaler" where
  "provider_events reconcile spreads v e sc =
     (let on = (\<lambda>b. if b then reconcile v sc else (Ret [], sc)) in
      case e of
        ProviderStarted p \<Rightarrow> on (pse_provider_id p = psc_provider_id (pvs_config sc))
      | ProviderStopped p \<Rightarrow> on (pst_provider_id p = psc_provider_id (pvs_config sc))
      | HostStopped h \<Rightarrow> on (matches_some_spread (hst_labels h) (spreads sc))
      | HostStarted h \<Rightarrow> on (matches_some_spread (hse_labels h) (spreads sc))
      | HostHeartbeat h \<Rightarrow> on (matches_some_spread (hb_labels h) (spreads sc))
      | ProviderHealthCheckFailed info \<Rightarrow> handle_health v info sc
      | ProviderHealthCheckPassed info \<Rightarrow> handle_health v info sc
      | ConfigSet name \<Rightarrow> on (name \<in> set (psc_config (pvs_config sc)))
      | _ \<Rightarrow> (Ret [], sc))"

definition provider_spread_handle_event ::
    "'c lattice_view \<Rightarrow> event \<Rightarrow> provider_scaler \<Rightarrow> command list outcome \<times> provider_scaler" where
  "provider_spread_handle_event = provider_events provider_spread_reconcile (\<lambda>sc. map fst (pvs_requirements sc))"

definition no_instances :: "provider_spread_config \<Rightarrow> provider_spread_config" where
  "no_instances cfg = cfg\<lparr>psc_spread := (psc_spread cfg)\<lparr>ssc_instances := 0\<rparr>\<rparr>"

definition provider_spread_cleanup :: "'c lattice_view \<Rightarrow> provider_scaler \<Rightarrow> command list outcome" where
  "provider_spread_cleanup v sc =
     (let config = no_instances (pvs_config sc) in
      obind (compute_spread (psc_spread config)) (\<lambda>reqs.
        fst (provider_spread_reconcile v
          \<lparr>pvs_config = config, pvs_requirements = reqs, pvs_id = pvs_id sc, pvs_status = si_reconciling []\<rparr>)))"

definition provider_spread_update_config ::
    "'c lattice_view \<Rightarrow> trait_property \<Rightarrow> provider_scaler \<Rightarrow> command list outcome \<times> provider_scaler" where
  "provider_spread_update_config v config sc =
     (case config of
        TPSpreadScaler p \<Rightarrow>
          (case compute_spread p of
             Ret reqs \<Rightarrow> provider_spread_reconcile v
               (sc\<lparr>pvs_requirements := reqs, pvs_config := (pvs_config sc)\<lparr>psc_spread := p\<rparr>\<rparr>)
           | Err e \<Rightarrow> (Err e, sc)
           | Panic \<Rightarrow> (Panic, sc))
      | _ \<Rightarrow> (Err ''Given config was not a spread scaler config object'', sc))"

definition provider_id_parts :: "string \<Rightarrow> provider_spread_config \<Rightarrow> string \<Rightarrow> string list" where
  "provider_id_parts kind cfg component_name =
     [kind, psc_model_name cfg, component_name, psc_provider_id cfg, psc_reference cfg] @ psc_config cfg"

definition provider_spread_new ::
    "(string \<Rightarrow> string) \<Rightarrow> provider_spread_config \<Rightarrow> string \<Rightarrow> provider_scaler outcome" where
  "provider_spread_new digest config component_name =
     obind (compute_spread (psc_spread config)) (\<lambda>reqs.
     Ret \<lparr>pvs_config = config, pvs_requirements = reqs,
          pvs_id = compute_id digest (provider_id_parts SPREAD_SCALER_KIND config component_name),
          pvs_status = si_reconciling []\<rparr>)"

section \<open>The provider daemon scaler\<close>

text \<open>
  The daemon scaler has no computed requirements: the spreads of its configuration count, and
  \<open>pvs_requirements\<close> is left empty.
\<close>

definition daemon_spreads :: "spread_scaler_property \<Rightarrow> spread_scaler_property" where
  "daemon_spreads p = (if ssc_spread p = [] then \<lparr>ssc_instances = ssc_instances p, ssc_spread = [default_spread]\<rparr> else p)"

definition provider_daemon_commands ::
    "provider_spread_config \<Rightarrow> string \<Rightarrow> (string, host) hmap \<Rightarrow> spread \<Rightarrow> command list \<times> status_info list" where
  "provider_daemon_commands cfg scaler_id hosts s =
     (let eligible = eligible_hosts hosts s;
          annotations = spreadscaler_annotations (spr_name s) scaler_id in
      if eligible \<noteq> [] then
        (List.map_filter (\<lambda>(_, h).
           case map_of (ho_providers h) (psc_provider_id cfg) of
             Some _ \<Rightarrow> if ssc_instances (psc_spread cfg) = 0 then Some (stop_command cfg (ho_id h) annotations) else None
           | None \<Rightarrow> Some (start_command cfg (ho_id h) annotations)) eligible, [])
      else ([], [si_failed (''Could not satisfy daemonscaler '' @ spr_name s @ '' for '' @ psc_reference cfg @
                   '', 0 eligible hosts found.'')]))"

definition provider_daemon_decide :: "provider_scaler \<Rightarrow> (string, host) hmap \<Rightarrow> command list \<times> status_info" where
  "provider_daemon_decide sc hosts =
     (let spreads = ssc_spread (psc_spread (pvs_config sc));
          removals = stop_ineligible (pvs_config sc) (pvs_id sc) spreads hosts in
      if removals \<noteq> [] then (removals, si_reconciling ''Found providers running on ineligible hosts, removing them.'')
      else
        let passes = map (provider_daemon_commands (pvs_config sc) (pvs_id sc) hosts) spreads;
            commands = concat (map fst passes);
            failures = concat (map snd passes) in
        (commands, pass_status ''provider'' failures commands))"

definition provider_daemon_reconcile :: "'c lattice_view \<Rightarrow> provider_scaler \<Rightarrow> command list outcome \<times> provider_scaler" where
  "provider_daemon_reconcile v sc =
     (case lv_hosts v of
        Ret hosts \<Rightarrow> (let (commands, st) = provider_daemon_decide sc hosts in (Ret commands, sc\<lparr>pvs_status := st\<rparr>))
      | Err e \<Rightarrow> (Err e, sc)
      | Panic \<Rightarrow> (Panic, sc))"

definition provider_daemon_handle_event ::
    "'c lattice_view \<Rightarrow> event \<Rightarrow> provider_scaler \<Rightarrow> command list outcome \<times> provider_scaler" where
  "provider_daemon_handle_event = provider_events provider_daemon_reconcile (\<lambda>sc. ssc_spread (psc_spread (pvs_config sc)))"

definition provider_daemon_cleanup :: "'c lattice_view \<Rightarrow> provider_scaler \<Rightarrow> command list outcome" where
  "provider_daemon_cleanup v sc =
     fst (provider_daemon_reconcile v
       (sc\<lparr>pvs_config := no_instances (pvs_config sc), pvs_status := si_reconciling []\<rparr>))"

definition provider_daemon_update_config ::
    "'c lattice_view \<Rightarrow> trait_property \<Rightarrow> provider_scaler \<Rightarrow> command list outcome \<times> provider_scaler" where
  "provider_daemon_update_config v config sc =
     (case config of
        TPSpreadScaler p \<Rightarrow>
          provider_daemon_reconcile v (sc\<lparr>pvs_config := (pvs_config sc)\<lparr>psc_spread := daemon_spreads p\<rparr>\<rparr>)
      | _ \<Rightarrow> (Err ''Given config was not a daemon scaler config object'', sc))"

definition provider_daemon_new :: "(string \<Rightarrow> string) \<Rightarrow> provider_spread_config \<Rightarrow> string \<Rightarrow> provider_scaler" where
  "provider_daemon_new digest config component_name =
     \<lparr>pvs_config = config\<lparr>psc_spread := daemon_spreads (psc_spread config)\<rparr>, pvs_requirements = [],
      pvs_id = compute_id digest (provider_id_parts DAEMON_SCALER_KIND config component_name),
      pvs_status = si_reconciling []\<rparr>"

end
