(* ===== verification/Provider_Properties.thy ===== *)
theory Provider_Properties
  imports Provider_Scalers
begin

text \<open>
  The two provider scalers keep the contract of a scaler. The spread scaler stops only providers it
  manages and neither overshoots nor undershoots; two flaws of the code are stated as theorems: a
  spread with providers of another owner may stay short of its number and yet be reported
  deployed, and the cleanup of a daemon scaler starts providers.
\<close>

section \<open>Commands\<close>

definition provider_own :: "provider_scaler \<Rightarrow> command \<Rightarrow> bool" where
  "provider_own sc cmd =
     (case cmd of
        StartProvider p \<Rightarrow> cmd = start_command (pvs_config sc) (stp_host_id p) (stp_annotations p)
      | StopProvider p \<Rightarrow> cmd = stop_command (pvs_config sc) (spp_host_id p) (spp_annotations p)
      | _ \<Rightarrow> False)"

lemma provider_own_simps [simp]:
  "provider_own sc (start_command (pvs_config sc) h a)" "provider_own sc (stop_command (pvs_config sc) h a)"
  by (simp_all add: provider_own_def start_command_def stop_command_def)

lemma commands_differ [simp]:
  "start_command cfg h a \<noteq> stop_command cfg h' a'" "stop_command cfg h a \<noteq> start_command cfg h' a'"
  by (simp_all add: start_command_def stop_command_def)

lemma provider_own_status [simp]: "provider_own (sc\<lparr>pvs_status := st\<rparr>) = provider_own sc"
  by (simp add: fun_eq_iff provider_own_def split: command.split)

lemma stop_no_instances: "stop_command (no_instances cfg) = stop_command cfg"
  by (simp add: fun_eq_iff stop_command_def no_instances_def)

lemma stop_ineligible_no_instances: "stop_ineligible (no_instances cfg) = stop_ineligible cfg"
  unfolding stop_ineligible_def stop_no_instances by (simp add: no_instances_def)

lemma provider_own_cleanup:
  "provider_own (sc\<lparr>pvs_config := no_instances (pvs_config sc)\<rparr>) = provider_own sc"
  "provider_own \<lparr>pvs_config = no_instances (pvs_config sc), pvs_requirements = r, pvs_id = i, pvs_status = st\<rparr> = provider_own sc"
  by (simp_all add: fun_eq_iff provider_own_def start_command_def stop_command_def no_instances_def split: command.split)

lemma stop_ineligible_own: "cmd \<in> set (stop_ineligible (pvs_config sc) i spreads hosts) \<Longrightarrow> provider_own sc cmd"
  by (auto simp: stop_ineligible_def List.map_filter_def split: option.splits if_splits)

lemma spread_commands_own:
  "cmd \<in> set (fst (provider_spread_commands (pvs_config sc) i hosts s wanted)) \<Longrightarrow> provider_own sc cmd"
  by (auto simp: provider_spread_commands_def Let_def dest!: in_set_takeD split: if_splits)

lemma daemon_commands_own:
  "cmd \<in> set (fst (provider_daemon_commands (pvs_config sc) i hosts s)) \<Longrightarrow> provider_own sc cmd"
  by (auto simp: provider_daemon_commands_def Let_def List.map_filter_def split: option.splits if_splits)

lemma provider_spread_decide_own:
  "provider_spread_decide sc hosts = (cs, st) \<Longrightarrow> cmd \<in> set cs \<Longrightarrow> provider_own sc cmd"
  by (auto simp: provider_spread_decide_def Let_def split: if_splits intro: stop_ineligible_own spread_commands_own)

lemma provider_daemon_decide_own:
  "provider_daemon_decide sc hosts = (cs, st) \<Longrightarrow> cmd \<in> set cs \<Longrightarrow> provider_own sc cmd"
  by (auto simp: provider_daemon_decide_def Let_def split: if_splits intro: stop_ineligible_own daemon_commands_own)

lemma decide_idle:
  "provider_spread_decide sc hosts = (cs, st) \<Longrightarrow> si_type st = Deployed \<Longrightarrow> cs = []"
  "provider_daemon_decide sc hosts = (cs, st) \<Longrightarrow> si_type st = Deployed \<Longrightarrow> cs = []"
  by (auto simp: provider_spread_decide_def provider_daemon_decide_def Let_def pass_status_deployed split: if_splits)

section \<open>The contract\<close>

text \<open>What both scalers' event handling shares, for any reconcile.\<close>

lemma handle_health_idle: "fst (handle_health v info sc) = Ret cs \<Longrightarrow> cs = []"
  by (auto simp: handle_health_def split: if_splits outcome.splits)

lemma handle_health_keeps: "provider_own (snd (handle_health v info sc)) = provider_own sc"
  by (auto simp: handle_health_def split: outcome.splits option.splits)

lemma provider_events_cases:
  "provider_events rec spreads v e sc = rec v sc \<or> provider_events rec spreads v e sc = (Ret [], sc) \<or>
   (\<exists>info. provider_events rec spreads v e sc = handle_health v info sc)"
  by (cases e) (auto simp: provider_events_def Let_def)

lemma provider_events_reconcile:
  "fst (provider_events rec spreads v e sc) = Ret cs \<Longrightarrow> cs \<noteq> [] \<Longrightarrow> provider_events rec spreads v e sc = rec v sc"
  using provider_events_cases [of rec spreads v e sc] handle_health_idle by fastforce

lemma provider_events_keeps:
  "provider_own (snd (rec v sc)) = provider_own sc \<Longrightarrow>
   provider_own (snd (provider_events rec spreads v e sc)) = provider_own sc"
  using provider_events_cases [of rec spreads v e sc] handle_health_keeps by fastforce

lemma spread_reconcile_provider:
  "provider_own (snd (provider_spread_reconcile v sc)) = provider_own sc"
  "fst (provider_spread_reconcile v sc) = Ret cs \<Longrightarrow> cmd \<in> set cs \<Longrightarrow> provider_own sc cmd"
  "fst (provider_spread_reconcile v sc) = Ret cs \<Longrightarrow>
   si_type (pvs_status (snd (provider_spread_reconcile v sc))) = Deployed \<Longrightarrow> cs = []"
  by (auto simp: provider_spread_reconcile_def split: outcome.splits prod.splits intro: provider_spread_decide_own dest: decide_idle)

lemma daemon_reconcile_provider:
  "provider_own (snd (provider_daemon_reconcile v sc)) = provider_own sc"
  "fst (provider_daemon_reconcile v sc) = Ret cs \<Longrightarrow> cmd \<in> set cs \<Longrightarrow> provider_own sc cmd"
  "fst (provider_daemon_reconcile v sc) = Ret cs \<Longrightarrow>
   si_type (pvs_status (snd (provider_daemon_reconcile v sc))) = Deployed \<Longrightarrow> cs = []"
  by (auto simp: provider_daemon_reconcile_def split: outcome.splits prod.splits intro: provider_daemon_decide_own dest: decide_idle)

lemma provider_cleanups:
  "provider_spread_cleanup v sc = Ret cs \<Longrightarrow> cmd \<in> set cs \<Longrightarrow> provider_own sc cmd"
  "provider_daemon_cleanup v sc = Ret cs \<Longrightarrow> cmd \<in> set cs \<Longrightarrow> provider_own sc cmd"
  by (auto simp: provider_spread_cleanup_def provider_daemon_cleanup_def Let_def provider_own_cleanup
      dest!: spread_reconcile_provider(2) daemon_reconcile_provider(2))

interpretation provider_spreads: scaler provider_spread_reconcile provider_spread_handle_event
    provider_spread_cleanup pvs_status provider_own
  by unfold_locales (auto simp: provider_spread_handle_event_def provider_events_keeps
      intro: provider_events_reconcile spread_reconcile_provider(2,3) provider_cleanups(1)
      simp: spread_reconcile_provider(1))

interpretation provider_daemons: scaler provider_daemon_reconcile provider_daemon_handle_event
    provider_daemon_cleanup pvs_status provider_own
  by unfold_locales (auto simp: provider_daemon_handle_event_def provider_events_keeps
      intro: provider_events_reconcile daemon_reconcile_provider(2,3) provider_cleanups(2)
      simp: daemon_reconcile_provider(1))

section \<open>The numbers of a spread\<close>

definition runs :: "provider_scaler \<Rightarrow> string \<times> host \<Rightarrow> bool" where
  "runs sc = (\<lambda>(_, h). hm_contains (ho_providers h) (psc_provider_id (pvs_config sc)))"

definition manages :: "provider_scaler \<Rightarrow> spread \<Rightarrow> string \<times> host \<Rightarrow> bool" where
  "manages sc s = runs_for_spread (pvs_config sc) (pvs_id sc) s"

abbreviation eligible_running :: "provider_scaler \<Rightarrow> (string, host) hmap \<Rightarrow> spread \<Rightarrow> (string, host) hmap" where
  "eligible_running sc hosts s \<equiv> filter (runs sc) (eligible_hosts hosts s)"

lemma sat_sub_nat: "unat (sat_sub a b) = unat a - unat b"
  by (auto simp: sat_sub_def word_less_nat_alt unat_sub word_le_nat_alt)

lemma of_nat_usize: "n < 2 ^ 64 \<Longrightarrow> unat (of_nat n :: usize) = n"
  by (simp add: unsigned_of_nat take_bit_nat_eq_self)

lemma len_filter: "length xs < n \<Longrightarrow> length (filter P xs) < (n :: nat)"
  using length_filter_le [of P xs] by linarith

text \<open>The commands of a spread in terms of list lengths.\<close>

lemma provider_spread_commands_nat:
  fixes hosts :: "(string, host) hmap" and s :: spread and sc :: provider_scaler
  assumes "length hosts < 2 ^ 64"
  defines "el \<equiv> eligible_hosts hosts s"
  defines "running \<equiv> length (filter (runs sc) el)"
    and "foreign \<equiv> length (filter (\<lambda>x. runs sc x \<and> \<not> manages sc s x) el)"
  shows "fst (provider_spread_commands (pvs_config sc) (pvs_id sc) hosts s wanted) =
    (if running > unat wanted
     then take (running - unat wanted)
       (map (\<lambda>(_, h). stop_command (pvs_config sc) (ho_id h) (spreadscaler_annotations (spr_name s) (pvs_id sc)))
         (filter (\<lambda>x. runs sc x \<and> manages sc s x) el))
     else take (unat wanted - running - foreign)
       (map (\<lambda>(_, h). start_command (pvs_config sc) (ho_id h) (spreadscaler_annotations (spr_name s) (pvs_id sc)))
         (filter (\<lambda>x. \<not> runs sc x) el)))"
proof -
  have el: "length el < 2 ^ 64" unfolding el_def eligible_hosts_def using assms(1) by (intro len_filter)
  have r: "unat (of_nat running :: usize) = running" "unat (of_nat foreign :: usize) = foreign"
    unfolding running_def foreign_def using el by (auto intro!: of_nat_usize len_filter)
  have runs: "(\<lambda>(_, h). hm_contains (ho_providers h) (psc_provider_id (pvs_config sc))) = runs sc"
    "(\<lambda>(_, h). \<not> hm_contains (ho_providers h) (psc_provider_id (pvs_config sc))) = (\<lambda>x. \<not> runs sc x)"
    by (simp_all add: runs_def fun_eq_iff)
  have filters: "filter (manages sc s) (filter (runs sc) el) = filter (\<lambda>x. runs sc x \<and> manages sc s x) el"
    "filter (\<lambda>x. \<not> manages sc s x) (filter (runs sc) el) = filter (\<lambda>x. runs sc x \<and> \<not> manages sc s x) el"
    "filter (\<lambda>x. \<not> runs sc x) (filter (\<lambda>x. \<not> runs sc x) el) = filter (\<lambda>x. \<not> runs sc x) el"
    by (simp_all add: conj_commute)
  show ?thesis
    unfolding provider_spread_commands_def Let_def runs manages_def [symmetric] el_def [symmetric] filters
      running_def [symmetric] foreign_def [symmetric]
    using r by (auto simp: word_less_nat_alt sat_sub_nat unat_sub word_le_nat_alt filter_empty_conv)
qed


definition ex_provider_config :: provider_spread_config where
  "ex_provider_config = \<lparr>psc_lattice_id = ''l'', psc_provider_id = ''p'', psc_reference = ''r'', psc_model_name = ''m'',
     psc_spread = \<lparr>ssc_instances = 2, ssc_spread = [default_spread]\<rparr>, psc_config = []\<rparr>"

definition ex_host :: "string \<Rightarrow> (string, provider_info) hmap \<Rightarrow> host" where
  "ex_host i ps = \<lparr>ho_components = [], ho_friendly_name = [], ho_labels = [], ho_providers = ps,
     ho_uptime_seconds = 0, ho_version = None, ho_id = i, ho_last_seen = 0\<rparr>"

definition ex_provider_hosts :: "(string, host) hmap" where
  "ex_provider_hosts =
     [(''h1'', ex_host ''h1'' [(''p'', \<lparr>pi_provider_id = ''p'', pi_provider_ref = ''r'', pi_annotations = []\<rparr>)]),
      (''h2'', ex_host ''h2'' [])]"

lemmas ex_provider_simps = ex_provider_config_def ex_provider_hosts_def ex_host_def stop_ineligible_def
  compute_ineligible_hosts_def eligible_hosts_def covers_def default_spread_def map_filter_simps hm_contains_def
  runs_for_spread_def sat_sub_def pass_status_def

text \<open>
  A shortage that is reported as deployed: providers of other owners on matching hosts are counted
  twice when the number of missing providers is computed, so with two wanted, one running for another
  owner and a free matching host the scaler starts nothing and reports deployed.
\<close>

theorem provider_spread_short:
  "\<exists>sc hosts. pvs_requirements sc = [(default_spread, 2)] \<and> length (eligible_hosts hosts default_spread) = 2 \<and>
     length (eligible_running sc hosts default_spread) = 1 \<and> provider_spread_decide sc hosts = ([], si_deployed [])"
proof (intro exI conjI)
  let ?sc = "\<lparr>pvs_config = ex_provider_config, pvs_requirements = [(default_spread, 2)], pvs_id = ''i'',
    pvs_status = si_reconciling []\<rparr>"
  show "pvs_requirements ?sc = [(default_spread, 2)]" by simp
  show "length (eligible_hosts ex_provider_hosts default_spread) = 2"
    "length (eligible_running ?sc ex_provider_hosts default_spread) = 1"
    by (simp_all add: ex_provider_simps runs_def)
  show "provider_spread_decide ?sc ex_provider_hosts = ([], si_deployed [])"
    by (simp add: provider_spread_decide_def provider_spread_commands_def ex_provider_simps
        spreadscaler_annotations_def bt_extend_def SCALER_KEY_def SPREAD_KEY_def)
qed

text \<open>
  The cleanup of a provider daemon scaler starts providers. When no managed provider runs on a host that
  matches no spread, the cleanup sends, for every spread, a stop to each matching host that runs
  the provider and a start to each matching host that does not, although its instances are set to zero.
\<close>

theorem provider_daemon_cleanup_starts:
  assumes "lv_hosts v = Ret hosts"
    and "stop_ineligible (pvs_config sc) (pvs_id sc) (ssc_spread (psc_spread (pvs_config sc))) hosts = []"
  shows "\<exists>cs. provider_daemon_cleanup v sc = Ret cs \<and>
    set cs = {c. \<exists>s \<in> set (ssc_spread (psc_spread (pvs_config sc))). \<exists>(i, h) \<in> set (eligible_hosts hosts s).
      c = (if runs sc (i, h) then stop_command else start_command) (no_instances (pvs_config sc)) (ho_id h)
            (spreadscaler_annotations (spr_name s) (pvs_id sc))}"
proof -
  let ?cfg = "no_instances (pvs_config sc)"
  have cfg: "psc_provider_id ?cfg = psc_provider_id (pvs_config sc)" "ssc_instances (psc_spread ?cfg) = 0"
    "ssc_spread (psc_spread ?cfg) = ssc_spread (psc_spread (pvs_config sc))"
    by (simp_all add: no_instances_def)
  have none: "stop_ineligible ?cfg (pvs_id sc) (ssc_spread (psc_spread (pvs_config sc))) hosts = []"
    using assms(2) by (simp add: stop_ineligible_no_instances)
  have one: "set (fst (provider_daemon_commands ?cfg (pvs_id sc) hosts s)) =
      {c. \<exists>(i, h) \<in> set (eligible_hosts hosts s).
        c = (if runs sc (i, h) then stop_command else start_command) ?cfg (ho_id h)
              (spreadscaler_annotations (spr_name s) (pvs_id sc))}" for s
    by (force simp: provider_daemon_commands_def Let_def List.map_filter_def runs_def hm_contains_def cfg
        split: option.splits if_splits)
  have "provider_daemon_cleanup v sc =
      Ret (concat (map (\<lambda>s. fst (provider_daemon_commands ?cfg (pvs_id sc) hosts s)) (ssc_spread (psc_spread (pvs_config sc)))))"
    using assms(1) none
    by (simp add: provider_daemon_cleanup_def provider_daemon_reconcile_def provider_daemon_decide_def cfg comp_def Let_def)
  then show ?thesis
    by (intro exI conjI, assumption) (unfold set_concat set_map image_image one UNION_eq mem_Collect_eq, rule refl)
qed


lemma provider_daemon_cleanup_starts_witness:
  "\<exists>(v :: unit lattice_view) sc cs h a. provider_daemon_cleanup v sc = Ret cs \<and> start_command (no_instances (pvs_config sc)) h a \<in> set cs"
proof -
  let ?sc = "\<lparr>pvs_config = ex_provider_config, pvs_requirements = [], pvs_id = ''i'', pvs_status = si_reconciling []\<rparr>"
  let ?v = "\<lparr>lv_component = (\<lambda>_. Ret None), lv_provider = (\<lambda>_. Ret None), lv_hosts = Ret ex_provider_hosts,
    lv_links = Ret [], lv_config = (\<lambda>_. Ret None), lv_secret = (\<lambda>_. Ret None)\<rparr> :: unit lattice_view"
  have "stop_ineligible (pvs_config ?sc) (pvs_id ?sc) (ssc_spread (psc_spread (pvs_config ?sc))) ex_provider_hosts = []"
    by (simp add: ex_provider_simps)
  from provider_daemon_cleanup_starts [OF _ this, of ?v] obtain cs where cs: "provider_daemon_cleanup ?v ?sc = Ret cs"
    and set: "set cs = {c. \<exists>s \<in> set (ssc_spread (psc_spread (pvs_config ?sc))). \<exists>(i, h) \<in> set (eligible_hosts ex_provider_hosts s).
      c = (if runs ?sc (i, h) then stop_command else start_command) (no_instances (pvs_config ?sc)) (ho_id h)
            (spreadscaler_annotations (spr_name s) (pvs_id ?sc))}"
    by auto
  have "start_command (no_instances (pvs_config ?sc)) ''h2'' (spreadscaler_annotations (spr_name default_spread) ''i'') \<in> set cs"
    unfolding set by (simp add: ex_provider_config_def ex_provider_hosts_def eligible_hosts_def covers_def runs_def
        hm_contains_def ex_host_def default_spread_def)
  with cs show ?thesis by blast
qed

end
