(* ===== verification/Daemon_Scaler.thy ===== *)
theory Daemon_Scaler
  imports Spread_Scaler Provider_Scalers
begin

text \<open>
  The component daemon scaler (\<open>scaler/daemonscaler/mod.rs\<close>): the same number of instances on every host
  that matches a spread. Its state is the one of the spread scaler without computed
  requirements, which are left empty.
\<close>

definition daemon_count :: "string \<Rightarrow> spread \<Rightarrow> lcomponent option \<Rightarrow> string \<Rightarrow> usize" where
  "daemon_count scaler_id s c h =
     (case c of None \<Rightarrow> 0 | Some c \<Rightarrow>
        (case map_of (lc_instances c) h of None \<Rightarrow> 0 | Some insts \<Rightarrow> spread_count scaler_id s insts))"

definition daemon_commands ::
    "spread_scaler \<Rightarrow> lcomponent option \<Rightarrow> (string, host) hmap \<Rightarrow> spread \<Rightarrow> command list \<times> status_info list" where
  "daemon_commands sc c hosts s =
     (let eligible = eligible_hosts hosts s;
          wanted = ssc_instances (csc_spread (sps_config sc)) in
      if eligible \<noteq> [] then
        (List.map_filter (\<lambda>(h, _). if daemon_count (sps_id sc) s c h = wanted then None
            else Some (scale_command sc h (ucast wanted) (spreadscaler_annotations (spr_name s) (sps_id sc)))) eligible, [])
      else ([], [si_failed (''Could not satisfy daemonscaler '' @ spr_name s @ '' for '' @ csc_reference (sps_config sc) @
                   '', 0 eligible hosts found.'')]))"

definition daemon_remove_ineligible :: "spread_scaler \<Rightarrow> (string, host) hmap \<Rightarrow> command list" where
  "daemon_remove_ineligible sc hosts =
     List.map_filter (\<lambda>(host_id, h). if hm_contains (ho_components h) (csc_component_id (sps_config sc))
         then Some (scale_command sc host_id 0 []) else None)
       (compute_ineligible_hosts hosts (ssc_spread (csc_spread (sps_config sc))))"

definition daemon_decide :: "spread_scaler \<Rightarrow> lcomponent option \<Rightarrow> (string, host) hmap \<Rightarrow> command list \<times> status_info" where
  "daemon_decide sc c hosts =
     (let removals = daemon_remove_ineligible sc hosts in
      if removals \<noteq> [] then (removals, si_reconciling ''Found components running on ineligible hosts, removing them.'')
      else
        let passes = map (daemon_commands sc c hosts) (ssc_spread (csc_spread (sps_config sc)));
            commands = concat (map fst passes);
            failures = concat (map snd passes) in
        (commands, pass_status ''component'' failures commands))"

definition daemon_reconcile :: "'c lattice_view \<Rightarrow> spread_scaler \<Rightarrow> command list outcome \<times> spread_scaler" where
  "daemon_reconcile v sc =
     (case obind (lv_component v (csc_component_id (sps_config sc))) (\<lambda>c.
           obind (lv_hosts v) (\<lambda>hosts. Ret (daemon_decide sc c hosts))) of
        Ret (commands, st) \<Rightarrow> (Ret commands, sc\<lparr>sps_status := st\<rparr>)
      | Err e \<Rightarrow> (Err e, sc)
      | Panic \<Rightarrow> (Panic, sc))"

definition daemon_handle_event ::
    "'c lattice_view \<Rightarrow> event \<Rightarrow> spread_scaler \<Rightarrow> command list outcome \<times> spread_scaler" where
  "daemon_handle_event v e sc =
     (let on_labels = (\<lambda>labels. if matches_some_spread labels (ssc_spread (csc_spread (sps_config sc)))
                               then daemon_reconcile v sc else (Ret [], sc)) in
      case e of
        ComponentScaled evt \<Rightarrow>
          if cse_component_id evt = csc_component_id (sps_config sc) then daemon_reconcile v sc else (Ret [], sc)
      | HostStopped h \<Rightarrow> on_labels (hst_labels h)
      | HostStarted h \<Rightarrow> on_labels (hse_labels h)
      | HostHeartbeat h \<Rightarrow> on_labels (hb_labels h)
      | ConfigSet name \<Rightarrow> if name \<in> set (sps_named_config sc) then daemon_reconcile v sc else (Ret [], sc)
      | _ \<Rightarrow> (Ret [], sc))"

definition daemon_cleanup :: "'c lattice_view \<Rightarrow> spread_scaler \<Rightarrow> command list outcome" where
  "daemon_cleanup v sc =
     fst (daemon_reconcile v
       (sc\<lparr>sps_config := (sps_config sc)\<lparr>csc_spread := (csc_spread (sps_config sc))\<lparr>ssc_instances := 0\<rparr>\<rparr>,
           sps_status := si_reconciling []\<rparr>))"

definition daemon_update_config ::
    "'c lattice_view \<Rightarrow> trait_property \<Rightarrow> spread_scaler \<Rightarrow> command list outcome \<times> spread_scaler" where
  "daemon_update_config v config sc =
     (case config of
        TPSpreadScaler p \<Rightarrow> daemon_reconcile v (sc\<lparr>sps_config := (sps_config sc)\<lparr>csc_spread := daemon_spreads p\<rparr>\<rparr>)
      | _ \<Rightarrow> (Err ''Given config was not a daemon scaler config object'', sc))"

definition daemon_new ::
    "(string \<Rightarrow> string) \<Rightarrow> string \<Rightarrow> string \<Rightarrow> string \<Rightarrow> string \<Rightarrow> spread_scaler_property \<Rightarrow> string \<Rightarrow> string list \<Rightarrow>
     spread_scaler" where
  "daemon_new digest reference component_id lattice_id model_name spread component_name config =
     \<lparr>sps_config = \<lparr>csc_reference = reference, csc_component_id = component_id, csc_lattice_id = lattice_id,
                    csc_model_name = model_name, csc_spread = daemon_spreads spread\<rparr>,
      sps_requirements = [],
      sps_id = compute_id digest ([DAEMON_SCALER_KIND, model_name, component_name, component_id, reference] @ config),
      sps_status = si_reconciling [], sps_named_config = config\<rparr>"

end
