(* ===== verification/Daemon_Properties.thy ===== *)
theory Daemon_Properties
  imports Daemon_Scaler Spread_Properties
begin

text \<open>
  The component daemon scaler keeps the contract of a scaler, and it is deployed exactly when every
  matching host runs the wanted number of instances.
\<close>

lemma daemon_count_None: "daemon_count i s None h = 0"
  by (simp add: daemon_count_def)

lemma daemon_commands_in:
  "cmd \<in> set (fst (daemon_commands sc c hosts s)) \<longleftrightarrow>
   (\<exists>(h, _) \<in> set (eligible_hosts hosts s). daemon_count (sps_id sc) s c h \<noteq> ssc_instances (csc_spread (sps_config sc)) \<and>
      cmd = scale_command sc h (ucast (ssc_instances (csc_spread (sps_config sc))))
        (spreadscaler_annotations (spr_name s) (sps_id sc)))"
  by (force simp: daemon_commands_def Let_def List.map_filter_def split: if_splits)

lemma daemon_commands_Nil:
  "fst (daemon_commands sc c hosts s) = [] \<longleftrightarrow>
   (\<forall>(h, _) \<in> set (eligible_hosts hosts s). daemon_count (sps_id sc) s c h = ssc_instances (csc_spread (sps_config sc)))"
  by (auto simp: daemon_commands_def Let_def List.map_filter_def filter_empty_conv split: if_splits)

lemma daemon_commands_failures: "snd (daemon_commands sc c hosts s) = [] \<longleftrightarrow> eligible_hosts hosts s \<noteq> []"
  by (simp add: daemon_commands_def Let_def)

lemma daemon_remove_in:
  "c \<in> set (daemon_remove_ineligible sc hosts) \<longleftrightarrow>
    (\<exists>i h. (i, h) \<in> set (compute_ineligible_hosts hosts (ssc_spread (csc_spread (sps_config sc)))) \<and>
      hm_contains (ho_components h) (csc_component_id (sps_config sc)) \<and> c = scale_command sc i 0 [])"
  by (force simp: daemon_remove_ineligible_def List.map_filter_def split: if_splits)

lemma daemon_decide_own: "daemon_decide sc c hosts = (cs, st) \<Longrightarrow> cmd \<in> set cs \<Longrightarrow> spread_own sc cmd"
  by (auto simp: daemon_decide_def Let_def daemon_remove_in daemon_commands_in split: if_splits)

lemma daemon_decide_deployed:
  "si_type (snd (daemon_decide sc c hosts)) = Deployed \<longleftrightarrow>
   daemon_remove_ineligible sc hosts = [] \<and>
   (\<forall>s \<in> set (ssc_spread (csc_spread (sps_config sc))).
      eligible_hosts hosts s \<noteq> [] \<and> fst (daemon_commands sc c hosts s) = [])"
  by (auto simp: daemon_decide_def Let_def pass_status_deployed daemon_commands_failures)

lemma daemon_reconcile_scaler:
  "spread_own (snd (daemon_reconcile v sc)) = spread_own sc"
  "fst (daemon_reconcile v sc) = Ret cs \<Longrightarrow> cmd \<in> set cs \<Longrightarrow> spread_own sc cmd"
  "fst (daemon_reconcile v sc) = Ret cs \<Longrightarrow> si_type (sps_status (snd (daemon_reconcile v sc))) = Deployed \<Longrightarrow> cs = []"
proof -
  show "spread_own (snd (daemon_reconcile v sc)) = spread_own sc"
    by (intro spread_own_cong) (simp_all add: daemon_reconcile_def split: outcome.split prod.split)
  show "fst (daemon_reconcile v sc) = Ret cs \<Longrightarrow> cmd \<in> set cs \<Longrightarrow> spread_own sc cmd"
    by (auto simp: daemon_reconcile_def split: outcome.splits prod.splits intro: daemon_decide_own)
  show "fst (daemon_reconcile v sc) = Ret cs \<Longrightarrow> si_type (sps_status (snd (daemon_reconcile v sc))) = Deployed \<Longrightarrow> cs = []"
    by (auto simp: daemon_reconcile_def daemon_decide_def Let_def pass_status_deployed split: outcome.splits prod.splits if_splits)
qed

lemma daemon_handle_cases: "daemon_handle_event v e sc = daemon_reconcile v sc \<or> daemon_handle_event v e sc = (Ret [], sc)"
  by (cases e) (auto simp: daemon_handle_event_def Let_def)

interpretation daemons: scaler daemon_reconcile daemon_handle_event daemon_cleanup sps_status spread_own
proof (unfold_locales, goal_cases)
  case (1 v e s cs)
  then show ?case using daemon_handle_cases [of v e s] by auto
next
  case (2 v s cs c)
  then show ?case by (rule daemon_reconcile_scaler(2))
next
  case (3 v s cs c)
  then show ?case
    unfolding daemon_cleanup_def
    by (auto dest!: daemon_reconcile_scaler(2) intro: spread_own_cong [THEN fun_cong, THEN iffD1, rotated -1])
next
  case (4 v s)
  then show ?case by (rule daemon_reconcile_scaler(1))
next
  case (5 v e s)
  then show ?case using daemon_handle_cases [of v e s] daemon_reconcile_scaler(1) [of v s] by auto
next
  case (6 v s cs)
  then show ?case by (rule daemon_reconcile_scaler(3))
qed

text \<open>
  C26. The component daemon scaler is deployed exactly when there is nothing to do: no host without a matching
  spread runs the component, every spread has a matching host, and on every host that matches a
  spread the instances of that spread are as many as wanted. Otherwise it sends to every host
  that is off the wanted number one command that sets it, so a single command per host repairs it.
\<close>

theorem daemon_deployed_iff:
  assumes "hm_wf hosts"
  shows "(si_type (snd (daemon_decide sc c hosts)) = Deployed \<longleftrightarrow>
      (\<forall>i h. map_of hosts i = Some h \<longrightarrow>
         (hm_contains (ho_components h) (csc_component_id (sps_config sc)) \<longrightarrow>
            (\<exists>s \<in> set (ssc_spread (csc_spread (sps_config sc))). covers (ho_labels h) (spr_requirements s))) \<and>
         (\<forall>s \<in> set (ssc_spread (csc_spread (sps_config sc))). covers (ho_labels h) (spr_requirements s) \<longrightarrow>
            daemon_count (sps_id sc) s c i = ssc_instances (csc_spread (sps_config sc)))) \<and>
      (\<forall>s \<in> set (ssc_spread (csc_spread (sps_config sc))). \<exists>i h. map_of hosts i = Some h \<and>
         covers (ho_labels h) (spr_requirements s)))"
proof -
  let ?ss = "ssc_spread (csc_spread (sps_config sc))"
  have lookup: "map_of hosts i = Some h \<longleftrightarrow> (i, h) \<in> set hosts" for i h
    using assms by (simp add: hm_wf_def)
  have r: "daemon_remove_ineligible sc hosts = [] \<longleftrightarrow>
      (\<forall>i h. (i, h) \<in> set hosts \<longrightarrow> hm_contains (ho_components h) (csc_component_id (sps_config sc)) \<longrightarrow>
        (\<exists>s \<in> set ?ss. covers (ho_labels h) (spr_requirements s)))"
  proof -
    have "daemon_remove_ineligible sc hosts = [] \<longleftrightarrow> (\<forall>c. c \<notin> set (daemon_remove_ineligible sc hosts))"
      by (metis list.set_intros(1) list.exhaust empty_iff list.set(1))
    then show ?thesis unfolding daemon_remove_in ineligible_iff [OF assms] by blast
  qed
  have e: "eligible_hosts hosts s \<noteq> [] \<longleftrightarrow> (\<exists>i h. (i, h) \<in> set hosts \<and> covers (ho_labels h) (spr_requirements s))" for s
    by (auto simp: eligible_hosts_def filter_empty_conv)
  have n: "fst (daemon_commands sc c hosts s) = [] \<longleftrightarrow> (\<forall>i h. (i, h) \<in> set hosts \<longrightarrow>
      covers (ho_labels h) (spr_requirements s) \<longrightarrow> daemon_count (sps_id sc) s c i = ssc_instances (csc_spread (sps_config sc)))" for s
    unfolding daemon_commands_Nil by (auto simp: eligible_iff)
  show ?thesis unfolding daemon_decide_deployed lookup r e n by blast
qed

lemma daemon_deployed_iff_witness:
  "si_type (snd (daemon_decide (ex_spread\<lparr>sps_config := (sps_config ex_spread)\<lparr>csc_spread :=
     \<lparr>ssc_instances = 5, ssc_spread = [default_spread]\<rparr>\<rparr>\<rparr>) (Some ex_running) ex_hosts)) = Deployed"
proof -
  have "hm_wf ex_hosts" by (simp add: ex_hosts_def)
  from daemon_deployed_iff [OF this] show ?thesis
    by (simp add: ex_hosts_def ex_spread_def ex_running_def covers_def default_spread_def daemon_count_def
        spread_count_def hm_contains_def spreadscaler_annotations_def bt_extend_def SCALER_KEY_def SPREAD_KEY_def)
qed

end
