(* ===== verification/Simple_Scalers.thy ===== *)
theory Simple_Scalers
  imports Scaler_Base
begin

text \<open>
  The scalers of single objects: a link (\<open>scaler/spreadscaler/link.rs\<close>), a named configuration
  (\<open>scaler/configscaler.rs\<close>), a secret reference (\<open>scaler/secretscaler.rs\<close>) and the placeholder
  that only reports a status (\<open>scaler/statusscaler.rs\<close>).

  The secret configuration type \<open>'c\<close> with its constructor, name and conversion to a map belongs
  to the host's crates and is a parameter; so is the hasher of the standard library.
\<close>

section \<open>Links\<close>

record link_scaler_config =
  lsc_source_id :: string
  lsc_target :: string
  lsc_wit_namespace :: string
  lsc_wit_package :: string
  lsc_wit_interfaces :: "string list"
  lsc_name :: string
  lsc_lattice_id :: string
  lsc_model_name :: string
  lsc_source_config :: "string list"
  lsc_target_config :: "string list"

record link_scaler =
  lsr_config :: link_scaler_config
  lsr_id :: string
  lsr_status :: status_info

definition LINK_SCALER_KIND :: string where "LINK_SCALER_KIND = ''LinkScaler''"

definition link_name :: "link_scaler \<Rightarrow> string" where
  "link_name sc = (let c = lsr_config sc in
     lsc_source_id c @ '' -('' @ lsc_wit_namespace c @ '':'' @ lsc_wit_package c @ '')-> '' @ lsc_target c)"

definition put_link_command :: "link_scaler_config \<Rightarrow> command" where
  "put_link_command c =
     PutLink \<lparr>pl_source_id = lsc_source_id c, pl_target = lsc_target c, pl_name = lsc_name c,
       pl_wit_namespace = lsc_wit_namespace c, pl_wit_package = lsc_wit_package c, pl_interfaces = lsc_wit_interfaces c,
       pl_source_config = lsc_source_config c, pl_target_config = lsc_target_config c, pl_model_name = lsc_model_name c\<rparr>"

definition delete_link_command :: "link_scaler_config \<Rightarrow> command" where
  "delete_link_command c =
     DeleteLink \<lparr>dl_source_id = lsc_source_id c, dl_wit_namespace = lsc_wit_namespace c,
       dl_wit_package = lsc_wit_package c, dl_link_name = lsc_name c, dl_model_name = lsc_model_name c\<rparr>"

text \<open>The comparison of the found link's configurations is computed but not used.\<close>

definition same_link :: "link_scaler_config \<Rightarrow> lattice_link \<Rightarrow> bool" where
  "same_link c l = (lk_source_id l = lsc_source_id c \<and> lk_target l = lsc_target c \<and> lk_name l = lsc_name c)"

definition link_reconcile :: "'c lattice_view \<Rightarrow> link_scaler \<Rightarrow> command list outcome \<times> link_scaler" where
  "link_reconcile v sc =
     (let c = lsr_config sc in
      case lv_links v of
        Ret linkdefs \<Rightarrow>
          (case List.find (same_link c) linkdefs of
             None \<Rightarrow> (Ret [put_link_command c], sc\<lparr>lsr_status := si_reconciling
                 (''Putting link definition between '' @ lsc_source_id c @ '' and '' @ lsc_target c)\<rparr>)
           | Some _ \<Rightarrow> (Ret [], sc\<lparr>lsr_status := si_deployed []\<rparr>))
      | Err e \<Rightarrow> (Err e, sc)
      | Panic \<Rightarrow> (Panic, sc))"

definition link_handle_event :: "'c lattice_view \<Rightarrow> event \<Rightarrow> link_scaler \<Rightarrow> command list outcome \<times> link_scaler" where
  "link_handle_event v e sc =
     (let c = lsr_config sc;
          endpoint = (\<lambda>i. i = lsc_source_id c \<or> i = lsc_target c);
          on = (\<lambda>b. if b then link_reconcile v sc else (Ret [], sc)) in
      case e of
        ComponentScaled evt \<Rightarrow> on (endpoint (cse_component_id evt))
      | ProviderHealthCheckPassed info \<Rightarrow> on (endpoint (hci_provider_id info))
      | ProviderHealthCheckStatus info \<Rightarrow> on (endpoint (hci_provider_id info))
      | LinkdefDeleted d \<Rightarrow>
          on (ldd_source_id d = lsc_source_id c \<and> ldd_name d = lsc_name c \<and>
              ldd_wit_namespace d = lsc_wit_namespace c \<and> ldd_wit_package d = lsc_wit_package c)
      | LinkdefSet l \<Rightarrow> if same_link c l then (Ret [], sc\<lparr>lsr_status := si_deployed []\<rparr>) else (Ret [], sc)
      | _ \<Rightarrow> (Ret [], sc))"

definition link_cleanup :: "'c lattice_view \<Rightarrow> link_scaler \<Rightarrow> command list outcome" where
  "link_cleanup v sc = Ret [delete_link_command (lsr_config sc)]"

definition link_update_config ::
    "'c lattice_view \<Rightarrow> trait_property \<Rightarrow> link_scaler \<Rightarrow> command list outcome \<times> link_scaler" where
  "link_update_config v config sc = link_reconcile v sc"

definition link_new :: "(string \<Rightarrow> string) \<Rightarrow> link_scaler_config \<Rightarrow> link_scaler" where
  "link_new digest c =
     \<lparr>lsr_config = c,
      lsr_id = compute_id digest ([LINK_SCALER_KIND, lsc_model_name c, lsc_name c, lsc_source_id c, lsc_target c,
          lsc_wit_namespace c, lsc_wit_package c] @ lsc_wit_interfaces c @ lsc_source_config c @ lsc_target_config c),
      lsr_status = si_reconciling []\<rparr>"

section \<open>Named configuration\<close>

record config_scaler =
  cfs_id :: string
  cfs_name :: string
  cfs_config :: "(string, string) hmap option"
  cfs_status :: status_info

definition CONFIG_SCALER_KIND :: string where "CONFIG_SCALER_KIND = ''ConfigScaler''"

definition config_reconcile :: "'c lattice_view \<Rightarrow> config_scaler \<Rightarrow> command list outcome \<times> config_scaler" where
  "config_reconcile v sc =
     (case (lv_config v (cfs_name sc), cfs_config sc) of
        (Ret (Some _), None) \<Rightarrow> (Ret [], sc\<lparr>cfs_status := si_deployed []\<rparr>)
      | (Ret None, None) \<Rightarrow>
          (Ret [], sc\<lparr>cfs_status := si_failed (''Specified configuration '' @ cfs_name sc @ '' does not exist'')\<rparr>)
      | (Ret config, Some scaler_config) \<Rightarrow>
          if (case config of None \<Rightarrow> False | Some c \<Rightarrow> hm_eq c scaler_config)
          then (Ret [], sc\<lparr>cfs_status := si_deployed []\<rparr>)
          else (Ret [PutConfig \<lparr>pc_config_name = cfs_name sc, pc_config = scaler_config\<rparr>],
                sc\<lparr>cfs_status := si_reconciling ''Configuration out of sync''\<rparr>)
      | (Err e, _) \<Rightarrow> (Ret [], sc\<lparr>cfs_status := si_failed e\<rparr>)
      | (Panic, _) \<Rightarrow> (Panic, sc))"

definition config_handle_event :: "'c lattice_view \<Rightarrow> event \<Rightarrow> config_scaler \<Rightarrow> command list outcome \<times> config_scaler" where
  "config_handle_event v e sc =
     (let on = (\<lambda>b. if b then config_reconcile v sc else (Ret [], sc)) in
      case e of
        ConfigSet name \<Rightarrow> on (name = cfs_name sc)
      | ConfigDeleted name \<Rightarrow> on (name = cfs_name sc)
      | HostHeartbeat _ \<Rightarrow> on (si_type (cfs_status sc) \<noteq> Deployed)
      | _ \<Rightarrow> (Ret [], sc))"

definition config_cleanup :: "'c lattice_view \<Rightarrow> config_scaler \<Rightarrow> command list outcome" where
  "config_cleanup v sc = (if cfs_config sc \<noteq> None then Ret [DeleteConfig (cfs_name sc)] else Ret [])"

definition config_new :: "(btree \<Rightarrow> nat) \<Rightarrow> string \<Rightarrow> (string, string) hmap option \<Rightarrow> config_scaler" where
  "config_new hasher name config =
     \<lparr>cfs_id = name @ (case config of None \<Rightarrow> [] | Some c \<Rightarrow> ''-'' @ show_nat (hasher (bt_extend c []))),
      cfs_name = name, cfs_config = config, cfs_status = si_reconciling []\<rparr>"

section \<open>Secrets\<close>

record 'c secret_scaler =
  ses_name :: string
  ses_config :: 'c
  ses_id :: string
  ses_status :: status_info

definition SECRET_SCALER_KIND :: string where "SECRET_SCALER_KIND = ''SecretScaler''"

text \<open>\<open>mk\<close> takes name, backend, key, field, version and the remaining policy properties.\<close>

type_synonym 'c mk_secret = "string \<Rightarrow> string \<Rightarrow> string \<Rightarrow> string option \<Rightarrow> string option \<Rightarrow> btree \<Rightarrow> 'c"

definition config_from_manifest :: "'c mk_secret \<Rightarrow> policy \<Rightarrow> secret_property \<Rightarrow> 'c outcome" where
  "config_from_manifest mk p reference =
     (case map_of (pol_properties p) ''backend'' of
        None \<Rightarrow> Err ''policy did not have a backend property''
      | Some backend \<Rightarrow>
          Ret (mk (sp_name reference) backend (ssp_key (sp_properties reference)) (ssp_field (sp_properties reference))
                 (ssp_version (sp_properties reference)) (bt_remove ''backend'' (pol_properties p))))"

definition secret_id_parts :: "string \<Rightarrow> policy \<Rightarrow> secret_property \<Rightarrow> string list" where
  "secret_id_parts secret_name p s =
     [secret_name, pol_name p, pol_type p, sp_name s, ssp_policy (sp_properties s), ssp_key (sp_properties s)] @
     (case ssp_version (sp_properties s) of None \<Rightarrow> [] | Some v \<Rightarrow> [v]) @
     concat (map (\<lambda>(k, v). [k, v]) (pol_properties p))"

definition secret_new ::
    "(string \<Rightarrow> string) \<Rightarrow> 'c mk_secret \<Rightarrow> string \<Rightarrow> policy \<Rightarrow> secret_property \<Rightarrow> 'c secret_scaler outcome" where
  "secret_new digest mk secret_name p s =
     (case config_from_manifest mk p s of
        Ret c \<Rightarrow> Ret \<lparr>ses_name = secret_name, ses_config = c, ses_id = compute_id digest (secret_id_parts secret_name p s),
                      ses_status = si_reconciling []\<rparr>
      | _ \<Rightarrow> Panic)"

definition secret_reconcile ::
    "('c \<Rightarrow> (string, string) hmap outcome) \<Rightarrow> 'c lattice_view \<Rightarrow> 'c secret_scaler \<Rightarrow>
     command list outcome \<times> 'c secret_scaler" where
  "secret_reconcile to_map v sc =
     (case lv_secret v (ses_name sc) of
        Ret config \<Rightarrow>
          if config = Some (ses_config sc) then (Ret [], sc\<lparr>ses_status := si_deployed []\<rparr>)
          else (case to_map (ses_config sc) of
                  Ret m \<Rightarrow> (Ret [PutConfig \<lparr>pc_config_name = ses_name sc, pc_config = m\<rparr>],
                            sc\<lparr>ses_status := si_reconciling ''Secret out of sync''\<rparr>)
                | Err e \<Rightarrow> (Ret [], sc\<lparr>ses_status := si_failed (''Failed to convert secret config to map: '' @ e @ ''.'')\<rparr>)
                | Panic \<Rightarrow> (Panic, sc))
      | Err e \<Rightarrow> (Ret [], sc\<lparr>ses_status := si_failed e\<rparr>)
      | Panic \<Rightarrow> (Panic, sc))"

definition secret_handle_event ::
    "('c \<Rightarrow> (string, string) hmap outcome) \<Rightarrow> 'c lattice_view \<Rightarrow> event \<Rightarrow> 'c secret_scaler \<Rightarrow>
     command list outcome \<times> 'c secret_scaler" where
  "secret_handle_event to_map v e sc =
     (let on = (\<lambda>b. if b then secret_reconcile to_map v sc else (Ret [], sc)) in
      case e of
        ConfigSet name \<Rightarrow> on (name = ses_name sc)
      | ConfigDeleted name \<Rightarrow> on (name = ses_name sc)
      | HostHeartbeat _ \<Rightarrow> on (si_type (ses_status sc) \<noteq> Deployed)
      | _ \<Rightarrow> (Ret [], sc))"

definition secret_cleanup :: "'c lattice_view \<Rightarrow> 'c secret_scaler \<Rightarrow> command list outcome" where
  "secret_cleanup v sc = Ret [DeleteConfig (ses_name sc)]"

section \<open>The placeholder\<close>

record status_scaler =
  sts_id :: string
  sts_kind :: string
  sts_name :: string
  sts_status :: status_info

definition status_scaler_new :: "string \<Rightarrow> string \<Rightarrow> string \<Rightarrow> status_info \<Rightarrow> status_scaler" where
  "status_scaler_new i kind name st = \<lparr>sts_id = i, sts_kind = kind, sts_name = name, sts_status = st\<rparr>"

definition status_reconcile :: "'c lattice_view \<Rightarrow> status_scaler \<Rightarrow> command list outcome \<times> status_scaler" where
  "status_reconcile v sc = (Ret [], sc)"

definition status_handle_event :: "'c lattice_view \<Rightarrow> event \<Rightarrow> status_scaler \<Rightarrow> command list outcome \<times> status_scaler" where
  "status_handle_event v e sc = (Ret [], sc)"

definition status_cleanup :: "'c lattice_view \<Rightarrow> status_scaler \<Rightarrow> command list outcome" where
  "status_cleanup v sc = Ret []"

section \<open>The contract\<close>

definition link_own :: "link_scaler \<Rightarrow> command \<Rightarrow> bool" where
  "link_own sc cmd = (cmd = put_link_command (lsr_config sc) \<or> cmd = delete_link_command (lsr_config sc))"

interpretation links: scaler link_reconcile link_handle_event link_cleanup lsr_status link_own
proof (unfold_locales, goal_cases)
  case (1 v e s cs)
  then show ?case by (cases e) (auto simp: link_handle_event_def Let_def split: if_splits)
next
  case (5 v e s)
  then show ?case
    by (cases e) (auto simp: link_handle_event_def link_reconcile_def link_own_def Let_def fun_eq_iff
        split: outcome.split option.split)
qed (auto simp: link_reconcile_def link_cleanup_def link_own_def Let_def fun_eq_iff split: outcome.splits option.splits)

definition config_own :: "config_scaler \<Rightarrow> command \<Rightarrow> bool" where
  "config_own sc cmd =
     (case cfs_config sc of
        None \<Rightarrow> False
      | Some c \<Rightarrow> cmd = PutConfig \<lparr>pc_config_name = cfs_name sc, pc_config = c\<rparr> \<or> cmd = DeleteConfig (cfs_name sc))"

lemma config_reconcile_laws:
  "config_own (snd (config_reconcile v sc)) = config_own sc"
  "fst (config_reconcile v sc) = Ret cs \<Longrightarrow> c \<in> set cs \<Longrightarrow> config_own sc c"
  "fst (config_reconcile v sc) = Ret cs \<Longrightarrow> si_type (cfs_status (snd (config_reconcile v sc))) = Deployed \<Longrightarrow> cs = []"
  by (auto simp: config_reconcile_def config_own_def fun_eq_iff split: outcome.splits option.splits if_splits)

lemma config_handle_cases: "config_handle_event v e sc = config_reconcile v sc \<or> config_handle_event v e sc = (Ret [], sc)"
  by (cases e) (auto simp: config_handle_event_def Let_def)

interpretation configs: scaler config_reconcile config_handle_event config_cleanup cfs_status config_own
proof (unfold_locales, goal_cases)
  case (1 v e s cs)
  then show ?case using config_handle_cases [of v e s] by auto
next
  case (3 v s cs c)
  then show ?case by (auto simp: config_cleanup_def config_own_def split: if_splits)
next
  case (5 v e s)
  then show ?case using config_handle_cases [of v e s] config_reconcile_laws(1) [of v s] by auto
qed (rule config_reconcile_laws; assumption)+

definition secret_own :: "('c \<Rightarrow> (string, string) hmap outcome) \<Rightarrow> 'c secret_scaler \<Rightarrow> command \<Rightarrow> bool" where
  "secret_own to_map sc cmd =
     (cmd = DeleteConfig (ses_name sc) \<or>
      (\<exists>m. to_map (ses_config sc) = Ret m \<and> cmd = PutConfig \<lparr>pc_config_name = ses_name sc, pc_config = m\<rparr>))"

lemma secret_reconcile_laws:
  "secret_own to_map (snd (secret_reconcile to_map v sc)) = secret_own to_map sc"
  "fst (secret_reconcile to_map v sc) = Ret cs \<Longrightarrow> c \<in> set cs \<Longrightarrow> secret_own to_map sc c"
  "fst (secret_reconcile to_map v sc) = Ret cs \<Longrightarrow>
   si_type (ses_status (snd (secret_reconcile to_map v sc))) = Deployed \<Longrightarrow> cs = []"
  by (auto simp: secret_reconcile_def secret_own_def fun_eq_iff split: outcome.splits option.splits if_splits)

lemma secret_handle_cases:
  "secret_handle_event to_map v e sc = secret_reconcile to_map v sc \<or> secret_handle_event to_map v e sc = (Ret [], sc)"
  by (cases e) (auto simp: secret_handle_event_def Let_def)

interpretation secrets: scaler "secret_reconcile to_map" "secret_handle_event to_map" secret_cleanup ses_status
    "secret_own to_map" for to_map
proof (unfold_locales, goal_cases)
  case (1 v e s cs)
  then show ?case using secret_handle_cases [of to_map v e s] by auto
next
  case (3 v s cs c)
  then show ?case by (auto simp: secret_cleanup_def secret_own_def)
next
  case (5 v e s)
  then show ?case using secret_handle_cases [of to_map v e s] secret_reconcile_laws(1) [of to_map v s] by auto
qed (rule secret_reconcile_laws; assumption)+

interpretation placeholders: scaler status_reconcile status_handle_event status_cleanup sts_status "\<lambda>_ _. False"
  by unfold_locales (auto simp: status_reconcile_def status_handle_event_def status_cleanup_def)

section \<open>One link hides another\<close>

text \<open>
  A link scaler settles, and it is settled by any link with the same source, target and name. Once the
  link put by one scaler is in the lattice (the link builder keeps source, target and name), every scaler
  with the same source, target and name reports deployed and never puts its own link, also when its
  namespace, package, interfaces or configuration differ, although links that differ in these are
  accepted as different links by the validation of a manifest.
\<close>

theorem link_put_shadows:
  assumes "\<And>l l'. build l = Some l' \<Longrightarrow>
      lk_source_id l' = lk_source_id l \<and> lk_target l' = lk_target l \<and> lk_name l' = lk_name l"
    and "command_call build (put_link_command a) = Some (CallPutLink l)" and "lv_links v = Ret links" and "l \<in> set links"
    and "lsc_source_id (lsr_config sc) = lsc_source_id a" and "lsc_target (lsr_config sc) = lsc_target a"
    and "lsc_name (lsr_config sc) = lsc_name a"
  shows "link_reconcile v sc = (Ret [], sc\<lparr>lsr_status := si_deployed []\<rparr>)"
proof -
  have "same_link (lsr_config sc) l"
    using assms(1) assms(2,5,6,7)
    by (fastforce simp: command_call_def put_link_command_def link_of_put_def same_link_def)
  then have "List.find (same_link (lsr_config sc)) links \<noteq> None" using assms(4) by (auto simp: find_None_iff)
  then show ?thesis using assms(3) by (auto simp: link_reconcile_def Let_def)
qed

definition ex_link_config :: "string \<Rightarrow> link_scaler_config" where
  "ex_link_config package =
     \<lparr>lsc_source_id = ''a'', lsc_target = ''b'', lsc_wit_namespace = ''wasi'', lsc_wit_package = package,
      lsc_wit_interfaces = [], lsc_name = ''default'', lsc_lattice_id = ''l'', lsc_model_name = ''m'',
      lsc_source_config = [], lsc_target_config = []\<rparr>"

lemma link_put_shadows_witness:
  "\<exists>l. command_call Some (put_link_command (ex_link_config ''http'')) = Some (CallPutLink l) \<and>
     fst (link_reconcile \<lparr>lv_component = (\<lambda>_. Ret None), lv_provider = (\<lambda>_. Ret None), lv_hosts = Ret [], lv_links = Ret [l],
       lv_config = (\<lambda>_. Ret None), lv_secret = (\<lambda>_. Ret (None :: unit option))\<rparr>
       (link_new (\<lambda>s. s) (ex_link_config ''keyvalue''))) = Ret []"
proof -
  obtain l where l: "command_call Some (put_link_command (ex_link_config ''http'')) = Some (CallPutLink l)"
    by (simp add: command_call_def put_link_command_def link_of_put_def)
  then show ?thesis
    by (intro exI [of _ l] conjI, assumption, subst link_put_shadows [OF _ l])
      (auto simp: link_new_def ex_link_config_def)
qed

end
