(* ===== verification/Backoff.thy ===== *)
theory Backoff
  imports Simple_Scalers
begin

text \<open>
  The backoff wrapper around a scaler (\<open>BackoffWrapper\<close> in \<open>scaler/mod.rs\<close>): it withholds events from
  the scaler while events are expected, after a failure, and until the required configuration and secrets
  are in place, and tells the other wadm instances what it expects. Also the helpers of
  \<open>workers/event.rs\<close> that run a list of scalers.

  The wrapped scaler is given by its operations. Its two timers are deadlines in milliseconds; the
  publisher and the serializer are parameters. An error's text is its chain of contexts, the
  outermost first.
\<close>

section \<open>Running several scalers\<close>

definition map_to_result :: "string list \<Rightarrow> string \<Rightarrow> unit outcome" where
  "map_to_result errors msg = (if errors = [] then Ret () else Err (fold (\<lambda>e acc. e @ '': '' @ acc) errors msg))"

fun ok_commands :: "command list outcome \<Rightarrow> command list" where
  "ok_commands (Ret cs) = cs"
| "ok_commands _ = []"

fun error_text :: "'a outcome \<Rightarrow> string list" where
  "error_text (Err e) = [e]"
| "error_text _ = []"

text \<open>A panic of one future is a panic of the whole.\<close>

definition get_commands_and_result :: "command list outcome list \<Rightarrow> string \<Rightarrow> command list \<times> unit outcome" where
  "get_commands_and_result results msg =
     (if Panic \<in> set results then ([], Panic)
      else (concat (map ok_commands results), map_to_result (concat (map error_text results)) msg))"

text \<open>Ids, kinds, names and statuses of the scalers, in order.\<close>

definition detailed_scaler_status :: "(string \<times> string \<times> string \<times> status_info) list \<Rightarrow> status" where
  "detailed_scaler_status scalers =
     status_new
       \<lparr>si_type = status_sum (map (\<lambda>(_, _, _, s). si_type s) scalers),
        si_message = join_with '', '' (filter (\<lambda>m. m \<noteq> []) (map (\<lambda>(_, _, _, s). trim (si_message s)) scalers))\<rparr>
       (map (\<lambda>(i, k, n, s). \<lparr>ss_id = i, ss_kind = k, ss_name = n, ss_info = s\<rparr>) scalers)"

section \<open>The wrapper\<close>

datatype 'd notification =
    CreateScalers manifest
  | DeleteScalers string
  | RegisterExpectedEvents string string "'d cloud_event option"
  | RemoveExpectedEvent string string "'d cloud_event"

record ('s, 'c) scaler_ops =
  so_id :: "'s \<Rightarrow> string"
  so_reconcile :: "'c lattice_view \<Rightarrow> 's \<Rightarrow> command list outcome \<times> 's"
  so_handle_event :: "'c lattice_view \<Rightarrow> event \<Rightarrow> 's \<Rightarrow> command list outcome \<times> 's"
  so_cleanup :: "'c lattice_view \<Rightarrow> 's \<Rightarrow> command list outcome"
  so_status :: "'c lattice_view \<Rightarrow> 's \<Rightarrow> status_info \<times> 's"

record ('c, 'd) surroundings =
  sr_now :: int
  sr_publish :: "'d notification \<Rightarrow> unit outcome"
  sr_ser :: "event \<Rightarrow> 'd"
  sr_secret_map :: "'c \<Rightarrow> (string, string) hmap outcome"

record ('s, 'c) backoff =
  bw_scaler :: 's
  bw_model_name :: string
  bw_required_config :: "config_scaler list"
  bw_required_secrets :: "'c secret_scaler list"
  bw_expected :: "(event \<times> event option) list"
  bw_event_cleaner :: "int option"
  bw_cleanup_timeout :: int
  bw_status :: "status_info option"
  bw_status_cleaner :: "int option"

definition DEFAULT_WAIT_TIMEOUT :: int where "DEFAULT_WAIT_TIMEOUT = 30000"

definition backoff_new ::
    "'s \<Rightarrow> config_scaler list \<Rightarrow> 'c secret_scaler list \<Rightarrow> string \<Rightarrow> int option \<Rightarrow> ('s, 'c) backoff" where
  "backoff_new s configs secrets model_name timeout =
     \<lparr>bw_scaler = s, bw_model_name = model_name, bw_required_config = configs, bw_required_secrets = secrets,
      bw_expected = [], bw_event_cleaner = None,
      bw_cleanup_timeout = (case timeout of None \<Rightarrow> DEFAULT_WAIT_TIMEOUT | Some t \<Rightarrow> t),
      bw_status = None, bw_status_cleaner = None\<rparr>"

definition set_timed_event_cleanup :: "int \<Rightarrow> ('s, 'c) backoff \<Rightarrow> ('s, 'c) backoff" where
  "set_timed_event_cleanup now w = w\<lparr>bw_event_cleaner := Some (now + bw_cleanup_timeout w)\<rparr>"

definition set_timed_status_cleanup :: "int \<Rightarrow> int \<Rightarrow> ('s, 'c) backoff \<Rightarrow> ('s, 'c) backoff" where
  "set_timed_status_cleanup now timeout w = w\<lparr>bw_status_cleaner := Some (now + timeout)\<rparr>"

text \<open>The two spawned tasks, when their sleep is over.\<close>

definition expire_events :: "int \<Rightarrow> ('s, 'c) backoff \<Rightarrow> ('s, 'c) backoff" where
  "expire_events now w = (case bw_event_cleaner w of
     Some d \<Rightarrow> if d \<le> now then w\<lparr>bw_expected := [], bw_event_cleaner := None\<rparr> else w
   | None \<Rightarrow> w)"

definition expire_status :: "int \<Rightarrow> ('s, 'c) backoff \<Rightarrow> ('s, 'c) backoff" where
  "expire_status now w = (case bw_status_cleaner w of
     Some d \<Rightarrow> if d \<le> now then w\<lparr>bw_status := None, bw_status_cleaner := None\<rparr> else w
   | None \<Rightarrow> w)"

definition add_events :: "int \<Rightarrow> (event \<times> event option) list \<Rightarrow> bool \<Rightarrow> ('s, 'c) backoff \<Rightarrow> ('s, 'c) backoff" where
  "add_events now events clear_previous w =
     set_timed_event_cleanup now (w\<lparr>bw_expected := (if clear_previous then [] else bw_expected w) @ events\<rparr>)"

definition matches_failure :: "event \<Rightarrow> event \<times> event option \<Rightarrow> bool" where
  "matches_failure e = (\<lambda>(_, fail). case fail of None \<Rightarrow> False | Some f \<Rightarrow> evt_matches_expected f e)"

definition matches_pair :: "event \<Rightarrow> event \<times> event option \<Rightarrow> bool" where
  "matches_pair e p = (evt_matches_expected (fst p) e \<or> matches_failure e p)"

text \<open>The events kept, whether some were removed, and whether one of them by its failure event.\<close>

definition remove_event :: "event \<Rightarrow> (event \<times> event option) list \<Rightarrow> (event \<times> event option) list \<times> bool \<times> bool" where
  "remove_event e expected =
     (let kept = filter (\<lambda>p. \<not> matches_pair e p) expected in
      (kept, length kept < length expected, list_ex (matches_failure e) expected))"

definition failed_message :: "event \<Rightarrow> string" where
  "failed_message e =
     (case e of
        ProviderStartFailed f \<Rightarrow> psf_error f
      | ComponentScaleFailed f \<Rightarrow> csf_error f
      | _ \<Rightarrow> ''Received a failed event of type '' @ [CHR 0x27] @ raw_type e @ [CHR 0x27])"

text \<open>A publish whose error ends the call.\<close>

definition after_publish :: "unit outcome \<Rightarrow> command list \<Rightarrow> command list outcome" where
  "after_publish r cs = obind r (\<lambda>_. Ret cs)"

definition expected_of :: "command list \<Rightarrow> (event \<times> event option) list" where
  "expected_of cs = List.map_filter corresponding_event cs"

text \<open>Result, new state and the notifications sent.\<close>

definition backoff_handle_event ::
    "('c, 'd) surroundings \<Rightarrow> ('s, 'c) scaler_ops \<Rightarrow> 'c lattice_view \<Rightarrow> event \<Rightarrow> ('s, 'c) backoff \<Rightarrow>
     command list outcome \<times> ('s, 'c) backoff \<times> 'd notification list" where
  "backoff_handle_event env ops v e w0 =
     (let (kept, expected_event, failed_event) = remove_event e (bw_expected w0);
          w = w0\<lparr>bw_expected := kept\<rparr> in
      if expected_event then
        let w1 = (if failed_event
                  then set_timed_status_cleanup (sr_now env) 5000 (w\<lparr>bw_status := Some (si_failed (failed_message e))\<rparr>)
                  else w);
            n = RemoveExpectedEvent (bw_model_name w) (so_id ops (bw_scaler w)) (event_to_cloud (sr_ser env) e)
        in (after_publish (sr_publish env n) [], w1, [n])
      else if bw_expected w \<noteq> [] then (Ret [], w, [])
      else if bw_status w \<noteq> None then (Ret [], w, [])
      else
        let cr = map (config_handle_event v e) (bw_required_config w);
            (config_commands, cres) = get_commands_and_result (map fst cr)
              ''Errors occurred while handling event with config scalers'';
            w1 = w\<lparr>bw_required_config := map snd cr\<rparr> in
        if cres = Panic then (Panic, w1, [])
        else
          let sr = map (secret_handle_event (sr_secret_map env) v e) (bw_required_secrets w1);
              (secret_commands, sres) = get_commands_and_result (map fst sr)
                ''Errors occurred while handling event with secret scalers'';
              w2 = w1\<lparr>bw_required_secrets := map snd sr\<rparr> in
          if sres = Panic then (Panic, w2, [])
          else if config_commands \<noteq> [] \<or> secret_commands \<noteq> [] then (Ret (config_commands @ secret_commands), w2, [])
          else
            (case so_handle_event ops v e (bw_scaler w2) of
               (Ret commands, s) \<Rightarrow>
                 let w3 = add_events (sr_now env) (expected_of commands) False (w2\<lparr>bw_scaler := s\<rparr>) in
                 if bw_expected w3 \<noteq> [] then
                   let n = RegisterExpectedEvents (bw_model_name w3) (so_id ops s)
                             (Some (event_to_cloud (sr_ser env) e))
                   in (after_publish (sr_publish env n) commands, w3, [n])
                 else (Ret commands, w3, [])
             | (r, s) \<Rightarrow> (r, w2\<lparr>bw_scaler := s\<rparr>, [])))"

text \<open>One scaler after the other, stopping at the first that fails.\<close>

fun run_seq :: "('x \<Rightarrow> command list outcome \<times> 'x) \<Rightarrow> 'x list \<Rightarrow> command list outcome \<times> 'x list" where
  "run_seq f [] = (Ret [], [])"
| "run_seq f (x # xs) =
     (case f x of
        (Ret cs, x') \<Rightarrow> (case run_seq f xs of
            (Ret ds, xs') \<Rightarrow> (Ret (cs @ ds), x' # xs')
          | (r, xs') \<Rightarrow> (r, x' # xs'))
      | (r, x') \<Rightarrow> (r, x' # xs))"

definition backoff_reconcile ::
    "('c, 'd) surroundings \<Rightarrow> ('s, 'c) scaler_ops \<Rightarrow> 'c lattice_view \<Rightarrow> ('s, 'c) backoff \<Rightarrow>
     command list outcome \<times> ('s, 'c) backoff \<times> 'd notification list" where
  "backoff_reconcile env ops v w =
     (if bw_expected w \<noteq> [] then (Ret [], w, [])
      else if bw_status w \<noteq> None then (Ret [], w, [])
      else
        (case run_seq (config_reconcile v) (bw_required_config w) of
           (Ret config_commands, cs) \<Rightarrow>
             let w1 = w\<lparr>bw_required_config := cs\<rparr> in
             (case run_seq (secret_reconcile (sr_secret_map env) v) (bw_required_secrets w1) of
                (Ret secret_commands, ss) \<Rightarrow>
                  let w2 = w1\<lparr>bw_required_secrets := ss\<rparr> in
                  if config_commands @ secret_commands \<noteq> [] then (Ret (config_commands @ secret_commands), w2, [])
                  else
                    (case so_reconcile ops v (bw_scaler w2) of
                       (Ret commands, s) \<Rightarrow>
                         if commands \<noteq> [] then
                           let w3 = add_events (sr_now env) (expected_of commands) True (w2\<lparr>bw_scaler := s\<rparr>) in
                           if bw_expected w3 \<noteq> [] then
                             let n = RegisterExpectedEvents (bw_model_name w3) (so_id ops s) None
                             in (after_publish (sr_publish env n) commands, w3, [n])
                           else (Ret commands, w3, [])
                         else (Ret commands, w2\<lparr>bw_scaler := s\<rparr>, [])
                     | (r, s) \<Rightarrow> (r, w2\<lparr>bw_scaler := s\<rparr>, []))
              | (r, ss) \<Rightarrow> (r, w1\<lparr>bw_required_secrets := ss\<rparr>, []))
         | (r, cs) \<Rightarrow> (r, w\<lparr>bw_required_config := cs\<rparr>, [])))"

definition backoff_cleanup ::
    "('s, 'c) scaler_ops \<Rightarrow> 'c lattice_view \<Rightarrow> ('s, 'c) backoff \<Rightarrow> command list outcome" where
  "backoff_cleanup ops v w =
     (let results = so_cleanup ops v (bw_scaler w) # map (config_cleanup v) (bw_required_config w) @
            map (secret_cleanup v) (bw_required_secrets w) in
      if Panic \<in> set results then Panic else Ret (concat (map ok_commands results)))"

definition backoff_status ::
    "('s, 'c) scaler_ops \<Rightarrow> 'c lattice_view \<Rightarrow> ('s, 'c) backoff \<Rightarrow> status_info \<times> ('s, 'c) backoff" where
  "backoff_status ops v w =
     (case bw_status w of
        Some st \<Rightarrow> (st, w)
      | None \<Rightarrow> (let (st, s) = so_status ops v (bw_scaler w) in (st, w\<lparr>bw_scaler := s\<rparr>)))"

end
