(* ===== verification/Backoff_Properties.thy ===== *)
theory Backoff_Properties
  imports Backoff
begin

text \<open>
  The backoff wrapper as a state machine: its steps are the events and reconciles it is given and the
  passing of time, and the properties are about all runs of these steps, whatever the wrapped scaler does.
\<close>

section \<open>Steps and runs\<close>

datatype ('c, 'd) label =
    BwEvent "('c, 'd) surroundings" "'c lattice_view" event
  | BwReconcile "('c, 'd) surroundings" "'c lattice_view"
  | BwTick int

fun label_time :: "('c, 'd) label \<Rightarrow> int" where
  "label_time (BwEvent env _ _) = sr_now env"
| "label_time (BwReconcile env _) = sr_now env"
| "label_time (BwTick now) = now"

inductive bw_step :: "('s, 'c) scaler_ops \<Rightarrow> ('s, 'c) backoff \<Rightarrow> ('c, 'd) label \<Rightarrow> command list outcome \<Rightarrow> ('s, 'c) backoff \<Rightarrow> bool"
  for ops where
  event: "backoff_handle_event env ops v e w = (r, w', ns) \<Longrightarrow> bw_step ops w (BwEvent env v e) r w'"
| reconcile: "backoff_reconcile env ops v w = (r, w', ns) \<Longrightarrow> bw_step ops w (BwReconcile env v) r w'"
| tick: "bw_step ops w (BwTick now) (Ret []) (expire_status now (expire_events now w))"

inductive bw_run :: "('s, 'c) scaler_ops \<Rightarrow> ('s, 'c) backoff \<Rightarrow> (('c, 'd) label \<times> command list outcome) list \<Rightarrow> ('s, 'c) backoff \<Rightarrow> bool"
  for ops where
  stop: "bw_run ops w [] w"
| step: "bw_step ops w l r w' \<Longrightarrow> bw_run ops w' tr w'' \<Longrightarrow> bw_run ops w ((l, r) # tr) w''"

inductive_cases bw_stepE: "bw_step ops w l r w'"
inductive_simps bw_run_nil [simp]: "bw_run ops w [] w'"
inductive_simps bw_run_cons [simp]: "bw_run ops w (x # tr) w'"

text \<open>A property that every step keeps holds at the end of a run, and its outputs satisfy what each step shows.\<close>

lemma bw_run_invariant:
  assumes "bw_run ops w tr w'" and "I w" and "\<And>w l r w'. bw_step ops w l r w' \<Longrightarrow> I w \<Longrightarrow> L l \<Longrightarrow> I w' \<and> Q r"
    and "\<forall>(l, r) \<in> set tr. L l"
  shows "I w' \<and> (\<forall>(l, r) \<in> set tr. Q r)"
  using assms(1,2,4) by induction (use assms(3) in fastforce)+

lemma bw_step_cases:
  assumes "bw_step ops w l r w'"
  obtains (event) env v e ns where "l = BwEvent env v e" "backoff_handle_event env ops v e w = (r, w', ns)"
  | (reconcile) env v ns where "l = BwReconcile env v" "backoff_reconcile env ops v w = (r, w', ns)"
  | (tick) now where "l = BwTick now" "r = Ret []" "w' = expire_status now (expire_events now w)"
  using assms by (rule bw_stepE)

section \<open>What one step does\<close>

lemmas timers = set_timed_event_cleanup_def set_timed_status_cleanup_def

lemma ok_after_publish: "ok_commands (after_publish r cs) = (if r = Ret () then cs else [])"
  by (cases r) (auto simp: after_publish_def)

lemma config_no_event: "config_own sc c \<Longrightarrow> corresponding_event c = None"
  by (auto simp: config_own_def corresponding_event_def split: option.splits)

lemma secret_no_event: "secret_own to_map sc c \<Longrightarrow> corresponding_event c = None"
  by (auto simp: secret_own_def corresponding_event_def)

lemma get_commands_own:
  assumes "get_commands_and_result (map fst (map f xs)) msg = (cs, r)" and "c \<in> set cs"
  obtains x ds where "x \<in> set xs" "fst (f x) = Ret ds" "c \<in> set ds"
proof -
  have "c \<in> set (concat (map ok_commands (map fst (map f xs))))"
    using assms by (auto simp: get_commands_and_result_def split: if_splits)
  then obtain x where x: "x \<in> set xs" "c \<in> set (ok_commands (fst (f x)))" by auto
  then show thesis using that by (cases "fst (f x)") auto
qed

lemma run_seq_own:
  "run_seq f xs = (Ret cs, ys) \<Longrightarrow> c \<in> set cs \<Longrightarrow> \<exists>x \<in> set xs. \<exists>ds. fst (f x) = Ret ds \<and> c \<in> set ds"
proof (induction xs arbitrary: cs ys)
  case (Cons x xs)
  then show ?case by (auto split: prod.splits outcome.splits)
qed simp

lemma reconcile_waits:
  "bw_expected w \<noteq> [] \<or> bw_status w \<noteq> None \<Longrightarrow> backoff_reconcile env ops v w = (Ret [], w, [])"
  by (simp add: backoff_reconcile_def)

definition "kept_events e w = fst (remove_event e (bw_expected w))"

lemma kept_in: "p \<in> set (kept_events e w) \<longleftrightarrow> p \<in> set (bw_expected w) \<and> \<not> matches_pair e p"
  by (auto simp: kept_events_def remove_event_def Let_def)

text \<open>An event the wrapper does not hand to the scaler: an expected one, or any while it waits.\<close>

lemma handle_expected:
  assumes "p \<in> set (bw_expected w)" and "matches_pair e p"
  shows "backoff_handle_event env ops v e w =
    (let w1 = w\<lparr>bw_expected := kept_events e w\<rparr>;
         w2 = (if list_ex (matches_failure e) (bw_expected w)
               then w1\<lparr>bw_status := Some (si_failed (failed_message e)), bw_status_cleaner := Some (sr_now env + 5000)\<rparr>
               else w1);
         n = RemoveExpectedEvent (bw_model_name w) (so_id ops (bw_scaler w)) (event_to_cloud (sr_ser env) e) in
     (after_publish (sr_publish env n) [], w2, [n]))"
proof -
  have "length (filter (\<lambda>p. \<not> matches_pair e p) (bw_expected w)) < length (bw_expected w)"
    using assms by (intro length_filter_less [of p]) auto
  then show ?thesis
    by (simp add: backoff_handle_event_def remove_event_def kept_events_def Let_def timers)
qed

lemma not_expected:
  assumes "\<forall>p \<in> set (bw_expected w). \<not> matches_pair e p"
  shows "remove_event e (bw_expected w) = (bw_expected w, False, False)" and "kept_events e w = bw_expected w"
proof -
  have f: "filter (\<lambda>p. \<not> matches_pair e p) (bw_expected w) = bw_expected w" using assms by (simp add: filter_id_conv)
  have x: "\<not> list_ex (matches_failure e) (bw_expected w)"
    using assms by (auto simp: list_ex_iff matches_pair_def)
  show "remove_event e (bw_expected w) = (bw_expected w, False, False)" using f x by (simp add: remove_event_def)
  then show "kept_events e w = bw_expected w" by (simp add: kept_events_def)
qed

lemma handle_waits:
  assumes "\<forall>p \<in> set (bw_expected w). \<not> matches_pair e p" and "bw_expected w \<noteq> [] \<or> bw_status w \<noteq> None"
  shows "backoff_handle_event env ops v e w = (Ret [], w, [])"
  using assms(2) not_expected(1) [OF assms(1)] by (auto simp: backoff_handle_event_def)

lemma handle_cases:
  obtains (expected) p where "p \<in> set (bw_expected w)" "matches_pair e p"
  | (waits) "\<forall>p \<in> set (bw_expected w). \<not> matches_pair e p" "bw_expected w \<noteq> [] \<or> bw_status w \<noteq> None"
  | (idle) "bw_expected w = []" "bw_status w = None"
  by blast


text \<open>Commands with an expected event come from the scaler itself, and their events are then expected.\<close>

lemma expected_of_in: "c \<in> set cs \<Longrightarrow> corresponding_event c = Some p \<Longrightarrow> p \<in> set (expected_of cs)"
  by (force simp: expected_of_def map_filter_def)

definition "waiting p d w = (p \<in> set (bw_expected w) \<and> bw_event_cleaner w = Some d)"

lemma idle_handle_issues:
  assumes "bw_expected w = []" and "bw_status w = None" and "backoff_handle_event env ops v e w = (r, w', ns)"
    and "c \<in> set (ok_commands r)" and "corresponding_event c = Some p"
  shows "waiting p (sr_now env + bw_cleanup_timeout w) w'"
proof -
  have none: "remove_event e [] = ([], False, False)" by (simp add: remove_event_def)
  obtain cs cres where c: "get_commands_and_result (map fst (map (config_handle_event v e) (bw_required_config w)))
      ''Errors occurred while handling event with config scalers'' = (cs, cres)" by fastforce
  obtain ss sres where s: "get_commands_and_result (map fst (map (secret_handle_event (sr_secret_map env) v e) (bw_required_secrets w)))
      ''Errors occurred while handling event with secret scalers'' = (ss, sres)" by fastforce
  have "corresponding_event x = None" if x: "x \<in> set (cs @ ss)" for x
  proof -
    consider "x \<in> set cs" | "x \<in> set ss" using x by auto
    then show ?thesis
    proof cases
      case 1
      with c obtain y ds where "fst (config_handle_event v e y) = Ret ds" "x \<in> set ds" by (rule get_commands_own)
      then show ?thesis using configs.handle_own config_no_event by blast
    next
      case 2
      with s obtain y ds where "fst (secret_handle_event (sr_secret_map env) v e y) = Ret ds" "x \<in> set ds"
        by (rule get_commands_own)
      then show ?thesis using secrets.handle_own secret_no_event by blast
    qed
  qed
  then have no: "c \<notin> set (cs @ ss)" using assms(5) by fastforce
  obtain q st where q: "so_handle_event ops v e (bw_scaler w) = (q, st)" by fastforce
  show ?thesis
    using assms(3,4) no
    by (auto simp: backoff_handle_event_def none assms(1,2) Let_def c s q add_events_def timers waiting_def ok_after_publish
        simp del: map_map dest: expected_of_in [OF _ assms(5)] split: if_splits outcome.splits)
qed

lemma reconcile_issues:
  assumes "backoff_reconcile env ops v w = (r, w', ns)"
    and "c \<in> set (ok_commands r)" and "corresponding_event c = Some p"
  shows "waiting p (sr_now env + bw_cleanup_timeout w) w'"
proof (cases "bw_expected w \<noteq> [] \<or> bw_status w \<noteq> None")
  case True
  then show ?thesis using assms reconcile_waits [OF True, of env ops v] by auto
next
  case False
  obtain cr cs' where c: "run_seq (config_reconcile v) (bw_required_config w) = (cr, cs')" by fastforce
  obtain sr ss' where s: "run_seq (secret_reconcile (sr_secret_map env) v) (bw_required_secrets w) = (sr, ss')" by fastforce
  have "corresponding_event x = None" if x: "x \<in> set (ok_commands cr)" for x
  proof -
    obtain y ds where "fst (config_reconcile v y) = Ret ds" "x \<in> set ds"
      using x c run_seq_own by (cases cr) fastforce+
    then show ?thesis using configs.reconcile_own config_no_event by blast
  qed
  moreover have "corresponding_event x = None" if x: "x \<in> set (ok_commands sr)" for x
  proof -
    obtain y ds where "fst (secret_reconcile (sr_secret_map env) v y) = Ret ds" "x \<in> set ds"
      using x s run_seq_own by (cases sr) fastforce+
    then show ?thesis using secrets.reconcile_own secret_no_event by blast
  qed
  ultimately have no: "c \<notin> set (ok_commands cr)" "c \<notin> set (ok_commands sr)" using assms(3) by fastforce+
  obtain q st where q: "so_reconcile ops v (bw_scaler w) = (q, st)" by fastforce
  show ?thesis
    using False assms(1,2) no
    by (auto simp: backoff_reconcile_def Let_def c s q add_events_def timers waiting_def ok_after_publish
        dest: expected_of_in [OF _ assms(3)] split: if_splits outcome.splits)
qed


lemma step_issues:
  assumes "bw_step ops w l r w'" and "c \<in> set (ok_commands r)" and "corresponding_event c = Some p"
  shows "waiting p (label_time l + bw_cleanup_timeout w) w'"
  using assms(1)
proof (cases rule: bw_step_cases)
  case (event env v e ns)
  show ?thesis
  proof (cases w e rule: handle_cases)
    case (expected p)
    then show ?thesis
      using event(2) assms(2) by (auto simp: handle_expected Let_def ok_after_publish split: if_splits)
  next
    case waits
    then show ?thesis using event(2) assms(2) by (auto simp: handle_waits)
  next
    case idle
    then show ?thesis using idle_handle_issues [OF _ _ event(2) assms(2,3)] event(1) by simp
  qed
next
  case (reconcile env v ns)
  then show ?thesis using reconcile_issues [OF reconcile(2) assms(2,3)] by simp
next
  case (tick now)
  then show ?thesis using assms(2) by simp
qed

text \<open>What keeps a wrapper waiting for a pair of events until a deadline.\<close>

fun undisturbed :: "event \<times> event option \<Rightarrow> int \<Rightarrow> ('c, 'd) label \<Rightarrow> bool" where
  "undisturbed p d (BwEvent _ _ e) = (\<not> matches_pair e p)"
| "undisturbed p d (BwReconcile _ _) = True"
| "undisturbed p d (BwTick now) = (now < d)"

lemma waiting_step:
  assumes "bw_step ops w l r w'" and "waiting p d w" and "undisturbed p d l"
  shows "waiting p d w' \<and> ok_commands r = []"
  using assms(1)
proof (cases rule: bw_step_cases)
  case (event env v e ns)
  then have m: "\<not> matches_pair e p" using assms(3) by simp
  show ?thesis
  proof (cases w e rule: handle_cases)
    case (expected q)
    then show ?thesis
      using event(2) assms(2) m
      by (auto simp: handle_expected Let_def ok_after_publish waiting_def kept_in split: if_splits)
  next
    case waits
    then show ?thesis using event(2) assms(2) by (auto simp: handle_waits)
  next
    case idle
    then show ?thesis using assms(2) by (simp add: waiting_def)
  qed
next
  case (reconcile env v ns)
  moreover have "bw_expected w \<noteq> []" using assms(2) by (auto simp: waiting_def)
  ultimately have "(r, w', ns) = (Ret [], w, [])" using reconcile_waits [of w env ops v] by simp
  then show ?thesis using assms(2) by simp
next
  case (tick now)
  then show ?thesis using assms(2,3)
    by (auto simp: waiting_def expire_events_def expire_status_def split: option.splits)
qed


text \<open>The timers run whenever they are needed, and end by a known time.\<close>

definition "timed T n w = (bw_cleanup_timeout w = n \<and>
    (bw_expected w \<noteq> [] \<longrightarrow> (\<exists>d. bw_event_cleaner w = Some d \<and> d \<le> T + n)) \<and>
    (bw_status w \<noteq> None \<longrightarrow> (\<exists>d. bw_status_cleaner w = Some d \<and> d \<le> T + 5000)))"

lemma idle_handle_timed:
  assumes "backoff_handle_event env ops v e w = (r, w', ns)" and "bw_expected w = []" and "bw_status w = None"
    and "bw_cleanup_timeout w = n" and "sr_now env \<le> T"
  shows "timed T n w'"
  using assms
  by (auto simp: backoff_handle_event_def remove_event_def Let_def add_events_def timers timed_def
      simp del: map_map split: if_splits outcome.splits prod.splits)

lemma idle_reconcile_timed:
  assumes "backoff_reconcile env ops v w = (r, w', ns)" and "bw_expected w = []" and "bw_status w = None"
    and "bw_cleanup_timeout w = n" and "sr_now env \<le> T"
  shows "timed T n w'"
  using assms
  by (auto simp: backoff_reconcile_def Let_def add_events_def timers timed_def
      split: if_splits outcome.splits prod.splits)

lemma timed_step:
  assumes "bw_step ops w l r w'" and "timed T n w" and "label_time l \<le> T"
  shows "timed T n w'"
  using assms(1)
proof (cases rule: bw_step_cases)
  case (event env v e ns)
  show ?thesis
  proof (cases w e rule: handle_cases)
    case (expected q)
    have "kept_events e w \<noteq> [] \<Longrightarrow> bw_expected w \<noteq> []" using expected by auto
    then show ?thesis
      using event assms(2,3) expected by (auto simp: handle_expected Let_def timed_def split: if_splits)
  next
    case waits
    then show ?thesis using event(2) assms(2) by (auto simp: handle_waits)
  next
    case idle
    then show ?thesis using idle_handle_timed [OF event(2) idle] event(1) assms(2,3) by (simp add: timed_def)
  qed
next
  case (reconcile env v ns)
  show ?thesis
  proof (cases "bw_expected w \<noteq> [] \<or> bw_status w \<noteq> None")
    case True
    then show ?thesis using reconcile assms(2) reconcile_waits [OF True, of env ops v] by simp
  next
    case False
    then show ?thesis using idle_reconcile_timed [OF reconcile(2)] reconcile(1) assms(2,3) by (simp add: timed_def)
  qed
next
  case (tick now)
  then show ?thesis using assms(2)
    by (auto simp: timed_def expire_events_def expire_status_def split: option.splits)
qed

text \<open>A failure stays until its timer runs out.\<close>

definition "failing t w = ((\<exists>e. bw_status w = Some (si_failed (failed_message e))) \<and>
    (\<exists>d. bw_status_cleaner w = Some d \<and> t + 5000 \<le> d))"

lemma failing_step:
  assumes "bw_step ops w l r w'" and "failing t w" and "t \<le> label_time l" and "\<forall>now. l = BwTick now \<longrightarrow> now < t + 5000"
  shows "failing t w' \<and> ok_commands r = []"
  using assms(1)
proof (cases rule: bw_step_cases)
  case (event env v e ns)
  show ?thesis
  proof (cases w e rule: handle_cases)
    case (expected q)
    then show ?thesis
      using event assms(2,3) by (auto simp: handle_expected Let_def ok_after_publish failing_def split: if_splits)
  next
    case waits
    then show ?thesis using event(2) assms(2) by (auto simp: handle_waits)
  next
    case idle
    then show ?thesis using assms(2) by (auto simp: failing_def)
  qed
next
  case (reconcile env v ns)
  moreover have "bw_status w \<noteq> None" using assms(2) by (auto simp: failing_def)
  ultimately have "(r, w', ns) = (Ret [], w, [])" using reconcile_waits [of w env ops v] by simp
  then show ?thesis using assms(2) by simp
next
  case (tick now)
  then show ?thesis using assms(2,4)
    by (auto simp: failing_def expire_events_def expire_status_def split: option.splits)
qed

section \<open>A concrete wrapper\<close>

text \<open>A scaler that always wants to start one provider.\<close>

definition ex_start :: command where
  "ex_start = StartProvider \<lparr>stp_reference = ''r'', stp_provider_id = ''p'', stp_host_id = ''h'',
     stp_model_name = ''m'', stp_config = [], stp_annotations = []\<rparr>"

definition ex_ops :: "(unit, unit) scaler_ops" where
  "ex_ops = \<lparr>so_id = (\<lambda>_. ''i''), so_reconcile = (\<lambda>v s. (Ret [ex_start], s)),
     so_handle_event = (\<lambda>v e s. (Ret [ex_start], s)), so_cleanup = (\<lambda>v s. Ret []),
     so_status = (\<lambda>v s. (si_deployed [], s))\<rparr>"

definition ex_env :: "int \<Rightarrow> (unit, event) surroundings" where
  "ex_env now = \<lparr>sr_now = now, sr_publish = (\<lambda>_. Ret ()), sr_ser = (\<lambda>e. e), sr_secret_map = (\<lambda>_. Ret [])\<rparr>"

definition ex_view :: "unit lattice_view" where
  "ex_view = \<lparr>lv_component = (\<lambda>_. Ret None), lv_provider = (\<lambda>_. Ret None), lv_hosts = Ret [], lv_links = Ret [],
     lv_config = (\<lambda>_. Ret None), lv_secret = (\<lambda>_. Ret None)\<rparr>"

definition ex_pair :: "event \<times> event option" where
  "ex_pair = the (corresponding_event ex_start)"

definition ex_wrapper :: "(unit, unit) backoff" where
  "ex_wrapper = backoff_new () [] [] ''m'' None"

definition ex_waiting :: "(unit, unit) backoff" where
  "ex_waiting = ex_wrapper\<lparr>bw_expected := [ex_pair], bw_event_cleaner := Some 30000\<rparr>"

definition ex_failure :: provider_start_failed where
  "ex_failure = \<lparr>psf_error = ''boom'', psf_provider_id = ''p'', psf_provider_ref = ''r'', psf_host_id = ''h''\<rparr>"

lemma ex_pair: "corresponding_event ex_start = Some ex_pair"
  by (simp add: ex_pair_def ex_start_def corresponding_event_def Let_def)

lemma ex_issue: "backoff_reconcile (ex_env 0) ex_ops ex_view ex_wrapper =
    (Ret [ex_start], ex_waiting, [RegisterExpectedEvents ''m'' ''i'' None])"
  by (simp add: backoff_reconcile_def ex_wrapper_def backoff_new_def ex_ops_def add_events_def timers expected_of_def
      map_filter_simps ex_pair after_publish_def ex_env_def ex_waiting_def DEFAULT_WAIT_TIMEOUT_def)

lemma ex_issue_step: "bw_step ex_ops ex_wrapper (BwReconcile (ex_env 0) ex_view) (Ret [ex_start]) ex_waiting"
  by (rule bw_step.reconcile) (rule ex_issue)

section \<open>Properties\<close>

text \<open>
  C27. A wrapped scaler does not repeat itself: once a command with an expected event has been issued, the wrapper
  issues no command at all, whatever events and reconciles it is given and whatever the wrapped
  scaler would answer, until the success or the failure event of that command arrives or the
  clean-up timeout has passed; and it then still waits for it.
\<close>

theorem backoff_no_repeat:
  assumes "bw_step ops w l r w1" and "c \<in> set (ok_commands r)" and "corresponding_event c = Some p"
    and "bw_run ops w1 tr w2" and "\<forall>(l', r') \<in> set tr. undisturbed p (label_time l + bw_cleanup_timeout w) l'"
  shows "p \<in> set (bw_expected w2) \<and> (\<forall>(l', r') \<in> set tr. ok_commands r' = [])"
proof -
  let ?d = "label_time l + bw_cleanup_timeout w"
  have "waiting p ?d w1" by (rule step_issues [OF assms(1-3)])
  then have "waiting p ?d w2 \<and> (\<forall>(l', r') \<in> set tr. ok_commands r' = [])"
    by (rule bw_run_invariant [OF assms(4), where L = "undisturbed p ?d"]) (rule waiting_step, assumption+, rule assms(5))
  then show ?thesis by (simp add: waiting_def)
qed

lemma backoff_no_repeat_witness:
  "bw_run ex_ops ex_waiting [(BwReconcile (ex_env 7) ex_view, Ret [])] ex_waiting \<and> ex_pair \<in> set (bw_expected ex_waiting)"
proof -
  have run: "bw_run ex_ops ex_waiting [(BwReconcile (ex_env 7) ex_view, Ret [])] ex_waiting"
    by (auto intro!: exI [of _ ex_waiting] bw_step.reconcile reconcile_waits simp: ex_waiting_def)
  from backoff_no_repeat [OF ex_issue_step _ ex_pair run] show ?thesis using run by simp
qed



text \<open>
  C29. A failure is reported and stops the scaler: when the failure event of an expected command arrives, the
  status becomes failed with the event's message, and for five seconds every status is a failure and no
  command is issued, unless time runs backwards.
\<close>

theorem backoff_failure_reported:
  assumes "(s, Some f) \<in> set (bw_expected w)" and "evt_matches_expected f e"
    and "backoff_handle_event env ops v e w = (r, w1, ns)" and "bw_run ops w1 tr w2"
    and "\<forall>(l, r') \<in> set tr. sr_now env \<le> label_time l \<and> (\<forall>now. l = BwTick now \<longrightarrow> now < sr_now env + 5000)"
  shows "fst (backoff_status ops v' w1) = si_failed (failed_message e) \<and>
    (\<exists>e'. fst (backoff_status ops v' w2) = si_failed (failed_message e')) \<and> ok_commands r = [] \<and>
    (\<forall>(l, r') \<in> set tr. ok_commands r' = [])"
proof -
  have x: "list_ex (matches_failure e) (bw_expected w)"
    using assms(1,2) by (force simp: list_ex_iff matches_failure_def)
  have w1: "bw_status w1 = Some (si_failed (failed_message e))" "bw_status_cleaner w1 = Some (sr_now env + 5000)"
    "ok_commands r = []"
    using handle_expected [OF assms(1), of e env ops v] assms(2,3) x
    by (auto simp: matches_pair_def matches_failure_def ok_after_publish Let_def split: if_splits)
  then have "failing (sr_now env) w1" by (auto simp: failing_def)
  then have "failing (sr_now env) w2 \<and> (\<forall>(l, r') \<in> set tr. ok_commands r' = [])"
    by (rule bw_run_invariant [OF assms(4), where
        L = "\<lambda>l. sr_now env \<le> label_time l \<and> (\<forall>now. l = BwTick now \<longrightarrow> now < sr_now env + 5000)"])
      (blast dest: failing_step, rule assms(5))
  then show ?thesis using w1 by (auto simp: failing_def backoff_status_def)
qed

lemma backoff_failure_reported_witness:
  "si_message (fst (backoff_status ex_ops ex_view
     (fst (snd (backoff_handle_event (ex_env 1) ex_ops ex_view (ProviderStartFailed ex_failure) ex_waiting))))) = ''boom''"
proof -
  obtain r w1 ns where h: "backoff_handle_event (ex_env 1) ex_ops ex_view (ProviderStartFailed ex_failure) ex_waiting = (r, w1, ns)"
    by (cases "backoff_handle_event (ex_env 1) ex_ops ex_view (ProviderStartFailed ex_failure) ex_waiting") auto
  define f where "f = ProviderStartFailed (ex_failure\<lparr>psf_error := []\<rparr>)"
  have "(fst ex_pair, Some f) \<in> set (bw_expected ex_waiting)" and "evt_matches_expected f (ProviderStartFailed ex_failure)"
    by (simp_all add: f_def ex_waiting_def ex_pair_def ex_start_def corresponding_event_def Let_def ex_failure_def)
  from backoff_failure_reported [OF this h bw_run.stop, of ex_view] show ?thesis
    using h by (simp add: failed_message_def ex_failure_def si_failed_def)
qed

fun command_host :: "command \<Rightarrow> string" where
  "command_host (ScaleComponent s) = scc_host_id s"
| "command_host (StartProvider p) = stp_host_id p"
| "command_host (StopProvider p) = spp_host_id p"
| "command_host _ = []"

text \<open>
  C30. The other wadm instances never see an expected event arrive: the success event of a command, forwarded as
  the cloud event of a notification and decoded on the other side, has the host id replaced by the
  source, so it matches no expected event of that command and every wrapper there keeps waiting until
  its clean-up timeout. (The command goes to a host, and the serde round trip of the payload is assumed.)
\<close>

theorem forwarded_event_misses:
  assumes "corresponding_event c = Some (s, f)" and "de (event_type s) (ser s) = Some s" and "command_host c \<noteq> WADM_SOURCE"
  shows "\<exists>e. event_from_cloud de (event_to_cloud ser s) = Ret e \<and>
    remove_event e (expected_of [c]) = (expected_of [c], False, False)"
proof -
  let ?e = "set_source WADM_SOURCE s"
  have "event_from_cloud de (event_to_cloud ser s) = Ret ?e"
    using assms(2) event_type_known [of s] by (simp add: event_from_cloud_def event_to_cloud_def)
  moreover have "\<not> matches_pair ?e (s, f)"
    using assms(1,3) by (cases c) (auto simp: corresponding_event_def Let_def matches_pair_def matches_failure_def)
  ultimately show ?thesis
    using assms(1) by (auto simp: remove_event_def expected_of_def map_filter_simps matches_pair_def)
qed

lemma forwarded_event_misses_witness:
  "\<exists>e. event_from_cloud (\<lambda>ty e. if event_type e = ty then Some e else None) (event_to_cloud (\<lambda>e. e) (fst ex_pair)) = Ret e \<and>
     remove_event e (expected_of [ex_start]) = (expected_of [ex_start], False, False)"
  using forwarded_event_misses [of ex_start "fst ex_pair" "snd ex_pair" "\<lambda>ty e. if event_type e = ty then Some e else None" "\<lambda>e. e"] ex_pair
  by (simp add: ex_start_def WADM_SOURCE_def)

end
