(* ===== verification/Convert.thy ===== *)
theory Convert
  imports Daemon_Scaler Provider_Scalers Backoff Validation
begin

text \<open>
  The conversion of the components of a manifest into scalers (\<open>scaler/convert.rs\<close>): the ids of
  components and secrets, shared components, the configuration and secrets a scaler requires, and one
  wrapped scaler per trait. A boxed scaler is either one of the five wrapped kinds or a placeholder.

  Parameters: the digest and the hasher, the secret configuration constructor and prefix of the host's
  crates, Unicode lower case, and the supply of random ids, one per place that draws one.
\<close>

record 'c convert_env =
  cv_digest :: "string \<Rightarrow> string"
  cv_hasher :: "btree \<Rightarrow> nat"
  cv_mk_secret :: "'c mk_secret"
  cv_secret_prefix :: string
  cv_lowercase :: "string \<Rightarrow> string"
  cv_uuid :: "string \<Rightarrow> string"

section \<open>Boxed scalers\<close>

datatype inner_scaler =
    ComponentSpread spread_scaler
  | ComponentDaemon spread_scaler
  | ProviderSpread provider_scaler
  | ProviderDaemon provider_scaler
  | LinkS link_scaler

datatype 'c boxed_scaler =
    Wrapped "(inner_scaler, 'c) backoff"
  | Placeholder status_scaler

definition lift_state :: "('s \<Rightarrow> 't) \<Rightarrow> 'r \<times> 's \<Rightarrow> 'r \<times> 't" where
  "lift_state f p = (fst p, f (snd p))"

fun inner_id :: "inner_scaler \<Rightarrow> string" where
  "inner_id (ComponentSpread s) = sps_id s"
| "inner_id (ComponentDaemon s) = sps_id s"
| "inner_id (ProviderSpread s) = pvs_id s"
| "inner_id (ProviderDaemon s) = pvs_id s"
| "inner_id (LinkS s) = lsr_id s"

fun inner_kind :: "inner_scaler \<Rightarrow> string" where
  "inner_kind (ComponentSpread s) = SPREAD_SCALER_KIND"
| "inner_kind (ComponentDaemon s) = DAEMON_SCALER_KIND"
| "inner_kind (ProviderSpread s) = SPREAD_SCALER_KIND"
| "inner_kind (ProviderDaemon s) = DAEMON_SCALER_KIND"
| "inner_kind (LinkS s) = LINK_SCALER_KIND"

fun inner_name :: "inner_scaler \<Rightarrow> string" where
  "inner_name (ComponentSpread s) = csc_component_id (sps_config s)"
| "inner_name (ComponentDaemon s) = csc_component_id (sps_config s)"
| "inner_name (ProviderSpread s) = psc_provider_id (pvs_config s)"
| "inner_name (ProviderDaemon s) = psc_provider_id (pvs_config s)"
| "inner_name (LinkS s) = link_name s"

fun inner_reconcile :: "'c lattice_view \<Rightarrow> inner_scaler \<Rightarrow> command list outcome \<times> inner_scaler" where
  "inner_reconcile v (ComponentSpread s) = lift_state ComponentSpread (spread_reconcile v s)"
| "inner_reconcile v (ComponentDaemon s) = lift_state ComponentDaemon (daemon_reconcile v s)"
| "inner_reconcile v (ProviderSpread s) = lift_state ProviderSpread (provider_spread_reconcile v s)"
| "inner_reconcile v (ProviderDaemon s) = lift_state ProviderDaemon (provider_daemon_reconcile v s)"
| "inner_reconcile v (LinkS s) = lift_state LinkS (link_reconcile v s)"

fun inner_handle_event :: "'c lattice_view \<Rightarrow> event \<Rightarrow> inner_scaler \<Rightarrow> command list outcome \<times> inner_scaler" where
  "inner_handle_event v e (ComponentSpread s) = lift_state ComponentSpread (spread_handle_event v e s)"
| "inner_handle_event v e (ComponentDaemon s) = lift_state ComponentDaemon (daemon_handle_event v e s)"
| "inner_handle_event v e (ProviderSpread s) = lift_state ProviderSpread (provider_spread_handle_event v e s)"
| "inner_handle_event v e (ProviderDaemon s) = lift_state ProviderDaemon (provider_daemon_handle_event v e s)"
| "inner_handle_event v e (LinkS s) = lift_state LinkS (link_handle_event v e s)"

fun inner_cleanup :: "'c lattice_view \<Rightarrow> inner_scaler \<Rightarrow> command list outcome" where
  "inner_cleanup v (ComponentSpread s) = spread_cleanup v s"
| "inner_cleanup v (ComponentDaemon s) = daemon_cleanup v s"
| "inner_cleanup v (ProviderSpread s) = provider_spread_cleanup v s"
| "inner_cleanup v (ProviderDaemon s) = provider_daemon_cleanup v s"
| "inner_cleanup v (LinkS s) = link_cleanup v s"

fun inner_stored_status :: "inner_scaler \<Rightarrow> status_info" where
  "inner_stored_status (ComponentSpread s) = sps_status s"
| "inner_stored_status (ComponentDaemon s) = sps_status s"
| "inner_stored_status (ProviderSpread s) = pvs_status s"
| "inner_stored_status (ProviderDaemon s) = pvs_status s"
| "inner_stored_status (LinkS s) = lsr_status s"

text \<open>Every scaler reconciles before it reports its status, dropping the commands.\<close>

definition inner_status :: "'c lattice_view \<Rightarrow> inner_scaler \<Rightarrow> status_info \<times> inner_scaler" where
  "inner_status v s = (let s' = snd (inner_reconcile v s) in (inner_stored_status s', s'))"

definition inner_ops :: "(inner_scaler, 'c) scaler_ops" where
  "inner_ops = \<lparr>so_id = inner_id, so_reconcile = inner_reconcile, so_handle_event = inner_handle_event,
     so_cleanup = inner_cleanup, so_status = inner_status\<rparr>"

fun boxed_id :: "'c boxed_scaler \<Rightarrow> string" where
  "boxed_id (Wrapped w) = inner_id (bw_scaler w)"
| "boxed_id (Placeholder s) = sts_id s"

fun boxed_kind :: "'c boxed_scaler \<Rightarrow> string" where
  "boxed_kind (Wrapped w) = inner_kind (bw_scaler w)"
| "boxed_kind (Placeholder s) = sts_kind s"

fun boxed_name :: "'c boxed_scaler \<Rightarrow> string" where
  "boxed_name (Wrapped w) = inner_name (bw_scaler w)"
| "boxed_name (Placeholder s) = sts_name s"

text \<open>The dispatch of the trait object; the third component are the notifications sent.\<close>

fun boxed_reconcile ::
    "('c, 'd) surroundings \<Rightarrow> 'c lattice_view \<Rightarrow> 'c boxed_scaler \<Rightarrow>
     command list outcome \<times> 'c boxed_scaler \<times> 'd notification list" where
  "boxed_reconcile env v (Wrapped w) =
     (case backoff_reconcile env inner_ops v w of (r, w', ns) \<Rightarrow> (r, Wrapped w', ns))"
| "boxed_reconcile env v (Placeholder s) = (case status_reconcile v s of (r, s') \<Rightarrow> (r, Placeholder s', []))"

fun boxed_handle_event ::
    "('c, 'd) surroundings \<Rightarrow> 'c lattice_view \<Rightarrow> event \<Rightarrow> 'c boxed_scaler \<Rightarrow>
     command list outcome \<times> 'c boxed_scaler \<times> 'd notification list" where
  "boxed_handle_event env v e (Wrapped w) =
     (case backoff_handle_event env inner_ops v e w of (r, w', ns) \<Rightarrow> (r, Wrapped w', ns))"
| "boxed_handle_event env v e (Placeholder s) =
     (case status_handle_event v e s of (r, s') \<Rightarrow> (r, Placeholder s', []))"

fun boxed_cleanup :: "'c lattice_view \<Rightarrow> 'c boxed_scaler \<Rightarrow> command list outcome" where
  "boxed_cleanup v (Wrapped w) = backoff_cleanup inner_ops v w"
| "boxed_cleanup v (Placeholder s) = status_cleanup v s"

fun boxed_status :: "'c lattice_view \<Rightarrow> 'c boxed_scaler \<Rightarrow> status_info \<times> 'c boxed_scaler" where
  "boxed_status v (Wrapped w) = (case backoff_status inner_ops v w of (st, w') \<Rightarrow> (st, Wrapped w'))"
| "boxed_status v (Placeholder s) = (sts_status s, Placeholder s)"

section \<open>Names and ids\<close>

text \<open>A byte of a UTF-8 sequence after the first; the replacement works on characters, not bytes.\<close>

definition is_continuation :: "char \<Rightarrow> bool" where
  "is_continuation c = (of_char c div (64 :: nat) = 2)"

definition sanitize :: "string \<Rightarrow> string" where
  "sanitize s = concat (map (\<lambda>c. if is_ascii_alphanumeric c then [c]
     else if is_continuation c then [] else ''_'') s)"

definition compute_component_id :: "(string \<Rightarrow> string) \<Rightarrow> string \<Rightarrow> string option \<Rightarrow> string \<Rightarrow> string" where
  "compute_component_id lowercase manifest_name component_id component_name =
     (case component_id of
        Some i \<Rightarrow> i
      | None \<Rightarrow> sanitize (lowercase manifest_name) @ ''-'' @ sanitize (lowercase component_name))"

definition compute_secret_id :: "'c convert_env \<Rightarrow> string \<Rightarrow> string option \<Rightarrow> string \<Rightarrow> string" where
  "compute_secret_id env manifest_name component_id component_name =
     cv_secret_prefix env @ ''_'' @ compute_component_id (cv_lowercase env) manifest_name component_id component_name"

definition resolve_manifest_component ::
    "string \<Rightarrow> string \<Rightarrow> string option \<Rightarrow> shared_application option \<Rightarrow> (string \<times> string) outcome" where
  "resolve_manifest_component application_name component_name img shared =
     (case (img, shared) of
        (Some _, None) \<Rightarrow> Ret (application_name, component_name)
      | (None, Some app) \<Rightarrow> Ret (sa_name app, sa_component app)
      | (None, None) \<Rightarrow> Err ''Application did not specify an image or shared application reference''
      | (Some _, Some _) \<Rightarrow> Err ''Application specified both an image and a shared application reference'')"

section \<open>Configuration and secrets\<close>

definition config_to_scalers ::
    "'c convert_env \<Rightarrow> string \<Rightarrow> config_property list \<Rightarrow> config_scaler list \<times> string list" where
  "config_to_scalers env manifest_name configs =
     (let name = (\<lambda>c. if cfg_properties c \<noteq> None
                      then compute_component_id (cv_lowercase env) manifest_name None (cfg_name c) else cfg_name c) in
      (map (\<lambda>c. config_new (cv_hasher env) (name c) (cfg_properties c)) configs, map name configs))"

text \<open>The lookup of the policy is unwrapped.\<close>

definition secrets_to_scalers ::
    "'c convert_env \<Rightarrow> string \<Rightarrow> secret_property list \<Rightarrow> (string, policy) hmap \<Rightarrow>
     ('c secret_scaler list \<times> string list) outcome" where
  "secrets_to_scalers env manifest_name secrets policies =
     obind (omap_list (\<lambda>s.
         let name = compute_secret_id env manifest_name None (sp_name s) in
         obind (or_panic (map_of policies (ssp_policy (sp_properties s)))) (\<lambda>policy.
         obind (secret_new (cv_digest env) (cv_mk_secret env) name policy s) (\<lambda>sc. Ret (sc, name)))) secrets)
       (\<lambda>rs. Ret (map fst rs, map snd rs))"

section \<open>Links\<close>

definition default_definition :: config_definition where
  "default_definition = \<lparr>cd_config = [], cd_secrets = []\<rparr>"

definition link_source_of :: "link_property \<Rightarrow> config_definition" where
  "link_source_of p = (case lp_source p of None \<Rightarrow> default_definition | Some d \<Rightarrow> d)"

text \<open>\<open>component_name\<close> and the three options describe the target component.\<close>

definition link_to_scaler ::
    "'c convert_env \<Rightarrow> link_property \<Rightarrow> string \<Rightarrow> string \<Rightarrow> string \<Rightarrow> string \<Rightarrow> string \<Rightarrow> string option \<Rightarrow>
     string option \<Rightarrow> shared_application option \<Rightarrow> (string, policy) hmap \<Rightarrow> 'c boxed_scaler outcome" where
  "link_to_scaler env p lattice_id manifest_name application_name component_name source_id target_id img shared policies =
     (let (source_configs, source_config) = config_to_scalers env manifest_name (cd_config (link_source_of p));
          (target_configs, target_config) = config_to_scalers env manifest_name (tc_config (lp_target p)) in
      obind (secrets_to_scalers env manifest_name (tc_secrets (lp_target p)) policies) (\<lambda>(target_secret_scalers, target_secrets).
      obind (secrets_to_scalers env manifest_name (cd_secrets (link_source_of p)) policies) (\<lambda>(source_secret_scalers, source_secrets).
      case resolve_manifest_component manifest_name component_name img shared of
        Err err \<Rightarrow> Ret (Placeholder (status_scaler_new (cv_uuid env component_name) LINK_SCALER_KIND
            (component_name @ '' -('' @ lp_namespace p @ '':'' @ lp_package p @ '')-> '' @ tc_name (lp_target p))
            (si_failed err)))
      | Panic \<Rightarrow> Panic
      | Ret (target_manifest_name, target_component_name) \<Rightarrow>
          let target = compute_component_id (cv_lowercase env) target_manifest_name target_id target_component_name in
          Ret (Wrapped (backoff_new
            (LinkS (link_new (cv_digest env)
              \<lparr>lsc_source_id = source_id, lsc_target = target, lsc_wit_namespace = lp_namespace p,
               lsc_wit_package = lp_package p, lsc_wit_interfaces = lp_interfaces p,
               lsc_name = (case lp_name p of None \<Rightarrow> DEFAULT_LINK_NAME | Some n \<Rightarrow> n),
               lsc_lattice_id = lattice_id, lsc_model_name = application_name,
               lsc_source_config = source_config @ source_secrets, lsc_target_config = target_config @ target_secrets\<rparr>))
            (source_configs @ target_configs) (source_secret_scalers @ target_secret_scalers) application_name
            (Some 5000))))))"

definition link_to_component ::
    "'c convert_env \<Rightarrow> link_property \<Rightarrow> string \<Rightarrow> string \<Rightarrow> string \<Rightarrow> string \<Rightarrow> (string, policy) hmap \<Rightarrow> component \<Rightarrow>
     'c boxed_scaler outcome" where
  "link_to_component env p lattice_id manifest_name application_name source_id policies c =
     (let q = props_of (co_properties c) in
      link_to_scaler env p lattice_id manifest_name application_name (co_name c) source_id (cp_id q) (cp_image q)
        (cp_application q) policies)"


section \<open>The scalers of a component\<close>

definition COMPONENT_TIMEOUT :: int where "COMPONENT_TIMEOUT = 5000"
definition PROVIDER_TIMEOUT :: int where "PROVIDER_TIMEOUT = 60000"

text \<open>The scaler of one trait, if it has one.\<close>

definition component_trait_scaler ::
    "'c convert_env \<Rightarrow> component list \<Rightarrow> component_properties \<Rightarrow> string \<Rightarrow> string \<Rightarrow> string \<Rightarrow> string \<Rightarrow>
     (string, policy) hmap \<Rightarrow> oam_trait \<Rightarrow> 'c boxed_scaler option outcome" where
  "component_trait_scaler env components p manifest_name application_name component_name lattice_id policies trt =
     (let component_id = compute_component_id (cv_lowercase env)
            (if cp_image p \<noteq> None then manifest_name else application_name) (cp_id p) component_name;
          (config_scalers, config_names) = config_to_scalers env manifest_name (cp_config p) in
      obind (secrets_to_scalers env manifest_name (cp_secrets p) policies) (\<lambda>(secret_scalers, secret_names).
        let names = config_names @ secret_names;
            wrap = (\<lambda>s. Ret (Some (Wrapped (backoff_new s config_scalers secret_scalers application_name
                      (Some COMPONENT_TIMEOUT))))) in
        case tr_properties trt of
          TPSpreadScaler q \<Rightarrow>
            (case cp_image p of
               None \<Rightarrow> Ret None
             | Some image_ref \<Rightarrow>
                 if tr_type trt = SPREADSCALER_TRAIT then
                   obind (spread_new (cv_digest env) image_ref component_id lattice_id application_name q component_name names)
                     (\<lambda>s. wrap (ComponentSpread s))
                 else if tr_type trt = DAEMONSCALER_TRAIT then
                   wrap (ComponentDaemon
                     (daemon_new (cv_digest env) image_ref component_id lattice_id application_name q component_name names))
                 else Ret None)
        | TPLink q \<Rightarrow>
            if tr_type trt = LINK_TRAIT then
              (case List.find (\<lambda>c. co_name c = tc_name (lp_target q)) components of
                 None \<Rightarrow> Ret None
               | Some c \<Rightarrow> obind (link_to_component env q lattice_id manifest_name application_name component_id policies c)
                             (\<lambda>b. Ret (Some b)))
            else Ret None
        | TPCustom _ \<Rightarrow> Ret None))"

text \<open>The scalers found, and nothing when one panics.\<close>

definition collect_scalers :: "('a \<Rightarrow> 'c boxed_scaler option outcome) \<Rightarrow> 'a list \<Rightarrow> 'c boxed_scaler list outcome" where
  "collect_scalers f xs = obind (omap_list f xs) (\<lambda>rs. Ret (List.map_filter (\<lambda>r. r) rs))"

definition component_scalers ::
    "'c convert_env \<Rightarrow> component list \<Rightarrow> component_properties \<Rightarrow> oam_trait list option \<Rightarrow> string \<Rightarrow> string \<Rightarrow> string \<Rightarrow>
     string \<Rightarrow> (string, policy) hmap \<Rightarrow> 'c boxed_scaler list outcome" where
  "component_scalers env components p traits manifest_name application_name component_name lattice_id policies =
     collect_scalers (component_trait_scaler env components p manifest_name application_name component_name lattice_id policies)
       (case traits of None \<Rightarrow> [] | Some ts \<Rightarrow> ts)"

section \<open>The scalers of a provider\<close>

text \<open>The configuration of a provider's scaler with its required configuration and secrets.\<close>

definition provider_wrapped ::
    "'c convert_env \<Rightarrow> component_properties \<Rightarrow> string \<Rightarrow> (string, policy) hmap \<Rightarrow> (string list \<Rightarrow> inner_scaler outcome) \<Rightarrow>
     'c boxed_scaler option outcome" where
  "provider_wrapped env p application_name policies construct =
     (let (config_scalers, config_names) = config_to_scalers env application_name (cp_config p) in
      obind (secrets_to_scalers env application_name (cp_secrets p) policies) (\<lambda>(secret_scalers, secret_names).
      obind (construct (config_names @ secret_names)) (\<lambda>s.
        Ret (Some (Wrapped (backoff_new s config_scalers secret_scalers application_name (Some PROVIDER_TIMEOUT)))))))"

definition provider_config_of ::
    "string \<Rightarrow> string \<Rightarrow> string \<Rightarrow> spread_scaler_property \<Rightarrow> string \<Rightarrow> string list \<Rightarrow> provider_spread_config" where
  "provider_config_of lattice_id provider_id img q application_name names =
     \<lparr>psc_lattice_id = lattice_id, psc_provider_id = provider_id, psc_reference = img, psc_model_name = application_name,
      psc_spread = q, psc_config = names\<rparr>"

definition component_named :: "string \<Rightarrow> component \<Rightarrow> bool" where
  "component_named n c = (co_name c = n \<and> \<not> is_capability (co_properties c))"

definition provider_trait_scaler ::
    "'c convert_env \<Rightarrow> component list \<Rightarrow> component_properties \<Rightarrow> string \<Rightarrow> string \<Rightarrow> string \<Rightarrow> string \<Rightarrow> string \<Rightarrow>
     (string, policy) hmap \<Rightarrow> oam_trait \<Rightarrow> 'c boxed_scaler option outcome" where
  "provider_trait_scaler env components p provider_id manifest_name application_name component_name lattice_id policies trt =
     (case tr_properties trt of
        TPSpreadScaler q \<Rightarrow>
          (case cp_image p of
             None \<Rightarrow> Ret None
           | Some img \<Rightarrow>
               let config = provider_config_of lattice_id provider_id img q application_name in
               if tr_type trt = SPREADSCALER_TRAIT then
                 provider_wrapped env p application_name policies (\<lambda>names.
                   obind (provider_spread_new (cv_digest env) (config names) component_name) (\<lambda>s. Ret (ProviderSpread s)))
               else if tr_type trt = DAEMONSCALER_TRAIT then
                 provider_wrapped env p application_name policies (\<lambda>names.
                   Ret (ProviderDaemon (provider_daemon_new (cv_digest env) (config names) component_name)))
               else Ret None)
      | TPLink q \<Rightarrow>
          if tr_type trt = LINK_TRAIT then
            (case List.find (component_named (tc_name (lp_target q))) components of
               None \<Rightarrow> Ret None
             | Some c \<Rightarrow> obind (link_to_component env q lattice_id manifest_name application_name provider_id policies c)
                           (\<lambda>b. Ret (Some b)))
          else Ret None
      | TPCustom _ \<Rightarrow> Ret None)"

definition scaler_specified :: "component_properties \<Rightarrow> oam_trait \<Rightarrow> bool" where
  "scaler_specified p trt =
     (cp_image p \<noteq> None \<and> is_scaler trt \<and> (case tr_properties trt of TPSpreadScaler _ \<Rightarrow> True | _ \<Rightarrow> False))"

text \<open>A provider without a scaler trait gets one instance.\<close>

definition provider_scalers ::
    "'c convert_env \<Rightarrow> component list \<Rightarrow> component_properties \<Rightarrow> oam_trait list option \<Rightarrow> string \<Rightarrow> string \<Rightarrow> string \<Rightarrow>
     string \<Rightarrow> (string, policy) hmap \<Rightarrow> 'c boxed_scaler list outcome" where
  "provider_scalers env components p traits manifest_name application_name component_name lattice_id policies =
     (let provider_id = compute_component_id (cv_lowercase env)
            (if cp_image p \<noteq> None then manifest_name else application_name) (cp_id p) component_name;
          ts = (case traits of None \<Rightarrow> [] | Some ts \<Rightarrow> ts) in
      obind (collect_scalers (provider_trait_scaler env components p provider_id manifest_name application_name
               component_name lattice_id policies) ts) (\<lambda>scalers.
        case cp_image p of
          Some img \<Rightarrow>
            if list_ex (scaler_specified p) ts then Ret scalers
            else obind (provider_wrapped env p application_name policies (\<lambda>names.
                   obind (provider_spread_new (cv_digest env) (provider_config_of lattice_id provider_id img
                       \<lparr>ssc_instances = 1, ssc_spread = []\<rparr> application_name names) component_name)
                     (\<lambda>s. Ret (ProviderSpread s))))
                   (\<lambda>b. Ret (scalers @ (case b of None \<Rightarrow> [] | Some b \<Rightarrow> [b])))
        | None \<Rightarrow> Ret scalers))"

section \<open>The scalers of a manifest\<close>

definition scalers_of_component ::
    "'c convert_env \<Rightarrow> component list \<Rightarrow> (string, policy) hmap \<Rightarrow> string \<Rightarrow> string \<Rightarrow> component \<Rightarrow> 'c boxed_scaler list outcome" where
  "scalers_of_component env components policies lattice_id manifest_name c =
     (let p = props_of (co_properties c) in
      case resolve_manifest_component manifest_name (co_name c) (cp_image p) (cp_application p) of
        Err err \<Rightarrow> Ret [Placeholder (status_scaler_new (cv_uuid env (co_name c)) SPREAD_SCALER_KIND (co_name c) (si_failed err))]
      | Panic \<Rightarrow> Panic
      | Ret (application_name, component_name) \<Rightarrow>
          (if is_capability (co_properties c) then provider_scalers else component_scalers)
            env components p (co_traits c) manifest_name application_name component_name lattice_id policies)"

definition manifest_components_to_scalers ::
    "'c convert_env \<Rightarrow> component list \<Rightarrow> (string, policy) hmap \<Rightarrow> string \<Rightarrow> string \<Rightarrow> 'c boxed_scaler list outcome" where
  "manifest_components_to_scalers env components policies lattice_id manifest_name =
     obind (omap_list (scalers_of_component env components policies lattice_id manifest_name) components)
       (\<lambda>ss. Ret (concat ss))"

end
