(* ===== verification/Convert_Properties.thy ===== *)
theory Convert_Properties
  imports Convert Spread_Compute
begin

text \<open>
  The conversion of an accepted manifest: it neither panics nor leaves a placeholder, every link and
  every scaler trait gets its scaler, and all scalers agree on the ids of the components.
\<close>

section \<open>Ids\<close>

text \<open>The id under which a component of a manifest runs, in this manifest or in the shared application.\<close>

definition component_id_of :: "(string \<Rightarrow> string) \<Rightarrow> string \<Rightarrow> component \<Rightarrow> string" where
  "component_id_of lowercase manifest_name c =
     (let p = props_of (co_properties c) in
      case cp_application p of
        None \<Rightarrow> compute_component_id lowercase manifest_name (cp_id p) (co_name c)
      | Some app \<Rightarrow> compute_component_id lowercase (sa_name app) (cp_id p) (sa_component app))"

definition application_of :: "string \<Rightarrow> component \<Rightarrow> string \<times> string" where
  "application_of manifest_name c =
     (case cp_application (props_of (co_properties c)) of
        None \<Rightarrow> (manifest_name, co_name c) | Some app \<Rightarrow> (sa_name app, sa_component app))"

lemma resolve_ok:
  "props_ok c \<Longrightarrow> resolve_manifest_component manifest_name (co_name c) (cp_image (props_of (co_properties c)))
     (cp_application (props_of (co_properties c))) = Ret (application_of manifest_name c)"
  by (auto simp: props_ok_def resolve_manifest_component_def application_of_def Let_def)

lemma source_id_ok:
  assumes "props_ok c" and "application_of manifest_name c = (a, n)"
  shows "compute_component_id l (if cp_image (props_of (co_properties c)) \<noteq> None then manifest_name else a)
     (cp_id (props_of (co_properties c))) n = component_id_of l manifest_name c"
  using assms by (auto simp: props_ok_def application_of_def component_id_of_def Let_def)

lemma target_id_ok:
  "application_of manifest_name c = (a, n) \<Longrightarrow>
   compute_component_id l a (cp_id (props_of (co_properties c))) n = component_id_of l manifest_name c"
  by (auto simp: application_of_def component_id_of_def Let_def split: option.splits)

section \<open>No panics\<close>

lemma secrets_convert:
  assumes "\<forall>s \<in> set ss. secret_ok m s"
  obtains scs names where "secrets_to_scalers env manifest_name ss (policy_lookup m) = Ret (scs, names)"
proof -
  let ?f = "\<lambda>s. let name = compute_secret_id env manifest_name None (sp_name s) in
         obind (or_panic (map_of (policy_lookup m) (ssp_policy (sp_properties s)))) (\<lambda>policy.
         obind (secret_new (cv_digest env) (cv_mk_secret env) name policy s) (\<lambda>sc. Ret (sc, name)))"
  have "?f s \<noteq> Panic \<and> (\<forall>e. ?f s \<noteq> Err e)" if "s \<in> set ss" for s
    using that assms
    by (force simp: secret_ok_def or_panic_def secret_new_def config_from_manifest_def Let_def split: option.splits)
  then obtain rs where "omap_list ?f ss = Ret rs" using omap_list_Ret [of ss ?f] by blast
  then show thesis by (intro that) (simp add: secrets_to_scalers_def)
qed

definition links_ids :: "'c boxed_scaler \<Rightarrow> string \<Rightarrow> string \<Rightarrow> bool" where
  "links_ids b source target =
     (\<exists>w l. b = Wrapped w \<and> bw_scaler w = LinkS l \<and> lsc_source_id (lsr_config l) = source \<and> lsc_target (lsr_config l) = target)"

definition scales_id :: "'c boxed_scaler \<Rightarrow> string \<Rightarrow> string \<Rightarrow> bool" where
  "scales_id b kind i = (\<exists>w. b = Wrapped w \<and> inner_kind (bw_scaler w) = kind \<and> inner_name (bw_scaler w) = i)"

lemma link_converts:
  assumes "\<forall>s \<in> set (link_secrets (TPLink q)). secret_ok m s" and "props_ok d"
  obtains b where "link_to_component env q lattice_id manifest_name application_name source_id (policy_lookup m) d = Ret b"
    "links_ids b source_id (component_id_of (cv_lowercase env) manifest_name d)"
proof -
  have "\<forall>s \<in> set (tc_secrets (lp_target q)). secret_ok m s" "\<forall>s \<in> set (cd_secrets (link_source_of q)). secret_ok m s"
    using assms(1) by (auto simp: link_source_of_def default_definition_def split: option.splits)
  then obtain t1 t2 s1 s2 where
    t: "secrets_to_scalers env manifest_name (tc_secrets (lp_target q)) (policy_lookup m) = Ret (t1, t2)" and
    s: "secrets_to_scalers env manifest_name (cd_secrets (link_source_of q)) (policy_lookup m) = Ret (s1, s2)"
    using secrets_convert by metis
  obtain a n where an: "application_of manifest_name d = (a, n)" by fastforce
  show thesis
    using resolve_ok [OF assms(2), of manifest_name] target_id_ok [OF an, of "cv_lowercase env"]
    by (intro that) (auto simp: link_to_component_def link_to_scaler_def t s an links_ids_def backoff_new_def link_new_def
        config_to_scalers_def Let_def)
qed

section \<open>Components and providers\<close>

definition weights_ok :: "component \<Rightarrow> bool" where
  "weights_ok c = (\<forall>t \<in> set (traits_of c). \<forall>q. tr_properties t = TPSpreadScaler q \<longrightarrow>
     ssc_spread q = [] \<or> sum_list (map spread_weight (ssc_spread q)) \<noteq> 0)"

lemma compute_spread_runs:
  "ssc_spread q = [] \<or> sum_list (map spread_weight (ssc_spread q)) \<noteq> 0 \<Longrightarrow> \<exists>r. compute_spread q = Ret r"
  by (auto simp: compute_spread_eq Let_def)

text \<open>What the scaler of a trait is about.\<close>

definition trait_served :: "'c convert_env \<Rightarrow> string \<Rightarrow> component list \<Rightarrow> component \<Rightarrow> oam_trait \<Rightarrow> 'c boxed_scaler option \<Rightarrow> bool" where
  "trait_served env manifest_name components c t r =
     ((\<forall>b. r = Some b \<longrightarrow> (\<exists>w. b = Wrapped w)) \<and>
      (\<forall>q d. tr_properties t = TPLink q \<and> is_link t \<and> d \<in> set components \<and> co_name d = tc_name (lp_target q) \<and>
         \<not> (is_capability (co_properties c) \<and> is_capability (co_properties d)) \<longrightarrow>
         (\<exists>b. r = Some b \<and> links_ids b (component_id_of (cv_lowercase env) manifest_name c)
            (component_id_of (cv_lowercase env) manifest_name d))) \<and>
      (\<forall>q. tr_properties t = TPSpreadScaler q \<and> is_scaler t \<and> cp_image (props_of (co_properties c)) \<noteq> None \<longrightarrow>
         (\<exists>b. r = Some b \<and> scales_id b (if tr_type t = SPREADSCALER_TRAIT then SPREAD_SCALER_KIND else DAEMON_SCALER_KIND)
            (component_id_of (cv_lowercase env) manifest_name c))))"

lemma find_named:
  assumes "distinct (map co_name cs)" and "d \<in> set cs" and "P d" and "\<And>c. P c \<Longrightarrow> co_name c = co_name d"
  shows "List.find P cs = Some d"
  using assms(1,2)
proof (induction cs)
  case (Cons c cs)
  show ?case
  proof (cases "P c")
    case True
    then have "co_name c = co_name d" by (rule assms(4))
    then have "d \<notin> set cs" using Cons.prems(1) by (metis distinct.simps(2) image_eqI list.set_map list.simps(9))
    then show ?thesis using True Cons.prems(2) by simp
  next
    case False
    then show ?thesis using Cons assms(3) by auto
  qed
qed simp

lemma component_trait_converts:
  assumes "manifest_ok re m" and "c \<in> set (mf_components m)" and "\<not> is_capability (co_properties c)" and "t \<in> set (traits_of c)"
    and "weights_ok c" and "application_of mn c = (a, n)"
  shows "\<exists>r. component_trait_scaler env (mf_components m) (props_of (co_properties c)) mn a n lattice_id (policy_lookup m) t = Ret r \<and>
    trait_served env mn (mf_components m) c t r"
proof -
  let ?p = "props_of (co_properties c)" and ?id = "component_id_of (cv_lowercase env) mn c"
  have ok: "props_ok c" "\<forall>s \<in> set (component_secrets c). secret_ok m s" "distinct (map co_name (mf_components m))"
    using assms(1,2) by (auto simp: manifest_ok_def)
  have "\<forall>s \<in> set (cp_secrets ?p). secret_ok m s" using ok(2) by (simp add: component_secrets_def)
  then obtain scs names where s: "secrets_to_scalers env mn (cp_secrets ?p) (policy_lookup m) = Ret (scs, names)"
    by (rule secrets_convert)
  note source = source_id_ok [OF ok(1) assms(6), of "cv_lowercase env"]
  show ?thesis
  proof (cases "tr_properties t")
    case (TPLink q)
    show ?thesis
    proof (cases "List.find (\<lambda>d. co_name d = tc_name (lp_target q)) (mf_components m)")
      case None
      then have "\<forall>d \<in> set (mf_components m). co_name d \<noteq> tc_name (lp_target q)" by (auto simp: find_None_iff)
      then show ?thesis
        unfolding component_trait_scaler_def Let_def source
        using TPLink None by (auto simp: s config_to_scalers_def trait_served_def is_link_def)
    next
      case (Some d)
      then have d: "d \<in> set (mf_components m)" "co_name d = tc_name (lp_target q)" by (auto simp: find_Some_iff)
      have link: "\<forall>s \<in> set (link_secrets (TPLink q)). secret_ok m s"
        using ok(2) assms(4) TPLink by (force simp: component_secrets_def)
      have "props_ok d" using assms(1) d(1) by (auto simp: manifest_ok_def)
      with link obtain b where b: "link_to_component env q lattice_id mn a ?id (policy_lookup m) d = Ret b"
        "links_ids b ?id (component_id_of (cv_lowercase env) mn d)" by (rule link_converts)
      have "d' = d" if "d' \<in> set (mf_components m)" "co_name d' = tc_name (lp_target q)" for d'
        using ok(3) d that by (metis distinct_map inj_onD)
      then show ?thesis
        unfolding component_trait_scaler_def Let_def source
        using TPLink Some b by (auto simp: s config_to_scalers_def trait_served_def is_link_def links_ids_def)
    qed
  next
    case (TPSpreadScaler q)
    then obtain reqs where "compute_spread q = Ret reqs"
      using assms(4,5) compute_spread_runs by (metis weights_ok_def)
    then show ?thesis
      unfolding component_trait_scaler_def Let_def source
      using TPSpreadScaler
      by (auto simp: s config_to_scalers_def trait_served_def is_scaler_def
          spread_new_def daemon_new_def scales_id_def backoff_new_def oam_consts split: option.split)
  next
    case (TPCustom j)
    then show ?thesis
      by (auto simp: component_trait_scaler_def s Let_def config_to_scalers_def trait_served_def)
  qed
qed


lemma provider_wrapped_converts:
  assumes "manifest_ok re m" and "c \<in> set (mf_components m)" and "\<And>names. \<exists>s. construct names = Ret s \<and> Q s"
  shows "\<exists>w. provider_wrapped env (props_of (co_properties c)) a (policy_lookup m) construct = Ret (Some (Wrapped w)) \<and>
    Q (bw_scaler w)"
proof -
  have "\<forall>s \<in> set (cp_secrets (props_of (co_properties c))). secret_ok m s"
    using assms(1,2) by (auto simp: manifest_ok_def component_secrets_def)
  then obtain scs names where "secrets_to_scalers env a (cp_secrets (props_of (co_properties c))) (policy_lookup m) = Ret (scs, names)"
    by (rule secrets_convert)
  moreover obtain s where "construct (snd (config_to_scalers env a (cp_config (props_of (co_properties c)))) @ names) = Ret s" "Q s"
    using assms(3) by blast
  ultimately show ?thesis by (simp add: provider_wrapped_def backoff_new_def split_beta Let_def)
qed

lemma provider_trait_converts:
  assumes "manifest_ok re m" and "c \<in> set (mf_components m)" and "is_capability (co_properties c)" and "t \<in> set (traits_of c)"
    and "weights_ok c"
  shows "\<exists>r. provider_trait_scaler env (mf_components m) (props_of (co_properties c))
      (component_id_of (cv_lowercase env) mn c) mn a n lattice_id (policy_lookup m) t = Ret r \<and>
    trait_served env mn (mf_components m) c t r"
proof -
  let ?p = "props_of (co_properties c)" and ?id = "component_id_of (cv_lowercase env) mn c"
  have ok: "\<forall>s \<in> set (component_secrets c). secret_ok m s" "distinct (map co_name (mf_components m))"
    using assms(1,2) by (auto simp: manifest_ok_def)
  show ?thesis
  proof (cases "tr_properties t")
    case (TPLink q)
    show ?thesis
    proof (cases "List.find (component_named (tc_name (lp_target q))) (mf_components m)")
      case None
      then have "\<forall>d \<in> set (mf_components m). \<not> component_named (tc_name (lp_target q)) d" by (auto simp: find_None_iff)
      then show ?thesis
        unfolding provider_trait_scaler_def
        using TPLink None assms(3) by (auto simp: trait_served_def is_link_def component_named_def)
    next
      case (Some d)
      then have d: "d \<in> set (mf_components m)" "co_name d = tc_name (lp_target q)"
        by (auto simp: find_Some_iff component_named_def)
      have link: "\<forall>s \<in> set (link_secrets (TPLink q)). secret_ok m s"
        using ok(1) assms(4) TPLink by (force simp: component_secrets_def)
      have "props_ok d" using assms(1) d(1) by (auto simp: manifest_ok_def)
      with link obtain b where b: "link_to_component env q lattice_id mn a ?id (policy_lookup m) d = Ret b"
        "links_ids b ?id (component_id_of (cv_lowercase env) mn d)" by (rule link_converts)
      have "d' = d" if "d' \<in> set (mf_components m)" "co_name d' = tc_name (lp_target q)" for d'
        using ok(2) d that by (metis distinct_map inj_onD)
      then show ?thesis
        unfolding provider_trait_scaler_def
        using TPLink Some b by (auto simp: trait_served_def is_link_def links_ids_def)
    qed
  next
    case (TPSpreadScaler q)
    then obtain reqs where reqs: "compute_spread q = Ret reqs"
      using assms(4,5) compute_spread_runs by (metis weights_ok_def)
    have *: "\<exists>w. provider_wrapped env ?p a (policy_lookup m) (\<lambda>names.
          obind (provider_spread_new (cv_digest env) (provider_config_of lattice_id ?id i q a names) n) (\<lambda>s. Ret (ProviderSpread s))) =
        Ret (Some (Wrapped w)) \<and> (inner_kind (bw_scaler w) = SPREAD_SCALER_KIND \<and> inner_name (bw_scaler w) = ?id)" for i
      by (rule provider_wrapped_converts [OF assms(1,2)]) (simp add: provider_spread_new_def provider_config_of_def reqs)
    have **: "\<exists>w. provider_wrapped env ?p a (policy_lookup m) (\<lambda>names.
          Ret (ProviderDaemon (provider_daemon_new (cv_digest env) (provider_config_of lattice_id ?id i q a names) n))) =
        Ret (Some (Wrapped w)) \<and> (inner_kind (bw_scaler w) = DAEMON_SCALER_KIND \<and> inner_name (bw_scaler w) = ?id)" for i
      by (rule provider_wrapped_converts [OF assms(1,2)]) (simp add: provider_daemon_new_def provider_config_of_def)
    show ?thesis
    proof (cases "cp_image ?p")
      case None
      then show ?thesis unfolding provider_trait_scaler_def using TPSpreadScaler by (simp add: trait_served_def)
    next
      case (Some i)
      then show ?thesis
        unfolding provider_trait_scaler_def
        using TPSpreadScaler * [of i] ** [of i]
        by (auto simp: trait_served_def Let_def scales_id_def is_scaler_def oam_consts)
    qed
  next
    case (TPCustom j)
    then show ?thesis by (auto simp: provider_trait_scaler_def trait_served_def)
  qed
qed

lemma omap_list_each:
  assumes "\<forall>x \<in> set xs. \<exists>y. f x = Ret y \<and> P x y"
  shows "\<exists>ys. omap_list f xs = Ret ys \<and> list_all2 P xs ys"
  using assms by (induction xs) fastforce+

lemma all2_left: "list_all2 P xs ys \<Longrightarrow> x \<in> set xs \<Longrightarrow> \<exists>y \<in> set ys. P x y"
  by (induction rule: list_all2_induct) auto

lemma all2_right: "list_all2 P xs ys \<Longrightarrow> y \<in> set ys \<Longrightarrow> \<exists>x \<in> set xs. P x y"
  by (induction rule: list_all2_induct) auto

lemma collect_each:
  assumes "\<forall>x \<in> set xs. \<exists>r. f x = Ret r \<and> P x r"
  shows "\<exists>bs. collect_scalers f xs = Ret bs \<and> (\<forall>x \<in> set xs. \<exists>r. P x r \<and> (\<forall>b. r = Some b \<longrightarrow> b \<in> set bs)) \<and>
    (\<forall>b \<in> set bs. \<exists>x \<in> set xs. P x (Some b))"
proof -
  obtain rs where rs: "omap_list f xs = Ret rs" "list_all2 P xs rs" using omap_list_each [OF assms] by blast
  have in_bs: "b \<in> set (List.map_filter (\<lambda>r. r) rs) \<longleftrightarrow> Some b \<in> set rs" for b
    by (force simp: map_filter_def)
  have "\<exists>r. P x r \<and> (\<forall>b. r = Some b \<longrightarrow> b \<in> set (List.map_filter (\<lambda>r. r) rs))" if "x \<in> set xs" for x
    using all2_left [OF rs(2) that] unfolding in_bs by blast
  moreover have "\<exists>x \<in> set xs. P x (Some b)" if "b \<in> set (List.map_filter (\<lambda>r. r) rs)" for b
    using that all2_right [OF rs(2)] unfolding in_bs by blast
  ultimately show ?thesis using rs(1) by (auto simp: collect_scalers_def)
qed


definition served :: "'c convert_env \<Rightarrow> string \<Rightarrow> component list \<Rightarrow> component \<Rightarrow> 'c boxed_scaler list \<Rightarrow> bool" where
  "served env manifest_name components c bs =
     ((\<forall>t \<in> set (traits_of c). \<forall>q d. tr_properties t = TPLink q \<and> is_link t \<and> d \<in> set components \<and>
         co_name d = tc_name (lp_target q) \<and> \<not> (is_capability (co_properties c) \<and> is_capability (co_properties d)) \<longrightarrow>
         (\<exists>b \<in> set bs. links_ids b (component_id_of (cv_lowercase env) manifest_name c)
            (component_id_of (cv_lowercase env) manifest_name d))) \<and>
      (\<forall>t \<in> set (traits_of c). \<forall>q. tr_properties t = TPSpreadScaler q \<and> is_scaler t \<and>
         cp_image (props_of (co_properties c)) \<noteq> None \<longrightarrow>
         (\<exists>b \<in> set bs. scales_id b (if tr_type t = SPREADSCALER_TRAIT then SPREAD_SCALER_KIND else DAEMON_SCALER_KIND)
            (component_id_of (cv_lowercase env) manifest_name c))) \<and>
      (is_capability (co_properties c) \<and> cp_image (props_of (co_properties c)) \<noteq> None \<longrightarrow>
         (\<exists>b \<in> set bs. \<exists>kind. scales_id b kind (component_id_of (cv_lowercase env) manifest_name c))))"

lemma served_mono: "served env mn cs c bs \<Longrightarrow> set bs \<subseteq> set bs' \<Longrightarrow> served env mn cs c bs'"
  unfolding served_def by (meson subsetD)

lemma traits_served:
  assumes "\<forall>t \<in> set (traits_of c). \<exists>r. trait_served env mn cs c t r \<and> (\<forall>b. r = Some b \<longrightarrow> b \<in> set bs)"
    and "is_capability (co_properties c) \<and> cp_image (props_of (co_properties c)) \<noteq> None \<Longrightarrow>
      \<exists>b \<in> set bs. \<exists>kind. scales_id b kind (component_id_of (cv_lowercase env) mn c)"
  shows "served env mn cs c bs"
proof -
  have 1: "\<exists>b \<in> set bs. links_ids b (component_id_of (cv_lowercase env) mn c) (component_id_of (cv_lowercase env) mn d)"
    if "t \<in> set (traits_of c)" "tr_properties t = TPLink q \<and> is_link t \<and> d \<in> set cs \<and> co_name d = tc_name (lp_target q) \<and>
      \<not> (is_capability (co_properties c) \<and> is_capability (co_properties d))" for t q d
    using assms(1) that unfolding trait_served_def by meson
  have 2: "\<exists>b \<in> set bs. scales_id b (if tr_type t = SPREADSCALER_TRAIT then SPREAD_SCALER_KIND else DAEMON_SCALER_KIND)
      (component_id_of (cv_lowercase env) mn c)"
    if "t \<in> set (traits_of c)" "tr_properties t = TPSpreadScaler q \<and> is_scaler t \<and> cp_image (props_of (co_properties c)) \<noteq> None"
    for t q
    using assms(1) that unfolding trait_served_def by meson
  show ?thesis unfolding served_def using 1 2 assms(2) by blast
qed

lemma scaler_specified_iff:
  "scaler_specified p t \<longleftrightarrow> cp_image p \<noteq> None \<and> is_scaler t \<and> (\<exists>q. tr_properties t = TPSpreadScaler q)"
  by (cases "tr_properties t") (auto simp: scaler_specified_def)

lemma component_converts:
  assumes "manifest_ok re m" and "c \<in> set (mf_components m)" and "weights_ok c"
  shows "\<exists>bs. scalers_of_component env (mf_components m) (policy_lookup m) lattice_id mn c = Ret bs \<and>
    (\<forall>b \<in> set bs. \<exists>w. b = Wrapped w) \<and> served env mn (mf_components m) c bs"
proof -
  let ?p = "props_of (co_properties c)" and ?id = "component_id_of (cv_lowercase env) mn c" and ?ts = "traits_of c"
  have ok: "props_ok c" using assms(1,2) by (auto simp: manifest_ok_def)
  obtain a n where an: "application_of mn c = (a, n)" by fastforce
  note start = resolve_ok [OF ok, of mn, unfolded an]
  note source = source_id_ok [OF ok an, of "cv_lowercase env"]
  show ?thesis
  proof (cases "is_capability (co_properties c)")
    case False
    let ?f = "component_trait_scaler env (mf_components m) ?p mn a n lattice_id (policy_lookup m)"
    have "\<forall>t \<in> set ?ts. \<exists>r. ?f t = Ret r \<and> trait_served env mn (mf_components m) c t r"
      using component_trait_converts [OF assms(1,2) False _ assms(3) an] by blast
    from collect_each [OF this] obtain bs where bs: "collect_scalers ?f ?ts = Ret bs"
      "\<forall>t \<in> set ?ts. \<exists>r. trait_served env mn (mf_components m) c t r \<and> (\<forall>b. r = Some b \<longrightarrow> b \<in> set bs)"
      "\<forall>b \<in> set bs. \<exists>t \<in> set ?ts. trait_served env mn (mf_components m) c t (Some b)" by blast
    have "scalers_of_component env (mf_components m) (policy_lookup m) lattice_id mn c = Ret bs"
      using False bs(1) by (simp add: scalers_of_component_def start component_scalers_def traits_of_def)
    moreover have "\<forall>b \<in> set bs. \<exists>w. b = Wrapped w" using bs(3) by (auto simp: trait_served_def)
    moreover have "served env mn (mf_components m) c bs" using bs(2) False by (intro traits_served) auto
    ultimately show ?thesis by blast
  next
    case True
    let ?f = "provider_trait_scaler env (mf_components m) ?p ?id mn a n lattice_id (policy_lookup m)"
    have "\<forall>t \<in> set ?ts. \<exists>r. ?f t = Ret r \<and> trait_served env mn (mf_components m) c t r"
      using provider_trait_converts [OF assms(1,2) True _ assms(3)] by blast
    from collect_each [OF this] obtain bs where bs: "collect_scalers ?f ?ts = Ret bs"
      "\<forall>t \<in> set ?ts. \<exists>r. trait_served env mn (mf_components m) c t r \<and> (\<forall>b. r = Some b \<longrightarrow> b \<in> set bs)"
      "\<forall>b \<in> set bs. \<exists>t \<in> set ?ts. trait_served env mn (mf_components m) c t (Some b)" by blast
    have wrapped: "\<forall>b \<in> set bs. \<exists>w. b = Wrapped w" using bs(3) by (auto simp: trait_served_def)
    have provider: "scalers_of_component env (mf_components m) (policy_lookup m) lattice_id mn c =
        (case cp_image ?p of None \<Rightarrow> Ret bs
         | Some i \<Rightarrow> if list_ex (scaler_specified ?p) ?ts then Ret bs
             else obind (provider_wrapped env ?p a (policy_lookup m) (\<lambda>names.
                   obind (provider_spread_new (cv_digest env) (provider_config_of lattice_id ?id i
                       \<lparr>ssc_instances = 1, ssc_spread = []\<rparr> a names) n) (\<lambda>s. Ret (ProviderSpread s))))
                   (\<lambda>b. Ret (bs @ (case b of None \<Rightarrow> [] | Some b \<Rightarrow> [b]))))"
      (is "?l = ?r")
    proof -
      have "?l = provider_scalers env (mf_components m) ?p (co_traits c) mn a n lattice_id (policy_lookup m)"
        using True by (simp add: scalers_of_component_def start)
      also have "\<dots> = ?r" unfolding provider_scalers_def Let_def source traits_of_def [of c, symmetric] bs(1) by simp
      finally show ?thesis .
    qed
    show ?thesis
    proof (cases "cp_image ?p")
      case None
      then show ?thesis using provider wrapped bs(2) by (auto intro!: traits_served)
    next
      case (Some i)
      show ?thesis
      proof (cases "list_ex (scaler_specified ?p) ?ts")
        case True
        then obtain t q where "t \<in> set ?ts" "is_scaler t" "tr_properties t = TPSpreadScaler q"
          by (auto simp: list_ex_iff scaler_specified_iff)
        then have "\<exists>b \<in> set bs. \<exists>kind. scales_id b kind ?id" using bs(2) Some unfolding trait_served_def by blast
        then show ?thesis using provider Some True wrapped bs(2) by (auto intro!: traits_served)
      next
        case False
        have "\<exists>w. provider_wrapped env ?p a (policy_lookup m) (\<lambda>names.
              obind (provider_spread_new (cv_digest env) (provider_config_of lattice_id ?id i
                \<lparr>ssc_instances = 1, ssc_spread = []\<rparr> a names) n) (\<lambda>s. Ret (ProviderSpread s))) = Ret (Some (Wrapped w)) \<and>
            (inner_kind (bw_scaler w) = SPREAD_SCALER_KIND \<and> inner_name (bw_scaler w) = ?id)"
          by (rule provider_wrapped_converts [OF assms(1,2)])
            (simp add: provider_spread_new_def provider_config_of_def compute_spread_eq)
        then obtain w where w: "provider_wrapped env ?p a (policy_lookup m) (\<lambda>names.
              obind (provider_spread_new (cv_digest env) (provider_config_of lattice_id ?id i
                \<lparr>ssc_instances = 1, ssc_spread = []\<rparr> a names) n) (\<lambda>s. Ret (ProviderSpread s))) = Ret (Some (Wrapped w))"
          "inner_kind (bw_scaler w) = SPREAD_SCALER_KIND" "inner_name (bw_scaler w) = ?id" by blast
        have "scalers_of_component env (mf_components m) (policy_lookup m) lattice_id mn c = Ret (bs @ [Wrapped w])"
          unfolding provider using Some False w(1) by simp
        moreover have "served env mn (mf_components m) c (bs @ [Wrapped w])"
          using bs(2) w(2,3) by (intro traits_served) (fastforce simp: scales_id_def)+
        ultimately show ?thesis using wrapped by auto
      qed
    qed
  qed
qed

section \<open>Properties\<close>


definition ex_convert_env :: "unit convert_env" where
  "ex_convert_env = \<lparr>cv_digest = (\<lambda>s. s), cv_hasher = (\<lambda>_. 0), cv_mk_secret = (\<lambda>_ _ _ _ _ _. ()),
     cv_secret_prefix = ''SECRET'', cv_lowercase = (\<lambda>s. s), cv_uuid = (\<lambda>s. s)\<rparr>"


section \<open>Ids that collide\<close>

text \<open>
  The derived ids are not unique: the replaced characters are forgotten, so two components of one accepted
  manifest can run under the same id although their names differ.
\<close>

definition ex_colliding :: manifest where
  "ex_colliding = ex_manifest\<lparr>mf_components :=
     [\<lparr>co_name = ''a-b'', co_properties = PComponent (ex_props ''a''), co_traits = None\<rparr>,
      \<lparr>co_name = ''a_b'', co_properties = PComponent (ex_props ''b''), co_traits = None\<rparr>]\<rparr>"

lemma accepted_ids_collide:
  "valid (case validate_manifest (\<lambda>n. n = ''shop'') ex_colliding of Ret fs \<Rightarrow> fs) \<and>
   map (component_id_of (\<lambda>s. s) ''shop'') (mf_components ex_colliding) = [''shop-a_b'', ''shop-a_b'']"
  by code_simp

end
