(* ===== verification/Node.thy ===== *)
theory Node
  imports Convert Event_Worker Stored_Manifest
begin

text \<open>
  One wadm instance serving one lattice: the lattice store, the scalers of every application
  (\<open>ScalerManager\<close> in \<open>scaler/manager.rs\<close>), the snapshot the scalers read (\<open>storage/snapshot.rs\<close>), the command and
  status publishers (\<open>workers/event_helpers.rs\<close>) and the event worker that puts them together
  (\<open>handle_manifest_published\<close>, \<open>run_scalers_with_hint\<close>, \<open>run_all_scalers\<close> and \<open>do_work\<close> in
  \<open>workers/event.rs\<close>).

  An action returns its outcome, the new state and what it sent. The broker's answers, the
  links of the lattice, named configurations and secrets are parameters of the world. The serde round
  trip of the snapshot's JSON is taken as the identity.
\<close>

section \<open>State, world and actions\<close>

record snapshot =
  sn_components :: "(string, lcomponent) hmap"
  sn_providers :: "(string, provider) hmap"
  sn_hosts :: "(string, host) hmap"
  sn_links :: "lattice_link list"

record 'c node =
  nd_lattice :: lattice
  nd_scalers :: "(string, 'c boxed_scaler list) hmap"
  nd_snapshot :: snapshot

datatype 'd effect =
    EffCommand command
  | EffStatus string status
  | EffNotify "'d notification"

record ('c, 'd) world =
  wd_lattice_id :: string
  wd_convert :: "'c convert_env"
  wd_env :: "('c, 'd) surroundings"
  wd_links :: "lattice_link list outcome"
  wd_config :: "string \<Rightarrow> (string, string) hmap option outcome"
  wd_secret :: "string \<Rightarrow> 'c option outcome"
  wd_send_command :: "command \<Rightarrow> unit outcome"
  wd_previous_status :: "string \<Rightarrow> status option"
  wd_send_status :: "string \<Rightarrow> status \<Rightarrow> unit outcome"

type_synonym ('a, 'c, 'd) node_act = "'c node \<Rightarrow> 'a outcome \<times> 'c node \<times> 'd effect list"

definition nret :: "'a \<Rightarrow> ('a, 'c, 'd) node_act" where
  "nret x n = (Ret x, n, [])"

definition nlift :: "'a outcome \<Rightarrow> ('a, 'c, 'd) node_act" where
  "nlift r n = (r, n, [])"

definition nbind :: "('a, 'c, 'd) node_act \<Rightarrow> ('a \<Rightarrow> ('b, 'c, 'd) node_act) \<Rightarrow> ('b, 'c, 'd) node_act" where
  "nbind m f n =
     (case m n of
        (Ret x, n', es) \<Rightarrow> (case f x n' of (r, n'', es') \<Rightarrow> (r, n'', es @ es'))
      | (Err e, n', es) \<Rightarrow> (Err e, n', es)
      | (Panic, n', es) \<Rightarrow> (Panic, n', es))"

text \<open>The result as a value, so that the caller goes on after an error.\<close>

definition nattempt :: "('a, 'c, 'd) node_act \<Rightarrow> ('a outcome, 'c, 'd) node_act" where
  "nattempt m n = (case m n of (Panic, n', es) \<Rightarrow> (Panic, n', es) | (r, n', es) \<Rightarrow> (Ret r, n', es))"

definition nmodify :: "('c node \<Rightarrow> 'c node) \<Rightarrow> (unit, 'c, 'd) node_act" where
  "nmodify f n = (Ret (), f n, [])"

definition nread :: "('c node \<Rightarrow> 'a) \<Rightarrow> ('a, 'c, 'd) node_act" where
  "nread f n = (Ret (f n), n, [])"

definition nsend :: "'d effect list \<Rightarrow> (unit, 'c, 'd) node_act" where
  "nsend es n = (Ret (), n, es)"

text \<open>A call of the lattice store.\<close>

definition nstore :: "'a act \<Rightarrow> ('a, 'c, 'd) node_act" where
  "nstore a n = (case a (nd_lattice n) of
      (Some x, l) \<Rightarrow> (Ret x, n\<lparr>nd_lattice := l\<rparr>, [])
    | (None, l) \<Rightarrow> (Err ''Error while accessing the store'', n\<lparr>nd_lattice := l\<rparr>, []))"

section \<open>The snapshot\<close>

definition snapshot_new :: snapshot where
  "snapshot_new = \<lparr>sn_components = [], sn_providers = [], sn_hosts = [], sn_links = []\<rparr>"

text \<open>The cached links stay when they cannot be read.\<close>

definition snapshot_refresh :: "('c, 'd) world \<Rightarrow> (unit, 'c, 'd) node_act" where
  "snapshot_refresh w =
     nbind (nstore (st_list la_providers)) (\<lambda>providers.
     nbind (nstore (st_list la_components)) (\<lambda>components.
     nbind (nstore (st_list la_hosts)) (\<lambda>hosts.
     nmodify (\<lambda>n. n\<lparr>nd_snapshot :=
       \<lparr>sn_components = components, sn_providers = providers, sn_hosts = hosts,
        sn_links = (case wd_links w of Ret links \<Rightarrow> links | _ \<Rightarrow> sn_links (nd_snapshot n))\<rparr>\<rparr>))))"

definition snapshot_get :: "(snapshot \<Rightarrow> (string, 'a) hmap) \<Rightarrow> snapshot \<Rightarrow> string \<Rightarrow> 'a option" where
  "snapshot_get kind sn i = map_of (kind sn) i"

definition snapshot_view :: "('c, 'd) world \<Rightarrow> snapshot \<Rightarrow> 'c lattice_view" where
  "snapshot_view w sn =
     \<lparr>lv_component = (\<lambda>i. Ret (snapshot_get sn_components sn i)), lv_provider = (\<lambda>i. Ret (snapshot_get sn_providers sn i)),
      lv_hosts = Ret (sn_hosts sn), lv_links = Ret (sn_links sn), lv_config = wd_config w, lv_secret = wd_secret w\<rparr>"

definition view_of :: "('c, 'd) world \<Rightarrow> 'c node \<Rightarrow> 'c lattice_view" where
  "view_of w n = snapshot_view w (nd_snapshot n)"

section \<open>Publishing\<close>

definition first_error :: "unit outcome list \<Rightarrow> unit outcome" where
  "first_error rs = (if Panic \<in> set rs then Panic else case List.find (\<lambda>r. r \<noteq> Ret ()) rs of None \<Rightarrow> Ret () | Some r \<Rightarrow> r)"

text \<open>All commands are sent, whatever happens to the others.\<close>

definition publish_commands :: "('c, 'd) world \<Rightarrow> command list \<Rightarrow> (unit, 'c, 'd) node_act" where
  "publish_commands w cs n =
     (first_error (map (wd_send_command w) cs), n, map EffCommand (filter (\<lambda>c. wd_send_command w c = Ret ()) cs))"

definition publish_status :: "('c, 'd) world \<Rightarrow> string \<Rightarrow> status \<Rightarrow> (unit, 'c, 'd) node_act" where
  "publish_status w name st n =
     (if wd_previous_status w name = Some st then (Ret (), n, [])
      else (wd_send_status w name st, n, if wd_send_status w name st = Ret () then [EffStatus name st] else []))"

definition publish_notification :: "('c, 'd) world \<Rightarrow> 'd notification \<Rightarrow> (unit, 'c, 'd) node_act" where
  "publish_notification w nt n =
     (sr_publish (wd_env w) nt, n, if sr_publish (wd_env w) nt = Ret () then [EffNotify nt] else [])"

text \<open>The notifications the scalers tried to send.\<close>

definition notified :: "('c, 'd) world \<Rightarrow> 'd notification list \<Rightarrow> 'd effect list" where
  "notified w ns = map EffNotify (filter (\<lambda>nt. sr_publish (wd_env w) nt = Ret ()) ns)"

section \<open>Running the scalers of an application\<close>

text \<open>Results, new scalers and notifications of a method called on every scaler.\<close>

definition run_each ::
    "('c boxed_scaler \<Rightarrow> command list outcome \<times> 'c boxed_scaler \<times> 'd notification list) \<Rightarrow> 'c boxed_scaler list \<Rightarrow>
     command list outcome list \<times> 'c boxed_scaler list \<times> 'd notification list" where
  "run_each f bs =
     (map (fst \<circ> f) bs, map (fst \<circ> snd \<circ> f) bs, concat (map (snd \<circ> snd \<circ> f) bs))"

definition boxed_detailed_status :: "'c lattice_view \<Rightarrow> 'c boxed_scaler list \<Rightarrow> status \<times> 'c boxed_scaler list" where
  "boxed_detailed_status v bs =
     (detailed_scaler_status (map (\<lambda>b. (boxed_id b, boxed_kind b, boxed_name b, fst (boxed_status v b))) bs),
      map (snd \<circ> boxed_status v) bs)"

text \<open>
  A method run on the scalers of an application, which are left in their new states: commands and
  combined result, then the status, whose publication may fail silently.
\<close>

definition run_application ::
    "('c, 'd) world \<Rightarrow> string \<Rightarrow> string \<Rightarrow> ('c boxed_scaler \<Rightarrow> command list outcome \<times> 'c boxed_scaler \<times> 'd notification list) \<Rightarrow>
     'c boxed_scaler list \<Rightarrow> (command list \<times> unit outcome, 'c, 'd) node_act" where
  "run_application w name message f bs =
     (let (results, bs', ns) = run_each f bs;
          (commands, res) = get_commands_and_result results message in
      nbind (nread (view_of w)) (\<lambda>v.
      nbind (nsend (notified w ns)) (\<lambda>_.
      if res = Panic then nlift Panic
      else
        let (st, bs'') = boxed_detailed_status v bs' in
        nbind (nmodify (\<lambda>n. n\<lparr>nd_scalers := hm_insert name bs'' (nd_scalers n)\<rparr>)) (\<lambda>_.
        nbind (nattempt (publish_status w name st)) (\<lambda>_.
        nret (commands, res))))))"

section \<open>The manager\<close>

definition refresh_data :: "('c, 'd) world \<Rightarrow> (unit, 'c, 'd) node_act" where
  "refresh_data w = snapshot_refresh w"

definition scalers_for_manifest :: "('c, 'd) world \<Rightarrow> manifest \<Rightarrow> 'c boxed_scaler list outcome" where
  "scalers_for_manifest w m =
     manifest_components_to_scalers (wd_convert w) (mf_components m) (policy_lookup m) (wd_lattice_id w) (md_name (mf_metadata m))"

definition get_scalers :: "string \<Rightarrow> 'c node \<Rightarrow> 'c boxed_scaler list option" where
  "get_scalers name n = map_of (nd_scalers n) name"

definition get_specific_scaler :: "string \<Rightarrow> string \<Rightarrow> 'c node \<Rightarrow> 'c boxed_scaler option" where
  "get_specific_scaler name scaler_id n =
     (case get_scalers name n of None \<Rightarrow> None | Some bs \<Rightarrow> List.find (\<lambda>b. boxed_id b = scaler_id) bs)"

definition add_raw_scalers :: "string \<Rightarrow> 'c boxed_scaler list \<Rightarrow> 'c node \<Rightarrow> 'c node" where
  "add_raw_scalers name bs n = n\<lparr>nd_scalers := hm_insert name bs (nd_scalers n)\<rparr>"

definition remove_raw_scalers :: "string \<Rightarrow> 'c node \<Rightarrow> 'c node" where
  "remove_raw_scalers name n = n\<lparr>nd_scalers := hm_remove name (nd_scalers n)\<rparr>"

definition add_scalers :: "('c, 'd) world \<Rightarrow> manifest \<Rightarrow> 'c boxed_scaler list \<Rightarrow> ('c boxed_scaler list, 'c, 'd) node_act" where
  "add_scalers w m bs =
     nbind (nmodify (add_raw_scalers (md_name (mf_metadata m)) bs)) (\<lambda>_.
     nbind (publish_notification w (CreateScalers m)) (\<lambda>_.
     nbind (nread (get_scalers (md_name (mf_metadata m)))) (\<lambda>r.
     nlift (or_err ''Data error: scalers no longer exist after creation'' r))))"

text \<open>The cleanup commands of scalers, and the first error among them.\<close>

definition cleanup_all :: "'c lattice_view \<Rightarrow> 'c boxed_scaler list \<Rightarrow> command list outcome" where
  "cleanup_all v bs =
     (let rs = map (boxed_cleanup v) bs in
      if Panic \<in> set rs then Panic else obind (omap_list (\<lambda>r. r) rs) (\<lambda>css. Ret (concat css)))"

text \<open>Publishing the cleanup commands; the scalers are put back when that fails.\<close>

definition publish_cleanup ::
    "('c, 'd) world \<Rightarrow> string \<Rightarrow> 'c boxed_scaler list \<Rightarrow> command list outcome \<Rightarrow>
     ('c boxed_scaler list outcome option, 'c, 'd) node_act" where
  "publish_cleanup w name bs commands =
     (let put_back = (\<lambda>e. nbind (nmodify (add_raw_scalers name bs)) (\<lambda>_. nret (Some (Err e)))) in
      case commands of
        Ret cs \<Rightarrow>
          nbind (nattempt (publish_commands w cs)) (\<lambda>sent.
          case sent of
            Ret _ \<Rightarrow> nret (Some (Ret bs))
          | Err e \<Rightarrow> put_back e
          | Panic \<Rightarrow> nlift Panic)
      | Err e \<Rightarrow> put_back e
      | Panic \<Rightarrow> nlift Panic)"

text \<open>
  No scalers, or the result of removing them. When the data cannot be refreshed the scalers are
  not put back.
\<close>

definition remove_scalers_internal :: "('c, 'd) world \<Rightarrow> string \<Rightarrow> ('c boxed_scaler list outcome option, 'c, 'd) node_act" where
  "remove_scalers_internal w name =
     nbind (nread (get_scalers name)) (\<lambda>found.
     case found of
       None \<Rightarrow> nret None
     | Some bs \<Rightarrow>
         nbind (nmodify (remove_raw_scalers name)) (\<lambda>_.
         nbind (nattempt (refresh_data w)) (\<lambda>refreshed.
         case refreshed of
           Ret _ \<Rightarrow> nbind (nread (\<lambda>n. cleanup_all (view_of w n) bs)) (publish_cleanup w name bs)
         | Err e \<Rightarrow> nret (Some (Err e))
         | Panic \<Rightarrow> nlift Panic)))"

definition remove_scalers :: "('c, 'd) world \<Rightarrow> string \<Rightarrow> (unit outcome option, 'c, 'd) node_act" where
  "remove_scalers w name =
     nbind (remove_scalers_internal w name) (\<lambda>r.
     case r of
       Some (Err e) \<Rightarrow> nret (Some (Err e))
     | Some Panic \<Rightarrow> nlift Panic
     | _ \<Rightarrow>
         nbind (nattempt (publish_notification w (DeleteScalers name))) (\<lambda>sent.
         case sent of
           Ret _ \<Rightarrow> nret (Some (Ret ()))
         | Err e \<Rightarrow>
             nbind (case r of Some (Ret bs) \<Rightarrow> nmodify (add_raw_scalers name bs) | _ \<Rightarrow> nret ()) (\<lambda>_. nret (Some (Err e)))
         | Panic \<Rightarrow> nlift Panic))"

end
