(* ===== verification/Node_Worker.thy ===== *)
theory Node_Worker
  imports Node
begin

text \<open>
  What a wadm instance does: the start of the manager and its handling of notifications
  (\<open>new\<close> and \<open>notify\<close> in \<open>scaler/manager.rs\<close>), and the event worker's use of the scalers
  (\<open>workers/event.rs\<close>).
\<close>

section \<open>Starting the manager\<close>

text \<open>
  The manifests read from the model store, in its order: an application may be gone or fail to be
  read. The deployed ones get their scalers.
\<close>

definition deployed_scalers :: "('c, 'd) world \<Rightarrow> stored_manifest \<Rightarrow> (string \<times> 'c boxed_scaler list) option outcome" where
  "deployed_scalers w sm =
     (case get_deployed sm of
        None \<Rightarrow> Ret None
      | Some m \<Rightarrow>
          obind (sm_name sm) (\<lambda>name.
          obind (manifest_components_to_scalers (wd_convert w) (mf_components m) (policy_lookup m) (wd_lattice_id w) name)
            (\<lambda>bs. Ret (Some (name, bs)))))"

definition manager_new :: "('c, 'd) world \<Rightarrow> stored_manifest option outcome list \<Rightarrow> lattice \<Rightarrow> 'c node outcome" where
  "manager_new w stored l =
     obind (omap_list (\<lambda>r. r) stored) (\<lambda>sms.
     obind (omap_list (deployed_scalers w) (List.map_filter (\<lambda>r. r) sms)) (\<lambda>rs.
     Ret \<lparr>nd_lattice = l, nd_scalers = hm_extend (List.map_filter (\<lambda>r. r) rs) [], nd_snapshot = snapshot_new\<rparr>))"

section \<open>Notifications\<close>

datatype ack_kind = SentNak | SentAck

text \<open>The first scaler with the id is run; its commands are dropped.\<close>

definition run_specific ::
    "('c, 'd) world \<Rightarrow> string \<Rightarrow> string \<Rightarrow>
     ('c boxed_scaler \<Rightarrow> command list outcome \<times> 'c boxed_scaler \<times> 'd notification list) \<Rightarrow> (unit, 'c, 'd) node_act" where
  "run_specific w name scaler_id f n =
     (case get_specific_scaler name scaler_id n of
        None \<Rightarrow> (Ret (), n, [])
      | Some b \<Rightarrow>
          (case f b of (r, b', ns) \<Rightarrow>
            (if r = Panic then Panic else Ret (),
             n\<lparr>nd_scalers := hm_insert name
               (let bs = the (get_scalers name n) in
                takeWhile (\<lambda>x. boxed_id x \<noteq> scaler_id) bs @ b' # tl (dropWhile (\<lambda>x. boxed_id x \<noteq> scaler_id) bs)) (nd_scalers n)\<rparr>,
             notified w ns)))"

definition UNDEPLOYED_STATUS :: status where
  "UNDEPLOYED_STATUS = status_new (si_undeployed ''Manifest has been undeployed'') []"

text \<open>
  One message of the stream: what is acknowledged, in order. \<open>de\<close> deserializes events, \<open>nak_ok\<close> says
  whether the negative acknowledgement is sent; after it the message falls through to the
  acknowledgement.
\<close>

definition notify_message ::
    "(string \<Rightarrow> 'd \<Rightarrow> event option) \<Rightarrow> bool \<Rightarrow> ('c, 'd) world \<Rightarrow> 'd notification \<Rightarrow> (ack_kind list, 'c, 'd) node_act" where
  "notify_message de nak_ok w nt =
     (case nt of
        CreateScalers m \<Rightarrow>
          nbind (nlift (scalers_for_manifest w m)) (\<lambda>bs.
          nbind (nmodify (add_raw_scalers (md_name (mf_metadata m)) bs)) (\<lambda>_. nret [SentAck]))
      | DeleteScalers name \<Rightarrow>
          nbind (remove_scalers_internal w name) (\<lambda>r.
          case r of
            Some (Err e) \<Rightarrow> if nak_ok then nret [SentNak, SentAck] else nret []
          | Some Panic \<Rightarrow> nlift Panic
          | _ \<Rightarrow> nbind (nattempt (publish_status w name UNDEPLOYED_STATUS)) (\<lambda>_. nret [SentAck]))
      | RegisterExpectedEvents name scaler_id triggering \<Rightarrow>
          nbind (nread (get_specific_scaler name scaler_id)) (\<lambda>found.
          if found = None then nret [SentAck]
          else
            nbind (nread (view_of w)) (\<lambda>v.
            case triggering of
              None \<Rightarrow> nbind (run_specific w name scaler_id (boxed_reconcile (wd_env w) v)) (\<lambda>_. nret [SentAck])
            | Some ce \<Rightarrow>
                (case event_from_cloud de ce of
                   Ret e \<Rightarrow> nbind (run_specific w name scaler_id (boxed_handle_event (wd_env w) v e)) (\<lambda>_. nret [SentAck])
                 | Err _ \<Rightarrow> nret []
                 | Panic \<Rightarrow> nlift Panic)))
      | RemoveExpectedEvent name scaler_id ce \<Rightarrow>
          nbind (nread (get_specific_scaler name scaler_id)) (\<lambda>found.
          if found = None then nret [SentAck]
          else
            nbind (nread (view_of w)) (\<lambda>v.
            case event_from_cloud de ce of
              Ret e \<Rightarrow> nbind (run_specific w name scaler_id (boxed_handle_event (wd_env w) v e)) (\<lambda>_. nret [SentAck])
            | Err _ \<Rightarrow> nret []
            | Panic \<Rightarrow> nlift Panic)))"

section \<open>The event worker\<close>

text \<open>Scalers whose id no new scaler has.\<close>

definition outdated :: "'c boxed_scaler list \<Rightarrow> 'c boxed_scaler list \<Rightarrow> 'c boxed_scaler list" where
  "outdated old new = filter (\<lambda>b. \<not> list_ex (\<lambda>n. boxed_id n = boxed_id b) new) old"

text \<open>The cleanup commands of the outdated scalers, without those that fail.\<close>

definition outdated_cleanup :: "'c lattice_view \<Rightarrow> 'c boxed_scaler list option \<Rightarrow> 'c boxed_scaler list \<Rightarrow> command list outcome" where
  "outdated_cleanup v old new =
     (case old of
        None \<Rightarrow> Ret []
      | Some old \<Rightarrow>
          let rs = map (boxed_cleanup v) (outdated old new) in
          if Panic \<in> set rs then Panic else Ret (concat (map ok_commands rs)))"

definition handle_manifest_published :: "('c, 'd) world \<Rightarrow> manifest \<Rightarrow> (unit, 'c, 'd) node_act" where
  "handle_manifest_published w m =
     (let name = md_name (mf_metadata m) in
      nbind (nread (get_scalers name)) (\<lambda>old.
      nbind (nmodify (remove_raw_scalers name)) (\<lambda>_.
      nbind (nlift (scalers_for_manifest w m)) (\<lambda>new.
      nbind (refresh_data w) (\<lambda>_.
      nbind (nread (view_of w)) (\<lambda>v.
      nbind (nlift (outdated_cleanup v old new)) (\<lambda>cleanup_commands.
      nbind (add_scalers w m new) (\<lambda>bs.
      nbind (run_application w name ''Errors occurred during initial reconciliation'' (boxed_reconcile (wd_env w) v) bs)
        (\<lambda>(commands, res).
      nbind (publish_commands w commands) (\<lambda>_.
      nbind (nattempt (publish_commands w cleanup_commands)) (\<lambda>_.
      nlift res)))))))))))"

definition run_scalers_with_hint :: "('c, 'd) world \<Rightarrow> event \<Rightarrow> string \<Rightarrow> (unit, 'c, 'd) node_act" where
  "run_scalers_with_hint w e name =
     nbind (nread (get_scalers name)) (\<lambda>found.
     case found of
       None \<Rightarrow> nret ()
     | Some bs \<Rightarrow>
         nbind (refresh_data w) (\<lambda>_.
         nbind (nread (view_of w)) (\<lambda>v.
         nbind (run_application w name ''Errors occurred while handling event'' (boxed_handle_event (wd_env w) v e) bs)
           (\<lambda>(commands, res).
         nbind (publish_commands w commands) (\<lambda>_. nlift res)))))"

definition combine_results :: "unit outcome \<Rightarrow> unit outcome \<Rightarrow> unit outcome" where
  "combine_results a b =
     (case (a, b) of
        (Ret _, Ret _) \<Rightarrow> Ret ()
      | (Ret _, Err e) \<Rightarrow> Err e
      | (Err e, Ret _) \<Rightarrow> Err e
      | (Err e, Err e2) \<Rightarrow> Err (e2 @ '': '' @ e)
      | _ \<Rightarrow> Panic)"

text \<open>Every application in turn, with the commands and errors so far.\<close>

fun run_applications ::
    "('c, 'd) world \<Rightarrow> 'c lattice_view \<Rightarrow> event \<Rightarrow> (string \<times> 'c boxed_scaler list) list \<Rightarrow> command list \<Rightarrow> unit outcome \<Rightarrow>
     (command list \<times> unit outcome, 'c, 'd) node_act" where
  "run_applications w v e [] cs res = nret (cs, res)"
| "run_applications w v e ((name, bs) # rest) cs res =
     nbind (run_application w name ''Errors occurred while handling event with all scalers'' (boxed_handle_event (wd_env w) v e) bs)
       (\<lambda>(new_cs, new_res). run_applications w v e rest (cs @ new_cs) (combine_results res new_res))"

definition run_all_scalers :: "('c, 'd) world \<Rightarrow> event \<Rightarrow> (unit, 'c, 'd) node_act" where
  "run_all_scalers w e =
     nbind (nread nd_scalers) (\<lambda>all_scalers.
     nbind (refresh_data w) (\<lambda>_.
     nbind (nread (view_of w)) (\<lambda>v.
     nbind (run_applications w v e all_scalers [] (Ret ())) (\<lambda>(commands, res).
     nbind (publish_commands w commands) (\<lambda>_. nlift res)))))"

text \<open>
  One event: the state first, then the scalers of the application it names or all scalers. An
  unpublished manifest only removes its scalers; the removal always has a result.
\<close>

definition node_handle :: "('c, 'd) world \<Rightarrow> int \<Rightarrow> (string, claims) hmap option \<Rightarrow> event \<Rightarrow> (unit, 'c, 'd) node_act" where
  "node_handle w now claims e =
     (case e of
        ManifestUnpublished name \<Rightarrow>
          nbind (remove_scalers w name) (\<lambda>r.
          case r of
            Some (Ret _) \<Rightarrow> nret ()
          | Some (Err msg) \<Rightarrow> nlift (Err msg)
          | Some Panic \<Rightarrow> nlift Panic
          | None \<Rightarrow> run_all_scalers w e)
      | ManifestPublished m \<Rightarrow>
          nbind (handle_manifest_published w m) (\<lambda>_. run_all_scalers w e)
      | _ \<Rightarrow>
          nbind (nstore (update_state now claims e)) (\<lambda>hint.
          case hint of
            Some name \<Rightarrow> run_scalers_with_hint w e name
          | None \<Rightarrow> run_all_scalers w e))"

definition event_do_work ::
    "('c, 'd) world \<Rightarrow> int \<Rightarrow> (string, claims) hmap option \<Rightarrow> event \<Rightarrow> 'c node \<Rightarrow> ack_action \<times> 'c node \<times> 'd effect list" where
  "event_do_work w now claims e n =
     (case node_handle w now claims e n of
        (Ret _, n', es) \<Rightarrow> (Acked, n', es)
      | (Err _, n', es) \<Rightarrow> (Nacked, n', es)
      | (Panic, n', es) \<Rightarrow> (NotAcked, n', es))"

end
