(* ===== verification/Node_Properties.thy ===== *)
theory Node_Properties
  imports Node_Worker Backoff_Properties Spread_Properties Provider_Properties Daemon_Properties
begin

text \<open>
  What a wadm instance sends: every command the event worker publishes is owned by a scaler of the
  instance (its component, provider, link, configuration or secret). The five scalers satisfy the
  contract \<open>scaler\<close>, so does their sum, and ownership is carried through the wrapper, the manager and
  the worker by one rule per construct. Then what removing an application's scalers leaves behind.
\<close>

section \<open>The sum of the scalers satisfies the contract\<close>

fun inner_own :: "inner_scaler \<Rightarrow> command \<Rightarrow> bool" where
  "inner_own (ComponentSpread s) = spread_own s"
| "inner_own (ComponentDaemon s) = spread_own s"
| "inner_own (ProviderSpread s) = provider_own s"
| "inner_own (ProviderDaemon s) = provider_own s"
| "inner_own (LinkS s) = link_own s"

lemma lift_state_simps [simp]: "fst (lift_state f p) = fst p" "snd (lift_state f p) = f (snd p)"
  by (simp_all add: lift_state_def)

interpretation inner: scaler inner_reconcile inner_handle_event inner_cleanup inner_stored_status inner_own
proof (unfold_locales, goal_cases)
  case (1 v e s cs)
  then show ?case
    using spreads.handle_reconciles [of v e] daemons.handle_reconciles [of v e] provider_spreads.handle_reconciles [of v e]
      provider_daemons.handle_reconciles [of v e] links.handle_reconciles [of v e]
    by (cases s) (simp_all add: lift_state_def)
next
  case (2 v s cs c)
  then show ?case
    using spreads.reconcile_own daemons.reconcile_own provider_spreads.reconcile_own provider_daemons.reconcile_own
      links.reconcile_own by (cases s) fastforce+
next
  case (3 v s cs c)
  then show ?case
    using spreads.cleanup_own daemons.cleanup_own provider_spreads.cleanup_own provider_daemons.cleanup_own
      links.cleanup_own by (cases s) fastforce+
next
  case (4 v s)
  then show ?case
    by (cases s) (simp_all add: spreads.reconcile_keeps daemons.reconcile_keeps provider_spreads.reconcile_keeps
        provider_daemons.reconcile_keeps links.reconcile_keeps)
next
  case (5 v e s)
  then show ?case
    by (cases s) (simp_all add: spreads.handle_keeps daemons.handle_keeps provider_spreads.handle_keeps
        provider_daemons.handle_keeps links.handle_keeps)
next
  case (6 v s cs)
  then show ?case
    using spreads.deployed_idle [of v] daemons.deployed_idle [of v] provider_spreads.deployed_idle [of v]
      provider_daemons.deployed_idle [of v] links.deployed_idle [of v] by (cases s) simp_all
qed

section \<open>Ownership of boxed scalers\<close>

definition wrapper_own :: "('c \<Rightarrow> (string, string) hmap outcome) \<Rightarrow> (inner_scaler, 'c) backoff \<Rightarrow> command \<Rightarrow> bool" where
  "wrapper_own to_map w c =
     (inner_own (bw_scaler w) c \<or> (\<exists>s \<in> set (bw_required_config w). config_own s c) \<or>
      (\<exists>s \<in> set (bw_required_secrets w). secret_own to_map s c))"

fun boxed_own :: "('c \<Rightarrow> (string, string) hmap outcome) \<Rightarrow> 'c boxed_scaler \<Rightarrow> command \<Rightarrow> bool" where
  "boxed_own to_map (Wrapped w) c = wrapper_own to_map w c"
| "boxed_own to_map (Placeholder s) c = False"

text \<open>A wrapper whose parts are the same up to running them owns the same.\<close>

lemma wrapper_own_cong:
  assumes "inner_own (bw_scaler w') = inner_own (bw_scaler w)"
    and "map config_own (bw_required_config w') = map config_own (bw_required_config w)"
    and "map (secret_own to_map) (bw_required_secrets w') = map (secret_own to_map) (bw_required_secrets w)"
  shows "wrapper_own to_map w' = wrapper_own to_map w"
proof -
  have bex: "(\<exists>s \<in> set xs. g s c) = (\<exists>p \<in> set (map g xs). p c)" for g :: "'b \<Rightarrow> command \<Rightarrow> bool" and xs c by simp
  show ?thesis unfolding wrapper_own_def fun_eq_iff bex assms by simp
qed

lemma map_snd_own: "(\<And>x. own (snd (f x)) = own x) \<Longrightarrow> map own (map snd (map f xs)) = map own xs"
  by (induction xs) simp_all

lemma run_seq_keeps: "(\<And>x. own (snd (f x)) = own x) \<Longrightarrow> run_seq f xs = (r, ys) \<Longrightarrow> map own ys = map own xs"
proof (induction xs arbitrary: r ys)
  case (Cons x xs)
  obtain q x' where x: "f x = (q, x')" by fastforce
  obtain q2 ys' where s: "run_seq f xs = (q2, ys')" by fastforce
  show ?case
    using Cons.prems Cons.IH [OF Cons.prems(1) s] x s Cons.prems(1) [of x]
    by (auto split: outcome.splits)
qed simp

lemmas keeps_laws = configs.handle_keeps configs.reconcile_keeps secrets.handle_keeps secrets.reconcile_keeps
  inner.handle_keeps inner.reconcile_keeps

lemma inner_ops_simps [simp]:
  "so_reconcile inner_ops = inner_reconcile" "so_handle_event inner_ops = inner_handle_event"
  "so_cleanup inner_ops = inner_cleanup" "so_status inner_ops = inner_status" "so_id inner_ops = inner_id"
  by (simp_all add: inner_ops_def)


lemma get_commands_subset:
  "get_commands_and_result rs msg = (cs, r) \<Longrightarrow> set cs \<subseteq> (\<Union>q \<in> set rs. set (ok_commands q))"
  by (auto simp: get_commands_and_result_def split: if_splits)

lemma ok_commands_own: "c \<in> set (ok_commands q) \<Longrightarrow> (\<And>cs. q = Ret cs \<Longrightarrow> c \<in> set cs \<Longrightarrow> P) \<Longrightarrow> P"
  by (cases q) auto

lemma idle_handle_own:
  assumes "bw_expected w = []" and "bw_status w = None" and "backoff_handle_event env inner_ops v e w = (r, w', ns)"
  shows "wrapper_own (sr_secret_map env) w' = wrapper_own (sr_secret_map env) w"
    and "c \<in> set (ok_commands r) \<Longrightarrow> wrapper_own (sr_secret_map env) w c"
proof -
  have none: "remove_event e [] = ([], False, False)" by (simp add: remove_event_def)
  obtain cs cres where c: "get_commands_and_result (map fst (map (config_handle_event v e) (bw_required_config w)))
      ''Errors occurred while handling event with config scalers'' = (cs, cres)" by fastforce
  obtain ss sres where s: "get_commands_and_result (map fst (map (secret_handle_event (sr_secret_map env) v e) (bw_required_secrets w)))
      ''Errors occurred while handling event with secret scalers'' = (ss, sres)" by fastforce
  obtain q st where q: "inner_handle_event v e (bw_scaler w) = (q, st)" by fastforce
  have keep: "inner_own st = inner_own (bw_scaler w)" using inner.handle_keeps [of v e "bw_scaler w"] q by simp
  show "wrapper_own (sr_secret_map env) w' = wrapper_own (sr_secret_map env) w"
    using assms(3)
    by (auto intro!: wrapper_own_cong simp: backoff_handle_event_def none assms(1,2) Let_def c s q add_events_def timers keep
        keeps_laws map_snd_own simp del: map_map split: if_splits outcome.splits)
  have "wrapper_own (sr_secret_map env) w x" if "x \<in> set cs" for x
    using get_commands_own [OF c that] configs.handle_own unfolding wrapper_own_def by metis
  moreover have "wrapper_own (sr_secret_map env) w x" if "x \<in> set ss" for x
    using get_commands_own [OF s that] secrets.handle_own unfolding wrapper_own_def by metis
  moreover have "wrapper_own (sr_secret_map env) w x" if "q = Ret qs" "x \<in> set qs" for x qs
    using inner.handle_own [of v e "bw_scaler w" qs x] that q by (simp add: wrapper_own_def)
  ultimately show "wrapper_own (sr_secret_map env) w c" if "c \<in> set (ok_commands r)"
    using assms(3) that
    by (auto simp: backoff_handle_event_def none assms(1,2) Let_def c s q add_events_def timers ok_after_publish
        simp del: map_map split: if_splits outcome.splits)
qed

lemma backoff_handle_own:
  assumes "backoff_handle_event env inner_ops v e w = (r, w', ns)"
  shows "wrapper_own (sr_secret_map env) w' = wrapper_own (sr_secret_map env) w \<and>
    (\<forall>c \<in> set (ok_commands r). wrapper_own (sr_secret_map env) w c)"
proof (cases w e rule: handle_cases)
  case (expected p)
  then show ?thesis
    using assms by (auto simp: handle_expected Let_def ok_after_publish wrapper_own_def fun_eq_iff split: if_splits)
next
  case waits
  then show ?thesis using assms by (auto simp: handle_waits)
next
  case idle
  then show ?thesis using idle_handle_own [OF idle assms] by blast
qed

lemma backoff_reconcile_own:
  assumes "backoff_reconcile env inner_ops v w = (r, w', ns)"
  shows "wrapper_own (sr_secret_map env) w' = wrapper_own (sr_secret_map env) w \<and>
    (\<forall>c \<in> set (ok_commands r). wrapper_own (sr_secret_map env) w c)"
proof (cases "bw_expected w \<noteq> [] \<or> bw_status w \<noteq> None")
  case True
  then show ?thesis using assms reconcile_waits [OF True, of env inner_ops v] by auto
next
  case False
  obtain cr cs' where c: "run_seq (config_reconcile v) (bw_required_config w) = (cr, cs')" by fastforce
  obtain sr ss' where s: "run_seq (secret_reconcile (sr_secret_map env) v) (bw_required_secrets w) = (sr, ss')" by fastforce
  obtain q st where q: "inner_reconcile v (bw_scaler w) = (q, st)" by fastforce
  have keep: "inner_own st = inner_own (bw_scaler w)" using inner.reconcile_keeps [of v "bw_scaler w"] q by simp
  have keeps: "map config_own cs' = map config_own (bw_required_config w)"
    "map (secret_own (sr_secret_map env)) ss' = map (secret_own (sr_secret_map env)) (bw_required_secrets w)"
    by (rule run_seq_keeps [OF _ c], rule configs.reconcile_keeps) (rule run_seq_keeps [OF _ s], rule secrets.reconcile_keeps)
  have "wrapper_own (sr_secret_map env) w x" if "cr = Ret qs" "x \<in> set qs" for x qs
    using run_seq_own [OF c [unfolded that(1)] that(2)] configs.reconcile_own unfolding wrapper_own_def by blast
  moreover have "wrapper_own (sr_secret_map env) w x" if "sr = Ret qs" "x \<in> set qs" for x qs
    using run_seq_own [OF s [unfolded that(1)] that(2)] secrets.reconcile_own unfolding wrapper_own_def by blast
  moreover have "wrapper_own (sr_secret_map env) w x" if "q = Ret qs" "x \<in> set qs" for x qs
    using inner.reconcile_own [of v "bw_scaler w" qs x] that q by (simp add: wrapper_own_def)
  ultimately have "wrapper_own (sr_secret_map env) w c" if "c \<in> set (ok_commands r)" for c
    using False assms that
    by (auto simp: backoff_reconcile_def Let_def c s q add_events_def timers ok_after_publish
        split: if_splits outcome.splits)
  moreover have "wrapper_own (sr_secret_map env) w' = wrapper_own (sr_secret_map env) w"
    using False assms
    by (auto intro!: wrapper_own_cong simp: backoff_reconcile_def Let_def c s q add_events_def timers keep keeps
        split: if_splits outcome.splits)
  ultimately show ?thesis by blast
qed


lemma cleanup_own: "c \<in> set (ok_commands (backoff_cleanup inner_ops v w)) \<Longrightarrow> wrapper_own to_map w c"
proof -
  assume "c \<in> set (ok_commands (backoff_cleanup inner_ops v w))"
  then consider cs where "inner_cleanup v (bw_scaler w) = Ret cs" "c \<in> set cs"
    | s cs where "s \<in> set (bw_required_config w)" "config_cleanup v s = Ret cs" "c \<in> set cs"
    | s cs where "s \<in> set (bw_required_secrets w)" "secret_cleanup v s = Ret cs" "c \<in> set cs"
    by (auto simp: backoff_cleanup_def Let_def split: if_splits elim!: ok_commands_own)
  then show ?thesis
    using inner.cleanup_own configs.cleanup_own secrets.cleanup_own unfolding wrapper_own_def by cases blast+
qed

lemma boxed_laws:
  fixes env :: "('c, 'd) surroundings"
  shows "boxed_own (sr_secret_map env) (fst (snd (boxed_reconcile env v b))) = boxed_own (sr_secret_map env) b"
    and "boxed_own (sr_secret_map env) (fst (snd (boxed_handle_event env v e b))) = boxed_own (sr_secret_map env) b"
    and "c \<in> set (ok_commands (fst (boxed_reconcile env v b))) \<Longrightarrow> boxed_own (sr_secret_map env) b c"
    and "c \<in> set (ok_commands (fst (boxed_handle_event env v e b))) \<Longrightarrow> boxed_own (sr_secret_map env) b c"
    and "c \<in> set (ok_commands (boxed_cleanup v b)) \<Longrightarrow> boxed_own (sr_secret_map env) b c"
    and "boxed_own (sr_secret_map env) (snd (boxed_status v b)) = boxed_own (sr_secret_map env) b"
proof -
  show "boxed_own (sr_secret_map env) (fst (snd (boxed_reconcile env v b))) = boxed_own (sr_secret_map env) b"
    "c \<in> set (ok_commands (fst (boxed_reconcile env v b))) \<Longrightarrow> boxed_own (sr_secret_map env) b c"
    by (cases b; auto simp: fun_eq_iff status_reconcile_def dest: backoff_reconcile_own split: prod.splits)+
  show "boxed_own (sr_secret_map env) (fst (snd (boxed_handle_event env v e b))) = boxed_own (sr_secret_map env) b"
    "c \<in> set (ok_commands (fst (boxed_handle_event env v e b))) \<Longrightarrow> boxed_own (sr_secret_map env) b c"
    by (cases b; auto simp: fun_eq_iff status_handle_event_def dest: backoff_handle_own split: prod.splits)+
  show "c \<in> set (ok_commands (boxed_cleanup v b)) \<Longrightarrow> boxed_own (sr_secret_map env) b c"
    by (cases b) (auto simp: status_cleanup_def dest: cleanup_own)
  show "boxed_own (sr_secret_map env) (snd (boxed_status v b)) = boxed_own (sr_secret_map env) b"
    by (cases b) (auto simp: fun_eq_iff backoff_status_def inner_status_def wrapper_own_def Let_def inner.reconcile_keeps
        split: option.splits prod.splits)
qed

section \<open>Safe actions\<close>

text \<open>
  \<open>safe P m Q\<close>: run where all scalers own only commands in \<open>P\<close>, the action sends only such commands,
  leaves the scalers so, and its result satisfies \<open>Q\<close>.
\<close>

definition node_in :: "('c, 'd) world \<Rightarrow> (command \<Rightarrow> bool) \<Rightarrow> 'c node \<Rightarrow> bool" where
  "node_in w P n = (\<forall>(name, bs) \<in> set (nd_scalers n). \<forall>b \<in> set bs. \<forall>c. boxed_own (sr_secret_map (wd_env w)) b c \<longrightarrow> P c)"

definition all_in :: "('c, 'd) world \<Rightarrow> (command \<Rightarrow> bool) \<Rightarrow> 'c boxed_scaler list \<Rightarrow> bool" where
  "all_in w P bs = (\<forall>b \<in> set bs. \<forall>c. boxed_own (sr_secret_map (wd_env w)) b c \<longrightarrow> P c)"

definition safe :: "('c, 'd) world \<Rightarrow> (command \<Rightarrow> bool) \<Rightarrow> ('a, 'c, 'd) node_act \<Rightarrow> ('a \<Rightarrow> bool) \<Rightarrow> bool" where
  "safe w P m Q = (\<forall>n r n' es. node_in w P n \<longrightarrow> m n = (r, n', es) \<longrightarrow>
     node_in w P n' \<and> (\<forall>c. EffCommand c \<in> set es \<longrightarrow> P c) \<and> (\<forall>x. r = Ret x \<longrightarrow> Q x))"

named_theorems safe_rules \<open>rules for safe actions\<close>

lemma safe_ret: "Q x \<Longrightarrow> safe w P (nret x) Q"
  by (auto simp: safe_def nret_def)

lemma safe_lift: "(\<And>x. r = Ret x \<Longrightarrow> Q x) \<Longrightarrow> safe w P (nlift r) Q"
  by (auto simp: safe_def nlift_def)

lemma safeI:
  assumes "\<And>n r n' es. node_in w P n \<Longrightarrow> m n = (r, n', es) \<Longrightarrow>
    node_in w P n' \<and> (\<forall>c. EffCommand c \<in> set es \<longrightarrow> P c) \<and> (\<forall>x. r = Ret x \<longrightarrow> Q x)"
  shows "safe w P m Q"
  using assms unfolding safe_def by blast

lemma safeD:
  assumes "safe w P m Q" and "node_in w P n" and "m n = (r, n', es)"
  shows "node_in w P n'" and "EffCommand c \<in> set es \<Longrightarrow> P c" and "r = Ret x \<Longrightarrow> Q x"
  using assms unfolding safe_def by blast+

lemma safe_bind:
  assumes m: "safe w P m R" and f: "\<And>x. R x \<Longrightarrow> safe w P (f x) Q"
  shows "safe w P (nbind m f) Q"
proof (rule safeI)
  fix n r n' es
  assume n: "node_in w P n" and run: "nbind m f n = (r, n', es)"
  obtain r1 n1 es1 where m1: "m n = (r1, n1, es1)" by (metis prod_cases3)
  note first = safeD [OF m n m1]
  show "node_in w P n' \<and> (\<forall>c. EffCommand c \<in> set es \<longrightarrow> P c) \<and> (\<forall>x. r = Ret x \<longrightarrow> Q x)"
  proof (cases r1)
    case (Ret x)
    obtain r2 n2 es2 where m2: "f x n1 = (r2, n2, es2)" by (metis prod_cases3)
    note second = safeD [OF f [OF first(3) [OF Ret]] first(1) m2]
    show ?thesis using run m1 m2 Ret first(2) second by (auto simp: nbind_def)
  qed (use run m1 first in \<open>auto simp: nbind_def\<close>)
qed

lemma safe_attempt:
  assumes m: "safe w P m R" and "\<And>x. R x \<Longrightarrow> Q (Ret x)" and "\<And>e. Q (Err e)"
  shows "safe w P (nattempt m) Q"
proof (rule safeI)
  fix n r n' es
  assume n: "node_in w P n" and run: "nattempt m n = (r, n', es)"
  obtain r1 n1 es1 where m1: "m n = (r1, n1, es1)" by (metis prod_cases3)
  show "node_in w P n' \<and> (\<forall>c. EffCommand c \<in> set es \<longrightarrow> P c) \<and> (\<forall>x. r = Ret x \<longrightarrow> Q x)"
    using safeD [OF m n m1] run m1 assms(2,3) by (cases r1) (auto simp: nattempt_def)
qed

lemma safe_modify: "(\<And>n. node_in w P n \<Longrightarrow> node_in w P (f n)) \<Longrightarrow> safe w P (nmodify f) (\<lambda>_. True)"
  by (auto simp: safe_def nmodify_def)

lemma safe_read: "(\<And>n. node_in w P n \<Longrightarrow> Q (f n)) \<Longrightarrow> safe w P (nread f) Q"
  by (auto simp: safe_def nread_def)

lemma safe_notified: "safe w P (nsend (notified w ns)) (\<lambda>_. True)"
  by (auto simp: safe_def nsend_def notified_def)

lemma safe_store: "safe w P (nstore a) (\<lambda>_. True)"
  by (auto simp: safe_def nstore_def node_in_def split: prod.splits option.splits)

lemma safe_refresh: "safe w P (refresh_data w) (\<lambda>_. True)"
  unfolding refresh_data_def snapshot_refresh_def
  by (intro safe_bind [OF safe_store] safe_modify) (simp add: node_in_def)

lemma safe_publish: "(\<forall>c \<in> set cs. P c) \<Longrightarrow> safe w P (publish_commands w cs) (\<lambda>_. True)"
  by (auto simp: safe_def publish_commands_def)

lemma safe_status: "safe w P (publish_status w name st) (\<lambda>_. True)"
  by (auto simp: safe_def publish_status_def split: if_splits)

lemma safe_notification: "safe w P (publish_notification w nt) (\<lambda>_. True)"
  by (auto simp: safe_def publish_notification_def split: if_splits)

lemma in_hm_insert: "x \<in> set (hm_insert k v m) \<Longrightarrow> x = (k, v) \<or> x \<in> set m"
  by (induction m) (auto split: if_splits)

lemma node_in_insert: "node_in w P n \<Longrightarrow> all_in w P bs \<Longrightarrow> node_in w P (n\<lparr>nd_scalers := hm_insert name bs (nd_scalers n)\<rparr>)"
  by (auto simp: node_in_def all_in_def dest!: in_hm_insert)

lemma node_in_remove: "node_in w P n \<Longrightarrow> node_in w P (remove_raw_scalers name n)"
  by (auto simp: node_in_def remove_raw_scalers_def AList.delete_eq)

lemma node_in_get: "node_in w P n \<Longrightarrow> get_scalers name n = Some bs \<Longrightarrow> all_in w P bs"
  by (fastforce simp: node_in_def all_in_def get_scalers_def dest: map_of_SomeD)


lemma safe_read_get: "safe w P (nread (get_scalers name)) (\<lambda>r. \<forall>bs. r = Some bs \<longrightarrow> all_in w P bs)"
  by (rule safe_read) (auto dest: node_in_get)

lemma safe_any: "safe w P (nread f) (\<lambda>_. True)"
  by (rule safe_read) simp

lemma all_in_map:
  "all_in w P bs \<Longrightarrow> (\<And>b. boxed_own (sr_secret_map (wd_env w)) (f b) = boxed_own (sr_secret_map (wd_env w)) b) \<Longrightarrow> all_in w P (map f bs)"
  by (simp add: all_in_def)

text \<open>A method whose calls keep ownership and answer with owned commands.\<close>

definition owned_method ::
    "('c, 'd) world \<Rightarrow> ('c boxed_scaler \<Rightarrow> command list outcome \<times> 'c boxed_scaler \<times> 'd notification list) \<Rightarrow> bool" where
  "owned_method w f = (\<forall>b. boxed_own (sr_secret_map (wd_env w)) (fst (snd (f b))) = boxed_own (sr_secret_map (wd_env w)) b \<and>
     (\<forall>c \<in> set (ok_commands (fst (f b))). boxed_own (sr_secret_map (wd_env w)) b c))"

lemma owned_methods: "owned_method w (boxed_reconcile (wd_env w) v)" "owned_method w (boxed_handle_event (wd_env w) v e)"
  by (simp_all add: owned_method_def boxed_laws)

lemma safe_application:
  assumes "all_in w P bs" and "owned_method w f"
  shows "safe w P (run_application w name msg f bs) (\<lambda>(cs, res). \<forall>c \<in> set cs. P c)"
proof -
  obtain results bs' ns where e: "run_each f bs = (results, bs', ns)" by (metis prod_cases3)
  obtain cs res where g: "get_commands_and_result results msg = (cs, res)" by fastforce
  have "set cs \<subseteq> (\<Union>q \<in> set results. set (ok_commands q))" by (rule get_commands_subset [OF g])
  then have cs: "\<forall>c \<in> set cs. P c"
    using e assms unfolding run_each_def owned_method_def all_in_def by fastforce
  have "all_in w P bs'"
    using e assms by (auto simp: run_each_def owned_method_def intro!: all_in_map)
  then have bs'': "all_in w P (snd (boxed_detailed_status v bs'))" for v
    by (auto simp: boxed_detailed_status_def boxed_laws(6) intro!: all_in_map)
  have modify: "safe w P (nmodify (\<lambda>n. n\<lparr>nd_scalers := hm_insert name bs2 (nd_scalers n)\<rparr>)) (\<lambda>_. True)"
    if "boxed_detailed_status v bs' = (st, bs2)" for v st bs2
    using bs'' [of v] that by (intro safe_modify node_in_insert) simp_all
  show ?thesis
    unfolding run_application_def e g Let_def split_conv
    by (intro safe_bind [OF safe_any] safe_bind [OF safe_notified]) (auto split: prod.split
        intro!: safe_bind [OF modify] safe_bind [OF safe_attempt [OF safe_status]] safe_ret safe_lift cs)
qed


lemma safe_add: "all_in w P bs \<Longrightarrow> safe w P (add_scalers w m bs) (all_in w P)"
  unfolding add_scalers_def
  by (intro safe_bind [OF safe_modify] safe_bind [OF safe_notification] safe_bind [OF safe_read_get])
    (auto simp: add_raw_scalers_def or_err_def intro!: node_in_insert safe_lift split: option.splits)

lemma omap_id: "omap_list (\<lambda>r. r) rs = Ret ys \<Longrightarrow> rs = map Ret ys"
  by (induction rs arbitrary: ys) auto

lemma cleanup_all_own: "all_in w P bs \<Longrightarrow> cleanup_all v bs = Ret cs \<Longrightarrow> \<forall>c \<in> set cs. P c"
proof -
  assume a: "all_in w P bs" and r: "cleanup_all v bs = Ret cs"
  from r obtain css where css: "omap_list (\<lambda>r. r) (map (boxed_cleanup v) bs) = Ret css" and cs: "cs = concat css"
    by (auto simp: cleanup_all_def Let_def split: if_splits)
  have "c \<in> set (concat css) \<Longrightarrow> \<exists>b \<in> set bs. c \<in> set (ok_commands (boxed_cleanup v b))" for c
  proof -
    assume "c \<in> set (concat css)"
    then obtain x where x: "x \<in> set css" "c \<in> set x" by auto
    then have "Ret x \<in> set (map (boxed_cleanup v) bs)" using omap_id [OF css] by simp
    then show ?thesis using x(2) by (metis imageE list.set_map ok_commands.simps(1))
  qed
  then show ?thesis using a cs boxed_laws(5) unfolding all_in_def by fast
qed

lemma outdated_own:
  "(\<forall>bs. old = Some bs \<longrightarrow> all_in w P bs) \<Longrightarrow> outdated_cleanup v old new = Ret cs \<Longrightarrow> \<forall>c \<in> set cs. P c"
  using boxed_laws(5) unfolding all_in_def
  by (fastforce simp: outdated_cleanup_def outdated_def Let_def split: option.splits if_splits)


lemma safe_publish_cleanup:
  assumes "all_in w P bs" and "\<forall>cs. commands = Ret cs \<longrightarrow> (\<forall>c \<in> set cs. P c)"
  shows "safe w P (publish_cleanup w name bs commands) (\<lambda>r. \<forall>bs. r = Some (Ret bs) \<longrightarrow> all_in w P bs)"
proof -
  have again: "safe w P (nbind (nmodify (add_raw_scalers name bs)) (\<lambda>_. nret (Some (Err e))))
      (\<lambda>r. \<forall>bs. r = Some (Ret bs) \<longrightarrow> all_in w P bs)" for e
    using assms(1) by (intro safe_bind [OF safe_modify] safe_ret) (simp_all add: add_raw_scalers_def node_in_insert)
  show ?thesis
    unfolding publish_cleanup_def Let_def using assms
    by (auto split: outcome.split intro!: again safe_lift safe_ret
        safe_bind [OF safe_attempt [OF safe_publish, where Q = "\<lambda>_. True"]])
qed

lemma safe_remove_internal:
  "safe w P (remove_scalers_internal w name) (\<lambda>r. \<forall>bs. r = Some (Ret bs) \<longrightarrow> all_in w P bs)"
  unfolding remove_scalers_internal_def
  by (rule safe_bind [OF safe_read_get],
    auto split: outcome.split option.split intro!: safe_ret safe_lift safe_publish_cleanup safe_bind [OF safe_modify] node_in_remove
        safe_bind [OF safe_attempt [OF safe_refresh, where Q = "\<lambda>_. True"]]
        safe_bind [OF safe_read [where Q = "\<lambda>r. \<forall>cs. r = Ret cs \<longrightarrow> (\<forall>c \<in> set cs. P c)"]],
      use cleanup_all_own in blast)

lemma safe_remove: "safe w P (remove_scalers w name) (\<lambda>_. True)"
  unfolding remove_scalers_def
  by (rule safe_bind [OF safe_remove_internal])
    (auto split: outcome.split option.split simp: add_raw_scalers_def
      intro!: safe_ret safe_lift safe_bind [OF safe_modify] node_in_insert
        safe_bind [OF safe_attempt [OF safe_notification, where Q = "\<lambda>_. True"]] safe_bind [OF safe_ret])

lemma safe_published:
  assumes "\<And>bs. scalers_for_manifest w m = Ret bs \<Longrightarrow> all_in w P bs"
  shows "safe w P (handle_manifest_published w m) (\<lambda>_. True)"
  unfolding handle_manifest_published_def Let_def
  by (rule safe_bind [OF safe_read_get],
      rule safe_bind [OF safe_modify [OF node_in_remove]], assumption,
      rule safe_bind [OF safe_lift [where Q = "all_in w P", OF assms]], assumption,
      rule safe_bind [OF safe_refresh], rule safe_bind [OF safe_any],
      rule safe_bind [OF safe_lift [where Q = "\<lambda>cs. \<forall>c \<in> set cs. P c"]], erule (1) outdated_own,
      rule safe_bind [OF safe_add], assumption,
      rule safe_bind [OF safe_application], assumption, rule owned_methods,
      auto intro!: safe_bind [OF safe_publish] safe_bind [OF safe_attempt [OF safe_publish, where Q = "\<lambda>_. True"]] safe_lift)

lemma safe_hint: "safe w P (run_scalers_with_hint w e name) (\<lambda>_. True)"
  unfolding run_scalers_with_hint_def
  by (rule safe_bind [OF safe_read_get])
    (auto split: option.split intro!: safe_ret safe_bind [OF safe_refresh] safe_bind [OF safe_any]
      safe_bind [OF safe_application] safe_bind [OF safe_publish] safe_lift owned_methods)

lemma safe_applications:
  "\<forall>(name, bs) \<in> set apps. all_in w P bs \<Longrightarrow> \<forall>c \<in> set cs. P c \<Longrightarrow>
   safe w P (run_applications w v e apps cs res) (\<lambda>(cs, res). \<forall>c \<in> set cs. P c)"
proof (induction apps arbitrary: cs res)
  case Nil
  then show ?case by (auto intro: safe_ret)
next
  case (Cons a apps)
  then show ?case
    by (cases a) (auto intro!: safe_bind [OF safe_application] owned_methods Cons.IH)
qed

lemma safe_all: "safe w P (run_all_scalers w e) (\<lambda>_. True)"
  unfolding run_all_scalers_def
  by (rule safe_bind [OF safe_read [where Q = "\<lambda>apps. \<forall>(name, bs) \<in> set apps. all_in w P bs"]])
    (auto simp: node_in_def all_in_def intro!: safe_bind [OF safe_refresh] safe_bind [OF safe_any]
      safe_bind [OF safe_applications] safe_bind [OF safe_publish] safe_lift)


lemma safe_handle:
  assumes "\<And>m bs. e = ManifestPublished m \<Longrightarrow> scalers_for_manifest w m = Ret bs \<Longrightarrow> all_in w P bs"
  shows "safe w P (node_handle w now claims e) (\<lambda>_. True)"
proof -
  have update: "safe w P (nbind (nstore (update_state now claims e')) (\<lambda>hint.
      case hint of Some name \<Rightarrow> run_scalers_with_hint w e' name | None \<Rightarrow> run_all_scalers w e')) (\<lambda>_. True)" for e'
    by (rule safe_bind [OF safe_store]) (auto split: option.split intro: safe_hint safe_all)
  show ?thesis
  proof (cases e)
    case (ManifestPublished m)
    then show ?thesis
      using assms by (auto simp: node_handle_def intro!: safe_bind [OF safe_published] safe_all)
  next
    case (ManifestUnpublished name)
    then show ?thesis
      by (auto simp: node_handle_def intro!: safe_bind [OF safe_remove] safe_ret safe_lift safe_all split: option.split outcome.split)
  qed (simp_all add: node_handle_def update)
qed

section \<open>A concrete instance\<close>

definition ex_world :: "(unit, event) world" where
  "ex_world = \<lparr>wd_lattice_id = ''l'', wd_convert = \<lparr>cv_digest = (\<lambda>s. s), cv_hasher = (\<lambda>_. 0), cv_mk_secret = (\<lambda>_ _ _ _ _ _. ()),
       cv_secret_prefix = ''SECRET'', cv_lowercase = (\<lambda>s. s), cv_uuid = (\<lambda>s. s)\<rparr>,
     wd_env = ex_env 0, wd_links = Ret [], wd_config = (\<lambda>_. Ret None), wd_secret = (\<lambda>_. Ret None),
     wd_send_command = (\<lambda>_. Ret ()), wd_previous_status = (\<lambda>_. None), wd_send_status = (\<lambda>_ _. Ret ())\<rparr>"

definition ex_boxed :: "unit boxed_scaler" where
  "ex_boxed = Wrapped (backoff_new (LinkS (link_new (\<lambda>s. s) (ex_link_config ''http''))) [] [] ''m'' None)"

definition ex_node :: "fault list \<Rightarrow> unit node" where
  "ex_node faults = \<lparr>nd_lattice = \<lparr>la_components = [], la_hosts = [], la_providers = [], la_faults = faults\<rparr>,
     nd_scalers = [(''m'', [ex_boxed])], nd_snapshot = snapshot_new\<rparr>"

lemma ex_undeploy:
  "\<exists>n'. event_do_work ex_world 0 None (ManifestUnpublished ''m'') (ex_node []) =
     (Acked, n', [EffCommand (delete_link_command (ex_link_config ''http'')), EffNotify (DeleteScalers ''m'')])"
  by (simp add: event_do_work_def node_handle_def remove_scalers_def remove_scalers_internal_def publish_cleanup_def
      nbind_def nread_def nmodify_def nattempt_def nret_def nlift_def get_scalers_def remove_raw_scalers_def
      refresh_data_def snapshot_refresh_def nstore_def st_list_def store_call_def cleanup_all_def ex_node_def ex_boxed_def
      backoff_cleanup_def backoff_new_def link_cleanup_def link_new_def publish_commands_def publish_notification_def
      first_error_def ex_world_def ex_env_def)

section \<open>Properties\<close>

text \<open>
  C32. A wadm instance sends only commands of its own applications: every command the event worker publishes
  while it handles an event, also when it fails halfway, is owned by one of the scalers the
  instance holds when the event arrives, or by one of the scalers made for the manifest the event publishes. An
  owned command scales the scaler's component, starts or stops its provider, puts or deletes its
  link, or puts or deletes a configuration or secret it requires.
\<close>

theorem worker_commands_owned:
  assumes "event_do_work w now claims e n = (a, n', es)" and "EffCommand c \<in> set es"
  shows "\<exists>b. boxed_own (sr_secret_map (wd_env w)) b c \<and>
    ((\<exists>(name, bs) \<in> set (nd_scalers n). b \<in> set bs) \<or>
     (\<exists>m bs. e = ManifestPublished m \<and> scalers_for_manifest w m = Ret bs \<and> b \<in> set bs))"
proof -
  let ?own = "boxed_own (sr_secret_map (wd_env w))"
  define P where "P c = (\<exists>b. ?own b c \<and> ((\<exists>(name, bs) \<in> set (nd_scalers n). b \<in> set bs) \<or>
     (\<exists>m bs. e = ManifestPublished m \<and> scalers_for_manifest w m = Ret bs \<and> b \<in> set bs)))" for c
  have "node_in w P n" unfolding node_in_def P_def by fast
  moreover have "safe w P (node_handle w now claims e) (\<lambda>_. True)"
    by (rule safe_handle) (unfold all_in_def P_def, fast)
  moreover obtain r where "node_handle w now claims e n = (r, n', es)"
    using assms(1) by (auto simp: event_do_work_def split: prod.splits outcome.splits)
  ultimately have "P c" using assms(2) safeD(2) by blast
  then show ?thesis by (simp add: P_def)
qed

lemma worker_commands_owned_witness:
  "boxed_own (sr_secret_map (wd_env ex_world)) ex_boxed (delete_link_command (ex_link_config ''http''))"
proof -
  obtain n' where "event_do_work ex_world 0 None (ManifestUnpublished ''m'') (ex_node []) =
     (Acked, n', [EffCommand (delete_link_command (ex_link_config ''http'')), EffNotify (DeleteScalers ''m'')])"
    using ex_undeploy by blast
  from worker_commands_owned [OF this, of "delete_link_command (ex_link_config ''http'')"] show ?thesis
    by (auto simp: ex_node_def)
qed

section \<open>Removing the scalers of an application\<close>

lemma nstore_fault:
  "la_faults (nd_lattice n) = FailBefore # fs \<Longrightarrow> nstore (st_list kind) n =
     (Err ''Error while accessing the store'', n\<lparr>nd_lattice := (nd_lattice n)\<lparr>la_faults := fs\<rparr>\<rparr>, [])"
  by (simp add: nstore_def st_list_def store_call_def)

lemma refresh_fault:
  "la_faults (nd_lattice n) = FailBefore # fs \<Longrightarrow> refresh_data w n =
     (Err ''Error while accessing the store'', n\<lparr>nd_lattice := (nd_lattice n)\<lparr>la_faults := fs\<rparr>\<rparr>, [])"
  by (simp add: refresh_data_def snapshot_refresh_def nbind_def nstore_fault)

lemma remove_absent:
  "get_scalers name n = None \<Longrightarrow> remove_scalers_internal w name n = (Ret None, n, [])"
  by (simp add: remove_scalers_internal_def nbind_def nread_def nret_def)

lemma removed_absent [simp]: "get_scalers name (remove_raw_scalers name n) = None"
  by (simp add: get_scalers_def remove_raw_scalers_def)

lemma get_scalers_update [simp]: "get_scalers name (n\<lparr>nd_lattice := l\<rparr>) = get_scalers name n"
  by (simp add: get_scalers_def)

text \<open>
  C33. An undeployed application can be forgotten with its resources running: when the store cannot be read while
  the scalers of an unpublished manifest are removed, the event is refused for redelivery, but the
  scalers are already gone; the redelivered event, whatever else happens, publishes no cleanup command at
  all, and it is acknowledged when the notification is sent. (Every other failure of the removal puts the
  scalers back.)
\<close>

theorem undeploy_retry_forgets:
  assumes "get_scalers name n = Some bs" and "la_faults (nd_lattice n) = FailBefore # fs"
    and "event_do_work w now claims (ManifestUnpublished name) n = (a, n', es)"
    and "event_do_work w2 now2 claims2 (ManifestUnpublished name) n' = (a2, n2, es2)"
  shows "a = Nacked \<and> es = [] \<and> get_scalers name n' = None \<and> (\<forall>c. EffCommand c \<notin> set es2) \<and>
    (sr_publish (wd_env w2) (DeleteScalers name) = Ret () \<longrightarrow> a2 = Acked)"
proof -
  let ?n1 = "(remove_raw_scalers name n)\<lparr>nd_lattice := (nd_lattice n)\<lparr>la_faults := fs\<rparr>\<rparr>"
  have "la_faults (nd_lattice (remove_raw_scalers name n)) = FailBefore # fs"
    using assms(2) by (simp add: remove_raw_scalers_def)
  from refresh_fault [OF this, of w]
  have "remove_scalers_internal w name n = (Ret (Some (Err ''Error while accessing the store'')), ?n1, [])"
    by (simp add: remove_scalers_internal_def nbind_def nread_def nmodify_def nattempt_def nret_def assms(1)
        remove_raw_scalers_def)
  then have first: "a = Nacked" "es = []" "n' = ?n1"
    using assms(3) by (auto simp: event_do_work_def node_handle_def remove_scalers_def nbind_def nret_def nlift_def)
  then have none: "get_scalers name n' = None" by simp
  have "(\<forall>c. EffCommand c \<notin> set es2) \<and> (sr_publish (wd_env w2) (DeleteScalers name) = Ret () \<longrightarrow> a2 = Acked)"
    using assms(4) remove_absent [OF none, of w2]
    by (auto simp: event_do_work_def node_handle_def remove_scalers_def nbind_def nret_def nlift_def nattempt_def
        publish_notification_def split: outcome.splits prod.splits if_splits)
  then show ?thesis using first none by simp
qed

lemma undeploy_retry_forgets_witness:
  "\<exists>n'. event_do_work ex_world 0 None (ManifestUnpublished ''m'') (ex_node [FailBefore]) = (Nacked, n', []) \<and>
     fst (event_do_work ex_world 0 None (ManifestUnpublished ''m'') n') = Acked"
proof -
  obtain a n' es where one: "event_do_work ex_world 0 None (ManifestUnpublished ''m'') (ex_node [FailBefore]) = (a, n', es)"
    by (metis prod_cases3)
  obtain a2 n2 es2 where two: "event_do_work ex_world 0 None (ManifestUnpublished ''m'') n' = (a2, n2, es2)"
    by (metis prod_cases3)
  from undeploy_retry_forgets [OF _ _ one two, of "[ex_boxed]" "[]"] show ?thesis
    using one two by (simp add: ex_node_def get_scalers_def ex_world_def ex_env_def)
qed

end
