(* ===== verification/Model_Storage.thy ===== *)
theory Model_Storage
  imports Nats_Kv Stored_Manifest
begin

text \<open>
  The storage of the application manifests (\<open>server/storage.rs\<close>): every application under a key of its
  own, and one more key per lattice with the set of its application names.

  The bucket is the NATS key-value service, given by its four operations on a world state \<open>'w\<close> in which
  other writers act too; the JSON encoders and decoders are given as well. A \<open>BTreeSet\<close> of names is the
  sorted list of its elements. An operation is a function from the world to an outcome and the world it
  leaves; an error is its text.
\<close>

section \<open>Operations on the world\<close>

type_synonym ('a, 'w) io = "'w \<Rightarrow> 'a outcome \<times> 'w"

definition io_lift :: "'a outcome \<Rightarrow> ('a, 'w) io" where
  "io_lift r w = (r, w)"

abbreviation io_ret :: "'a \<Rightarrow> ('a, 'w) io" where
  "io_ret x \<equiv> io_lift (Ret x)"

text \<open>\<open>match\<close> on a result: both arms are given, a panic goes through.\<close>

definition io_match :: "('a, 'w) io \<Rightarrow> ('a \<Rightarrow> ('b, 'w) io) \<Rightarrow> (string \<Rightarrow> ('b, 'w) io) \<Rightarrow> ('b, 'w) io" where
  "io_match m f g w =
     (case m w of (Ret x, w') \<Rightarrow> f x w' | (Err e, w') \<Rightarrow> g e w' | (Panic, w') \<Rightarrow> (Panic, w'))"

definition io_bind :: "('a, 'w) io \<Rightarrow> ('a \<Rightarrow> ('b, 'w) io) \<Rightarrow> ('b, 'w) io" where
  "io_bind m f = io_match m f (\<lambda>e. io_lift (Err e))"

text \<open>A call of the service, with its error on the left.\<close>

definition io_call :: "('w \<Rightarrow> (string + 'a) \<times> 'w) \<Rightarrow> ('a, 'w) io" where
  "io_call c w = (case c w of (Inl e, w') \<Rightarrow> (Err e, w') | (Inr x, w') \<Rightarrow> (Ret x, w'))"

definition of_sum :: "string + 'a \<Rightarrow> 'a outcome" where
  "of_sum r = (case r of Inl e \<Rightarrow> Err e | Inr x \<Rightarrow> Ret x)"

text \<open>Futures that are joined all run; the results are collected up to the first error afterwards.\<close>

fun io_join :: "('a, 'w) io list \<Rightarrow> 'w \<Rightarrow> 'a outcome list \<times> 'w" where
  "io_join [] w = ([], w)"
| "io_join (m # ms) w = (let (r, w1) = m w; (rs, w2) = io_join ms w1 in (r # rs, w2))"

definition collect_results :: "'a outcome list \<Rightarrow> 'a list outcome" where
  "collect_results rs = (if Panic \<in> set rs then Panic else omap_list (\<lambda>r. r) rs)"

lemma io_lift_app [simp]: "io_lift r w = (r, w)"
  by (simp add: io_lift_def)

lemma io_match_simps [simp]:
  "m w = (Ret x, w') \<Longrightarrow> io_match m f g w = f x w'"
  "m w = (Err e, w') \<Longrightarrow> io_match m f g w = g e w'"
  "m w = (Panic, w') \<Longrightarrow> io_match m f g w = (Panic, w')"
  by (simp_all add: io_match_def)

lemma io_bind_simps [simp]:
  "m w = (Ret x, w') \<Longrightarrow> io_bind m f w = f x w'"
  "m w = (Err e, w') \<Longrightarrow> io_bind m f w = (Err e, w')"
  "m w = (Panic, w') \<Longrightarrow> io_bind m f w = (Panic, w')"
  by (simp_all add: io_bind_def)

lemma io_match_lift [simp]:
  "io_match (io_ret x) f g = f x"
  "io_match (io_lift (Err e)) f g = g e"
  "io_match (io_lift Panic) f g = io_lift Panic"
  by (simp_all add: io_match_def fun_eq_iff)

lemma io_bind_lift [simp]:
  "io_bind (io_ret x) f = f x"
  "io_bind (io_lift (Err e)) f = io_lift (Err e)"
  "io_bind (io_lift Panic) f = io_lift Panic"
  by (simp_all add: io_bind_def fun_eq_iff)

lemma io_call_eq [simp]:
  "io_call c w = (Ret x, w') \<longleftrightarrow> c w = (Inr x, w')"
  "io_call c w = (Err e, w') \<longleftrightarrow> c w = (Inl e, w')"
  "io_call c w \<noteq> (Panic, w')"
  by (auto simp: io_call_def split: prod.splits sum.splits)

lemma io_bind_RetE:
  assumes "io_bind m f w = (Ret y, w')"
  obtains x w1 where "m w = (Ret x, w1)" and "f x w1 = (Ret y, w')"
proof -
  obtain r w1 where m: "m w = (r, w1)" by fastforce
  with assms that show thesis by (cases r) auto
qed

lemma io_match_cases:
  assumes "io_match m f g w = (r, w')"
  obtains (ret) x w1 where "m w = (Ret x, w1)" and "f x w1 = (r, w')"
  | (err) e w1 where "m w = (Err e, w1)" and "g e w1 = (r, w')"
  | (panic) "m w = (Panic, w')" and "r = Panic"
proof -
  obtain q w1 where m: "m w = (q, w1)" by fastforce
  with assms that show thesis by (cases q) auto
qed

section \<open>The bucket\<close>

record ('w, 'b) bucket =
  bk_entry :: "('w, 'b) kv_read"
  bk_update :: "('w, 'b) kv_write"
  bk_put :: "string \<Rightarrow> 'b bytes \<Rightarrow> 'w \<Rightarrow> (string + unit) \<times> 'w"
  bk_purge :: "string \<Rightarrow> 'w \<Rightarrow> (string + unit) \<times> 'w"

record 'b codec =
  cd_of_model :: "'b bytes \<Rightarrow> string + stored_manifest"
  cd_model :: "stored_manifest \<Rightarrow> string + 'b bytes"
  cd_of_names :: "'b bytes \<Rightarrow> string + string list"
  cd_names :: "string list \<Rightarrow> string + 'b bytes"

definition model_set_key :: "string option \<Rightarrow> string \<Rightarrow> string" where
  "model_set_key account_id lattice_id =
     (case account_id of Some account \<Rightarrow> account @ ''-'' @ lattice_id | None \<Rightarrow> lattice_id)"

definition model_key :: "string option \<Rightarrow> string \<Rightarrow> string \<Rightarrow> string" where
  "model_key account_id lattice_id model_name =
     (case account_id of
        Some account \<Rightarrow> account @ ''-'' @ lattice_id @ ''-'' @ model_name
      | None \<Rightarrow> lattice_id @ ''-'' @ model_name)"

section \<open>Operations\<close>

definition storage_get ::
    "('w, 'b) bucket \<Rightarrow> 'b codec \<Rightarrow> string option \<Rightarrow> string \<Rightarrow> string \<Rightarrow> ((stored_manifest \<times> nat) option, 'w) io" where
  "storage_get b c account_id lattice_id model_name =
     io_bind (io_call (bk_entry b (model_key account_id lattice_id model_name))) (\<lambda>e. io_lift
       (case e of
          None \<Rightarrow> Ret None
        | Some entry \<Rightarrow>
            if ke_removed entry then Ret None
            else obind (of_sum (cd_of_model c (ke_value entry))) (\<lambda>m. Ret (Some (m, ke_revision entry)))))"

datatype model_name_operation = AddName string | DeleteName string

definition get_model_set ::
    "('w, 'b) bucket \<Rightarrow> 'b codec \<Rightarrow> string option \<Rightarrow> string \<Rightarrow> ((string list \<times> nat) option, 'w) io" where
  "get_model_set b c account_id lattice_id =
     io_bind (io_call (bk_entry b (model_set_key account_id lattice_id))) (\<lambda>e. io_lift
       (case e of
          Some entry \<Rightarrow>
            if \<not> ke_removed entry
            then obind (of_sum (cd_of_names c (ke_value entry))) (\<lambda>ms. Ret (Some (ms, ke_revision entry)))
            else Ret None
        | None \<Rightarrow> Ret None))"

text \<open>\<open>None\<close> when the operation has nothing to change.\<close>

definition change_names :: "model_name_operation \<Rightarrow> string list \<Rightarrow> string list option" where
  "change_names operation names =
     (case operation of
        AddName n \<Rightarrow> if n \<in> set names then None else Some (insort_insert n names)
      | DeleteName n \<Rightarrow> if n \<notin> set names then None else Some (remove1 n names))"

text \<open>One attempt, with what to do when the names have changed meanwhile.\<close>

definition update_names ::
    "('w, 'b) bucket \<Rightarrow> 'b codec \<Rightarrow> string option \<Rightarrow> string \<Rightarrow> model_name_operation \<Rightarrow> (unit, 'w) io \<Rightarrow>
     string list \<Rightarrow> nat \<Rightarrow> (unit, 'w) io" where
  "update_names b c account_id lattice_id operation again names revision =
     (case change_names operation names of
        None \<Rightarrow> io_ret ()
      | Some names' \<Rightarrow>
          io_bind (io_lift (of_sum (cd_names c names'))) (\<lambda>data.
          io_match (io_call (bk_update b (model_set_key account_id lattice_id) data revision))
            (\<lambda>_. io_ret ())
            (\<lambda>e. if contains_str ''wrong last sequence'' e then again else io_lift (Err e))))"

fun retry_model_update ::
    "nat \<Rightarrow> ('w, 'b) bucket \<Rightarrow> 'b codec \<Rightarrow> string option \<Rightarrow> string \<Rightarrow> model_name_operation \<Rightarrow> (unit, 'w) io" where
  "retry_model_update 0 b c account_id lattice_id operation =
     io_lift (Err ''Model list update failed due to conflicts after multiple retries'')"
| "retry_model_update (Suc n) b c account_id lattice_id operation =
     io_bind (get_model_set b c account_id lattice_id) (\<lambda>found.
       let attempt = update_names b c account_id lattice_id operation
             (retry_model_update n b c account_id lattice_id operation) in
       case found of
         Some (names, revision) \<Rightarrow> attempt names revision
       | None \<Rightarrow> (case operation of DeleteName _ \<Rightarrow> io_ret () | AddName _ \<Rightarrow> attempt [] 0))"

definition MODEL_UPDATE_ATTEMPTS :: nat where
  "MODEL_UPDATE_ATTEMPTS = 3"

definition storage_set ::
    "('w, 'b) bucket \<Rightarrow> 'b codec \<Rightarrow> string option \<Rightarrow> string \<Rightarrow> stored_manifest \<Rightarrow> nat option \<Rightarrow> (unit, 'w) io" where
  "storage_set b c account_id lattice_id model current_revision =
     io_bind (io_lift (sm_name model)) (\<lambda>name.
     let key = model_key account_id lattice_id name in
     io_bind (io_lift (of_sum (cd_model c model))) (\<lambda>data.
     io_bind
       (case current_revision of
          Some revision \<Rightarrow>
            if revision > 0 then io_call (bk_update b key data revision) else io_call (bk_put b key data)
        | None \<Rightarrow> io_call (bk_put b key data))
       (\<lambda>_. retry_model_update MODEL_UPDATE_ATTEMPTS b c account_id lattice_id (AddName name))))"

definition storage_list ::
    "('w, 'b) bucket \<Rightarrow> 'b codec \<Rightarrow> string option \<Rightarrow> string \<Rightarrow> (stored_manifest list, 'w) io" where
  "storage_list b c account_id lattice_id =
     io_bind (get_model_set b c account_id lattice_id) (\<lambda>found w.
       let names = (case found of None \<Rightarrow> [] | Some (ns, _) \<Rightarrow> ns);
           (rs, w') = io_join (map (storage_get b c account_id lattice_id) names) w
       in (obind (collect_results rs) (\<lambda>ms. Ret (map fst (List.map_filter (\<lambda>m. m) ms))), w'))"

definition storage_delete ::
    "('w, 'b) bucket \<Rightarrow> 'b codec \<Rightarrow> string option \<Rightarrow> string \<Rightarrow> string \<Rightarrow> (unit, 'w) io" where
  "storage_delete b c account_id lattice_id model_name =
     io_bind (retry_model_update MODEL_UPDATE_ATTEMPTS b c account_id lattice_id (DeleteName model_name))
       (\<lambda>_. io_call (bk_purge b (model_key account_id lattice_id model_name)))"

end
