(* ===== verification/Api_Server.thy ===== *)
theory Api_Server
  imports Model_Storage Validation Commands_Events Api_Status
begin

text \<open>
  The server of the wadm API: the requests and responses (\<open>wadm-types/src/api.rs\<close>), the parser of a
  manifest (\<open>server/parser.rs\<close>), the notifier (\<open>server/notifier.rs\<close>) and every handler
  (\<open>server/handlers.rs\<close>).

  A handler ends with exactly one reply on each of its paths, so it is a function that computes the
  reply, followed by \<open>respond\<close>, which sends it. The replies are values: their derived JSON encoding is
  left out, as are log lines. A rejection carries a constructor per message of the source.
\<close>

section \<open>Requests and responses\<close>

datatype get_result = GetError | GetSuccess | GetNotFound
datatype put_result = PutError | PutCreated | PutNewVersion
datatype delete_result = DeleteDeleted | DeleteError | DeleteNoop
datatype deploy_result = DeployError | DeployAcknowledged | DeployNotFound
datatype status_result = StatusError | StatusOk | StatusNotFound

record get_model_response =
  gr_result :: get_result
  gr_message :: string
  gr_manifest :: "manifest option"

record put_model_response =
  pr_result :: put_result
  pr_total_versions :: nat
  pr_current_version :: string
  pr_message :: string
  pr_name :: string

record model_summary =
  ms_name :: string
  ms_version :: string
  ms_description :: "string option"
  ms_deployed_version :: "string option"
  ms_detailed_status :: status
  ms_status :: status_type
  ms_status_message :: "string option"

record list_models_response =
  lr_result :: get_result
  lr_message :: string
  lr_models :: "model_summary list"

record version_info =
  vi_version :: string
  vi_deployed :: bool

record version_response =
  vr_result :: get_result
  vr_message :: string
  vr_versions :: "version_info list"

record delete_model_response =
  xr_result :: delete_result
  xr_message :: string
  xr_undeploy :: bool

record deploy_model_response =
  dr_result :: deploy_result
  dr_message :: string
  dr_name :: string
  dr_version :: "string option"

record status_response =
  tr_result :: status_result
  tr_message :: string
  tr_status :: "status option"

datatype rejection =
    BadManifest string
  | BadVersion "failure_msg list"
  | BadName string
  | BadRequest string string
  | StorageFailure
  | Invalid failure_msg
  | InvalidText string
  | VersionExists string
  | IdTaken string string
  | MissingShared "string list"
  | BadSubject string
  | NoHistory
  | UnsupportedSubject string

datatype reply =
    ErrorReply rejection
  | GetReply get_model_response
  | PutReply put_model_response
  | SummariesReply "model_summary list"
  | ListReply list_models_response
  | VersionsReply version_response
  | DeleteReply delete_model_response
  | DeployReply deploy_model_response
  | StatusReply status_response

record 'b message =
  mg_subject :: string
  mg_payload :: "'b bytes"
  mg_headers :: "(string, string) hmap option"
  mg_reply :: "string option"

section \<open>The server's surroundings\<close>

text \<open>
  The store, the parsers and request decoders (with the text of their error), the test of the manifest
  name, fresh version identifiers, the publisher of notifications, the last status of an application on
  its subject, the client that sends replies and the printer of a list of components.
\<close>

record ('w, 'b, 'd) handler =
  hd_bucket :: "('w, 'b) bucket"
  hd_codec :: "'b codec"
  hd_yaml :: "'b bytes \<Rightarrow> string + manifest"
  hd_json :: "'b bytes \<Rightarrow> string + manifest"
  hd_version_request :: "'b bytes \<Rightarrow> string + string option"
  hd_empty_request :: "'b bytes \<Rightarrow> string + unit"
  hd_name_ok :: "string \<Rightarrow> bool"
  hd_ulid :: "'w \<Rightarrow> string"
  hd_prefix :: string
  hd_event_data :: "event \<Rightarrow> 'd"
  hd_publish :: "string \<Rightarrow> 'd cloud_event \<Rightarrow> 'w \<Rightarrow> (string + unit) \<times> 'w"
  hd_last_status :: "string \<Rightarrow> 'w \<Rightarrow> status option \<times> 'w"
  hd_send :: "string \<Rightarrow> reply \<Rightarrow> 'w \<Rightarrow> 'w"
  hd_show_components :: "component list \<Rightarrow> string"

definition CONTENT_TYPE_HEADER :: string where "CONTENT_TYPE_HEADER = ''Content-Type''"
definition YAML_MIME :: string where "YAML_MIME = ''application/yaml''"
definition JSON_MIME :: string where "JSON_MIME = ''application/json''"

definition parse_yaml_or_json :: "('w, 'b, 'd) handler \<Rightarrow> 'b bytes \<Rightarrow> manifest outcome" where
  "parse_yaml_or_json h data =
     (case hd_yaml h data of
        Inr m \<Rightarrow> Ret m
      | Inl e \<Rightarrow>
          (case hd_json h data of
             Inr m \<Rightarrow> Ret m
           | Inl err \<Rightarrow> Err (''YAML parsing failed: '' @ e @ '': JSON parsing failed: '' @ err)))"

definition parse_manifest :: "('w, 'b, 'd) handler \<Rightarrow> 'b bytes \<Rightarrow> (string, string) hmap option \<Rightarrow> manifest outcome" where
  "parse_manifest h data headers =
     (case (case headers of None \<Rightarrow> None | Some hs \<Rightarrow> map_of hs CONTENT_TYPE_HEADER) of
        Some content_type \<Rightarrow>
          if content_type = JSON_MIME then of_sum (hd_json h data)
          else if content_type = YAML_MIME then of_sum (hd_yaml h data)
          else Err (''Unsupported content type '' @ content_type @ '' given. Wadm supports YAML and JSON'')
      | None \<Rightarrow> parse_yaml_or_json h data)"

section \<open>The notifier\<close>

definition notifier_prefix :: "string \<Rightarrow> string" where
  "notifier_prefix prefix = trim_chars {CHR ''.'', CHR ''>'', CHR ''*''} (trim prefix)"

definition send_event :: "('w, 'b, 'd) handler \<Rightarrow> string \<Rightarrow> string \<Rightarrow> event \<Rightarrow> (unit, 'w) io" where
  "send_event h lattice_id event_subject_key e =
     io_call (hd_publish h (hd_prefix h @ ''.'' @ lattice_id @ ''.'' @ event_subject_key)
       (event_to_cloud (hd_event_data h) e))"

definition notify_deployed :: "('w, 'b, 'd) handler \<Rightarrow> string \<Rightarrow> manifest \<Rightarrow> (unit, 'w) io" where
  "notify_deployed h lattice_id m = send_event h lattice_id ''manifest_published'' (ManifestPublished m)"

definition notify_undeployed :: "('w, 'b, 'd) handler \<Rightarrow> string \<Rightarrow> string \<Rightarrow> (unit, 'w) io" where
  "notify_undeployed h lattice_id name = send_event h lattice_id ''manifest_unpublished'' (ManifestUnpublished name)"

section \<open>Replies\<close>

definition send_reply :: "('w, 'b, 'd) handler \<Rightarrow> string option \<Rightarrow> reply \<Rightarrow> 'w \<Rightarrow> 'w" where
  "send_reply h topic r w = (case topic of Some t \<Rightarrow> hd_send h t r w | None \<Rightarrow> w)"

definition respond :: "('w, 'b, 'd) handler \<Rightarrow> 'b message \<Rightarrow> (reply, 'w) io \<Rightarrow> (unit, 'w) io" where
  "respond h msg m = io_bind m (\<lambda>r w. (Ret (), send_reply h (mg_reply msg) r w))"

abbreviation rejected :: "rejection \<Rightarrow> (reply, 'w) io" where
  "rejected r \<equiv> io_ret (ErrorReply r)"

section \<open>Putting an application\<close>

definition server_get where
  "server_get h = storage_get (hd_bucket h) (hd_codec h)"

definition server_set where
  "server_set h = storage_set (hd_bucket h) (hd_codec h)"

definition server_list where
  "server_list h = storage_list (hd_bucket h) (hd_codec h)"

definition server_delete where
  "server_delete h = storage_delete (hd_bucket h) (hd_codec h)"

lemmas server_store_defs = server_get_def server_set_def server_list_def server_delete_def

text \<open>The newest versions of the applications that have a deployed version, where shared.\<close>

definition deployed_shared_apps :: "stored_manifest list \<Rightarrow> manifest list outcome" where
  "deployed_shared_apps ss =
     obind (omap_list (\<lambda>s.
         if sm_deployed s = None then Ret None
         else obind (get_current s) (\<lambda>m. Ret (if manifest_shared m then Some m else None))) ss)
       (\<lambda>ms. Ret (List.map_filter (\<lambda>m. m) ms))"

text \<open>An accepted manifest is added to the history that was read at a revision, and the result stored.\<close>

definition put_stored ::
    "('w, 'b, 'd) handler \<Rightarrow> string option \<Rightarrow> string \<Rightarrow> manifest \<Rightarrow> string \<Rightarrow> stored_manifest \<Rightarrow> nat \<Rightarrow>
     stored_manifest list \<Rightarrow> (reply, 'w) io" where
  "put_stored h account_id lattice_id manifest manifest_name current_manifests current_revision all_stored_manifests =
     io_bind (io_lift (deployed_shared_apps all_stored_manifests)) (\<lambda>apps w.
       let missing = missing_shared_components manifest apps;
           message = ''Successfully put manifest '' @ manifest_name @ '' '' @ current_version current_manifests @
             (if missing = [] then []
              else '', but some shared components are not deployed: '' @ hd_show_components h missing);
           incoming_version = manifest_version manifest;
           (current', added) = add_version (hd_ulid h w) manifest current_manifests in
       (if \<not> added then rejected (VersionExists incoming_version)
        else
          let resp = \<lparr>pr_result = (if sm_count current' = 1 then PutCreated else PutNewVersion),
                pr_total_versions = sm_count current', pr_current_version = current_version current',
                pr_message = message, pr_name = manifest_name\<rparr> in
          io_match (server_set h account_id lattice_id current' (Some current_revision))
            (\<lambda>_. io_ret (PutReply resp))
            (\<lambda>_. rejected StorageFailure)) w)"

definition put_model_reply :: "('w, 'b, 'd) handler \<Rightarrow> 'b message \<Rightarrow> string option \<Rightarrow> string \<Rightarrow> (reply, 'w) io" where
  "put_model_reply h msg account_id lattice_id =
     io_match (io_lift (parse_manifest h (mg_payload msg) (mg_headers msg))) (\<lambda>manifest.
     let version_errors = verrors (validate_manifest_version (manifest_version manifest)) in
     if version_errors \<noteq> [] then rejected (BadVersion (map vf_msg version_errors)) else
     let manifest_name = trim (md_name (mf_metadata manifest)) in
     if \<not> valid (validate_manifest_name (hd_name_ok h) manifest_name) then rejected (BadName manifest_name) else
     io_match (server_get h account_id lattice_id manifest_name) (\<lambda>found.
     let (current_manifests, current_revision) = (case found of Some d \<Rightarrow> d | None \<Rightarrow> (sm_default, 0)) in
     io_match (io_lift (server_validate_manifest (hd_name_ok h) manifest)) (\<lambda>failure.
       case failure of
         Some f \<Rightarrow> rejected (Invalid f)
       | None \<Rightarrow>
           io_match (server_list h account_id lattice_id)
             (put_stored h account_id lattice_id manifest manifest_name current_manifests current_revision)
             (\<lambda>_. put_stored h account_id lattice_id manifest manifest_name current_manifests current_revision []))
     (\<lambda>e. rejected (InvalidText e)))
     (\<lambda>_. rejected StorageFailure))
     (\<lambda>e. rejected (BadManifest e))"

definition put_model where
  "put_model h msg account_id lattice_id = respond h msg (put_model_reply h msg account_id lattice_id)"

section \<open>Reading applications\<close>

text \<open>An empty payload is a request without a version.\<close>

definition version_request :: "('w, 'b, 'd) handler \<Rightarrow> 'b message \<Rightarrow> string option outcome" where
  "version_request h msg = (if mg_payload msg = [] then Ret None else of_sum (hd_version_request h (mg_payload msg)))"

definition get_model_reply ::
    "('w, 'b, 'd) handler \<Rightarrow> 'b message \<Rightarrow> string option \<Rightarrow> string \<Rightarrow> string \<Rightarrow> (reply, 'w) io" where
  "get_model_reply h msg account_id lattice_id name =
     io_match (io_lift (version_request h msg)) (\<lambda>version.
     io_match (server_get h account_id lattice_id name) (\<lambda>found.
       case found of
         None \<Rightarrow> io_ret (GetReply \<lparr>gr_result = GetNotFound,
           gr_message = ''Application with the name '' @ name @ '' not found'', gr_manifest = None\<rparr>)
       | Some (manifests, _) \<Rightarrow>
           (case version of
              Some v \<Rightarrow>
                (case get_version manifests v of
                   Some current \<Rightarrow> io_ret (GetReply \<lparr>gr_result = GetSuccess,
                     gr_message = ''Successfully fetched application '' @ name @ '' '' @ v, gr_manifest = Some current\<rparr>)
                 | None \<Rightarrow> io_ret (GetReply \<lparr>gr_result = GetNotFound,
                     gr_message = ''Application '' @ name @ '' with version '' @ v @ '' doesn't exist'',
                     gr_manifest = None\<rparr>))
            | None \<Rightarrow>
                io_bind (io_lift (get_current manifests)) (\<lambda>m. io_ret (GetReply \<lparr>gr_result = GetSuccess,
                  gr_message = ''Successfully fetched application '' @ name, gr_manifest = Some m\<rparr>))))
     (\<lambda>_. rejected StorageFailure))
     (\<lambda>e. rejected (BadRequest ''get'' e))"

definition get_model where
  "get_model h msg account_id lattice_id name = respond h msg (get_model_reply h msg account_id lattice_id name)"

text \<open>Older clients do not know \<open>Waiting\<close>.\<close>

definition summary_from_manifest_status :: "stored_manifest \<Rightarrow> status \<Rightarrow> model_summary outcome" where
  "summary_from_manifest_status s st =
     obind (sm_name s) (\<lambda>name. obind (get_current s) (\<lambda>current. Ret
       \<lparr>ms_name = name, ms_version = current_version s, ms_description = manifest_description current,
        ms_deployed_version = map_option manifest_version (get_deployed s), ms_detailed_status = st,
        ms_status = (if si_type (st_info st) = Waiting then Undeployed else si_type (st_info st)),
        ms_status_message = Some (si_message (st_info st))\<rparr>))"

definition get_manifest_status :: "('w, 'b, 'd) handler \<Rightarrow> string \<Rightarrow> string \<Rightarrow> 'w \<Rightarrow> status option \<times> 'w" where
  "get_manifest_status h lattice_id name w = hd_last_status h (''wadm.status.'' @ lattice_id @ ''.'' @ name) w"

definition no_status :: status where
  "no_status = status_new (si_waiting ''Waiting for status: Lattice contains no hosts, deployment not started.'') []"

definition application_summary :: "('w, 'b, 'd) handler \<Rightarrow> string \<Rightarrow> stored_manifest \<Rightarrow> (model_summary, 'w) io" where
  "application_summary h lattice_id s =
     io_bind (io_lift (sm_name s)) (\<lambda>name w.
       let (st, w') = get_manifest_status h lattice_id name w in
       (summary_from_manifest_status s (case st of Some x \<Rightarrow> x | None \<Rightarrow> no_status), w'))"

definition all_summaries :: "('w, 'b, 'd) handler \<Rightarrow> string \<Rightarrow> stored_manifest list \<Rightarrow> (model_summary list, 'w) io" where
  "all_summaries h lattice_id ss w =
     (let (rs, w') = io_join (map (application_summary h lattice_id) ss) w in (collect_results rs, w'))"

definition list_models_deprecated_reply :: "('w, 'b, 'd) handler \<Rightarrow> string option \<Rightarrow> string \<Rightarrow> (reply, 'w) io" where
  "list_models_deprecated_reply h account_id lattice_id =
     io_match (server_list h account_id lattice_id)
       (\<lambda>ss. io_bind (all_summaries h lattice_id ss) (\<lambda>models. io_ret (SummariesReply models)))
       (\<lambda>_. rejected StorageFailure)"

definition list_models_deprecated where
  "list_models_deprecated h msg account_id lattice_id =
     respond h msg (list_models_deprecated_reply h account_id lattice_id)"

definition list_models_reply :: "('w, 'b, 'd) handler \<Rightarrow> string option \<Rightarrow> string \<Rightarrow> (reply, 'w) io" where
  "list_models_reply h account_id lattice_id =
     io_match (server_list h account_id lattice_id)
       (\<lambda>ss. io_bind (all_summaries h lattice_id ss) (\<lambda>models.
          io_ret (ListReply \<lparr>lr_result = GetSuccess,
            lr_message = ''Successfully fetched list of applications'', lr_models = models\<rparr>)))
       (\<lambda>_. rejected StorageFailure)"

definition list_models where
  "list_models h msg account_id lattice_id = respond h msg (list_models_reply h account_id lattice_id)"

definition list_versions_reply ::
    "('w, 'b, 'd) handler \<Rightarrow> string option \<Rightarrow> string \<Rightarrow> string \<Rightarrow> (reply, 'w) io" where
  "list_versions_reply h account_id lattice_id name =
     io_match (server_get h account_id lattice_id name) (\<lambda>found. io_ret (VersionsReply
       (case found of
          Some (m, _) \<Rightarrow> \<lparr>vr_result = GetSuccess,
            vr_message = ''Successfully fetched versions for application '' @ name,
            vr_versions = map (\<lambda>v. \<lparr>vi_version = v, vi_deployed = is_deployed v m\<rparr>) (all_versions m)\<rparr>
        | None \<Rightarrow> \<lparr>vr_result = GetNotFound,
            vr_message = ''Application with the name '' @ name @ '' not found'', vr_versions = []\<rparr>)))
     (\<lambda>_. rejected StorageFailure)"

definition list_versions where
  "list_versions h msg account_id lattice_id name = respond h msg (list_versions_reply h account_id lattice_id name)"

definition default_status :: status where
  "default_status = status_new \<lparr>si_type = Undeployed, si_message = []\<rparr> []"

definition model_status_reply :: "('w, 'b, 'd) handler \<Rightarrow> string \<Rightarrow> string \<Rightarrow> (reply, 'w) io" where
  "model_status_reply h lattice_id name w =
     (let (st, w') = get_manifest_status h lattice_id name w in
      (Ret (StatusReply \<lparr>tr_result = StatusOk,
         tr_message = ''Successfully fetched status for application '' @ name,
         tr_status = Some (case st of Some x \<Rightarrow> x | None \<Rightarrow> default_status)\<rparr>), w'))"

definition model_status where
  "model_status h msg lattice_id name = respond h msg (model_status_reply h lattice_id name)"

end
