(* ===== verification/Api_Deploy.thy ===== *)
theory Api_Deploy
  imports Api_Server
begin

text \<open>
  The handlers of the API that change what is deployed (\<open>delete_model\<close>, \<open>deploy_model\<close> and
  \<open>undeploy_model\<close> in \<open>server/handlers.rs\<close>).
\<close>

section \<open>Deleting\<close>

definition delete_response :: "delete_result \<Rightarrow> string \<Rightarrow> bool \<Rightarrow> delete_model_response" where
  "delete_response r m u = \<lparr>xr_result = r, xr_message = m, xr_undeploy = u\<rparr>"

text \<open>Deleting one version of an application that is stored at a revision.\<close>

definition delete_one_version ::
    "('w, 'b, 'd) handler \<Rightarrow> string option \<Rightarrow> string \<Rightarrow> string \<Rightarrow> string \<Rightarrow> stored_manifest \<Rightarrow> nat \<Rightarrow>
     (delete_model_response, 'w) io" where
  "delete_one_version h account_id lattice_id name version current current_revision =
     (let (current, deleted) = delete_version version current in
      if deleted \<and> \<not> sm_is_empty current then
        let undeploy = (case sm_deployed current of None \<Rightarrow> False | Some v \<Rightarrow> v = version);
            current = (if undeploy then fst (sm_undeploy current) else current) in
        io_match (server_set h account_id lattice_id current (Some current_revision))
          (\<lambda>_. io_ret (delete_response DeleteDeleted
             (''Successfully deleted version '' @ version @ '' of application '' @ name) undeploy))
          (\<lambda>_. io_ret (delete_response DeleteError
             (''Internal storage error when deleting '' @ version @ '' of application '' @ name) False))
      else if deleted \<and> sm_is_empty current then
        io_match (server_delete h account_id lattice_id name)
          (\<lambda>_. io_ret (delete_response DeleteDeleted
             (''Successfully deleted last version of application '' @ name) True))
          (\<lambda>_. io_ret (delete_response DeleteDeleted
             (''Internal storage error when deleting '' @ version @ '' of application '' @ name) False))
      else io_ret (delete_response DeleteNoop (''Application version '' @ version @ '' doesn't exist'') False))"

definition delete_all_versions ::
    "('w, 'b, 'd) handler \<Rightarrow> string option \<Rightarrow> string \<Rightarrow> string \<Rightarrow> (delete_model_response, 'w) io" where
  "delete_all_versions h account_id lattice_id name =
     io_match (server_delete h account_id lattice_id name)
       (\<lambda>_. io_ret (delete_response DeleteDeleted (''Successfully deleted application '' @ name) True))
       (\<lambda>_. io_ret (delete_response DeleteError
          (''Internal storage error when deleting application '' @ name) False))"

definition delete_data ::
    "('w, 'b, 'd) handler \<Rightarrow> string option \<Rightarrow> string \<Rightarrow> string \<Rightarrow> string option \<Rightarrow> (delete_model_response, 'w) io" where
  "delete_data h account_id lattice_id name requested =
     io_match (server_get h account_id lattice_id name)
       (\<lambda>found.
          case found of
            Some (current, current_revision) \<Rightarrow>
              (case requested of
                 Some version \<Rightarrow> delete_one_version h account_id lattice_id name version current current_revision
               | None \<Rightarrow> delete_all_versions h account_id lattice_id name)
          | None \<Rightarrow> io_ret (delete_response DeleteNoop
              (''Application '' @ name @ '' doesn't exist or was already deleted'') False))
       (\<lambda>_. io_ret (delete_response DeleteError
          (''Internal storage error while fetching manifest data for application '' @ name) False))"

text \<open>A notification goes out even when there was nothing to delete.\<close>

definition notify_deleted ::
    "('w, 'b, 'd) handler \<Rightarrow> string \<Rightarrow> string \<Rightarrow> delete_model_response \<Rightarrow> (reply, 'w) io" where
  "notify_deleted h lattice_id name reply_data =
     (if xr_undeploy reply_data \<or> xr_result reply_data = DeleteNoop then
        io_match (notify_undeployed h lattice_id name)
          (\<lambda>_. io_ret (DeleteReply reply_data))
          (\<lambda>_. io_ret (DeleteReply (delete_response DeleteError
             ''Error notifying processors of newly undeployed manifest on delete. This is likely a transient error, so please retry the request. Please note that the response will say it is a noop, but will notify the processors''
             False)))
      else io_ret (DeleteReply reply_data))"

definition delete_model_reply ::
    "('w, 'b, 'd) handler \<Rightarrow> 'b message \<Rightarrow> string option \<Rightarrow> string \<Rightarrow> string \<Rightarrow> (reply, 'w) io" where
  "delete_model_reply h msg account_id lattice_id name =
     io_match (io_lift (version_request h msg))
       (\<lambda>requested. io_bind (delete_data h account_id lattice_id name requested) (notify_deleted h lattice_id name))
       (\<lambda>e. rejected (BadRequest ''delete'' e))"

definition delete_model where
  "delete_model h msg account_id lattice_id name = respond h msg (delete_model_reply h msg account_id lattice_id name)"

section \<open>Deploying\<close>

definition deploy_response :: "deploy_result \<Rightarrow> string \<Rightarrow> string \<Rightarrow> string option \<Rightarrow> deploy_model_response" where
  "deploy_response r m n v = \<lparr>dr_result = r, dr_message = m, dr_name = n, dr_version = v\<rparr>"

definition component_id :: "component \<Rightarrow> string option" where
  "component_id c = cp_id (props_of (co_properties c))"

text \<open>The ids that the manifest deployed for another application uses.\<close>

definition note_ids :: "string \<Rightarrow> manifest \<Rightarrow> (string, string) hmap \<Rightarrow> (string, string) hmap" where
  "note_ids owner m ids =
     fold (\<lambda>c ids. case component_id c of Some i \<Rightarrow> hm_insert i owner ids | None \<Rightarrow> ids) (mf_components m) ids"

text \<open>Every deployed application of the list is read again.\<close>

fun collect_ids ::
    "('w, 'b, 'd) handler \<Rightarrow> string option \<Rightarrow> string \<Rightarrow> string \<Rightarrow> stored_manifest list \<Rightarrow> (string, string) hmap \<Rightarrow>
     ((string, string) hmap, 'w) io" where
  "collect_ids h account_id lattice_id name [] ids = io_ret ids"
| "collect_ids h account_id lattice_id name (s # ss) ids =
     (if sm_deployed s = None then collect_ids h account_id lattice_id name ss ids
      else
        io_bind (io_lift (sm_name s)) (\<lambda>n.
        io_bind (server_get h account_id lattice_id n) (\<lambda>found.
        let stored_manifest = (case found of Some (m, _) \<Rightarrow> m | None \<Rightarrow> sm_default) in
        io_bind (io_lift (sm_name stored_manifest)) (\<lambda>owner.
        collect_ids h account_id lattice_id name ss
          (if owner = name then ids
           else (case get_deployed stored_manifest of None \<Rightarrow> ids | Some m \<Rightarrow> note_ids owner m ids))))))"

fun id_conflict :: "(string, string) hmap \<Rightarrow> component list \<Rightarrow> (string \<times> string) option" where
  "id_conflict ids [] = None"
| "id_conflict ids (c # cs) =
     (case component_id c of
        Some i \<Rightarrow> (case map_of ids i of Some owner \<Rightarrow> Some (i, owner) | None \<Rightarrow> id_conflict ids cs)
      | None \<Rightarrow> id_conflict ids cs)"

definition quoted :: "string \<Rightarrow> string" where
  "quoted s = CHR 0x27 # s @ [CHR 0x27]"

text \<open>The model staged for deployment: \<open>None\<close> when the requested version does not exist.\<close>

definition staged_model :: "stored_manifest \<Rightarrow> string option \<Rightarrow> manifest option outcome" where
  "staged_model s version =
     (case version of
        Some v \<Rightarrow>
          if v = LATEST_VERSION then obind (get_current s) (\<lambda>m. Ret (Some m))
          else Ret (get_version s v)
      | None \<Rightarrow> obind (get_current s) (\<lambda>m. Ret (Some m)))"

text \<open>The version is marked as deployed, the result stored, and the notification sent whatever came of that.\<close>

definition notify_deploy ::
    "('w, 'b, 'd) handler \<Rightarrow> string \<Rightarrow> string \<Rightarrow> manifest \<Rightarrow> deploy_model_response \<Rightarrow> (reply, 'w) io" where
  "notify_deploy h lattice_id name manifest reply =
     io_match (notify_deployed h lattice_id manifest)
       (\<lambda>_. io_ret (DeployReply reply))
       (\<lambda>_. io_ret (DeployReply (deploy_response DeployError
          ''Error notifying processors of newly deployed manifest. This is likely a transient error, so please retry the request''
          name (Some (manifest_version manifest)))))"

definition store_and_notify ::
    "('w, 'b, 'd) handler \<Rightarrow> string option \<Rightarrow> string \<Rightarrow> string \<Rightarrow> string option \<Rightarrow> stored_manifest \<Rightarrow> nat \<Rightarrow> (reply, 'w) io" where
  "store_and_notify h account_id lattice_id name version manifests current_revision =
     (let (manifests', ok) = sm_deploy version manifests in
      if \<not> ok then io_ret (DeployReply (deploy_response DeployError
        (''Application with the name '' @ name @ '' does not have the specified version to deploy'') name version))
      else
        io_bind (io_lift (or_panic (get_deployed manifests'))) (\<lambda>manifest.
        io_bind
          (io_match (server_set h account_id lattice_id manifests' (Some current_revision))
             (\<lambda>_. io_ret (deploy_response DeployAcknowledged
                (''Successfully deployed application '' @ name @ '' '' @ manifest_version manifest) name
                (Some (manifest_version manifest))))
             (\<lambda>_. io_ret (deploy_response DeployError ''Internal storage error'' name
                (Some (manifest_version manifest)))))
          (notify_deploy h lattice_id name manifest)))"

definition deploy_staged ::
    "('w, 'b, 'd) handler \<Rightarrow> string option \<Rightarrow> string \<Rightarrow> string \<Rightarrow> string option \<Rightarrow> stored_manifest \<Rightarrow> nat \<Rightarrow>
     stored_manifest list \<Rightarrow> manifest \<Rightarrow> (reply, 'w) io" where
  "deploy_staged h account_id lattice_id name version manifests current_revision stored_models staged =
     io_match (collect_ids h account_id lattice_id name stored_models [])
       (\<lambda>ids.
          case id_conflict ids (mf_components staged) of
            Some (i, owner) \<Rightarrow> rejected (IdTaken i owner)
          | None \<Rightarrow>
              io_bind (io_lift (deployed_shared_apps stored_models)) (\<lambda>apps.
              let missing = missing_shared_components staged apps in
              if missing \<noteq> [] then rejected (MissingShared (map co_name missing))
              else store_and_notify h account_id lattice_id name version manifests current_revision))
       (\<lambda>_. rejected StorageFailure)"

definition deploy_model_reply ::
    "('w, 'b, 'd) handler \<Rightarrow> 'b message \<Rightarrow> string option \<Rightarrow> string \<Rightarrow> string \<Rightarrow> (reply, 'w) io" where
  "deploy_model_reply h msg account_id lattice_id name =
     io_match (io_lift (version_request h msg)) (\<lambda>version.
     io_match (server_get h account_id lattice_id name) (\<lambda>found.
       case found of
         None \<Rightarrow> io_ret (DeployReply (deploy_response DeployNotFound
           (''Application with the name '' @ name @ '' not found'') name version))
       | Some (manifests, current_revision) \<Rightarrow>
           io_match (server_list h account_id lattice_id) (\<lambda>stored_models.
           io_bind (io_lift (staged_model manifests version)) (\<lambda>staged.
             case staged of
               None \<Rightarrow> io_ret (DeployReply (deploy_response DeployError
                 (''Application with the name '' @ quoted name @ '' does not have a version '' @ quoted (the version) @ '' to deploy'')
                 name version))
             | Some m \<Rightarrow>
                 deploy_staged h account_id lattice_id name version manifests current_revision stored_models m))
           (\<lambda>_. rejected StorageFailure))
     (\<lambda>_. rejected StorageFailure))
     (\<lambda>e. rejected (BadRequest ''deploy'' e))"

definition deploy_model where
  "deploy_model h msg account_id lattice_id name = respond h msg (deploy_model_reply h msg account_id lattice_id name)"

section \<open>Undeploying\<close>

definition undeploy_found ::
    "('w, 'b, 'd) handler \<Rightarrow> string option \<Rightarrow> string \<Rightarrow> string \<Rightarrow> stored_manifest \<Rightarrow> nat \<Rightarrow>
     (deploy_model_response, 'w) io" where
  "undeploy_found h account_id lattice_id name manifests current_revision =
     (let (manifests', undeployed) = sm_undeploy manifests in
      if undeployed then
        io_match (server_set h account_id lattice_id manifests' (Some current_revision))
          (\<lambda>_. io_ret (deploy_response DeployAcknowledged (''Successfully undeployed application '' @ name) name None))
          (\<lambda>_. io_ret (deploy_response DeployError ''Internal storage error'' name None))
      else io_ret (deploy_response DeployAcknowledged (''Application '' @ name @ '' was already undeployed'') name None))"

text \<open>The notification is sent again when the application was undeployed before.\<close>

definition notify_undeploy ::
    "('w, 'b, 'd) handler \<Rightarrow> string \<Rightarrow> string \<Rightarrow> deploy_model_response \<Rightarrow> (reply, 'w) io" where
  "notify_undeploy h lattice_id name reply =
     (if dr_result reply = DeployAcknowledged then
        io_match (notify_undeployed h lattice_id name)
          (\<lambda>_. io_ret (DeployReply reply))
          (\<lambda>_. io_ret (DeployReply (deploy_response DeployError
             ''Error notifying processors of undeployed manifest. This is likely a transient error, so please retry the request''
             name None)))
      else io_ret (DeployReply reply))"

definition undeploy_model_reply ::
    "('w, 'b, 'd) handler \<Rightarrow> 'b message \<Rightarrow> string option \<Rightarrow> string \<Rightarrow> string \<Rightarrow> (reply, 'w) io" where
  "undeploy_model_reply h msg account_id lattice_id name =
     io_match (io_lift (if mg_payload msg = [] then Ret () else of_sum (hd_empty_request h (mg_payload msg)))) (\<lambda>_.
     io_match (server_get h account_id lattice_id name) (\<lambda>found.
       case found of
         None \<Rightarrow> io_ret (DeployReply (deploy_response DeployNotFound
           (''Application with the name '' @ name @ '' not found'') name None))
       | Some (manifests, current_revision) \<Rightarrow>
           io_bind (undeploy_found h account_id lattice_id name manifests current_revision)
             (notify_undeploy h lattice_id name))
     (\<lambda>_. rejected StorageFailure))
     (\<lambda>e. rejected (BadRequest ''undeploy'' e))"

definition undeploy_model where
  "undeploy_model h msg account_id lattice_id name = respond h msg (undeploy_model_reply h msg account_id lattice_id name)"

end
