(* ===== verification/Api_Dispatch.thy ===== *)
theory Api_Dispatch
  imports Api_Deploy
begin

text \<open>
  The API server itself (\<open>server/mod.rs\<close>): its configuration, the parsing of a subject and the dispatch of
  the messages to the handlers. The subscription is the list of messages it delivers; when it ends,
  so does the server, with an error. A panic of a handler ends it too.
\<close>

record server =
  sv_prefix :: string
  sv_multitenant :: bool

definition DEFAULT_WADM_TOPIC_PREFIX :: string where "DEFAULT_WADM_TOPIC_PREFIX = ''wadm.api''"

text \<open>The server and the topic it subscribes to.\<close>

definition server_new :: "string option \<Rightarrow> bool \<Rightarrow> (server \<times> string) outcome" where
  "server_new topic_prefix multitenant =
     (let prefix = trim_chars {CHR ''.''} (trim (case topic_prefix of Some p \<Rightarrow> p | None \<Rightarrow> DEFAULT_WADM_TOPIC_PREFIX)) in
      if prefix = [] then Err ''Given prefix was empty''
      else Ret (\<lparr>sv_prefix = prefix, sv_multitenant = multitenant\<rparr>,
        (if multitenant then ''*.'' @ prefix else prefix) @ ''.>''))"

record parsed_subject =
  ps_account_id :: "string option"
  ps_lattice_id :: string
  ps_category :: string
  ps_operation :: string
  ps_object_name :: "string option"

definition parse_subject :: "server \<Rightarrow> string \<Rightarrow> parsed_subject outcome" where
  "parse_subject sv subject =
     obind
       (if sv_multitenant sv
        then (case split_once CHR ''.'' subject of
                Some (account_id, rest) \<Rightarrow> Ret (Some account_id, rest)
              | None \<Rightarrow> Err ''Expected to find account ID in multitenant subject'')
        else Ret (None, subject))
       (\<lambda>(account_id, subject).
          case split_on CHR ''.'' (dropWhile (\<lambda>c. c = CHR ''.'') (trim_front [sv_prefix sv] subject)) of
            [] \<Rightarrow> Err ''Expected to find lattice ID''
          | [_] \<Rightarrow> Err ''Expected to find API category''
          | [_, _] \<Rightarrow> Err ''Expected to find operation''
          | lattice_id # category # operation # rest \<Rightarrow>
              if length rest > 1 then Err ''Found extra components of subject, ensure your manifest name consists of only alphanumeric characters, dashes, and underscores.''
              else Ret \<lparr>ps_account_id = account_id, ps_lattice_id = lattice_id, ps_category = category,
                ps_operation = operation, ps_object_name = (case rest of [] \<Rightarrow> None | n # _ \<Rightarrow> Some n)\<rparr>)"

definition reject :: "('w, 'b, 'd) handler \<Rightarrow> 'b message \<Rightarrow> rejection \<Rightarrow> (unit, 'w) io" where
  "reject h msg r = respond h msg (rejected r)"

text \<open>The arms in the source's order.\<close>

definition dispatch :: "('w, 'b, 'd) handler \<Rightarrow> 'b message \<Rightarrow> parsed_subject \<Rightarrow> (unit, 'w) io" where
  "dispatch h msg p =
     (let account = ps_account_id p; lattice = ps_lattice_id p; op = ps_operation p in
      case (ps_category p = ''model'', ps_object_name p) of
        (True, None) \<Rightarrow>
          if op = ''list'' then list_models_deprecated h msg account lattice
          else if op = ''get'' then list_models h msg account lattice
          else if op = ''put'' then put_model h msg account lattice
          else reject h msg (UnsupportedSubject (mg_subject msg))
      | (True, Some name) \<Rightarrow>
          if op = ''get'' then get_model h msg account lattice name
          else if op = ''del'' then delete_model h msg account lattice name
          else if op = ''versions'' then list_versions h msg account lattice name
          else if op = ''deploy'' then deploy_model h msg account lattice name
          else if op = ''undeploy'' then undeploy_model h msg account lattice name
          else if op = ''status'' then model_status h msg lattice name
          else if op = ''history'' then reject h msg NoHistory
          else reject h msg (UnsupportedSubject (mg_subject msg))
      | (False, _) \<Rightarrow> reject h msg (UnsupportedSubject (mg_subject msg)))"

definition serve_message :: "server \<Rightarrow> ('w, 'b, 'd) handler \<Rightarrow> 'b message \<Rightarrow> (unit, 'w) io" where
  "serve_message sv h msg =
     (if \<not> starts_with (sv_prefix sv) (mg_subject msg) \<and> \<not> sv_multitenant sv then io_ret ()
      else case parse_subject sv (mg_subject msg) of
             Ret p \<Rightarrow> dispatch h msg p
           | Err e \<Rightarrow> reject h msg (BadSubject e)
           | Panic \<Rightarrow> io_lift Panic)"

fun serve :: "server \<Rightarrow> ('w, 'b, 'd) handler \<Rightarrow> 'b message list \<Rightarrow> (unit, 'w) io" where
  "serve sv h [] = io_lift (Err ''Subscriber terminated'')"
| "serve sv h (msg # msgs) = io_bind (serve_message sv h msg) (\<lambda>_. serve sv h msgs)"

end
