(* ===== verification/Storage_Properties.thy ===== *)
theory Storage_Properties
  imports Model_Storage
begin

text \<open>
  What the storage of the manifests promises. \<open>model_contract\<close> states what the NATS bucket documents
  while other writers act; \<open>reliable\<close> and \<open>codec_ok\<close> describe a bucket and an encoding that do not fail,
  with no other writer. Under them the storage refines a finite map from application names to stored
  manifests (\<open>app_at\<close>).
\<close>

section \<open>Time only moves forward\<close>

definition advances :: "('w \<Rightarrow> 'w \<Rightarrow> bool) \<Rightarrow> ('a, 'w) io \<Rightarrow> bool" where
  "advances later m = (\<forall>w r w'. m w = (r, w') \<longrightarrow> later w w')"

definition is_order :: "('w \<Rightarrow> 'w \<Rightarrow> bool) \<Rightarrow> bool" where
  "is_order later = ((\<forall>w. later w w) \<and> (\<forall>a b c. later a b \<and> later b c \<longrightarrow> later a c))"

named_theorems advance_intros \<open>an operation moves time forward\<close>

lemma advancesD: "advances later m \<Longrightarrow> m w = (r, w') \<Longrightarrow> later w w'"
  by (simp add: advances_def)

lemma is_order_trans: "is_order later \<Longrightarrow> later a b \<Longrightarrow> later b c \<Longrightarrow> later a c"
  unfolding is_order_def by blast

lemma is_order_refl: "is_order later \<Longrightarrow> later a a"
  unfolding is_order_def by blast

lemma advances_lift [advance_intros]: "is_order later \<Longrightarrow> advances later (io_lift r)"
  by (simp add: advances_def is_order_refl)

lemma advances_match [advance_intros]:
  assumes "is_order later" and "advances later m" and "\<And>x. advances later (f x)" and "\<And>e. advances later (g e)"
  shows "advances later (io_match m f g)"
  unfolding advances_def
proof (intro allI impI)
  fix w r w'
  assume e: "io_match m f g w = (r, w')"
  obtain q w1 where m: "m w = (q, w1)" by fastforce
  have "later w w1" using assms(2) m by (rule advancesD)
  moreover have "later w1 w'"
    using e assms(1,3,4) by (cases q) (auto simp: m advances_def is_order_refl)
  ultimately show "later w w'" by (rule is_order_trans [OF assms(1)])
qed

lemma advances_bind [advance_intros]:
  "is_order later \<Longrightarrow> advances later m \<Longrightarrow> (\<And>x. advances later (f x)) \<Longrightarrow> advances later (io_bind m f)"
  unfolding io_bind_def by (intro advance_intros)

lemma advances_call:
  "(\<And>w r w'. c w = (r, w') \<Longrightarrow> later w w') \<Longrightarrow> advances later (io_call c)"
  by (auto simp: advances_def io_call_def split: prod.splits sum.splits)

lemma advances_join:
  assumes "is_order later" and "\<And>m. m \<in> set ms \<Longrightarrow> advances later m"
  shows "io_join ms w = (rs, w') \<Longrightarrow> later w w'"
  using assms(2)
proof (induction ms arbitrary: w rs w')
  case Nil
  then show ?case by (simp add: is_order_refl [OF assms(1)])
next
  case (Cons m ms)
  obtain r w1 where m: "m w = (r, w1)" by fastforce
  obtain rs' w2 where j: "io_join ms w1 = (rs', w2)" by fastforce
  have "later w w1" using Cons.prems(2) [of m] m by (auto dest: advancesD)
  moreover have "later w1 w2" using Cons.IH [OF j] Cons.prems(2) by simp
  ultimately show ?case using Cons.prems(1) m j is_order_trans [OF assms(1)] by auto
qed

section \<open>The contract of the bucket\<close>

definition writes_at ::
    "('w \<Rightarrow> string \<Rightarrow> 'b kv_entry option) \<Rightarrow> string \<Rightarrow> 'b bytes \<Rightarrow> 'w \<Rightarrow> 'w \<Rightarrow> bool" where
  "writes_at view k d w w' =
     (\<exists>e. view w' = (view w)(k \<mapsto> e) \<and> ke_value e = d \<and> \<not> ke_removed e \<and> 0 < ke_revision e)"

definition model_contract ::
    "('w \<Rightarrow> string \<Rightarrow> 'b kv_entry option) \<Rightarrow> ('w \<Rightarrow> 'w \<Rightarrow> bool) \<Rightarrow> ('w, 'b) bucket \<Rightarrow> bool" where
  "model_contract view later b =
     (kv_contract view later (bk_entry b) (bk_update b) \<and>
      (\<forall>w k e. view w k = Some e \<longrightarrow> 0 < ke_revision e) \<and>
      (\<forall>k d w r w'. bk_put b k d w = (r, w') \<longrightarrow> later w w' \<and>
         (r = Inr () \<longrightarrow> (\<exists>w1. later w w1 \<and> later w1 w' \<and> writes_at view k d w1 w'))) \<and>
      (\<forall>k w r w'. bk_purge b k w = (r, w') \<longrightarrow> later w w'))"

lemma contract_kv: "model_contract view later b \<Longrightarrow> kv_contract view later (bk_entry b) (bk_update b)"
  by (simp add: model_contract_def)

lemma contract_revision: "model_contract view later b \<Longrightarrow> view w k = Some e \<Longrightarrow> 0 < ke_revision e"
  by (simp add: model_contract_def)

lemma contract_order: "model_contract view later b \<Longrightarrow> is_order later"
  unfolding is_order_def by (metis contract_kv kv_later_refl kv_later_trans)

lemma advances_entry: "model_contract view later b \<Longrightarrow> advances later (io_call (bk_entry b k))"
  by (rule advances_call) (meson contract_kv kv_entry)

lemma advances_update: "model_contract view later b \<Longrightarrow> advances later (io_call (bk_update b k d rv))"
  by (rule advances_call) (meson contract_kv kv_update)

lemma advances_put: "model_contract view later b \<Longrightarrow> advances later (io_call (bk_put b k d))"
  by (rule advances_call) (auto simp: model_contract_def)

lemma advances_purge: "model_contract view later b \<Longrightarrow> advances later (io_call (bk_purge b k))"
  by (rule advances_call) (auto simp: model_contract_def)

lemmas advances_bucket = advances_entry advances_update advances_put advances_purge

lemma advances_get: "model_contract view later b \<Longrightarrow> advances later (storage_get b c a l n)"
  unfolding storage_get_def
  by (intro advance_intros advances_bucket contract_order)

lemma advances_names: "model_contract view later b \<Longrightarrow> advances later (get_model_set b c a l)"
  unfolding get_model_set_def by (intro advance_intros advances_bucket contract_order)

lemma advances_update_names:
  "model_contract view later b \<Longrightarrow> advances later again \<Longrightarrow>
     advances later (update_names b c a l operation again names revision)"
  unfolding update_names_def
  by (auto intro!: advance_intros advances_bucket contract_order split: option.split)

lemma advances_retry: "model_contract view later b \<Longrightarrow> advances later (retry_model_update n b c a l operation)"
  by (induction n)
    (auto simp: Let_def intro!: advance_intros contract_order advances_names advances_update_names
      split: option.split model_name_operation.split prod.split)

lemma advances_set: "model_contract view later b \<Longrightarrow> advances later (storage_set b c a l s rv)"
  unfolding storage_set_def Let_def
  by (auto intro!: advance_intros advances_bucket contract_order advances_retry split: option.split)

lemma advances_list:
  assumes "model_contract view later b"
  shows "advances later (storage_list b c a l)"
proof -
  note o = contract_order [OF assms]
  have "advances later (\<lambda>w. let (rs, w') = io_join (map (storage_get b c a l) names) w in (f rs, w'))" for names f
    unfolding advances_def
    by (auto simp: split: prod.splits dest!: advances_join [OF o, rotated] intro: advances_get [OF assms])
  then show ?thesis
    unfolding storage_list_def Let_def by (intro advance_intros o advances_names [OF assms])
qed

lemma advances_delete: "model_contract view later b \<Longrightarrow> advances later (storage_delete b c a l n)"
  unfolding storage_delete_def
  by (intro advance_intros contract_order advances_bucket advances_retry)

section \<open>Moments of a read and of a write\<close>

definition codec_ok :: "'b codec \<Rightarrow> bool" where
  "codec_ok c =
     ((\<forall>s d. cd_model c s = Inr d \<longrightarrow> cd_of_model c d = Inr s) \<and>
      (\<forall>ns d. cd_names c ns = Inr d \<longrightarrow> cd_of_names c d = Inr ns))"

text \<open>The application stored under a name, when there is one that decodes.\<close>

definition app_at ::
    "'b codec \<Rightarrow> ('w \<Rightarrow> string \<Rightarrow> 'b kv_entry option) \<Rightarrow> string option \<Rightarrow> string \<Rightarrow> 'w \<Rightarrow> string \<Rightarrow> stored_manifest option" where
  "app_at c view account_id lattice_id w name =
     (case view w (model_key account_id lattice_id name) of
        None \<Rightarrow> None
      | Some e \<Rightarrow> if ke_removed e then None
                  else (case cd_of_model c (ke_value e) of Inl _ \<Rightarrow> None | Inr s \<Rightarrow> Some s))"

lemma app_at_written:
  assumes "writes_at view (model_key a l n) d w w'" and "cd_of_model c d = Inr s"
  shows "app_at c view a l w' n = Some s"
  using assms by (auto simp: app_at_def writes_at_def)

lemma get_Ret:
  assumes "storage_get b c a l n w = (Ret r, w')"
  obtains e where "bk_entry b (model_key a l n) w = (Inr e, w')" and
    "(case e of None \<Rightarrow> Ret None
      | Some entry \<Rightarrow>
          if ke_removed entry then Ret None
          else obind (of_sum (cd_of_model c (ke_value entry))) (\<lambda>m. Ret (Some (m, ke_revision entry)))) = Ret r"
  using assms
  by (auto simp: storage_get_def io_bind_def io_match_def io_call_def split: prod.splits sum.splits)

lemma get_moment:
  assumes "model_contract view later b" and "storage_get b c a l n w = (Ret r, w')"
  shows "later w w' \<and> app_at c view a l w' n = map_option fst r \<and>
    (\<forall>s rv. r = Some (s, rv) \<longrightarrow> rv = revision_of (view w' (model_key a l n)) \<and> 0 < rv)"
proof (rule get_Ret [OF assms(2)])
  fix e
  assume e: "bk_entry b (model_key a l n) w = (Inr e, w')"
    and r: "(case e of None \<Rightarrow> Ret None
      | Some entry \<Rightarrow>
          if ke_removed entry then Ret None
          else obind (of_sum (cd_of_model c (ke_value entry))) (\<lambda>m. Ret (Some (m, ke_revision entry)))) = Ret r"
  have k: "later w w'" "view w' (model_key a l n) = e"
    using kv_entry [OF contract_kv [OF assms(1)] e] by simp_all
  show ?thesis
  proof (cases e)
    case None
    with r k show ?thesis by (auto simp: app_at_def)
  next
    case (Some x)
    then have "0 < ke_revision x" using contract_revision [OF assms(1), of w'] k by simp
    moreover have "if ke_removed x then r = None
        else (\<exists>m. cd_of_model c (ke_value x) = Inr m \<and> r = Some (m, ke_revision x))"
      using r Some by (cases "cd_of_model c (ke_value x)") (auto simp: of_sum_def split: if_split_asm)
    moreover have "view w' (model_key a l n) = Some x" using k(2) Some by simp
    ultimately show ?thesis
      using k(1) by (cases "ke_removed x") (force simp: app_at_def revision_of_def)+
  qed
qed

lemma get_later: "model_contract view later b \<Longrightarrow> storage_get b c a l n w = (r, w') \<Longrightarrow> later w w'"
  using advances_get advancesD by metis

lemma kv_writes:
  assumes "model_contract view later b" and "bk_update b k d rv w = (Inr (), w')"
  shows "\<exists>w1. later w w1 \<and> later w1 w' \<and> revision_of (view w1 k) = rv \<and> writes_at view k d w1 w'"
proof -
  from kv_update [OF contract_kv [OF assms(1)] assms(2)]
  obtain w1 x where "later w w1" "later w1 w'" "revision_of (view w1 k) = rv" "view w' = (view w1)(k \<mapsto> x)"
    "ke_value x = d" "\<not> ke_removed x" by blast
  moreover from this(4) have "0 < ke_revision x" using contract_revision [OF assms(1), of w' k x] by simp
  ultimately show ?thesis unfolding writes_at_def by blast
qed

lemma kv_puts:
  assumes "model_contract view later b" and "bk_put b k d w = (Inr (), w')"
  shows "\<exists>w1. later w w1 \<and> later w1 w' \<and> writes_at view k d w1 w'"
proof -
  have "\<forall>k d w r w'. bk_put b k d w = (r, w') \<longrightarrow> later w w' \<and>
         (r = Inr () \<longrightarrow> (\<exists>w1. later w w1 \<and> later w1 w' \<and> writes_at view k d w1 w'))"
    using assms(1) unfolding model_contract_def by (elim conjE)
  from this [rule_format, OF assms(2)] show ?thesis by simp
qed

text \<open>A successful \<open>set\<close> wrote the model at one moment, and only there; with a revision, at that revision.\<close>

lemma set_moment:
  assumes m: "model_contract view later b" and "codec_ok c"
    and run: "storage_set b c a l s (Some rv) w = (Ret (), w')" and n: "sm_name s = Ret n"
  shows "\<exists>w1 w2 d. later w w1 \<and> later w1 w2 \<and> later w2 w' \<and> writes_at view (model_key a l n) d w1 w2 \<and>
     app_at c view a l w2 n = Some s \<and> (0 < rv \<longrightarrow> revision_of (view w1 (model_key a l n)) = rv)"
proof -
  let ?k = "model_key a l n"
  let ?r = "retry_model_update MODEL_UPDATE_ATTEMPTS b c a l (AddName n)"
  obtain d where d: "cd_model c s = Inr d"
    using run by (cases "cd_model c s") (auto simp: storage_set_def n of_sum_def)
  define put where "put = (if rv > 0 then bk_update b ?k d rv else bk_put b ?k d)"
  have "io_bind (io_call put) (\<lambda>_. ?r) w = (Ret (), w')"
    using run d by (cases "rv > 0") (simp_all add: storage_set_def n of_sum_def put_def)
  then obtain w2 where p: "put w = (Inr (), w2)" and r: "?r w2 = (Ret (), w')"
    by (elim io_bind_RetE) simp
  have "later w2 w'" using advances_retry [OF m] r by (rule advancesD)
  moreover obtain w1 where w1: "later w w1" "later w1 w2" "writes_at view ?k d w1 w2"
      "0 < rv \<longrightarrow> revision_of (view w1 ?k) = rv"
  proof (cases "0 < rv")
    case True
    with p have "bk_update b ?k d rv w = (Inr (), w2)" by (simp add: put_def)
    from kv_writes [OF m this] that show thesis by blast
  next
    case False
    with p have "bk_put b ?k d w = (Inr (), w2)" by (simp add: put_def)
    from kv_puts [OF m this] that False show thesis by blast
  qed
  moreover have "app_at c view a l w2 n = Some s"
    using w1(3) d assms(2) by (auto simp: codec_ok_def intro!: app_at_written)
  ultimately show ?thesis by blast
qed

text \<open>Between a read and a write at the revision read, the application did not change.\<close>

lemma unchanged_at_revision:
  assumes "model_contract view later b" and "later w w1"
    and "revision_of (view w1 (model_key a l n)) = revision_of (view w (model_key a l n))"
  shows "app_at c view a l w1 n = app_at c view a l w n"
  using kv_same [OF contract_kv [OF assms(1)] assms(2) assms(3) [symmetric]] by (simp add: app_at_def)

end
