(* ===== verification/Storage_Refinement.thy ===== *)
theory Storage_Refinement
  imports Storage_Properties
begin

text \<open>
  With a bucket and an encoding that do not fail and no other writer, the storage of the manifests
  implements a finite map from application names to stored manifests.
\<close>

section \<open>A bucket without failures\<close>

definition reliable :: "('w \<Rightarrow> string \<Rightarrow> 'b kv_entry option) \<Rightarrow> ('w, 'b) bucket \<Rightarrow> bool" where
  "reliable view b =
     ((\<forall>k w. bk_entry b k w = (Inr (view w k), w)) \<and>
      (\<forall>k d w. \<exists>w'. bk_update b k d (revision_of (view w k)) w = (Inr (), w') \<and> writes_at view k d w w') \<and>
      (\<forall>k d w. \<exists>w'. bk_put b k d w = (Inr (), w') \<and> writes_at view k d w w') \<and>
      (\<forall>k w. \<exists>w' e. bk_purge b k w = (Inr (), w') \<and> view w' = (view w)(k \<mapsto> e) \<and> ke_removed e \<and> 0 < ke_revision e))"

definition codec_total :: "'b codec \<Rightarrow> bool" where
  "codec_total c =
     (codec_ok c \<and> (\<forall>s. \<exists>d. cd_model c s = Inr d) \<and> (\<forall>ns. \<exists>d. cd_names c ns = Inr d))"

lemma reliable_entry: "reliable view b \<Longrightarrow> bk_entry b k w = (Inr (view w k), w)"
  by (simp add: reliable_def)

lemma reliable_update:
  assumes "reliable view b" and "rv = revision_of (view w k)"
  obtains w' where "bk_update b k d rv w = (Inr (), w')" and "writes_at view k d w w'"
proof -
  have "\<forall>k d w. \<exists>w'. bk_update b k d (revision_of (view w k)) w = (Inr (), w') \<and> writes_at view k d w w'"
    using assms(1) unfolding reliable_def by (elim conjE)
  with assms(2) that show thesis by blast
qed

lemma reliable_put:
  assumes "reliable view b"
  obtains w' where "bk_put b k d w = (Inr (), w')" and "writes_at view k d w w'"
proof -
  have "\<forall>k d w. \<exists>w'. bk_put b k d w = (Inr (), w') \<and> writes_at view k d w w'"
    using assms unfolding reliable_def by (elim conjE)
  with that show thesis by blast
qed

lemma reliable_purge:
  assumes "reliable view b"
  obtains w' e where "bk_purge b k w = (Inr (), w')" and "view w' = (view w)(k \<mapsto> e)"
    and "ke_removed e" and "0 < ke_revision e"
proof -
  have "\<forall>k w. \<exists>w' e. bk_purge b k w = (Inr (), w') \<and> view w' = (view w)(k \<mapsto> e) \<and> ke_removed e \<and> 0 < ke_revision e"
    using assms unfolding reliable_def by (elim conjE)
  with that show thesis by blast
qed

lemma codec_totalE:
  assumes "codec_total c"
  obtains d where "cd_model c s = Inr d" and "cd_of_model c d = Inr s"
  using assms unfolding codec_total_def codec_ok_def by meson

lemma codec_total_namesE:
  assumes "codec_total c"
  obtains d where "cd_names c ns = Inr d" and "cd_of_names c d = Inr ns"
  using assms unfolding codec_total_def codec_ok_def by meson

section \<open>The invariant of the store\<close>

definition names_at ::
    "'b codec \<Rightarrow> ('w \<Rightarrow> string \<Rightarrow> 'b kv_entry option) \<Rightarrow> string option \<Rightarrow> string \<Rightarrow> 'w \<Rightarrow> string list option" where
  "names_at c view account_id lattice_id w =
     (case view w (model_set_key account_id lattice_id) of
        None \<Rightarrow> Some []
      | Some e \<Rightarrow> if ke_removed e then None
                  else (case cd_of_names c (ke_value e) of Inl _ \<Rightarrow> None | Inr ns \<Rightarrow> Some ns))"

definition readable ::
    "'b codec \<Rightarrow> ('w \<Rightarrow> string \<Rightarrow> 'b kv_entry option) \<Rightarrow> string option \<Rightarrow> string \<Rightarrow> 'w \<Rightarrow> bool" where
  "readable c view a l w =
     ((\<forall>n e. view w (model_key a l n) = Some e \<longrightarrow> ke_removed e \<or> (\<exists>s. cd_of_model c (ke_value e) = Inr s)) \<and>
      (\<forall>k e. view w k = Some e \<longrightarrow> 0 < ke_revision e))"

definition app_ok :: "string \<Rightarrow> stored_manifest \<Rightarrow> bool" where
  "app_ok n s =
     (sm_ok s \<and> sm_manifests s \<noteq> [] \<and> (\<forall>(v, m) \<in> set (sm_manifests s). md_name (mf_metadata m) = n))"

lemma app_ok_name:
  assumes "app_ok n s"
  shows "sm_name s = Ret n"
proof -
  obtain v m where l: "last (sm_manifests s) = (v, m)" by fastforce
  have "(v, m) \<in> set (sm_manifests s)" using last_in_set [of "sm_manifests s"] assms l by (simp add: app_ok_def)
  with assms have "md_name (mf_metadata m) = n" unfolding app_ok_def by blast
  with assms l show ?thesis by (simp add: app_ok_def sm_name_def get_current_if)
qed

lemma app_ok_current: "app_ok n s \<Longrightarrow> \<exists>m. get_current s = Ret m"
  by (simp add: app_ok_def get_current_if)

text \<open>The set of names is exact, and every stored manifest is well-formed, not empty and under its own name.\<close>

definition store_ok ::
    "'b codec \<Rightarrow> ('w \<Rightarrow> string \<Rightarrow> 'b kv_entry option) \<Rightarrow> string option \<Rightarrow> string \<Rightarrow> 'w \<Rightarrow> bool" where
  "store_ok c view a l w =
     (readable c view a l w \<and>
      (\<exists>ns. names_at c view a l w = Some ns \<and> sorted ns \<and> distinct ns \<and> set ns = dom (app_at c view a l w)) \<and>
      (\<forall>n s. app_at c view a l w n = Some s \<longrightarrow> app_ok n s))"

lemma key_neq [simp]: "model_key a l n \<noteq> model_set_key a l" "model_set_key a l \<noteq> model_key a l n"
proof -
  have "length (model_key a l n) \<noteq> length (model_set_key a l)"
    by (cases a) (auto simp: model_key_def model_set_key_def)
  then show "model_key a l n \<noteq> model_set_key a l" "model_set_key a l \<noteq> model_key a l n" by auto
qed

lemma key_inj [simp]: "model_key a l n = model_key a l n' \<longleftrightarrow> n = n'"
  by (cases a) (auto simp: model_key_def)

section \<open>Reading\<close>

lemma get_exact:
  assumes "reliable view b" and "readable c view a l w"
  shows "storage_get b c a l n w =
    (Ret (map_option (\<lambda>s. (s, revision_of (view w (model_key a l n)))) (app_at c view a l w n)), w)"
proof (cases "view w (model_key a l n)")
  case None
  then show ?thesis
    by (simp add: storage_get_def io_bind_def io_match_def io_call_def reliable_entry [OF assms(1)] app_at_def)
next
  case (Some e)
  with assms(2) have "ke_removed e \<or> (\<exists>s. cd_of_model c (ke_value e) = Inr s)"
    unfolding readable_def by blast
  with Some show ?thesis
    by (auto simp: storage_get_def io_bind_def io_match_def io_call_def reliable_entry [OF assms(1)] app_at_def
        of_sum_def revision_of_def)
qed

lemma names_exact:
  assumes "reliable view b" and "names_at c view a l w = Some ns"
  shows "get_model_set b c a l w =
    (Ret (if view w (model_set_key a l) = None then None
          else Some (ns, revision_of (view w (model_set_key a l)))), w) \<and>
    (view w (model_set_key a l) = None \<longrightarrow> ns = [])"
  using assms(2)
  by (auto simp: get_model_set_def io_bind_def io_match_def io_call_def reliable_entry [OF assms(1)]
      names_at_def of_sum_def revision_of_def split: option.splits if_splits sum.splits)

lemma join_gets:
  assumes "reliable view b" and "readable c view a l w"
  shows "io_join (map (storage_get b c a l) ns) w =
    (map (\<lambda>n. Ret (map_option (\<lambda>s. (s, revision_of (view w (model_key a l n)))) (app_at c view a l w n))) ns, w)"
  by (induction ns) (simp_all add: get_exact [OF assms])

lemma collect_Ret [simp]: "collect_results (map (\<lambda>x. Ret (f x)) xs) = Ret (map f xs)"
proof -
  have "omap_list (\<lambda>r. r) (map (\<lambda>x. Ret (f x)) xs) = Ret (map f xs)" by (induction xs) simp_all
  then show ?thesis by (auto simp: collect_results_def)
qed

lemma collect_Nil [simp]: "collect_results [] = Ret []"
  by (simp add: collect_results_def)

lemma list_exact:
  assumes "reliable view b" and "store_ok c view a l w"
  obtains ns where "names_at c view a l w = Some ns" and "set ns = dom (app_at c view a l w)" and "distinct ns"
    and "storage_list b c a l w = (Ret (map (\<lambda>n. the (app_at c view a l w n)) ns), w)"
proof -
  from assms(2) obtain ns where ns: "names_at c view a l w = Some ns" "distinct ns"
      "set ns = dom (app_at c view a l w)" and r: "readable c view a l w"
    unfolding store_ok_def by blast
  note g = names_exact [OF assms(1) ns(1)]
  have f: "map fst (List.map_filter (\<lambda>m. m) (map (\<lambda>n. map_option (\<lambda>s. (s, h n)) (app_at c view a l w n)) ms)) =
      map (\<lambda>n. the (app_at c view a l w n)) ms" if "set ms \<subseteq> dom (app_at c view a l w)" for ms and h :: "string \<Rightarrow> nat"
    using that by (induction ms) (auto simp: map_filter_simps)
  have "storage_list b c a l w = (Ret (map (\<lambda>n. the (app_at c view a l w n)) ns), w)"
    using g ns(3) f [of ns "\<lambda>n. revision_of (view w (model_key a l n))"]
    by (auto simp: storage_list_def join_gets [OF assms(1) r] Let_def map_filter_simps)
  with ns that show thesis by blast
qed

section \<open>Writing\<close>

lemma app_at_other:
  assumes "view w' = (view w)(k \<mapsto> e)" and "k \<noteq> model_key a l n"
  shows "app_at c view a l w' n = app_at c view a l w n"
  using assms by (simp add: app_at_def)

lemma writes_entry:
  assumes "writes_at view k d w w'"
  obtains e where "view w' = (view w)(k \<mapsto> e)" and "ke_value e = d" and "\<not> ke_removed e" and "0 < ke_revision e"
  using assms unfolding writes_at_def by blast

text \<open>With no other writer, the first attempt to change the set of names succeeds.\<close>

lemma retry_exact:
  fixes operation :: model_name_operation
  assumes r: "reliable view b" and c: "codec_total c" and ok: "readable c view a l w"
    and ns: "names_at c view a l w = Some ns" and sorted: "sorted ns" "distinct ns"
  defines "wanted \<equiv> (case operation of AddName n \<Rightarrow> insert n (set ns) | DeleteName n \<Rightarrow> set ns - {n})"
  obtains w' ns' where "retry_model_update (Suc m) b c a l operation w = (Ret (), w')"
    and "names_at c view a l w' = Some ns'" and "sorted ns'" and "distinct ns'" and "set ns' = wanted"
    and "\<And>n. view w' (model_key a l n) = view w (model_key a l n)"
    and "readable c view a l w'"
proof -
  let ?k = "model_set_key a l"
  let ?again = "retry_model_update m b c a l operation"
  let ?rv = "revision_of (view w ?k)"
  note found = names_exact [OF r ns]
  have run: "retry_model_update (Suc m) b c a l operation w =
      (if view w ?k = None \<and> (\<exists>n. operation = DeleteName n) then (Ret (), w)
       else update_names b c a l operation ?again ns ?rv w)"
    using found by (auto simp: revision_of_def split: model_name_operation.split)
  show thesis
  proof (cases "change_names operation ns")
    case None
    then have "set ns = wanted"
      by (auto simp: change_names_def wanted_def split: model_name_operation.splits if_splits)
    moreover have "retry_model_update (Suc m) b c a l operation w = (Ret (), w)"
      unfolding run by (simp add: update_names_def None)
    ultimately show thesis using that [of w ns] ns sorted ok by simp
  next
    case (Some ns')
    have ns': "set ns' = wanted" "sorted ns'" "distinct ns'" "\<not> (view w ?k = None \<and> (\<exists>n. operation = DeleteName n))"
      using Some sorted found
      by (auto simp: change_names_def wanted_def set_insort_insert sorted_insort_insert distinct_insort_insert
          set_remove1_eq sorted_remove1 split: model_name_operation.splits if_splits)
    obtain d where d: "cd_names c ns' = Inr d" "cd_of_names c d = Inr ns'" by (rule codec_total_namesE [OF c])
    obtain w' where u: "bk_update b ?k d ?rv w = (Inr (), w')" "writes_at view ?k d w w'"
      by (rule reliable_update [OF r refl])
    obtain e where e: "view w' = (view w)(?k \<mapsto> e)" "ke_value e = d" "\<not> ke_removed e" "0 < ke_revision e"
      using u(2) by (rule writes_entry)
    have "retry_model_update (Suc m) b c a l operation w = (Ret (), w')"
      unfolding run if_not_P [OF ns'(4)] using u(1)
      by (simp add: update_names_def Some d(1) of_sum_def io_match_def io_call_def)
    moreover have "names_at c view a l w' = Some ns'" by (simp add: names_at_def e d)
    moreover have "readable c view a l w'" using ok e by (auto simp: readable_def)
    moreover have "view w' (model_key a l n) = view w (model_key a l n)" for n by (simp add: e)
    ultimately show thesis using that [of w' ns'] ns' by blast
  qed
qed

lemma store_okI:
  assumes "readable c view a l w" and "names_at c view a l w = Some ns" and "sorted ns" and "distinct ns"
    and "set ns = dom (app_at c view a l w)"
    and "\<And>n s. app_at c view a l w n = Some s \<Longrightarrow> app_ok n s"
  shows "store_ok c view a l w"
  using assms unfolding store_ok_def by blast

lemma app_at_same:
  "(\<And>n. view w' (model_key a l n) = view w (model_key a l n)) \<Longrightarrow> app_at c view a l w' = app_at c view a l w"
  by (simp add: app_at_def fun_eq_iff)

lemma names_same:
  "view w' = (view w)(model_key a l n \<mapsto> e) \<Longrightarrow> names_at c view a l w' = names_at c view a l w"
  by (simp add: names_at_def)

text \<open>Storing a model at the revision read, or without one, updates the map.\<close>

lemma set_exact:
  assumes r: "reliable view b" and c: "codec_total c" and ok: "store_ok c view a l w"
    and s: "app_ok n s"
    and rv: "0 < rv \<Longrightarrow> rv = revision_of (view w (model_key a l n))"
  obtains w' where "storage_set b c a l s (Some rv) w = (Ret (), w')" and "store_ok c view a l w'"
    and "app_at c view a l w' = (app_at c view a l w)(n \<mapsto> s)"
proof -
  let ?k = "model_key a l n"
  from ok obtain ns where rd: "readable c view a l w" and ns: "names_at c view a l w = Some ns" "sorted ns"
      "distinct ns" "set ns = dom (app_at c view a l w)"
    and apps: "\<And>n s. app_at c view a l w n = Some s \<Longrightarrow> app_ok n s"
    unfolding store_ok_def by blast
  obtain d where d: "cd_model c s = Inr d" "cd_of_model c d = Inr s" by (rule codec_totalE [OF c])
  define put where "put = (if rv > 0 then bk_update b ?k d rv else bk_put b ?k d)"
  obtain w1 where p: "put w = (Inr (), w1)" "writes_at view ?k d w w1"
  proof (cases "0 < rv")
    case True
    obtain w1 where "bk_update b ?k d rv w = (Inr (), w1)" "writes_at view ?k d w w1"
      by (rule reliable_update [OF r rv [OF True]])
    with True that show thesis by (simp add: put_def)
  next
    case False
    obtain w1 where "bk_put b ?k d w = (Inr (), w1)" "writes_at view ?k d w w1"
      by (rule reliable_put [OF r])
    with False that show thesis by (simp add: put_def)
  qed
  obtain e where e: "view w1 = (view w)(?k \<mapsto> e)" "ke_value e = d" "\<not> ke_removed e" "0 < ke_revision e"
    using p(2) by (rule writes_entry)
  have a1: "app_at c view a l w1 = (app_at c view a l w)(n \<mapsto> s)"
  proof
    fix n'
    show "app_at c view a l w1 n' = ((app_at c view a l w)(n \<mapsto> s)) n'"
      by (cases "n' = n") (simp_all add: app_at_def e d)
  qed
  have rd1: "readable c view a l w1" using rd e d by (auto simp: readable_def)
  have ns1: "names_at c view a l w1 = Some ns" using names_same [of view w1 w a l n e c] ns(1) e(1) by simp
  obtain w' ns' where retry: "retry_model_update (Suc 2) b c a l (AddName n) w1 = (Ret (), w')"
    and ns': "names_at c view a l w' = Some ns'" "sorted ns'" "distinct ns'" "set ns' = insert n (set ns)"
    and same: "\<And>n. view w' (model_key a l n) = view w1 (model_key a l n)" and rd': "readable c view a l w'"
    by (rule retry_exact [OF r c rd1 ns1 ns(2,3), where operation = "AddName n" and m = 2,
          unfolded model_name_operation.case], rule that, assumption+)
  have a': "app_at c view a l w' = (app_at c view a l w)(n \<mapsto> s)" using app_at_same [of view w' a l w1 c, OF same] a1 by simp
  have "storage_set b c a l s (Some rv) w = (Ret (), w')"
    using retry p(1) d(1)
    by (cases "0 < rv") (simp_all add: storage_set_def app_ok_name [OF s] of_sum_def put_def MODEL_UPDATE_ATTEMPTS_def io_bind_def
        io_match_def io_call_def eval_nat_numeral)
  moreover have "store_ok c view a l w'"
    using rd' ns' ns(4) apps s by (intro store_okI) (auto simp: a' split: if_splits)
  ultimately show thesis using that a' by blast
qed

lemma delete_exact:
  assumes r: "reliable view b" and c: "codec_total c" and ok: "store_ok c view a l w"
  obtains w' where "storage_delete b c a l n w = (Ret (), w')" and "store_ok c view a l w'"
    and "app_at c view a l w' = (app_at c view a l w)(n := None)"
proof -
  from ok obtain ns where rd: "readable c view a l w" and ns: "names_at c view a l w = Some ns" "sorted ns"
      "distinct ns" "set ns = dom (app_at c view a l w)"
    and apps: "\<And>n s. app_at c view a l w n = Some s \<Longrightarrow> app_ok n s"
    unfolding store_ok_def by blast
  obtain w1 ns' where retry: "retry_model_update (Suc 2) b c a l (DeleteName n) w = (Ret (), w1)"
    and ns': "names_at c view a l w1 = Some ns'" "sorted ns'" "distinct ns'" "set ns' = set ns - {n}"
    and same: "\<And>n. view w1 (model_key a l n) = view w (model_key a l n)" and rd1: "readable c view a l w1"
    by (rule retry_exact [OF r c rd ns(1,2,3), where operation = "DeleteName n" and m = 2,
          unfolded model_name_operation.case], rule that, assumption+)
  obtain w' e where p: "bk_purge b (model_key a l n) w1 = (Inr (), w')" "view w' = (view w1)(model_key a l n \<mapsto> e)"
      "ke_removed e" "0 < ke_revision e"
    by (rule reliable_purge [OF r])
  have a': "app_at c view a l w' = (app_at c view a l w)(n := None)"
  proof
    fix n'
    show "app_at c view a l w' n' = ((app_at c view a l w)(n := None)) n'"
      by (cases "n' = n") (simp_all add: app_at_def p same)
  qed
  have del: "storage_delete b c a l n w = (Ret (), w')"
    using retry p(1)
    by (simp add: storage_delete_def MODEL_UPDATE_ATTEMPTS_def io_bind_def io_match_def io_call_def eval_nat_numeral)
  have "readable c view a l w'" using rd1 p by (auto simp: readable_def)
  moreover have "names_at c view a l w' = Some ns'" using names_same [of view w' w1 a l n e c] ns'(1) p(2) by simp
  ultimately have "store_ok c view a l w'"
    using ns' ns(4) apps by (intro store_okI) (auto simp: a' split: if_splits)
  with del a' show thesis using that by blast
qed

end
