(* ===== verification/Api_Refinement.thy ===== *)
theory Api_Refinement
  imports Api_Dispatch Storage_Refinement
begin

text \<open>
  The API as an abstract machine: a finite map from application names to stored manifests, with the
  transitions that the requests may make (\<open>api_step\<close>). The handlers, over a store that does not fail and
  that only this server writes, make such a transition and answer; a run of the server is a run of the
  abstract machine. Invariants are proved on the machine.
\<close>

section \<open>The abstract machine\<close>

type_synonym apps = "string \<rightharpoonup> stored_manifest"

definition manifest_ids :: "manifest \<Rightarrow> string set" where
  "manifest_ids m = {i. \<exists>c \<in> set (mf_components m). component_id c = Some i}"

text \<open>The ids in use by the deployed manifest of an application.\<close>

definition deployed_ids :: "apps \<Rightarrow> string \<Rightarrow> string set" where
  "deployed_ids apps n =
     (case apps n of None \<Rightarrow> {} | Some s \<Rightarrow> (case get_deployed s of None \<Rightarrow> {} | Some m \<Rightarrow> manifest_ids m))"

text \<open>A shared component is served by the newest version of a deployed, shared application.\<close>

definition serves :: "apps \<Rightarrow> shared_application \<Rightarrow> properties \<Rightarrow> bool" where
  "serves apps app props \<longleftrightarrow>
     (\<exists>n s m. apps n = Some s \<and> sm_deployed s \<noteq> None \<and> get_current s = Ret m \<and> manifest_shared m \<and>
        provides_shared m app props)"

definition shared_served :: "apps \<Rightarrow> manifest \<Rightarrow> bool" where
  "shared_served apps m \<longleftrightarrow>
     (\<forall>c \<in> set (mf_components m). \<forall>app. cp_image (props_of (co_properties c)) = None \<longrightarrow>
        cp_application (props_of (co_properties c)) = Some app \<longrightarrow> serves apps app (co_properties c))"

definition deployable :: "apps \<Rightarrow> string \<Rightarrow> string option \<Rightarrow> manifest \<Rightarrow> bool" where
  "deployable apps n version m \<longleftrightarrow>
     (\<exists>s. apps n = Some s \<and> staged_model s version = Ret (Some m)) \<and>
     (\<forall>n'. n' \<noteq> n \<longrightarrow> manifest_ids m \<inter> deployed_ids apps n' = {}) \<and> shared_served apps m"

definition app_or_new :: "apps \<Rightarrow> string \<Rightarrow> stored_manifest" where
  "app_or_new apps n = (case apps n of None \<Rightarrow> sm_default | Some s \<Rightarrow> s)"

text \<open>Deleting a version undeploys it.\<close>

definition drop_version :: "string \<Rightarrow> stored_manifest \<Rightarrow> stored_manifest" where
  "drop_version v s =
     (let s' = fst (delete_version v s) in if is_deployed v s then fst (sm_undeploy s') else s')"

inductive api_step :: "apps \<Rightarrow> apps \<Rightarrow> bool" where
  step_put: "md_name (mf_metadata m) = n \<Longrightarrow> add_version ulid m (app_or_new apps n) = (s', True) \<Longrightarrow>
     api_step apps (apps(n \<mapsto> s'))"
| step_deploy: "deployable apps n version m \<Longrightarrow> apps n = Some s \<Longrightarrow> sm_deploy version s = (s', True) \<Longrightarrow>
     get_deployed s' = Some m \<Longrightarrow> api_step apps (apps(n \<mapsto> s'))"
| step_undeploy: "apps n = Some s \<Longrightarrow> api_step apps (apps(n \<mapsto> fst (sm_undeploy s)))"
| step_drop: "apps n = Some s \<Longrightarrow> v \<in> set (all_versions s) \<Longrightarrow> drop_version v s = s' \<Longrightarrow> sm_manifests s' \<noteq> [] \<Longrightarrow>
     api_step apps (apps(n \<mapsto> s'))"
| step_delete: "api_step apps (apps(n := None))"
| step_read: "api_step apps apps"

inductive_cases api_stepE: "api_step apps apps'"

definition apps_ok :: "apps \<Rightarrow> bool" where
  "apps_ok apps \<longleftrightarrow> (\<forall>n s. apps n = Some s \<longrightarrow> app_ok n s)"

definition ids_disjoint :: "apps \<Rightarrow> bool" where
  "ids_disjoint apps \<longleftrightarrow> (\<forall>n n'. n \<noteq> n' \<longrightarrow> deployed_ids apps n \<inter> deployed_ids apps n' = {})"

section \<open>Invariants of the abstract machine\<close>

lemma app_ok_add:
  assumes "app_ok n s \<or> s = sm_default" and "md_name (mf_metadata m) = n" and "add_version ulid m s = (s', True)"
  shows "app_ok n s'"
proof (rule add_version_cases [of ulid m s])
  fix v m'
  assume a: "add_version ulid m s = (s\<lparr>sm_manifests := sm_manifests s @ [(v, m')]\<rparr>, True)"
    "md_name (mf_metadata m') = md_name (mf_metadata m)"
  have "sm_ok s'" using sm_ok_add [of s ulid m] assms by (auto simp: app_ok_def intro: sm_ok_default)
  with a assms show ?thesis by (auto simp: app_ok_def sm_default_def)
next
  assume "add_version ulid m s = (s, False)"
  with assms(3) show ?thesis by simp
qed

lemma app_ok_deploy: "app_ok n s \<Longrightarrow> sm_deploy version s = (s', True) \<Longrightarrow> app_ok n s'"
  using sm_ok_deploy [of s version]
  by (auto simp: app_ok_def sm_deploy_def split: option.splits if_splits)

lemma app_ok_undeploy: "app_ok n s \<Longrightarrow> app_ok n (fst (sm_undeploy s))"
  using sm_ok_undeploy [of s] by (auto simp: app_ok_def sm_undeploy_def)

lemma app_ok_drop:
  assumes "app_ok n s" and "sm_manifests (drop_version v s) \<noteq> []"
  shows "app_ok n (drop_version v s)"
proof -
  have sub: "set (AList.delete v (sm_manifests s)) \<subseteq> set (sm_manifests s)" by (auto simp: AList.delete_eq)
  have ok: "sm_ok s" using assms(1) by (simp add: app_ok_def)
  have "sm_ok (drop_version v s)"
  proof (cases "is_deployed v s")
    case False
    with sm_ok_delete [OF ok False] show ?thesis by (simp add: drop_version_def)
  next
    case True
    have "drop_version v s = fst (delete_version v (s\<lparr>sm_deployed := None\<rparr>))"
      using True by (simp add: drop_version_def delete_version_def sm_undeploy_def)
    moreover have "sm_ok (s\<lparr>sm_deployed := None\<rparr>)" using ok by (simp add: sm_ok_def)
    moreover have "\<not> is_deployed v (s\<lparr>sm_deployed := None\<rparr>)" by (simp add: is_deployed_def)
    ultimately show ?thesis using sm_ok_delete by metis
  qed
  with assms sub show ?thesis
    by (auto simp: app_ok_def drop_version_def delete_version_def sm_undeploy_def Let_def split: if_splits)
qed

lemma apps_ok_step:
  assumes "api_step apps apps'" and "apps_ok apps"
  shows "apps_ok apps'"
  using assms
proof (cases rule: api_step.cases)
  case (step_put m n ulid s')
  then show ?thesis
    using assms(2) app_ok_add [of n "app_or_new apps n" m ulid s']
    by (auto simp: apps_ok_def app_or_new_def split: option.splits)
next
  case (step_drop n s v s')
  then show ?thesis using assms(2) app_ok_drop [of n s v] by (auto simp: apps_ok_def)
qed (auto simp: apps_ok_def intro: app_ok_deploy app_ok_undeploy split: if_splits)

text \<open>Only a deployment changes the ids in use to anything but a part of themselves.\<close>

lemma deployed_ids_upd [simp]:
  "deployed_ids (apps(n \<mapsto> s)) n' =
     (if n' = n then (case get_deployed s of None \<Rightarrow> {} | Some m \<Rightarrow> manifest_ids m) else deployed_ids apps n')"
  "deployed_ids (apps(n := None)) n' = (if n' = n then {} else deployed_ids apps n')"
  by (simp_all add: deployed_ids_def)

lemma deployed_add:
  assumes "sm_ok s" and "add_version ulid m s = (s', True)"
  shows "get_deployed s' = get_deployed s"
proof (rule add_version_cases [of ulid m s])
  fix v m'
  assume a: "add_version ulid m s = (s\<lparr>sm_manifests := sm_manifests s @ [(v, m')]\<rparr>, True)"
    and v: "v \<notin> set (all_versions s)"
  have s': "s' = s\<lparr>sm_manifests := sm_manifests s @ [(v, m')]\<rparr>" using a assms(2) by simp
  show ?thesis
  proof (cases "sm_deployed s")
    case (Some w)
    with assms(1) have "w \<in> set (all_versions s)" by (simp add: sm_ok_def)
    with v Some show ?thesis
      by (auto simp: s' get_deployed_def map_add_def all_versions_def map_of_eq_None_iff split: option.splits)
  qed (simp add: s' get_deployed_def)
next
  assume "add_version ulid m s = (s, False)"
  with assms(2) show ?thesis by simp
qed

lemma deployed_drop: "get_deployed (drop_version v s) = (if is_deployed v s then None else get_deployed s)"
  by (auto simp: drop_version_def delete_version_def sm_undeploy_def get_deployed_def is_deployed_def Let_def
      delete_conv split: option.splits)

lemma ids_disjointI:
  assumes "ids_disjoint apps" and "\<And>n'. n' \<noteq> n \<Longrightarrow> deployed_ids apps' n' = deployed_ids apps n'"
    and "\<And>n'. n' \<noteq> n \<Longrightarrow> deployed_ids apps' n \<inter> deployed_ids apps n' = {}"
  shows "ids_disjoint apps'"
  using assms unfolding ids_disjoint_def by (metis Int_commute)

lemma ids_disjoint_sub:
  assumes "ids_disjoint apps" and "\<And>n. deployed_ids apps' n \<subseteq> deployed_ids apps n"
  shows "ids_disjoint apps'"
  using assms unfolding ids_disjoint_def by blast

lemma ids_disjoint_step:
  assumes "api_step apps apps'" and "apps_ok apps" and "ids_disjoint apps"
  shows "ids_disjoint apps'"
  using assms(1)
proof (cases rule: api_step.cases)
  case (step_put m n ulid s')
  have "sm_ok (app_or_new apps n)"
    using assms(2) by (auto simp: apps_ok_def app_ok_def app_or_new_def intro: sm_ok_default split: option.split)
  from deployed_add [OF this step_put(3)] have "deployed_ids apps' n' = deployed_ids apps n'" for n'
    by (auto simp: step_put(1) deployed_ids_def app_or_new_def get_deployed_def sm_default_def split: option.splits)
  with assms(3) show ?thesis by (simp add: ids_disjoint_def)
next
  case (step_deploy n version m s s')
  then show ?thesis
    by (intro ids_disjointI [OF assms(3), of n]) (auto simp: deployable_def)
next
  case (step_undeploy n s)
  then show ?thesis
    by (intro ids_disjoint_sub [OF assms(3)]) (auto simp: sm_undeploy_def get_deployed_def)
next
  case (step_drop n s v s')
  then show ?thesis
    by (intro ids_disjoint_sub [OF assms(3)]) (auto simp: deployed_drop deployed_ids_def split: if_splits)
next
  case (step_delete n)
  then show ?thesis by (intro ids_disjoint_sub [OF assms(3)]) (auto split: if_splits)
qed (simp add: assms(3))

section \<open>A calm world\<close>

text \<open>
  The store does not fail and the other services leave it alone; the regular expression of the names
  admits no white space; no request carries a manifest on which the validation panics.
\<close>

definition calm :: "('w \<Rightarrow> string \<Rightarrow> 'b kv_entry option) \<Rightarrow> ('w, 'b, 'd) handler \<Rightarrow> bool" where
  "calm view h =
     (reliable view (hd_bucket h) \<and> codec_total (hd_codec h) \<and>
      (\<forall>t e w. view (snd (hd_publish h t e w)) = view w) \<and>
      (\<forall>t w. view (snd (hd_last_status h t w)) = view w) \<and>
      (\<forall>t r w. view (hd_send h t r w) = view w) \<and>
      (\<forall>n. hd_name_ok h n \<longrightarrow> trim n = n) \<and>
      (\<forall>d m. hd_yaml h d = Inr m \<or> hd_json h d = Inr m \<longrightarrow> validate_manifest (hd_name_ok h) m \<noteq> Panic))"

lemma calm_reliable: "calm view h \<Longrightarrow> reliable view (hd_bucket h)" and
  calm_codec: "calm view h \<Longrightarrow> codec_total (hd_codec h)" and
  calm_publish: "calm view h \<Longrightarrow> view (snd (hd_publish h t e w)) = view w" and
  calm_status: "calm view h \<Longrightarrow> view (snd (hd_last_status h t w)) = view w" and
  calm_send: "calm view h \<Longrightarrow> view (hd_send h t r w) = view w" and
  calm_name: "calm view h \<Longrightarrow> hd_name_ok h n \<Longrightarrow> trim n = n" and
  calm_yaml: "calm view h \<Longrightarrow> hd_yaml h d = Inr m \<Longrightarrow> validate_manifest (hd_name_ok h) m \<noteq> Panic" and
  calm_json: "calm view h \<Longrightarrow> hd_json h d = Inr m \<Longrightarrow> validate_manifest (hd_name_ok h) m \<noteq> Panic"
  unfolding calm_def by blast+

abbreviation apps_of where
  "apps_of view h a l w \<equiv> app_at (hd_codec h) view a l w"

abbreviation server_ok where
  "server_ok view h a l w \<equiv> store_ok (hd_codec h) view a l w"

text \<open>An operation ends with a result, in a store that is still right, after one step of the machine.\<close>

definition steps ::
    "('w \<Rightarrow> string \<Rightarrow> 'b kv_entry option) \<Rightarrow> ('w, 'b, 'd) handler \<Rightarrow> string option \<Rightarrow> string \<Rightarrow> 'w \<Rightarrow> ('a, 'w) io \<Rightarrow> bool" where
  "steps view h a l w m =
     (\<exists>x w'. m w = (Ret x, w') \<and> server_ok view h a l w' \<and> api_step (apps_of view h a l w) (apps_of view h a l w'))"

named_theorems steps_intros \<open>operations that leave the applications alone\<close>

lemma same_view:
  assumes "view w' = view w"
  shows "store_ok c view a l w' = store_ok c view a l w" "app_at c view a l w' = app_at c view a l w"
proof -
  show app: "app_at c view a l w' = app_at c view a l w" by (simp add: app_at_def fun_eq_iff assms)
  show "store_ok c view a l w' = store_ok c view a l w"
    unfolding store_ok_def app readable_def names_at_def assms ..
qed

lemma stepsI:
  assumes "m w = (Ret x, w')" and "server_ok view h a l w'" and "api_step (apps_of view h a l w) (apps_of view h a l w')"
  shows "steps view h a l w m"
  using assms unfolding steps_def by blast

lemma steps_ret [steps_intros]: "server_ok view h a l w \<Longrightarrow> steps view h a l w (io_ret x)"
  by (rule stepsI) (auto intro: step_read)

lemma steps_Pair: "server_ok view h a l w \<Longrightarrow> steps view h a l w (Pair (Ret x))"
  by (rule stepsI) (auto intro: step_read)

lemma steps_same:
  assumes "m w = (Ret x, w')" and "view w' = view w" and "server_ok view h a l w"
  shows "steps view h a l w m"
  using assms(1)
  by (rule stepsI) (simp_all add: same_view [OF assms(2)] assms(3) step_read)

text \<open>After the step, operations that do not touch the store may follow.\<close>

definition harmless :: "('w \<Rightarrow> string \<Rightarrow> 'b kv_entry option) \<Rightarrow> ('a, 'w) io \<Rightarrow> bool" where
  "harmless view m = (\<forall>w. \<exists>x w'. m w = (Ret x, w') \<and> view w' = view w)"

lemma steps_then:
  assumes "steps view h a l w m" and "\<And>x. harmless view (f x)"
  shows "steps view h a l w (io_bind m f)"
proof -
  obtain x w1 where m: "m w = (Ret x, w1)" "server_ok view h a l w1"
      "api_step (apps_of view h a l w) (apps_of view h a l w1)"
    using assms(1) unfolding steps_def by blast
  obtain y w2 where f: "f x w1 = (Ret y, w2)" "view w2 = view w1"
    using assms(2) unfolding harmless_def by blast
  show ?thesis using m f(1) by (intro stepsI [of _ _ y w2]) (simp_all add: same_view [OF f(2)])
qed

lemma harmless_ret: "harmless view (io_ret x)"
  by (simp add: harmless_def)

lemma harmless_event:
  assumes "calm view h" and "\<And>x. harmless view (f x)" and "\<And>e. harmless view (g e)"
  shows "harmless view (io_match (send_event h l k e) f g)"
  unfolding harmless_def
proof
  fix w
  let ?c = "hd_publish h (hd_prefix h @ ''.'' @ l @ ''.'' @ k) (event_to_cloud (hd_event_data h) e)"
  obtain q w1 where p: "?c w = (q, w1)" by fastforce
  have v: "view w1 = view w"
    using calm_publish [OF assms(1)] p snd_conv by metis
  show "\<exists>x w'. io_match (send_event h l k e) f g w = (Ret x, w') \<and> view w' = view w"
  proof (cases q)
    case (Inl x)
    with p have "io_match (send_event h l k e) f g w = g x w1" by (simp add: send_event_def)
    with assms(3) v show ?thesis unfolding harmless_def by metis
  next
    case (Inr x)
    with p have "io_match (send_event h l k e) f g w = f x w1" by (simp add: send_event_def)
    with assms(2) v show ?thesis unfolding harmless_def by metis
  qed
qed

lemma harmless_notify:
  assumes "calm view h"
  shows "(\<And>x. harmless view (f x)) \<Longrightarrow> (\<And>e. harmless view (g e)) \<Longrightarrow> harmless view (io_match (notify_deployed h l m) f g)"
    and "(\<And>x. harmless view (f x)) \<Longrightarrow> (\<And>e. harmless view (g e)) \<Longrightarrow> harmless view (io_match (notify_undeployed h l n) f g)"
  unfolding notify_deployed_def notify_undeployed_def by (rule harmless_event [OF assms]; assumption)+

lemma harmless_reply: "calm view h \<Longrightarrow> harmless view (\<lambda>w. (Ret (), send_reply h t r w))"
  by (auto simp: harmless_def send_reply_def calm_send split: option.split)

lemma steps_respond: "calm view h \<Longrightarrow> steps view h a l w m \<Longrightarrow> steps view h a l w (respond h msg m)"
  unfolding respond_def by (rule steps_then) (auto intro: harmless_reply)

section \<open>The handlers step\<close>

text \<open>What the store answers in a calm world.\<close>

lemma calm_get:
  assumes "calm view h" and "server_ok view h a l w"
  shows "server_get h a l n w =
    (Ret (map_option (\<lambda>s. (s, revision_of (view w (model_key a l n)))) (apps_of view h a l w n)), w)"
  using get_exact [OF calm_reliable [OF assms(1)]] assms(2) by (simp add: server_get_def store_ok_def)

lemma server_apps_ok: "server_ok view h a l w \<Longrightarrow> apps_ok (apps_of view h a l w)"
  by (simp add: store_ok_def apps_ok_def)

lemma ran_app_ok: "apps_ok apps \<Longrightarrow> s \<in> ran apps \<Longrightarrow> \<exists>n. apps n = Some s \<and> app_ok n s"
  by (auto simp: apps_ok_def ran_def)

lemma calm_list:
  assumes "calm view h" and "server_ok view h a l w"
  obtains ss where "set ss = ran (apps_of view h a l w)" and "server_list h a l w = (Ret ss, w)"
    and "\<forall>s \<in> set ss. \<exists>m. get_current s = Ret m"
proof -
  obtain ns where ns: "set ns = dom (apps_of view h a l w)"
    and l: "storage_list (hd_bucket h) (hd_codec h) a l w = (Ret (map (\<lambda>n. the (apps_of view h a l w n)) ns), w)"
    by (rule list_exact [OF calm_reliable [OF assms(1)] assms(2)])
  have "(\<lambda>n. the (f n)) ` dom f = ran f" for f :: "string \<rightharpoonup> stored_manifest"
    by (force simp: ran_def)
  then have "set (map (\<lambda>n. the (apps_of view h a l w n)) ns) = ran (apps_of view h a l w)" using ns by simp
  moreover have "server_list h a l w = (Ret (map (\<lambda>n. the (apps_of view h a l w n)) ns), w)"
    using l by (simp only: server_list_def)
  moreover have "\<forall>s \<in> ran (apps_of view h a l w). \<exists>m. get_current s = Ret m"
    using ran_app_ok [OF server_apps_ok [OF assms(2)]] app_ok_current by blast
  ultimately show thesis using that by metis
qed

lemma calm_set:
  assumes "calm view h" and "server_ok view h a l w" and "app_ok n s"
    and "0 < rv \<Longrightarrow> rv = revision_of (view w (model_key a l n))"
  obtains w' where "server_set h a l s (Some rv) w = (Ret (), w')" and "server_ok view h a l w'"
    and "apps_of view h a l w' = (apps_of view h a l w)(n \<mapsto> s)"
  using set_exact [OF calm_reliable [OF assms(1)] calm_codec [OF assms(1)] assms(2,3,4)]
  unfolding server_set_def by metis

lemma calm_delete:
  assumes "calm view h" and "server_ok view h a l w"
  obtains w' where "server_delete h a l n w = (Ret (), w')" and "server_ok view h a l w'"
    and "apps_of view h a l w' = (apps_of view h a l w)(n := None)"
  using delete_exact [OF calm_reliable [OF assms(1)] calm_codec [OF assms(1)] assms(2)]
  unfolding server_delete_def by metis

text \<open>Storing one application, whatever is answered, is a step when the machine has it.\<close>

lemma steps_set:
  assumes "calm view h" and "server_ok view h a l w" and "app_ok n s"
    and "0 < rv \<Longrightarrow> rv = revision_of (view w (model_key a l n))"
    and "api_step (apps_of view h a l w) ((apps_of view h a l w)(n \<mapsto> s))"
  shows "steps view h a l w (io_match (server_set h a l s (Some rv)) (\<lambda>_. io_ret x) g)"
proof -
  obtain w' where "server_set h a l s (Some rv) w = (Ret (), w')" "server_ok view h a l w'"
    "apps_of view h a l w' = (apps_of view h a l w)(n \<mapsto> s)"
    by (rule calm_set [OF assms(1-4)])
  with assms(5) show ?thesis by (intro stepsI [of _ _ x w']) simp_all
qed

lemma steps_delete:
  assumes "calm view h" and "server_ok view h a l w"
  shows "steps view h a l w (io_match (server_delete h a l n) (\<lambda>_. io_ret x) g)"
proof -
  obtain w' where "server_delete h a l n w = (Ret (), w')" "server_ok view h a l w'"
    "apps_of view h a l w' = (apps_of view h a l w)(n := None)"
    by (rule calm_delete [OF assms])
  then show ?thesis by (intro stepsI [of _ _ x w']) (simp_all add: step_delete)
qed

lemma steps_get:
  assumes "calm view h" and "server_ok view h a l w"
    and "steps view h a l w (f (map_option (\<lambda>s. (s, revision_of (view w (model_key a l n)))) (apps_of view h a l w n)))"
  shows "steps view h a l w (io_match (server_get h a l n) f g)"
  using assms(3) unfolding steps_def by (simp add: calm_get [OF assms(1,2)])

text \<open>A pure computation that may fail.\<close>

lemma steps_lift:
  assumes "r \<noteq> Panic" and "\<And>x. r = Ret x \<Longrightarrow> steps view h a l w (f x)" and "\<And>e. r = Err e \<Longrightarrow> steps view h a l w (g e)"
  shows "steps view h a l w (io_match (io_lift r) f g)"
  using assms by (cases r) auto

lemma steps_read_bind:
  assumes "m w = (Ret x, w)" and "steps view h a l w (f x)"
  shows "steps view h a l w (io_bind m f)"
  using assms unfolding steps_def by simp

lemma of_sum_not_Panic [simp]: "of_sum r \<noteq> Panic"
  by (cases r) (simp_all add: of_sum_def)

lemma of_sum_Ret [simp]: "of_sum r = Ret x \<longleftrightarrow> r = Inr x"
  by (cases r) (simp_all add: of_sum_def)

lemma version_request_total: "version_request h msg \<noteq> Panic"
  by (simp add: version_request_def)

lemma parse_manifest_total: "parse_manifest h d hs \<noteq> Panic"
  by (auto simp: parse_manifest_def parse_yaml_or_json_def split: option.split sum.split)

lemma parse_manifest_checked:
  assumes "calm view h" and "parse_manifest h d hs = Ret m"
  shows "validate_manifest (hd_name_ok h) m \<noteq> Panic"
proof -
  have "hd_yaml h d = Inr m \<or> hd_json h d = Inr m"
    using assms(2)
    by (auto simp: parse_manifest_def parse_yaml_or_json_def split: option.splits sum.splits if_splits)
  then show ?thesis using calm_yaml [OF assms(1)] calm_json [OF assms(1)] by blast
qed

lemma server_validate_name:
  assumes "server_validate_manifest re m = Ret None"
  shows "re (md_name (mf_metadata m))"
proof -
  obtain fs where v: "validate_manifest re m = Ret fs" and n: "filter (\<lambda>f. vf_level f = LError) fs = []"
    using assms
    by (cases "validate_manifest re m")
      (auto simp: server_validate_manifest_def filter_empty_conv split: list.splits)
  have "set (verrors (validate_manifest_name re (md_name (mf_metadata m)))) \<subseteq> set fs"
    using v by (auto simp: validate_manifest_def)
  moreover have "verror (BadManifestName (md_name (mf_metadata m))) \<in>
      set (verrors (validate_manifest_name re (md_name (mf_metadata m))))" if "\<not> re (md_name (mf_metadata m))"
    using that by (simp add: verrors_def validate_manifest_name_def verror_def)
  ultimately show ?thesis using n by (force simp: filter_empty_conv verror_def)
qed

text \<open>The applications that may serve shared components.\<close>

lemma shared_apps_total:
  assumes "\<forall>s \<in> set ss. \<exists>m. get_current s = Ret m"
  shows "\<exists>ms. deployed_shared_apps ss = Ret ms \<and>
    set ms = {m. \<exists>s \<in> set ss. sm_deployed s \<noteq> None \<and> get_current s = Ret m \<and> manifest_shared m}"
proof -
  let ?f = "\<lambda>s. if sm_deployed s = None then Ret None
         else obind (get_current s) (\<lambda>m. Ret (if manifest_shared m then Some m else None))"
  have "\<exists>os. omap_list ?f ss = Ret os \<and>
      set (List.map_filter (\<lambda>m. m) os) =
        {m. \<exists>s \<in> set ss. sm_deployed s \<noteq> None \<and> get_current s = Ret m \<and> manifest_shared m}"
    using assms
  proof (induction ss)
    case (Cons s ss)
    then obtain os where os: "omap_list ?f ss = Ret os" "set (List.map_filter (\<lambda>m. m) os) =
        {m. \<exists>s \<in> set ss. sm_deployed s \<noteq> None \<and> get_current s = Ret m \<and> manifest_shared m}" by auto
    obtain m where m: "get_current s = Ret m" using Cons.prems by auto
    have "omap_list ?f (s # ss) = Ret ((if sm_deployed s \<noteq> None \<and> manifest_shared m then Some m else None) # os)"
      using os(1) m by simp
    with os(2) m show ?case by (auto simp: map_filter_simps)
  qed (simp add: map_filter_simps)
  then show ?thesis by (auto simp: deployed_shared_apps_def)
qed

lemma put_steps:
  assumes h: "calm view h" and ok: "server_ok view h a l w"
  shows "steps view h a l w (put_model_reply h msg a l)"
proof -
  let ?apps = "apps_of view h a l w"
  have "steps view h a l w (put_model_reply h msg a l)"
    if p: "parse_manifest h (mg_payload msg) (mg_headers msg) = Ret m" for m
  proof -
    let ?n = "trim (md_name (mf_metadata m))"
    let ?v = "server_validate_manifest (hd_name_ok h) m"
    consider "verrors (validate_manifest_version (manifest_version m)) \<noteq> [] \<or>
        \<not> valid (validate_manifest_name (hd_name_ok h) ?n)"
      | "verrors (validate_manifest_version (manifest_version m)) = []"
        "valid (validate_manifest_name (hd_name_ok h) ?n)" by blast
    then show ?thesis
    proof cases
      case 1
      then show ?thesis
        by (cases "verrors (validate_manifest_version (manifest_version m)) = []")
          (simp_all add: put_model_reply_def p Let_def steps_Pair ok)
    next
      case 2
      have "?v \<noteq> Panic"
        using parse_manifest_checked [OF h p] by (simp add: server_validate_manifest_def obind_eq_Panic)
      then consider (errs) e where "?v = Err e" | (fails) f where "?v = Ret (Some f)" | (fine) "?v = Ret None"
        by (metis outcome.exhaust option.exhaust)
      then show ?thesis
      proof cases
        case fine
        have n: "md_name (mf_metadata m) = ?n"
          using calm_name [OF h server_validate_name [OF fine]] by simp
        obtain ss where ss: "\<forall>s \<in> set ss. \<exists>m. get_current s = Ret m"
          and list: "server_list h a l w = (Ret ss, w)"
          by (rule calm_list [OF h ok])
        obtain ms where ms: "deployed_shared_apps ss = Ret ms" using shared_apps_total [OF ss] by blast
        define s where "s = app_or_new ?apps ?n"
        define rv where "rv = (case ?apps ?n of None \<Rightarrow> 0 | Some _ \<Rightarrow> revision_of (view w (model_key a l ?n)))"
        define fd where "fd = map_option (\<lambda>s. (s, revision_of (view w (model_key a l ?n)))) (?apps ?n)"
        have get: "server_get h a l ?n w = (Ret fd, w)" by (simp add: calm_get [OF h ok] fd_def)
        have found: "(case fd of None \<Rightarrow> (sm_default, 0) | Some d \<Rightarrow> d) = (s, rv)"
          by (simp add: fd_def s_def rv_def app_or_new_def split: option.split)
        obtain s' added where add: "add_version (hd_ulid h w) m s = (s', added)" by fastforce
        show ?thesis
        proof (cases added)
          case False
          then have "put_model_reply h msg a l w = (Ret (ErrorReply (VersionExists (manifest_version m))), w)"
            using 2 by (simp add: put_model_reply_def put_stored_def p get found fine list ms add Let_def)
          then show ?thesis by (rule steps_same [OF _ refl ok])
        next
          case True
          have apps: "app_ok ?n s \<or> s = sm_default"
            using server_apps_ok [OF ok] by (auto simp: s_def app_or_new_def apps_ok_def split: option.split)
          have app: "app_ok ?n s'" using app_ok_add [OF apps n] add True by simp
          have step: "api_step ?apps (?apps(?n \<mapsto> s'))"
            using step_put [of m ?n "hd_ulid h w" ?apps s'] n add True by (simp add: s_def)
          obtain w' where set: "server_set h a l s' (Some rv) w = (Ret (), w')" "server_ok view h a l w'"
              "apps_of view h a l w' = ?apps(?n \<mapsto> s')"
            by (rule calm_set [OF h ok app, of rv]) (auto simp: rv_def split: option.splits)
          have "\<exists>x. put_model_reply h msg a l w = (Ret x, w')"
            using 2 by (simp add: put_model_reply_def put_stored_def p get found fine list ms add True Let_def set(1))
          with set(2,3) step show ?thesis by (auto intro!: stepsI)
        qed
      qed (use 2 ok in \<open>auto simp: put_model_reply_def p Let_def intro!: steps_get [OF h ok] steps_ret steps_Pair split: prod.split\<close>)
    qed
  qed
  moreover have "steps view h a l w (put_model_reply h msg a l)"
    if "parse_manifest h (mg_payload msg) (mg_headers msg) = Err e" for e
    using that ok by (simp add: put_model_reply_def steps_Pair)
  ultimately show ?thesis
    using parse_manifest_total [of h "mg_payload msg" "mg_headers msg"] by (metis outcome.exhaust)
qed

text \<open>Applications the store returns, with the revision they are at.\<close>

lemma calm_found:
  assumes "calm view h" and "server_ok view h a l w" and "apps_of view h a l w n = Some s"
  shows "server_get h a l n w = (Ret (Some (s, revision_of (view w (model_key a l n)))), w)" and "app_ok n s"
  using assms server_apps_ok [OF assms(2)] by (simp_all add: calm_get apps_ok_def)

lemma calm_absent:
  assumes "calm view h" and "server_ok view h a l w" and "apps_of view h a l w n = None"
  shows "server_get h a l n w = (Ret None, w)"
  using assms by (simp add: calm_get)

lemma steps_eq: "m w = m' w \<Longrightarrow> steps view h a l w m = steps view h a l w m'"
  by (simp add: steps_def)

lemma delete_version_steps:
  assumes h: "calm view h" and ok: "server_ok view h a l w" and s: "apps_of view h a l w n = Some s"
  shows "steps view h a l w (delete_one_version h a l n v s (revision_of (view w (model_key a l n))))"
proof -
  have app: "app_ok n s" by (rule calm_found [OF h ok s])
  obtain s' deleted where d: "delete_version v s = (s', deleted)" by fastforce
  have s': "s' = fst (delete_version v s)" and del: "deleted \<longleftrightarrow> v \<in> set (all_versions s)"
    using d by (auto simp: delete_version_def contains_versions)
  have dep: "sm_deployed s' = sm_deployed s" by (simp add: s' delete_version_def)
  define s'' where "s'' = (if (case sm_deployed s' of None \<Rightarrow> False | Some x \<Rightarrow> x = v) then fst (sm_undeploy s') else s')"
  have s'': "drop_version v s = s''" by (simp add: s''_def drop_version_def s' [symmetric] dep is_deployed_def)
  show ?thesis
  proof (cases "deleted \<and> \<not> sm_is_empty s'")
    case True
    then have ne: "sm_manifests (drop_version v s) \<noteq> []"
      by (simp add: s'' s''_def sm_is_empty_def sm_undeploy_def)
    have step: "api_step (apps_of view h a l w) ((apps_of view h a l w)(n \<mapsto> s''))"
      using step_drop [of "apps_of view h a l w" n s v s''] s True del ne s'' by simp
    have "app_ok n s''" using app_ok_drop [OF app ne] s'' by simp
    from steps_set [OF h ok this _ step, of "revision_of (view w (model_key a l n))"] True show ?thesis
      by (simp add: delete_one_version_def d s''_def [symmetric] Let_def)
  next
    case False
    then show ?thesis
      by (auto simp: delete_one_version_def d Let_def intro!: steps_delete [OF h ok] steps_ret steps_Pair ok)
  qed
qed

lemma harmless_deleted: "calm view h \<Longrightarrow> harmless view (notify_deleted h l n r)"
  by (auto simp: notify_deleted_def intro!: harmless_notify harmless_ret)

lemma harmless_undeploy: "calm view h \<Longrightarrow> harmless view (notify_undeploy h l n r)"
  by (auto simp: notify_undeploy_def intro!: harmless_notify harmless_ret)

lemma harmless_deploy: "calm view h \<Longrightarrow> harmless view (notify_deploy h l n m r)"
  by (auto simp: notify_deploy_def intro!: harmless_notify harmless_ret)

lemma delete_all_steps:
  "calm view h \<Longrightarrow> server_ok view h a l w \<Longrightarrow> steps view h a l w (delete_all_versions h a l n)"
  unfolding delete_all_versions_def by (rule steps_delete)

lemma delete_steps:
  assumes h: "calm view h" and ok: "server_ok view h a l w"
  shows "steps view h a l w (delete_model_reply h msg a l n)"
  unfolding delete_model_reply_def
proof (intro steps_lift version_request_total steps_then harmless_deleted h)
  fix requested
  show "steps view h a l w (delete_data h a l n requested)"
    unfolding delete_data_def
  proof (rule steps_get [OF h ok], cases "apps_of view h a l w n")
    case (Some s)
    then show "steps view h a l w (case map_option (\<lambda>s. (s, revision_of (view w (model_key a l n)))) (apps_of view h a l w n)
        of None \<Rightarrow> io_ret (delete_response DeleteNoop (''Application '' @ n @ '' doesn't exist or was already deleted'') False)
         | Some (current, current_revision) \<Rightarrow>
             (case requested of
                Some version \<Rightarrow> delete_one_version h a l n version current current_revision
              | None \<Rightarrow> delete_all_versions h a l n))"
      using delete_version_steps [OF h ok Some] delete_all_steps [OF h ok] by (cases requested) simp_all
  qed (simp add: steps_ret ok)
qed (simp add: steps_ret ok)

lemma undeploy_steps:
  assumes h: "calm view h" and ok: "server_ok view h a l w"
  shows "steps view h a l w (undeploy_model_reply h msg a l n)"
  unfolding undeploy_model_reply_def
proof (rule steps_lift)
  show "(if mg_payload msg = [] then Ret () else of_sum (hd_empty_request h (mg_payload msg))) \<noteq> Panic" by simp
  fix x :: unit
  show "steps view h a l w (io_match (server_get h a l n) (\<lambda>found. case found of
         None \<Rightarrow> io_ret (DeployReply (deploy_response DeployNotFound
           (''Application with the name '' @ n @ '' not found'') n None))
       | Some (manifests, current_revision) \<Rightarrow>
           io_bind (undeploy_found h a l n manifests current_revision) (notify_undeploy h l n))
     (\<lambda>_. rejected StorageFailure))"
  proof (rule steps_get [OF h ok], cases "apps_of view h a l w n")
    case (Some s)
    have "app_ok n (fst (sm_undeploy s))" by (rule app_ok_undeploy [OF calm_found(2) [OF h ok Some]])
    note set = steps_set [OF h ok this, of "revision_of (view w (model_key a l n))", OF refl
        step_undeploy [of "apps_of view h a l w" n s, OF Some]]
    have "steps view h a l w (undeploy_found h a l n s (revision_of (view w (model_key a l n))))"
      using set ok by (auto simp: undeploy_found_def Let_def split: prod.split intro: steps_ret steps_Pair)
    then show "steps view h a l w (case map_option (\<lambda>s. (s, revision_of (view w (model_key a l n)))) (apps_of view h a l w n)
        of None \<Rightarrow> io_ret (DeployReply (deploy_response DeployNotFound
             (''Application with the name '' @ n @ '' not found'') n None))
         | Some (manifests, current_revision) \<Rightarrow>
             io_bind (undeploy_found h a l n manifests current_revision) (notify_undeploy h l n))"
      using Some h by (simp add: steps_then harmless_undeploy)
  qed (simp add: steps_ret ok)
qed (simp add: steps_ret ok)

section \<open>Deploying steps\<close>

lemma note_ids_dom: "dom (map_of (note_ids owner m ids)) = dom (map_of ids) \<union> manifest_ids m"
proof -
  have "dom (map_of (fold (\<lambda>c ids. case component_id c of Some i \<Rightarrow> hm_insert i owner ids | None \<Rightarrow> ids) cs ids)) =
      dom (map_of ids) \<union> {i. \<exists>c \<in> set cs. component_id c = Some i}" for cs
    by (induction cs arbitrary: ids) (auto split: option.split if_splits)
  then show ?thesis by (simp add: note_ids_def manifest_ids_def)
qed

lemma id_conflict_None:
  "id_conflict ids cs = None \<longleftrightarrow> (\<forall>c \<in> set cs. \<forall>i. component_id c = Some i \<longrightarrow> map_of ids i = None)"
  by (induction cs) (auto split: option.split)

text \<open>In a calm world the collected ids are those that other applications use.\<close>

lemma collect_calm:
  assumes h: "calm view h" and ok: "server_ok view h a l w" and "set ss \<subseteq> ran (apps_of view h a l w)"
  shows "\<exists>ids'. collect_ids h a l name ss ids w = (Ret ids', w) \<and>
    dom (map_of ids') = dom (map_of ids) \<union>
      {i. \<exists>n s. s \<in> set ss \<and> apps_of view h a l w n = Some s \<and> n \<noteq> name \<and> i \<in> deployed_ids (apps_of view h a l w) n}"
  using assms(3)
proof (induction ss arbitrary: ids)
  case (Cons s ss)
  let ?apps = "apps_of view h a l w"
  have "s \<in> ran ?apps" using Cons.prems by simp
  then obtain n where n: "?apps n = Some s" "app_ok n s" using ran_app_ok [OF server_apps_ok [OF ok]] by blast
  have only: "n' = n" if "?apps n' = Some s" for n'
  proof -
    have "app_ok n' s" using that server_apps_ok [OF ok] by (simp add: apps_ok_def)
    from app_ok_name [OF this] app_ok_name [OF n(2)] show ?thesis by simp
  qed
  define ids1 where "ids1 = (if sm_deployed s = None \<or> n = name then ids
      else (case get_deployed s of None \<Rightarrow> ids | Some m \<Rightarrow> note_ids n m ids))"
  have run: "collect_ids h a l name (s # ss) ids w = collect_ids h a l name ss ids1 w"
    by (simp add: ids1_def app_ok_name [OF n(2)] calm_found(1) [OF h ok n(1)] split: option.split)
  have d1: "dom (map_of ids1) = dom (map_of ids) \<union> (if n = name then {} else deployed_ids ?apps n)"
    by (auto simp: ids1_def deployed_ids_def n(1) note_ids_dom get_deployed_def split: option.splits)
  obtain ids' where ids': "collect_ids h a l name ss ids1 w = (Ret ids', w)"
      "dom (map_of ids') = dom (map_of ids1) \<union>
        {i. \<exists>n s. s \<in> set ss \<and> ?apps n = Some s \<and> n \<noteq> name \<and> i \<in> deployed_ids ?apps n}"
    using Cons.IH [of ids1] Cons.prems by auto
  have "dom (map_of ids') = dom (map_of ids) \<union>
      {i. \<exists>n' s'. s' \<in> set (s # ss) \<and> ?apps n' = Some s' \<and> n' \<noteq> name \<and> i \<in> deployed_ids ?apps n'}"
    unfolding ids'(2) d1 using n(1) by (cases "n = name") (auto dest: only)
  with run ids'(1) show ?case by (intro exI [of _ ids']) simp
qed simp

lemma collect_all:
  assumes h: "calm view h" and ok: "server_ok view h a l w" and "set ss = ran (apps_of view h a l w)"
  obtains ids where "collect_ids h a l name ss [] w = (Ret ids, w)"
    and "\<And>m. id_conflict ids (mf_components m) = None \<longleftrightarrow>
      (\<forall>n. n \<noteq> name \<longrightarrow> manifest_ids m \<inter> deployed_ids (apps_of view h a l w) n = {})"
proof -
  let ?apps = "apps_of view h a l w"
  obtain ids where ids: "collect_ids h a l name ss [] w = (Ret ids, w)" "dom (map_of ids) =
      {i. \<exists>n s. s \<in> ran ?apps \<and> ?apps n = Some s \<and> n \<noteq> name \<and> i \<in> deployed_ids ?apps n}"
    using collect_calm [OF h ok, of ss name "[]"] assms(3) by auto
  have "dom (map_of ids) = {i. \<exists>n. n \<noteq> name \<and> i \<in> deployed_ids ?apps n}"
    unfolding ids(2) by (auto simp: deployed_ids_def ran_def split: option.splits)
  then have "map_of ids i = None \<longleftrightarrow> (\<forall>n. n \<noteq> name \<longrightarrow> i \<notin> deployed_ids ?apps n)" for i by blast
  then have "id_conflict ids (mf_components m) = None \<longleftrightarrow>
      (\<forall>n. n \<noteq> name \<longrightarrow> manifest_ids m \<inter> deployed_ids ?apps n = {})" for m
    unfolding id_conflict_None manifest_ids_def by blast
  with ids(1) that show thesis by blast
qed

lemma missing_calm:
  assumes "set ms = {m. \<exists>s \<in> ran apps. sm_deployed s \<noteq> None \<and> get_current s = Ret m \<and> manifest_shared m}"
  shows "missing_shared_components m ms = [] \<longleftrightarrow> shared_served apps m"
proof -
  have "list_ex (\<lambda>a. provides_shared a app p) (filter manifest_shared ms) \<longleftrightarrow> serves apps app p" for app p
    using assms by (auto simp: list_ex_iff serves_def ran_def)
  then show ?thesis
    by (auto simp: missing_shared_components_def shared_served_def filter_empty_conv Let_def split: option.splits)
qed

lemma staged_total: "app_ok n s \<Longrightarrow> \<exists>m. staged_model s version = Ret m"
  using app_ok_current [of n s] by (auto simp: staged_model_def split: option.split)

lemma staged_deploys:
  assumes "app_ok n s" and "staged_model s version = Ret (Some m)"
  obtains s' where "sm_deploy version s = (s', True)" and "get_deployed s' = Some m"
proof -
  have "distinct (map fst (sm_manifests s))" "sm_manifests s \<noteq> []"
    using assms(1) by (simp_all add: app_ok_def sm_ok_def hm_wf_def)
  note last = map_of_last [OF this]
  have "snd (sm_deploy version s) \<and> get_deployed (fst (sm_deploy version s)) = Some m"
    using assms(2) last \<open>sm_manifests s \<noteq> []\<close>
    by (auto simp: staged_model_def sm_deploy_def get_deployed_def get_version_def hm_contains_def get_current_if
        current_version_if split: option.splits if_splits)
  with that show thesis by (cases "sm_deploy version s") auto
qed

lemma deployable_staged:
  assumes "apps n = Some s" and "staged_model s version = Ret (Some m)"
  shows "deployable apps n version m \<longleftrightarrow>
    (\<forall>n'. n' \<noteq> n \<longrightarrow> manifest_ids m \<inter> deployed_ids apps n' = {}) \<and> shared_served apps m"
  using assms by (simp add: deployable_def)

text \<open>The two checks of the handler decide it.\<close>

lemma deploy_checks:
  assumes h: "calm view h" and ok: "server_ok view h a l w" and ss: "set ss = ran (apps_of view h a l w)"
    and cur: "\<forall>s \<in> set ss. \<exists>m. get_current s = Ret m"
    and s: "apps_of view h a l w n = Some s" "staged_model s version = Ret (Some m)"
  obtains ids ms where "collect_ids h a l n ss [] w = (Ret ids, w)" and "deployed_shared_apps ss = Ret ms"
    and "deployable (apps_of view h a l w) n version m \<longleftrightarrow>
      id_conflict ids (mf_components m) = None \<and> missing_shared_components m ms = []"
proof (rule collect_all [OF h ok ss, of n])
  fix ids
  assume ids: "collect_ids h a l n ss [] w = (Ret ids, w)"
    and c: "\<And>m. id_conflict ids (mf_components m) = None \<longleftrightarrow>
      (\<forall>n'. n' \<noteq> n \<longrightarrow> manifest_ids m \<inter> deployed_ids (apps_of view h a l w) n' = {})"
  obtain ms where ms: "deployed_shared_apps ss = Ret ms" "set ms =
      {m. \<exists>s \<in> set ss. sm_deployed s \<noteq> None \<and> get_current s = Ret m \<and> manifest_shared m}"
    using shared_apps_total [OF cur] by blast
  have "missing_shared_components m ms = [] \<longleftrightarrow> shared_served (apps_of view h a l w) m"
    using missing_calm [of ms "apps_of view h a l w" m] ms(2) ss by simp
  with c deployable_staged [of "apps_of view h a l w" n, OF s] ids ms(1) show thesis by (intro that) auto
qed

text \<open>A deployment that is not allowed is refused, and nothing changes.\<close>

lemma deploy_refused:
  assumes h: "calm view h" and ok: "server_ok view h a l w" and ss: "set ss = ran (apps_of view h a l w)"
    and cur: "\<forall>s \<in> set ss. \<exists>m. get_current s = Ret m"
    and s: "apps_of view h a l w n = Some s" "staged_model s version = Ret (Some m)"
    and no: "\<not> deployable (apps_of view h a l w) n version m"
  shows "\<exists>r. deploy_staged h a l n version s rv ss m w = (Ret (ErrorReply r), w)"
proof (rule deploy_checks [OF h ok ss cur s])
  fix ids ms
  assume "collect_ids h a l n ss [] w = (Ret ids, w)" and "deployed_shared_apps ss = Ret ms"
    and "deployable (apps_of view h a l w) n version m \<longleftrightarrow>
      id_conflict ids (mf_components m) = None \<and> missing_shared_components m ms = []"
  with no show ?thesis
    by (cases "id_conflict ids (mf_components m)") (auto simp: deploy_staged_def Let_def)
qed

text \<open>An allowed one is stored and announced.\<close>

definition deployed_response :: "string \<Rightarrow> manifest \<Rightarrow> deploy_model_response" where
  "deployed_response n m = deploy_response DeployAcknowledged
     (''Successfully deployed application '' @ n @ '' '' @ manifest_version m) n (Some (manifest_version m))"

lemma deploy_accepted:
  assumes h: "calm view h" and ok: "server_ok view h a l w" and ss: "set ss = ran (apps_of view h a l w)"
    and cur: "\<forall>s \<in> set ss. \<exists>m. get_current s = Ret m"
    and s: "apps_of view h a l w n = Some s" "staged_model s version = Ret (Some m)"
    and yes: "deployable (apps_of view h a l w) n version m"
  obtains s' w' where "sm_deploy version s = (s', True)" and "get_deployed s' = Some m"
    and "server_ok view h a l w'" and "apps_of view h a l w' = (apps_of view h a l w)(n \<mapsto> s')"
    and "deploy_staged h a l n version s (revision_of (view w (model_key a l n))) ss m w =
      notify_deploy h l n m (deployed_response n m) w'"
proof (rule deploy_checks [OF h ok ss cur s])
  fix ids ms
  assume checks: "collect_ids h a l n ss [] w = (Ret ids, w)" "deployed_shared_apps ss = Ret ms"
    "deployable (apps_of view h a l w) n version m \<longleftrightarrow>
      id_conflict ids (mf_components m) = None \<and> missing_shared_components m ms = []"
  have app: "app_ok n s" by (rule calm_found [OF h ok s(1)])
  obtain s' where s': "sm_deploy version s = (s', True)" "get_deployed s' = Some m"
    by (rule staged_deploys [OF app s(2)])
  obtain w' where w': "server_set h a l s' (Some (revision_of (view w (model_key a l n)))) w = (Ret (), w')"
    "server_ok view h a l w'" "apps_of view h a l w' = (apps_of view h a l w)(n \<mapsto> s')"
    by (rule calm_set [OF h ok app_ok_deploy [OF app s'(1)] refl])
  have "deploy_staged h a l n version s (revision_of (view w (model_key a l n))) ss m w =
      notify_deploy h l n m (deployed_response n m) w'"
    using checks yes by (simp add: deploy_staged_def store_and_notify_def s' w'(1) deployed_response_def)
  with s' w'(2,3) that show thesis by blast
qed

lemma deploy_steps:
  assumes h: "calm view h" and ok: "server_ok view h a l w"
  shows "steps view h a l w (deploy_model_reply h msg a l n)"
proof (cases "version_request h msg")
  case (Ret version)
  show ?thesis
  proof (cases "apps_of view h a l w n")
    case None
    then show ?thesis
      by (intro steps_same [OF _ refl ok]) (simp add: deploy_model_reply_def Ret calm_absent [OF h ok])
  next
    case (Some s)
    let ?rv = "revision_of (view w (model_key a l n))"
    obtain ss where ss: "set ss = ran (apps_of view h a l w)" "server_list h a l w = (Ret ss, w)"
      "\<forall>s \<in> set ss. \<exists>m. get_current s = Ret m"
      by (rule calm_list [OF h ok])
    obtain staged where staged: "staged_model s version = Ret staged"
      using staged_total [OF calm_found(2) [OF h ok Some]] by blast
    note run = calm_found(1) [OF h ok Some] ss(2) staged Ret
    show ?thesis
    proof (cases staged)
      case None
      then show ?thesis by (intro steps_same [OF _ refl ok]) (simp add: deploy_model_reply_def run)
    next
      case (Some m)
      have reply: "deploy_model_reply h msg a l n w = deploy_staged h a l n version s ?rv ss m w"
        by (simp add: deploy_model_reply_def run Some)
      note s = \<open>apps_of view h a l w n = Some s\<close> staged [unfolded Some]
      show ?thesis
      proof (cases "deployable (apps_of view h a l w) n version m")
        case False
        from deploy_refused [OF h ok ss(1,3) s False] reply show ?thesis
          by (metis steps_same [OF _ refl ok])
      next
        case True
        obtain s' w' where d: "sm_deploy version s = (s', True)" "get_deployed s' = Some m" "server_ok view h a l w'"
            "apps_of view h a l w' = (apps_of view h a l w)(n \<mapsto> s')"
            "deploy_staged h a l n version s ?rv ss m w = notify_deploy h l n m (deployed_response n m) w'"
          by (rule deploy_accepted [OF h ok ss(1,3) s True])
        have step: "api_step (apps_of view h a l w) (apps_of view h a l w')"
          unfolding d(4) by (rule step_deploy [OF True s(1) d(1,2)])
        obtain x w2 where "notify_deploy h l n m (deployed_response n m) w' =
            (Ret x, w2)" and v: "view w2 = view w'"
          using harmless_deploy [OF h] unfolding harmless_def by blast
        with reply d(5) have "deploy_model_reply h msg a l n w = (Ret x, w2)" by simp
        then show ?thesis by (rule stepsI) (simp_all add: same_view [OF v] d(3) step)
      qed
    qed
  qed
next
  case (Err e)
  then show ?thesis by (intro steps_same [OF _ refl ok]) (simp add: deploy_model_reply_def)
qed (use version_request_total in blast)

end
