(* ===== verification/Api_Properties.thy ===== *)
theory Api_Properties
  imports Api_Refinement
begin

text \<open>
  The properties of the API server in a calm world: its runs are runs of the abstract machine, no handler
  panics, the applications stay well-formed, and no two deployed applications use one component id. A
  deployment is acknowledged exactly when the machine allows it.
\<close>

section \<open>Reading requests\<close>

lemma read_get:
  assumes "calm view h" and "server_ok view h a l w"
    and "\<And>s rv. app_ok n s \<Longrightarrow> steps view h a l w (f (Some (s, rv)))" and "steps view h a l w (f None)"
  shows "steps view h a l w (io_match (server_get h a l n) f g)"
proof (rule steps_get [OF assms(1,2)], cases "apps_of view h a l w n")
  case (Some s)
  then show "steps view h a l w (f (map_option (\<lambda>s. (s, revision_of (view w (model_key a l n)))) (apps_of view h a l w n)))"
    using assms(3) [of s] calm_found(2) [OF assms(1,2)] by simp
qed (simp add: assms(4))

lemma get_steps:
  assumes h: "calm view h" and ok: "server_ok view h a l w"
  shows "steps view h a l w (get_model_reply h msg a l n)"
  unfolding get_model_reply_def
proof (intro steps_lift version_request_total read_get [OF h ok])
  fix version s and rv :: nat
  assume "app_ok n s"
  then obtain m where "get_current s = Ret m" using app_ok_current by blast
  then show "steps view h a l w (case Some (s, rv) of
         None \<Rightarrow> io_ret (GetReply \<lparr>gr_result = GetNotFound,
           gr_message = ''Application with the name '' @ n @ '' not found'', gr_manifest = None\<rparr>)
       | Some (manifests, _) \<Rightarrow>
           (case version of
              Some v \<Rightarrow>
                (case get_version manifests v of
                   Some current \<Rightarrow> io_ret (GetReply \<lparr>gr_result = GetSuccess,
                     gr_message = ''Successfully fetched application '' @ n @ '' '' @ v, gr_manifest = Some current\<rparr>)
                 | None \<Rightarrow> io_ret (GetReply \<lparr>gr_result = GetNotFound,
                     gr_message = ''Application '' @ n @ '' with version '' @ v @ '' doesn't exist'',
                     gr_manifest = None\<rparr>))
            | None \<Rightarrow>
                io_bind (io_lift (get_current manifests)) (\<lambda>m. io_ret (GetReply \<lparr>gr_result = GetSuccess,
                  gr_message = ''Successfully fetched application '' @ n, gr_manifest = Some m\<rparr>))))"
    by (auto simp del: append_Cons append.simps intro!: steps_ret steps_Pair ok split: option.split)
qed (auto intro: steps_ret steps_Pair ok)

lemma versions_steps:
  assumes "calm view h" and "server_ok view h a l w"
  shows "steps view h a l w (list_versions_reply h a l n)"
  unfolding list_versions_reply_def by (intro read_get [OF assms] steps_ret assms(2))

lemma status_view: "calm view h \<Longrightarrow> view (snd (get_manifest_status h l n w)) = view w"
  by (simp add: get_manifest_status_def calm_status)

lemma status_steps:
  assumes h: "calm view h" and ok: "server_ok view h a l w"
  shows "steps view h a l w (model_status_reply h l n)"
proof -
  obtain st w1 where st: "get_manifest_status h l n w = (st, w1)" by fastforce
  then have v: "view w1 = view w" using status_view [OF h, of l n w] by simp
  show ?thesis by (rule steps_same [OF _ v ok]) (simp add: model_status_reply_def st)
qed

lemma summary_harmless:
  assumes "calm view h" and "app_ok n s"
  shows "harmless view (application_summary h l s)"
  unfolding harmless_def
proof
  fix w
  obtain m where m: "get_current s = Ret m" using app_ok_current [OF assms(2)] by blast
  obtain st w1 where st: "get_manifest_status h l n w = (st, w1)" by fastforce
  then have "view w1 = view w" using status_view [OF assms(1), of l n w] by simp
  moreover have "\<exists>x. application_summary h l s w = (Ret x, w1)"
    by (simp add: application_summary_def app_ok_name [OF assms(2)] st summary_from_manifest_status_def m)
  ultimately show "\<exists>x w'. application_summary h l s w = (Ret x, w') \<and> view w' = view w" by blast
qed

lemma join_harmless:
  "(\<And>m. m \<in> set ms \<Longrightarrow> harmless view m) \<Longrightarrow>
     \<exists>xs w'. io_join ms w = (map Ret xs, w') \<and> view w' = view w"
proof (induction ms arbitrary: w)
  case (Cons m ms)
  obtain x w1 where m: "m w = (Ret x, w1)" "view w1 = view w"
    using Cons.prems [of m] unfolding harmless_def by fastforce
  obtain xs w2 where ms: "io_join ms w1 = (map Ret xs, w2)" "view w2 = view w1"
    using Cons.IH [of w1] Cons.prems by fastforce
  show ?case using m ms by (intro exI [of _ "x # xs"] exI [of _ w2]) simp
qed simp

lemma collect_map_Ret: "collect_results (map Ret xs) = Ret xs"
  using collect_Ret [of "\<lambda>x. x" xs] by simp

lemma summaries_harmless:
  assumes "calm view h" and "\<forall>s \<in> set ss. \<exists>n. app_ok n s"
  shows "harmless view (all_summaries h l ss)"
  unfolding harmless_def
proof
  fix w
  have "harmless view m" if "m \<in> set (map (application_summary h l) ss)" for m
    using that assms summary_harmless by fastforce
  from join_harmless [of "map (application_summary h l) ss" view w, OF this] obtain xs w' where
    "io_join (map (application_summary h l) ss) w = (map Ret xs, w')" "view w' = view w" by blast
  then show "\<exists>x w'. all_summaries h l ss w = (Ret x, w') \<and> view w' = view w"
    by (simp add: all_summaries_def collect_map_Ret)
qed

lemma list_steps:
  assumes h: "calm view h" and ok: "server_ok view h a l w"
  shows "steps view h a l w (io_match (server_list h a l)
    (\<lambda>ss. io_bind (all_summaries h l ss) (\<lambda>models. io_ret (f models))) g)"
proof -
  obtain ss where ss: "set ss = ran (apps_of view h a l w)" "server_list h a l w = (Ret ss, w)"
    by (rule calm_list [OF h ok])
  have "\<forall>s \<in> set ss. \<exists>n. app_ok n s" using ran_app_ok [OF server_apps_ok [OF ok]] ss(1) by blast
  from summaries_harmless [OF h this] obtain x w1 where
    x: "all_summaries h l ss w = (Ret x, w1)" "view w1 = view w" unfolding harmless_def by blast
  then show ?thesis by (intro steps_same [OF _ x(2) ok]) (simp add: ss(2))
qed

section \<open>Every message is a step\<close>

lemma parse_subject_total: "parse_subject sv s \<noteq> Panic"
  by (auto simp: parse_subject_def obind_eq_Panic split: option.splits list.splits if_splits prod.splits)

lemma dispatch_steps:
  assumes h: "calm view h" and ok: "server_ok view h (ps_account_id p) (ps_lattice_id p) w"
  shows "steps view h (ps_account_id p) (ps_lattice_id p) w (dispatch h msg p)"
proof -
  note handlers = list_models_deprecated_def list_models_def put_model_def get_model_def delete_model_def
    list_versions_def deploy_model_def undeploy_model_def model_status_def reject_def
  note steps = put_steps get_steps delete_steps versions_steps deploy_steps undeploy_steps status_steps
  show ?thesis
    unfolding dispatch_def Let_def handlers list_models_deprecated_reply_def list_models_reply_def
    by (auto intro!: steps_respond [OF h] steps [OF h ok] list_steps [OF h ok] steps_ret ok split: option.split bool.split)
qed

lemma serve_message_steps:
  assumes h: "calm view h" and ok: "server_ok view h a l w"
    and here: "\<And>p. parse_subject sv (mg_subject msg) = Ret p \<Longrightarrow> ps_account_id p = a \<and> ps_lattice_id p = l"
  shows "steps view h a l w (serve_message sv h msg)"
proof (cases "parse_subject sv (mg_subject msg)")
  case (Ret p)
  with here dispatch_steps [OF h, of p w msg] ok show ?thesis
    by (auto simp: serve_message_def intro: steps_Pair steps_ret)
next
  case (Err e)
  then show ?thesis
    using ok by (auto simp: serve_message_def reject_def intro!: steps_respond [OF h] steps_Pair steps_ret)
qed (use parse_subject_total in blast)

lemma serve_run:
  assumes h: "calm view h"
    and "\<And>msg p. msg \<in> set msgs \<Longrightarrow> parse_subject sv (mg_subject msg) = Ret p \<Longrightarrow>
      ps_account_id p = a \<and> ps_lattice_id p = l"
    and "server_ok view h a l w"
  shows "\<exists>w'. serve sv h msgs w = (Err ''Subscriber terminated'', w') \<and> server_ok view h a l w' \<and>
    api_step\<^sup>*\<^sup>* (apps_of view h a l w) (apps_of view h a l w')"
  using assms(2,3)
proof (induction msgs arbitrary: w)
  case (Cons msg msgs)
  obtain x w1 where s: "serve_message sv h msg w = (Ret x, w1)" "server_ok view h a l w1"
      "api_step (apps_of view h a l w) (apps_of view h a l w1)"
    using serve_message_steps [OF h Cons.prems(2), of sv msg] Cons.prems(1) unfolding steps_def by fastforce
  obtain w' where "serve sv h msgs w1 = (Err ''Subscriber terminated'', w')" "server_ok view h a l w'"
      "api_step\<^sup>*\<^sup>* (apps_of view h a l w1) (apps_of view h a l w')"
    using Cons.IH [OF _ s(2)] Cons.prems(1) by fastforce
  with s show ?case by (intro exI [of _ w']) (auto intro: converse_rtranclp_into_rtranclp)
qed simp

lemma machine_keeps:
  assumes "api_step\<^sup>*\<^sup>* apps apps'" and "apps_ok apps" and "ids_disjoint apps"
  shows "apps_ok apps' \<and> ids_disjoint apps'"
  using assms by (induction rule: rtranclp_induct) (auto intro: apps_ok_step ids_disjoint_step)

section \<open>Deployments\<close>

text \<open>A deployment of a stored version, in a calm world: allowed, announced and stored, or refused.\<close>

lemma deploy_decided:
  assumes "calm view h" and "server_ok view h a l w" and "version_request h msg = Ret version"
    and "apps_of view h a l w n = Some s" and "staged_model s version = Ret (Some m)"
    and "deploy_model_reply h msg a l n w = (r, w')"
  shows "if deployable (apps_of view h a l w) n version m
    then (\<exists>s'. sm_deploy version s = (s', True) \<and> get_deployed s' = Some m \<and>
            apps_of view h a l w' = (apps_of view h a l w)(n \<mapsto> s')) \<and>
         ((\<forall>t e w. fst (hd_publish h t e w) = Inr ()) \<longrightarrow> r = Ret (DeployReply (deployed_response n m)))
    else (\<exists>e. r = Ret (ErrorReply e)) \<and> w' = w"
proof -
  obtain ss where ss: "set ss = ran (apps_of view h a l w)" "server_list h a l w = (Ret ss, w)"
    "\<forall>s \<in> set ss. \<exists>m. get_current s = Ret m"
    by (rule calm_list [OF assms(1,2)])
  have reply: "deploy_model_reply h msg a l n w =
      deploy_staged h a l n version s (revision_of (view w (model_key a l n))) ss m w"
    by (simp add: deploy_model_reply_def assms(3,5) calm_found(1) [OF assms(1,2,4)] ss(2))
  show ?thesis
  proof (cases "deployable (apps_of view h a l w) n version m")
    case True
    obtain s' w1 where d: "sm_deploy version s = (s', True)" "get_deployed s' = Some m"
        "apps_of view h a l w1 = (apps_of view h a l w)(n \<mapsto> s')"
        "deploy_model_reply h msg a l n w = notify_deploy h l n m (deployed_response n m) w1"
      using deploy_accepted [OF assms(1,2) ss(1,3) assms(4,5) True] reply by metis
    obtain x w2 where x: "notify_deploy h l n m (deployed_response n m) w1 = (Ret x, w2)" "view w2 = view w1"
      using harmless_deploy [OF assms(1)] unfolding harmless_def by blast
    have "x = DeployReply (deployed_response n m)" if p: "\<forall>t e w. fst (hd_publish h t e w) = Inr ()"
    proof -
      let ?c = "hd_publish h (hd_prefix h @ ''.'' @ l @ ''.'' @ ''manifest_published'')
        (event_to_cloud (hd_event_data h) (ManifestPublished m)) w1"
      have "?c = (Inr (), snd ?c)" using p by (simp add: prod_eq_iff)
      then have "notify_deployed h l m w1 = (Ret (), snd ?c)"
        unfolding notify_deployed_def send_event_def by (subst io_call_eq) assumption
      with x(1) show ?thesis by (simp add: notify_deploy_def)
    qed
    with True d x assms(6) show ?thesis by (auto simp: same_view [OF x(2)])
  next
    case False
    obtain e where "deploy_staged h a l n version s (revision_of (view w (model_key a l n))) ss m w =
        (Ret (ErrorReply e), w)"
      using deploy_refused [OF assms(1,2) ss(1,3) assms(4,5) False] by blast
    with False reply assms(6) show ?thesis by simp
  qed
qed


section \<open>Properties\<close>




section \<open>An example server\<close>

text \<open>
  A bucket in memory that nobody else writes, an encoding whose single octet is the value itself, and
  a parser that reads one manifest.
\<close>

type_synonym ex_octet = "stored_manifest + string list"
type_synonym ex_store = "string \<Rightarrow> ex_octet kv_entry option"

definition ex_write :: "bool \<Rightarrow> string \<Rightarrow> ex_octet bytes \<Rightarrow> ex_store \<Rightarrow> (string + unit) \<times> ex_store" where
  "ex_write gone k b w =
     (Inr (), w(k \<mapsto> \<lparr>ke_removed = gone, ke_value = b, ke_revision = Suc (revision_of (w k))\<rparr>))"

definition ex_bucket :: "(ex_store, ex_octet) bucket" where
  "ex_bucket = \<lparr>bk_entry = ex_entry, bk_update = ex_upd, bk_put = ex_write False, bk_purge = (\<lambda>k. ex_write True k [])\<rparr>"

definition ex_codec :: "ex_octet codec" where
  "ex_codec =
     \<lparr>cd_of_model = (\<lambda>b. case b of [Inl s] \<Rightarrow> Inr s | _ \<Rightarrow> Inl ''bad model''),
      cd_model = (\<lambda>s. Inr [Inl s]),
      cd_of_names = (\<lambda>b. case b of [Inr ns] \<Rightarrow> Inr ns | _ \<Rightarrow> Inl ''bad names''),
      cd_names = (\<lambda>ns. Inr [Inr ns])\<rparr>"

definition ex_shop :: manifest where
  "ex_shop = \<lparr>mf_api_version = ''core.oam.dev/v1beta1'', mf_kind = ''Application'',
     mf_metadata = \<lparr>md_name = ''shop'', md_annotations = [(''version'', ''v1'')], md_labels = []\<rparr>,
     mf_components = [], mf_policies = []\<rparr>"

definition ex_handler :: "(ex_store, ex_octet, unit) handler" where
  "ex_handler =
     \<lparr>hd_bucket = ex_bucket, hd_codec = ex_codec, hd_yaml = (\<lambda>d. Inr ex_shop), hd_json = (\<lambda>d. Inl ''no json''),
      hd_version_request = (\<lambda>d. Inl ''no request''), hd_empty_request = (\<lambda>d. Inr ()),
      hd_name_ok = (\<lambda>n. n = ''shop''), hd_ulid = (\<lambda>w. ''u1''), hd_prefix = ''wadm.evt'', hd_event_data = (\<lambda>e. ()),
      hd_publish = (\<lambda>t e w. (Inr (), w)), hd_last_status = (\<lambda>t w. (None, w)), hd_send = (\<lambda>t r w. w),
      hd_show_components = (\<lambda>cs. [])\<rparr>"

definition ex_message :: "string \<Rightarrow> ex_octet message" where
  "ex_message subject = \<lparr>mg_subject = subject, mg_payload = [], mg_headers = None, mg_reply = Some ''inbox''\<rparr>"

lemma ex_calm: "calm (\<lambda>w. w) ex_handler"
proof -
  have r: "reliable (\<lambda>w. w) ex_bucket"
    unfolding reliable_def writes_at_def
    by (auto simp: ex_bucket_def ex_entry_def ex_upd_def ex_write_def)
  have c: "codec_total ex_codec"
    by (auto simp: codec_total_def codec_ok_def ex_codec_def)
  have t: "trim ''shop'' = ''shop''" by code_simp
  have "validate_manifest (\<lambda>n. n = ''shop'') ex_shop \<noteq> Panic" by code_simp
  with r c t show ?thesis by (simp add: calm_def ex_handler_def)
qed

lemma ex_empty_ok: "server_ok (\<lambda>w. w) ex_handler a l (\<lambda>_. None)"
  by (auto simp: store_ok_def readable_def names_at_def app_at_def dom_def)

definition ex_server :: server where
  "ex_server = \<lparr>sv_prefix = ''wadm.api'', sv_multitenant = False\<rparr>"

definition ex_subjects :: "string list" where
  "ex_subjects = [''wadm.api.default.model.put'', ''wadm.api.default.model.deploy.shop'', ''wadm.api.default'']"

lemma ex_parsed:
  assumes "msg \<in> set (map ex_message ex_subjects)" and "parse_subject ex_server (mg_subject msg) = Ret p"
  shows "ps_account_id p = None \<and> ps_lattice_id p = ''default''"
proof -
  have "list_all (\<lambda>s. case parse_subject ex_server s of
      Ret p \<Rightarrow> ps_account_id p = None \<and> ps_lattice_id p = ''default'' | _ \<Rightarrow> True) ex_subjects"
    by code_simp
  with assms show ?thesis by (force simp: list_all_iff ex_message_def)
qed



text \<open>A store that holds one application.\<close>

definition ex_shop_stored :: stored_manifest where
  "ex_shop_stored = \<lparr>sm_manifests = [(''v1'', ex_shop)], sm_deployed = None\<rparr>"

definition ex_shop_world :: ex_store where
  "ex_shop_world =
     [''default'' \<mapsto> \<lparr>ke_removed = False, ke_value = [Inr [''shop'']], ke_revision = 1\<rparr>,
      ''default-shop'' \<mapsto> \<lparr>ke_removed = False, ke_value = [Inl ex_shop_stored], ke_revision = 1\<rparr>]"

lemma ex_shop_apps: "app_at ex_codec (\<lambda>w. w) None ''default'' ex_shop_world = [''shop'' \<mapsto> ex_shop_stored]"
  by (auto simp: app_at_def fun_eq_iff ex_shop_world_def model_key_def ex_codec_def)

lemma ex_shop_ok: "server_ok (\<lambda>w. w) ex_handler None ''default'' ex_shop_world"
proof -
  have "app_ok ''shop'' ex_shop_stored"
    by (simp add: app_ok_def sm_ok_def ex_shop_stored_def ex_shop_def hm_wf_def manifest_version_def oam_consts)
  then show ?thesis
    by (auto simp: store_ok_def ex_handler_def ex_shop_apps readable_def names_at_def)
      (auto simp: ex_shop_world_def model_key_def model_set_key_def ex_codec_def split: if_splits)
qed


end
