(* ===== verification/Api_Faults.thy ===== *)
theory Api_Faults
  imports Api_Properties
begin

text \<open>
  The API server beside other writers of its bucket, and when the store fails: which versions survive a
  put, what a failed write leaves behind, and where the handlers answer or act otherwise than their
  comments say.
\<close>

section \<open>The path of a successful put\<close>

lemma put_reply_path:
  assumes "put_model_reply h msg a l w = (Ret (PutReply r), w')"
  obtains m found wg ss wl where "parse_manifest h (mg_payload msg) (mg_headers msg) = Ret m"
    and "server_get h a l (trim (md_name (mf_metadata m))) w = (Ret found, wg)"
    and "server_validate_manifest (hd_name_ok h) m = Ret None"
    and "\<exists>q. server_list h a l wg = (q, wl)"
    and "put_stored h a l m (trim (md_name (mf_metadata m))) (fst (case found of Some d \<Rightarrow> d | None \<Rightarrow> (sm_default, 0)))
      (snd (case found of Some d \<Rightarrow> d | None \<Rightarrow> (sm_default, 0))) ss wl = (Ret (PutReply r), w')"
proof -
  obtain m where p: "parse_manifest h (mg_payload msg) (mg_headers msg) = Ret m"
    using assms by (cases "parse_manifest h (mg_payload msg) (mg_headers msg)") (auto simp: put_model_reply_def)
  let ?n = "trim (md_name (mf_metadata m))"
  have "verrors (validate_manifest_version (manifest_version m)) = []"
    using assms by (rule contrapos_pp) (simp add: put_model_reply_def p Let_def)
  moreover from this have "valid (validate_manifest_name (hd_name_ok h) ?n)"
    using assms by (rule_tac contrapos_pp) (auto simp: put_model_reply_def p Let_def)
  ultimately have run: "io_match (server_get h a l ?n) (\<lambda>found.
       let (current_manifests, current_revision) = (case found of Some d \<Rightarrow> d | None \<Rightarrow> (sm_default, 0)) in
       io_match (io_lift (server_validate_manifest (hd_name_ok h) m)) (\<lambda>failure.
         case failure of
           Some f \<Rightarrow> rejected (Invalid f)
         | None \<Rightarrow>
             io_match (server_list h a l) (put_stored h a l m ?n current_manifests current_revision)
               (\<lambda>_. put_stored h a l m ?n current_manifests current_revision []))
       (\<lambda>e. rejected (InvalidText e)))
     (\<lambda>_. rejected StorageFailure) w = (Ret (PutReply r), w')"
    using assms by (simp add: put_model_reply_def p Let_def)
  then show thesis
  proof (cases rule: io_match_cases)
    case (ret found wg)
    obtain cur rv where f: "(case found of Some d \<Rightarrow> d | None \<Rightarrow> (sm_default, 0)) = (cur, rv)" by fastforce
    have v: "server_validate_manifest (hd_name_ok h) m = Ret None"
      using ret(2) f by (cases "server_validate_manifest (hd_name_ok h) m") (auto split: option.splits)
    have "io_match (server_list h a l) (put_stored h a l m ?n cur rv) (\<lambda>_. put_stored h a l m ?n cur rv []) wg =
        (Ret (PutReply r), w')"
      using ret(2) f v by simp
    then show thesis
    proof (cases rule: io_match_cases)
      case (ret ss wl)
      with that [OF p \<open>server_get h a l ?n w = (Ret found, wg)\<close> v, of wl ss] f show thesis by auto
    next
      case (err e wl)
      with that [OF p \<open>server_get h a l ?n w = (Ret found, wg)\<close> v, of wl "[]"] f show thesis by auto
    qed simp
  qed simp_all
qed

lemma put_stored_path:
  assumes "put_stored h a l m n s rv ss w = (Ret (PutReply r), w')"
  obtains s' where "add_version (hd_ulid h w) m s = (s', True)"
    and "server_set h a l s' (Some rv) w = (Ret (), w')"
    and "pr_result r = (if sm_count s' = 1 then PutCreated else PutNewVersion)"
    and "pr_total_versions r = sm_count s'" and "pr_current_version r = current_version s'"
proof -
  obtain apps w1 where "io_lift (deployed_shared_apps ss) w = (Ret apps, w1)"
    using assms unfolding put_stored_def by (elim io_bind_RetE)
  then have apps: "deployed_shared_apps ss = Ret apps" by simp
  obtain s' added where add: "add_version (hd_ulid h w) m s = (s', added)" by fastforce
  have added using assms by (cases added) (auto simp: put_stored_def apps add Let_def)
  with add have a: "add_version (hd_ulid h w) m s = (s', True)" by simp
  obtain q w2 where set: "server_set h a l s' (Some rv) w = (q, w2)" by fastforce
  have "q = Ret () \<and> w2 = w' \<and> pr_result r = (if sm_count s' = 1 then PutCreated else PutNewVersion) \<and>
      pr_total_versions r = sm_count s' \<and> pr_current_version r = current_version s'"
    using assms set by (cases q) (auto simp: put_stored_def apps a Let_def)
  with a set that show thesis by blast
qed

text \<open>The added version carries the name of the history.\<close>

lemma added_name:
  assumes "add_version ulid m s = (s', True)"
  shows "sm_name s' = Ret (md_name (mf_metadata m))"
proof (rule add_version_cases [of ulid m s])
  fix v m'
  assume "add_version ulid m s = (s\<lparr>sm_manifests := sm_manifests s @ [(v, m')]\<rparr>, True)"
    and "md_name (mf_metadata m') = md_name (mf_metadata m)"
  with assms show ?thesis by (auto simp: sm_name_def get_current_if)
qed (use assms in simp)

lemma added_count:
  assumes "add_version ulid m s = (s', True)"
  shows "sm_count s' = Suc (sm_count s)"
proof (rule add_version_cases [of ulid m s])
  fix v m'
  assume "add_version ulid m s = (s\<lparr>sm_manifests := sm_manifests s @ [(v, m')]\<rparr>, True)"
  with assms show ?thesis by (auto simp: sm_count_def)
qed (use assms in simp)

section \<open>Properties\<close>


end
