(* ===== verification/Api_Races.thy ===== *)
theory Api_Races
  imports Api_Faults
begin

text \<open>
  Executions of the API server beside another writer of the bucket, and with a store that fails: the
  loss of a first version, the panic of a deployment, the notification of a deployment that was not stored and the
  deletion that is reported though it failed. They run on one concrete bucket, which satisfies the
  contract.
\<close>

section \<open>A bucket with another writer\<close>

text \<open>
  A cell holds how often it was written before, whether it was removed, and its value. Each operation of
  the bucket first lets the other writer make the next block of writes of its script. A purge can
  be made to fail. The world also records what is published and answered.
\<close>

record race =
  rc_cells :: "string \<Rightarrow> (nat \<times> bool \<times> ex_octet bytes) option"
  rc_script :: "(string \<times> bool \<times> ex_octet bytes) list list"
  rc_down :: bool
  rc_published :: "(string \<times> event cloud_event) list"
  rc_replies :: "reply list"

definition rc_view :: "race \<Rightarrow> string \<Rightarrow> ex_octet kv_entry option" where
  "rc_view w k = map_option (\<lambda>(n, gone, b). \<lparr>ke_removed = gone, ke_value = b, ke_revision = Suc n\<rparr>) (rc_cells w k)"

definition rc_write :: "string \<Rightarrow> bool \<Rightarrow> ex_octet bytes \<Rightarrow> race \<Rightarrow> race" where
  "rc_write k gone b w = w\<lparr>rc_cells := (rc_cells w)(k \<mapsto> (revision_of (rc_view w k), gone, b))\<rparr>"

fun rc_tick :: "race \<Rightarrow> race" where
  "rc_tick w =
     (case rc_script w of
        [] \<Rightarrow> w
      | ws # rest \<Rightarrow> fold (\<lambda>(k, gone, b). rc_write k gone b) ws (w\<lparr>rc_script := rest\<rparr>))"

definition rc_bucket :: "(race, ex_octet) bucket" where
  "rc_bucket =
     \<lparr>bk_entry = (\<lambda>k w. let w1 = rc_tick w in (Inr (rc_view w1 k), w1)),
      bk_update = (\<lambda>k b rv w. let w1 = rc_tick w in
        if revision_of (rc_view w1 k) = rv then (Inr (), rc_write k False b w1)
        else (Inl ''wrong last sequence'', w1)),
      bk_put = (\<lambda>k b w. (Inr (), rc_write k False b (rc_tick w))),
      bk_purge = (\<lambda>k w. if rc_down w then (Inl ''timed out'', rc_tick w) else (Inr (), rc_write k True [] (rc_tick w)))\<rparr>"

definition rc_later :: "race \<Rightarrow> race \<Rightarrow> bool" where
  "rc_later w w' = (\<forall>k. rc_cells w' k = rc_cells w k \<or> revision_of (rc_view w k) < revision_of (rc_view w' k))"

lemma rc_write_later: "rc_later w (rc_write k gone b w)"
  by (auto simp: rc_later_def rc_write_def rc_view_def revision_of_def split: option.split)

lemma rc_revision: "rc_cells a k = rc_cells b k \<Longrightarrow> revision_of (rc_view a k) = revision_of (rc_view b k)"
  by (simp add: rc_view_def)

lemma rc_later_trans:
  assumes "rc_later a b" and "rc_later b c"
  shows "rc_later a c"
  unfolding rc_later_def
proof
  fix k
  from assms have ab: "rc_cells b k = rc_cells a k \<or> revision_of (rc_view a k) < revision_of (rc_view b k)"
    and bc: "rc_cells c k = rc_cells b k \<or> revision_of (rc_view b k) < revision_of (rc_view c k)"
    unfolding rc_later_def by blast+
  show "rc_cells c k = rc_cells a k \<or> revision_of (rc_view a k) < revision_of (rc_view c k)"
    using ab bc rc_revision [of b k a] rc_revision [of c k b] by fastforce
qed

lemma rc_later_refl: "rc_later a a"
  by (simp add: rc_later_def)

lemma rc_writes_later: "rc_later w (fold (\<lambda>(k, gone, b). rc_write k gone b) ws w)"
  by (induction ws arbitrary: w) (auto intro: rc_later_refl rc_later_trans rc_write_later)

lemma rc_tick_later: "rc_later w (rc_tick w)"
proof (cases "rc_script w")
  case (Cons ws rest)
  have "rc_later (w\<lparr>rc_script := rest\<rparr>) (rc_tick w)" using rc_writes_later Cons by simp
  moreover have "rc_later w (w\<lparr>rc_script := rest\<rparr>)" by (simp add: rc_later_def rc_view_def)
  ultimately show ?thesis by (rule rc_later_trans [rotated])
qed (simp add: rc_later_refl)

declare rc_tick.simps [simp del]

lemma rc_writes_at: "writes_at rc_view k b w (rc_write k False b w)"
  by (auto simp: writes_at_def rc_view_def rc_write_def fun_eq_iff)

lemma rc_same:
  assumes "rc_later w w'" and "revision_of (rc_view w k) = revision_of (rc_view w' k)"
  shows "rc_view w' k = rc_view w k"
proof -
  from assms have "rc_cells w' k = rc_cells w k" unfolding rc_later_def by fastforce
  then show ?thesis by (simp add: rc_view_def)
qed

lemma rc_update:
  assumes "bk_update rc_bucket k b rv w = (r, w')"
  shows "rc_later w w' \<and> (r = Inr () \<longrightarrow> (\<exists>w1 e. rc_later w w1 \<and> rc_later w1 w' \<and> revision_of (rc_view w1 k) = rv \<and>
     rc_view w' = (rc_view w1)(k \<mapsto> e) \<and> ke_value e = b \<and> \<not> ke_removed e))"
proof (cases "revision_of (rc_view (rc_tick w) k) = rv")
  case True
  with assms have w': "w' = rc_write k False b (rc_tick w)" by (simp add: rc_bucket_def Let_def)
  have "rc_later (rc_tick w) w'" by (simp add: w' rc_write_later)
  with True rc_writes_at [of k b "rc_tick w"] rc_tick_later [of w] rc_later_trans show ?thesis
    unfolding w' writes_at_def by blast
next
  case False
  with assms show ?thesis by (auto simp: rc_bucket_def Let_def rc_tick_later)
qed

lemma rc_contract: "model_contract rc_view rc_later rc_bucket"
proof -
  have "kv_contract rc_view rc_later (bk_entry rc_bucket) (bk_update rc_bucket)"
    unfolding kv_contract_def
  proof (intro conjI)
    show "\<forall>w. rc_later w w" by (simp add: rc_later_refl)
    show "\<forall>a b c. rc_later a b \<and> rc_later b c \<longrightarrow> rc_later a c" by (blast intro: rc_later_trans)
    show "\<forall>w w' k. rc_later w w' \<and> revision_of (rc_view w k) = revision_of (rc_view w' k) \<longrightarrow> rc_view w' k = rc_view w k"
      by (blast intro: rc_same)
    show "\<forall>k w r w'. bk_entry rc_bucket k w = (r, w') \<longrightarrow> rc_later w w' \<and> (\<forall>e. r = Inr e \<longrightarrow> rc_view w' k = e)"
      by (simp add: rc_bucket_def Let_def) (blast intro: rc_tick_later)
    show "\<forall>k b rv w r w'. bk_update rc_bucket k b rv w = (r, w') \<longrightarrow> rc_later w w' \<and> (r = Inr () \<longrightarrow>
        (\<exists>w1 e. rc_later w w1 \<and> rc_later w1 w' \<and> revision_of (rc_view w1 k) = rv \<and>
           rc_view w' = (rc_view w1)(k \<mapsto> e) \<and> ke_value e = b \<and> \<not> ke_removed e))"
      using rc_update by blast
  qed
  moreover have "bk_put rc_bucket k d w = (r, w') \<Longrightarrow> rc_later w w' \<and>
      (\<exists>w1. rc_later w w1 \<and> rc_later w1 w' \<and> writes_at rc_view k d w1 w')" for k d w r w'
    using rc_tick_later [of w] rc_write_later [of "rc_tick w" k False d] rc_writes_at [of k d "rc_tick w"]
      rc_later_trans [of w "rc_tick w" w']
    by (auto simp: rc_bucket_def)
  moreover have "bk_purge rc_bucket k w = (r, w') \<Longrightarrow> rc_later w w'" for k w r w'
    using rc_tick_later [of w] rc_write_later [of "rc_tick w" k True "[]"] rc_later_trans [of w "rc_tick w" w']
    by (auto simp: rc_bucket_def split: if_splits)
  ultimately show ?thesis
    unfolding model_contract_def by (auto simp: rc_view_def)
qed

section \<open>The server on this bucket\<close>

definition rc_app :: "string \<Rightarrow> string \<Rightarrow> manifest" where
  "rc_app name version = \<lparr>mf_api_version = ''core.oam.dev/v1beta1'', mf_kind = ''Application'',
     mf_metadata = \<lparr>md_name = name, md_annotations = [(''version'', version)], md_labels = []\<rparr>,
     mf_components = [], mf_policies = []\<rparr>"

definition rc_stored :: "string \<Rightarrow> string list \<Rightarrow> string option \<Rightarrow> ex_octet bytes" where
  "rc_stored name versions deployed =
     [Inl \<lparr>sm_manifests = map (\<lambda>v. (v, rc_app name v)) versions, sm_deployed = deployed\<rparr>]"

definition rc_handler :: "(race, ex_octet, event) handler" where
  "rc_handler =
     \<lparr>hd_bucket = rc_bucket, hd_codec = ex_codec,
      hd_yaml = (\<lambda>d. case d of [Inl s] \<Rightarrow> (case sm_manifests s of (_, m) # _ \<Rightarrow> Inr m | [] \<Rightarrow> Inl ''empty'') | _ \<Rightarrow> Inl ''bad''),
      hd_json = (\<lambda>d. Inl ''no json''),
      hd_version_request = (\<lambda>d. case d of [Inr [v]] \<Rightarrow> Inr (Some v) | _ \<Rightarrow> Inl ''bad request''),
      hd_empty_request = (\<lambda>d. Inr ()), hd_name_ok = (\<lambda>n. n \<in> {''shop'', ''cart'', ''dev''}), hd_ulid = (\<lambda>w. ''u1''),
      hd_prefix = ''wadm.evt'', hd_event_data = (\<lambda>e. e),
      hd_publish = (\<lambda>t e w. (Inr (), w\<lparr>rc_published := rc_published w @ [(t, e)]\<rparr>)),
      hd_last_status = (\<lambda>t w. (None, w)), hd_send = (\<lambda>t r w. w\<lparr>rc_replies := rc_replies w @ [r]\<rparr>),
      hd_show_components = (\<lambda>cs. [])\<rparr>"

definition rc_message :: "string \<Rightarrow> ex_octet bytes \<Rightarrow> ex_octet message" where
  "rc_message subject payload =
     \<lparr>mg_subject = subject, mg_payload = payload, mg_headers = None, mg_reply = Some ''inbox''\<rparr>"

text \<open>A store with the given names and applications, and the script of the other writer.\<close>

definition rc_world ::
    "(string \<times> ex_octet bytes) list \<Rightarrow> (string \<times> bool \<times> ex_octet bytes) list list \<Rightarrow> bool \<Rightarrow> race" where
  "rc_world cells script down =
     \<lparr>rc_cells = (\<lambda>k. map_option (\<lambda>b. (0, False, b)) (map_of cells k)), rc_script = script, rc_down = down,
      rc_published = [], rc_replies = []\<rparr>"

definition rc_versions :: "race \<Rightarrow> string \<Rightarrow> string list option" where
  "rc_versions w name = map_option all_versions (app_at ex_codec rc_view None ''default'' w name)"

definition rc_put_world :: race where
  "rc_put_world =
     rc_world [] [[], [], [(''default-shop'', False, rc_stored ''shop'' [''v2''] None), (''default'', False, [Inr [''shop'']])]] False"

definition rc_put :: "ex_octet message" where
  "rc_put = rc_message ''wadm.api.default.model.put'' (rc_stored ''shop'' [''v1''] None)"

text \<open>The answer of the put, the versions of the other server right before its write and those in the end.\<close>

definition rc_put_race :: "reply list \<times> string list option \<times> string list option" where
  "rc_put_race = (let (r, w) = serve ex_server rc_handler [rc_put] rc_put_world in
     (rc_replies w, rc_versions (rc_tick (rc_tick (rc_tick rc_put_world))) ''shop'', rc_versions w ''shop''))"

section \<open>Properties\<close>


text \<open>One application is deployed, another one is about to be; meanwhile the first one is deleted.\<close>

definition rc_deploy_world :: race where
  "rc_deploy_world =
     rc_world [(''default'', [Inr [''cart'', ''shop'']]), (''default-shop'', rc_stored ''shop'' [''v1''] None),
       (''default-cart'', rc_stored ''cart'' [''v1''] (Some ''v1''))]
       [[], [], [], [], [(''default'', False, [Inr [''shop'']]), (''default-cart'', True, [])]] False"

definition rc_deploy :: "ex_octet message" where
  "rc_deploy = rc_message ''wadm.api.default.model.deploy.shop'' []"


text \<open>While the application is being deployed, somebody else puts a new version of it.\<close>

definition rc_conflict_world :: race where
  "rc_conflict_world =
     rc_world [(''default'', [Inr [''shop'']]), (''default-shop'', rc_stored ''shop'' [''v1''] None)]
       [[], [], [], [(''default-shop'', False, rc_stored ''shop'' [''v1'', ''v2''] None)]] False"

definition rc_conflict :: "reply list \<times> (string \<times> event cloud_event) list \<times> string option option" where
  "rc_conflict = (let (r, w) = serve ex_server rc_handler [rc_deploy] rc_conflict_world in
     (rc_replies w, rc_published w, map_option sm_deployed (app_at ex_codec rc_view None ''default'' w ''shop'')))"


text \<open>The purge of the last version fails; then the application is fetched.\<close>

definition rc_failing_world :: race where
  "rc_failing_world =
     rc_world [(''default'', [Inr [''shop'']]), (''default-shop'', rc_stored ''shop'' [''v1''] (Some ''v1''))] [] True"

definition rc_failed_delete :: "reply list \<times> nat" where
  "rc_failed_delete =
     (let (r, w) = serve ex_server rc_handler
        [rc_message ''wadm.api.default.model.del.shop'' [Inr [''v1'']], rc_message ''wadm.api.default.model.get.shop'' []]
        rc_failing_world
      in (rc_replies w, length (rc_published w)))"

text \<open>
  A failed deletion is reported as done. When the store fails to remove an application whose
  last version is deleted, the result is \<open>deleted\<close>, not an error, and no notification asks the workers to
  undeploy it; a request for the application still returns its deployed version.
\<close>

theorem failed_delete_reported:
  "\<exists>d g. rc_failed_delete = ([DeleteReply d, GetReply g], 0) \<and> xr_result d = DeleteDeleted \<and>
     gr_result g = GetSuccess \<and> gr_manifest g = Some (rc_app ''shop'' ''v1'')"
proof -
  let ?d = "delete_response DeleteDeleted ''Internal storage error when deleting v1 of application shop'' False"
  let ?g = "\<lparr>gr_result = GetSuccess, gr_message = ''Successfully fetched application shop'',
         gr_manifest = Some (rc_app ''shop'' ''v1'')\<rparr>"
  have "rc_failed_delete = ([DeleteReply ?d, GetReply ?g], 0)" by code_simp
  moreover have "xr_result ?d = DeleteDeleted" by (simp add: delete_response_def)
  moreover have "gr_result ?g = GetSuccess" "gr_manifest ?g = Some (rc_app ''shop'' ''v1'')" by simp_all
  ultimately show ?thesis by blast
qed

section \<open>Keys of different lattices\<close>

lemma no_dash_cancel:
  assumes "CHR ''-'' \<notin> set l" and "CHR ''-'' \<notin> set l'"
  shows "l @ CHR ''-'' # n = l' @ CHR ''-'' # n' \<longleftrightarrow> l = l' \<and> n = n'"
proof
  assume eq: "l @ CHR ''-'' # n = l' @ CHR ''-'' # n'"
  have t: "takeWhile (\<lambda>c. c \<noteq> CHR ''-'') (k @ CHR ''-'' # m) = k" if "CHR ''-'' \<notin> set k" for k m
    using that by (induction k) auto
  from t [OF assms(1), of n] t [OF assms(2), of n'] eq show "l = l' \<and> n = n'" by auto
qed simp

definition rc_two_lattices :: "reply list" where
  "rc_two_lattices = rc_replies (snd (serve ex_server rc_handler
     [rc_message ''wadm.api.default.model.put'' (rc_stored ''dev'' [''v1''] None),
      rc_message ''wadm.api.default-dev.model.get'' []] (rc_world [] [] False)))"



text \<open>A second version is put while another server puts another application.\<close>

definition rc_busy_world :: race where
  "rc_busy_world =
     rc_world [(''default'', [Inr [''shop'']]), (''default-shop'', rc_stored ''shop'' [''v1''] None)]
       [[], [(''default-cart'', False, rc_stored ''cart'' [''v1''] None)]] False"

definition rc_second_put :: "ex_octet message" where
  "rc_second_put = rc_message ''wadm.api.default.model.put'' (rc_stored ''shop'' [''v2''] None)"


end
