(* ===== verification/Client.thy ===== *)
theory Client
  imports Api_Dispatch
begin

text \<open>
  The client library (\<open>wadm-client\<close>): the topics of the requests (\<open>topics.rs\<close>), its errors
  (\<open>error.rs\<close>), the loading of manifests (\<open>loader.rs\<close>) and the calls (\<open>lib.rs\<close>), from the request to what
  the caller is told of the answer. The connection to NATS, the YAML and JSON parsers and the
  serialisation of the request and response types are parameters.
\<close>

section \<open>Topics\<close>

definition WADM_STATUS_API_PREFIX :: string where "WADM_STATUS_API_PREFIX = ''wadm.status''"

record topic_generator =
  tg_topic_prefix :: string
  tg_model_prefix :: string

definition topic_generator_new :: "string \<Rightarrow> string option \<Rightarrow> topic_generator" where
  "topic_generator_new lattice prefix =
     (let topic_prefix = (case prefix of Some p \<Rightarrow> p | None \<Rightarrow> DEFAULT_WADM_TOPIC_PREFIX) @ ''.'' @ lattice in
      \<lparr>tg_topic_prefix = topic_prefix, tg_model_prefix = topic_prefix @ ''.model''\<rparr>)"

definition model_put_topic :: "topic_generator \<Rightarrow> string" where
  "model_put_topic g = tg_model_prefix g @ ''.put''"

definition model_get_topic :: "topic_generator \<Rightarrow> string \<Rightarrow> string" where
  "model_get_topic g model_name = tg_model_prefix g @ ''.get.'' @ model_name"

definition model_delete_topic :: "topic_generator \<Rightarrow> string \<Rightarrow> string" where
  "model_delete_topic g model_name = tg_model_prefix g @ ''.del.'' @ model_name"

definition model_list_topic :: "topic_generator \<Rightarrow> string" where
  "model_list_topic g = tg_model_prefix g @ ''.list''"

definition model_versions_topic :: "topic_generator \<Rightarrow> string \<Rightarrow> string" where
  "model_versions_topic g model_name = tg_model_prefix g @ ''.versions.'' @ model_name"

definition model_deploy_topic :: "topic_generator \<Rightarrow> string \<Rightarrow> string" where
  "model_deploy_topic g model_name = tg_model_prefix g @ ''.deploy.'' @ model_name"

definition model_undeploy_topic :: "topic_generator \<Rightarrow> string \<Rightarrow> string" where
  "model_undeploy_topic g model_name = tg_model_prefix g @ ''.undeploy.'' @ model_name"

definition model_status_topic :: "topic_generator \<Rightarrow> string \<Rightarrow> string" where
  "model_status_topic g model_name = tg_model_prefix g @ ''.status.'' @ model_name"

text \<open>The lattice is read off the end of the prefix.\<close>

definition wadm_status_topic :: "topic_generator \<Rightarrow> string \<Rightarrow> string" where
  "wadm_status_topic g app_name =
     WADM_STATUS_API_PREFIX @ ''.'' @ last (split_on CHR ''.'' (tg_topic_prefix g)) @ ''.'' @ app_name"

section \<open>Errors and the connection\<close>

datatype serialization_error = YamlError string | JsonError string

datatype client_error =
    ManifestLoad string
  | NatsError string
  | ApiError string
  | NotFound string
  | Serialization serialization_error
  | OtherError string

text \<open>
  What the client uses: a request on a topic and the payload of its answer, the reading of a file, the
  parsers of manifests, the serialisation of a manifest and of a request for a version, and the
  deserialisation of the answers. Errors are their texts.
\<close>

record ('w, 'b) client =
  cl_topics :: topic_generator
  cl_request :: "string \<Rightarrow> (string, string) hmap option \<Rightarrow> 'b bytes \<Rightarrow> 'w \<Rightarrow> (string + 'b bytes) \<times> 'w"
  cl_read :: "string \<Rightarrow> 'w \<Rightarrow> (string + 'b bytes) \<times> 'w"
  cl_yaml :: "'b bytes \<Rightarrow> string + manifest"
  cl_json :: "'b bytes \<Rightarrow> string + manifest"
  cl_manifest_bytes :: "manifest \<Rightarrow> string + 'b bytes"
  cl_version_bytes :: "string \<Rightarrow> string + 'b bytes"
  cl_put_response :: "'b bytes \<Rightarrow> string + put_model_response"
  cl_summaries :: "'b bytes \<Rightarrow> string + model_summary list"
  cl_get_response :: "'b bytes \<Rightarrow> string + get_model_response"
  cl_delete_response :: "'b bytes \<Rightarrow> string + delete_model_response"
  cl_version_response :: "'b bytes \<Rightarrow> string + version_response"
  cl_deploy_response :: "'b bytes \<Rightarrow> string + deploy_model_response"
  cl_status_response :: "'b bytes \<Rightarrow> string + status_response"

text \<open>A call of the client may return early with an error.\<close>

type_synonym ('a, 'w) rpc = "'w \<Rightarrow> (client_error + 'a) \<times> 'w"

definition rpc_ret :: "'a \<Rightarrow> ('a, 'w) rpc" where
  "rpc_ret x w = (Inr x, w)"

definition rpc_fail :: "client_error \<Rightarrow> ('a, 'w) rpc" where
  "rpc_fail e w = (Inl e, w)"

definition rpc_bind :: "('a, 'w) rpc \<Rightarrow> ('a \<Rightarrow> ('b, 'w) rpc) \<Rightarrow> ('b, 'w) rpc" where
  "rpc_bind m f w = (case m w of (Inl e, w') \<Rightarrow> (Inl e, w') | (Inr x, w') \<Rightarrow> f x w')"

definition rpc_json :: "string + 'a \<Rightarrow> ('a, 'w) rpc" where
  "rpc_json r = (case r of Inl e \<Rightarrow> rpc_fail (Serialization (JsonError e)) | Inr x \<Rightarrow> rpc_ret x)"

definition rpc_nats :: "('w \<Rightarrow> (string + 'a) \<times> 'w) \<Rightarrow> ('a, 'w) rpc" where
  "rpc_nats c w = (case c w of (Inl e, w') \<Rightarrow> (Inl (NatsError e), w') | (Inr x, w') \<Rightarrow> (Inr x, w'))"

section \<open>Loading manifests\<close>

datatype 'b manifest_source = Parsed manifest | Raw "'b bytes" | At string

definition parse_loaded :: "('w, 'b) client \<Rightarrow> 'b bytes \<Rightarrow> serialization_error + manifest" where
  "parse_loaded c raw =
     (case cl_yaml c raw of
        Inr m \<Rightarrow> Inr m
      | Inl _ \<Rightarrow> (case cl_json c raw of Inr m \<Rightarrow> Inr m | Inl e \<Rightarrow> Inl (JsonError e)))"

definition load_manifest :: "('w, 'b) client \<Rightarrow> 'b manifest_source \<Rightarrow> (manifest, 'w) rpc" where
  "load_manifest c source w =
     (case source of
        Parsed m \<Rightarrow> (Inr m, w)
      | Raw raw \<Rightarrow> (map_sum Serialization id (parse_loaded c raw), w)
      | At path \<Rightarrow>
          (case cl_read c path w of
             (Inl e, w') \<Rightarrow> (Inl (ManifestLoad e), w')
           | (Inr raw, w') \<Rightarrow> (map_sum Serialization id (parse_loaded c raw), w')))"

section \<open>The calls\<close>

definition headers_content_type_json :: "(string, string) hmap" where
  "headers_content_type_json = [(''Content-Type'', ''application/json'')]"

text \<open>A request and the deserialised body of its answer; the optional version is the request's body.\<close>

definition client_call ::
    "('w, 'b) client \<Rightarrow> string \<Rightarrow> (string, string) hmap option \<Rightarrow> 'b bytes \<Rightarrow> ('b bytes \<Rightarrow> string + 'a) \<Rightarrow> ('a, 'w) rpc" where
  "client_call c topic headers body decode =
     rpc_bind (rpc_nats (cl_request c topic headers body)) (\<lambda>payload. rpc_json (decode payload))"

definition version_body :: "('w, 'b) client \<Rightarrow> string option \<Rightarrow> ('b bytes, 'w) rpc" where
  "version_body c version = (case version of Some v \<Rightarrow> rpc_json (cl_version_bytes c v) | None \<Rightarrow> rpc_ret [])"

definition put_manifest :: "('w, 'b) client \<Rightarrow> 'b manifest_source \<Rightarrow> (string \<times> string, 'w) rpc" where
  "put_manifest c source =
     rpc_bind (load_manifest c source) (\<lambda>manifest.
     rpc_bind (rpc_json (cl_manifest_bytes c manifest)) (\<lambda>manifest_bytes.
     rpc_bind (client_call c (model_put_topic (cl_topics c)) (Some headers_content_type_json) manifest_bytes
       (cl_put_response c)) (\<lambda>body.
     if pr_result body = PutError then rpc_fail (ApiError (pr_message body))
     else rpc_ret (pr_name body, pr_current_version body))))"

definition list_manifests :: "('w, 'b) client \<Rightarrow> (model_summary list, 'w) rpc" where
  "list_manifests c = client_call c (model_list_topic (cl_topics c)) None [] (cl_summaries c)"

definition get_manifest :: "('w, 'b) client \<Rightarrow> string \<Rightarrow> string option \<Rightarrow> (manifest, 'w) rpc" where
  "get_manifest c name version =
     rpc_bind (version_body c version) (\<lambda>body.
     rpc_bind (client_call c (model_get_topic (cl_topics c) name) None body (cl_get_response c)) (\<lambda>body.
     case gr_result body of
       GetError \<Rightarrow> rpc_fail (ApiError (gr_message body))
     | GetNotFound \<Rightarrow> rpc_fail (NotFound name)
     | GetSuccess \<Rightarrow>
         (case gr_manifest body of
            Some m \<Rightarrow> rpc_ret m
          | None \<Rightarrow> rpc_fail (ApiError ''API returned success but didn't set a manifest''))))"

definition delete_manifest :: "('w, 'b) client \<Rightarrow> string \<Rightarrow> string option \<Rightarrow> (bool, 'w) rpc" where
  "delete_manifest c name version =
     rpc_bind (version_body c version) (\<lambda>body.
     rpc_bind (client_call c (model_delete_topic (cl_topics c) name) None body (cl_delete_response c)) (\<lambda>body.
     case xr_result body of
       DeleteError \<Rightarrow> rpc_fail (ApiError (xr_message body))
     | DeleteNoop \<Rightarrow> rpc_ret False
     | DeleteDeleted \<Rightarrow> rpc_ret True))"

definition list_manifest_versions :: "('w, 'b) client \<Rightarrow> string \<Rightarrow> (version_info list, 'w) rpc" where
  "list_manifest_versions c name =
     rpc_bind (client_call c (model_versions_topic (cl_topics c) name) None [] (cl_version_response c)) (\<lambda>body.
     case vr_result body of
       GetError \<Rightarrow> rpc_fail (ApiError (vr_message body))
     | GetNotFound \<Rightarrow> rpc_fail (NotFound name)
     | GetSuccess \<Rightarrow> rpc_ret (vr_versions body))"

definition deploy_manifest :: "('w, 'b) client \<Rightarrow> string \<Rightarrow> string option \<Rightarrow> (string \<times> string option, 'w) rpc" where
  "deploy_manifest c name version =
     rpc_bind (version_body c version) (\<lambda>body.
     rpc_bind (client_call c (model_deploy_topic (cl_topics c) name) None body (cl_deploy_response c)) (\<lambda>body.
     case dr_result body of
       DeployError \<Rightarrow> rpc_fail (ApiError (dr_message body))
     | DeployNotFound \<Rightarrow> rpc_fail (NotFound name)
     | DeployAcknowledged \<Rightarrow> rpc_ret (dr_name body, dr_version body)))"

definition put_and_deploy_manifest :: "('w, 'b) client \<Rightarrow> 'b manifest_source \<Rightarrow> (string \<times> string, 'w) rpc" where
  "put_and_deploy_manifest c source =
     rpc_bind (put_manifest c source) (\<lambda>(name, version).
     rpc_bind (deploy_manifest c name (Some version)) (\<lambda>_. rpc_ret (name, version)))"

definition undeploy_manifest :: "('w, 'b) client \<Rightarrow> string \<Rightarrow> (string, 'w) rpc" where
  "undeploy_manifest c name =
     rpc_bind (client_call c (model_undeploy_topic (cl_topics c) name) None [] (cl_deploy_response c)) (\<lambda>body.
     case dr_result body of
       DeployError \<Rightarrow> rpc_fail (ApiError (dr_message body))
     | DeployNotFound \<Rightarrow> rpc_fail (NotFound name)
     | DeployAcknowledged \<Rightarrow> rpc_ret (dr_name body))"

definition client_manifest_status :: "('w, 'b) client \<Rightarrow> string \<Rightarrow> (status, 'w) rpc" where
  "client_manifest_status c name =
     rpc_bind (client_call c (model_status_topic (cl_topics c) name) None [] (cl_status_response c)) (\<lambda>body.
     case tr_result body of
       StatusError \<Rightarrow> rpc_fail (ApiError (tr_message body))
     | StatusNotFound \<Rightarrow> rpc_fail (NotFound name)
     | StatusOk \<Rightarrow>
         (case tr_status body of
            Some s \<Rightarrow> rpc_ret s
          | None \<Rightarrow> rpc_fail (ApiError ''API returned success but didn't set a status'')))"

end
