(* ===== verification/Client_Topics.thy ===== *)
theory Client_Topics
  imports Client
begin

text \<open>
  The topics the client makes are parsed by the server into the operation that was meant.
\<close>

lemma trim_chars_head: "c \<in> cs \<Longrightarrow> hd (trim_chars cs s) \<noteq> c \<or> trim_chars cs s = []"
proof -
  have "hd t \<noteq> c \<or> t = []" if "\<forall>d ds. s' = d # ds \<longrightarrow> d \<notin> cs" "c \<in> cs" "t = rev (dropWhile (\<lambda>c. c \<in> cs) (rev s'))" for s' t
  proof (cases s')
    case (Cons d ds)
    then have "dropWhile (\<lambda>c. c \<in> cs) (rev s') = dropWhile (\<lambda>c. c \<in> cs) (rev ds) @ [d]"
      using that(1) by (simp add: dropWhile_append dropWhile_eq_self_iff split: if_splits)
    then show ?thesis using that Cons by auto
  qed (use that in simp)
  moreover have "\<forall>d ds. dropWhile (\<lambda>c. c \<in> cs) s = d # ds \<longrightarrow> d \<notin> cs" by (metis dropWhile_eq_Cons_conv)
  moreover assume "c \<in> cs"
  ultimately show ?thesis unfolding trim_chars_def by blast
qed

lemma server_new_prefix:
  assumes "server_new p multitenant = Ret (sv, topic)"
  shows "sv_multitenant sv = multitenant" and "sv_prefix sv \<noteq> []" and "hd (sv_prefix sv) \<noteq> CHR ''.''"
  using assms trim_chars_head [of "CHR ''.''" "{CHR ''.''}"]
  by (auto simp: server_new_def Let_def split: if_splits)

lemma trim_front_once:
  assumes "p \<noteq> []" and "\<not> starts_with p s"
  shows "trim_front [p] (p @ s) = s"
  using assms by (subst trim_front.simps) (simp add: trim_front.simps [of "[p]" s])

lemma starts_with_other: "p \<noteq> [] \<Longrightarrow> hd p \<noteq> c \<Longrightarrow> \<not> starts_with p (c # s)"
  by (cases p) (auto simp: starts_with_def)

text \<open>The pieces of a subject after the server's prefix.\<close>

definition subject_of :: "server \<Rightarrow> string \<Rightarrow> string \<Rightarrow> string" where
  "subject_of sv account topic = (if sv_multitenant sv then account @ ''.'' @ topic else topic)"

definition model_request :: "server \<Rightarrow> string \<Rightarrow> string \<Rightarrow> string \<Rightarrow> string option \<Rightarrow> parsed_subject" where
  "model_request sv account l operation n =
     \<lparr>ps_account_id = (if sv_multitenant sv then Some account else None), ps_lattice_id = l, ps_category = ''model'',
      ps_operation = operation, ps_object_name = n\<rparr>"

lemma parse_pieces:
  assumes "sv_prefix sv \<noteq> []" and "hd (sv_prefix sv) \<noteq> CHR ''.''" and "CHR ''.'' \<notin> set account"
    and l: "l \<noteq> []" "CHR ''.'' \<notin> set l"
  shows "parse_subject sv (subject_of sv account (sv_prefix sv @ ''.'' @ l @ CHR ''.'' # rest)) =
    (case split_on CHR ''.'' rest of
       [] \<Rightarrow> Err ''Expected to find API category''
     | [_] \<Rightarrow> Err ''Expected to find operation''
     | category # operation # pieces \<Rightarrow>
         if length pieces > 1 then Err ''Found extra components of subject, ensure your manifest name consists of only alphanumeric characters, dashes, and underscores.''
         else Ret \<lparr>ps_account_id = (if sv_multitenant sv then Some account else None), ps_lattice_id = l,
           ps_category = category, ps_operation = operation,
           ps_object_name = (case pieces of [] \<Rightarrow> None | n # _ \<Rightarrow> Some n)\<rparr>)"
proof -
  have once: "split_once CHR ''.'' (account @ CHR ''.'' # t) = Some (account, t)" for t
    using assms(3) by (induction account) auto
  have front: "trim_front [sv_prefix sv] (sv_prefix sv @ ''.'' @ t) = ''.'' @ t" for t
    using trim_front_once [OF assms(1), of "''.'' @ t"] starts_with_other [OF assms(1,2), of t] by simp
  have drop: "dropWhile (\<lambda>c. c = CHR ''.'') (''.'' @ l @ t) = l @ t" for t
    using l by (cases l) auto
  have "parse_subject sv (subject_of sv account (sv_prefix sv @ ''.'' @ l @ CHR ''.'' # rest)) =
      (case l # split_on CHR ''.'' rest of
            [] \<Rightarrow> Err ''Expected to find lattice ID''
          | [_] \<Rightarrow> Err ''Expected to find API category''
          | [_, _] \<Rightarrow> Err ''Expected to find operation''
          | lattice_id # category # operation # rest \<Rightarrow>
              if length rest > 1 then Err ''Found extra components of subject, ensure your manifest name consists of only alphanumeric characters, dashes, and underscores.''
              else Ret \<lparr>ps_account_id = (if sv_multitenant sv then Some account else None), ps_lattice_id = lattice_id,
                ps_category = category, ps_operation = operation,
                ps_object_name = (case rest of [] \<Rightarrow> None | n # _ \<Rightarrow> Some n)\<rparr>)"
    using front [of "l @ CHR ''.'' # rest"] drop [of "CHR ''.'' # rest"] split_on_append [OF l(2), of rest]
    by (simp add: parse_subject_def subject_of_def once)
  then show ?thesis by (auto split: list.splits)
qed

lemma parse_model:
  assumes "server_new p multitenant = Ret (sv, topic)" and "CHR ''.'' \<notin> set account" and "l \<noteq> []" and "CHR ''.'' \<notin> set l"
    and "CHR ''.'' \<notin> set operation"
  shows "parse_subject sv (subject_of sv account (sv_prefix sv @ ''.'' @ l @ ''.model'' @ ''.'' @ operation)) =
      Ret (model_request sv account l operation None)"
    and "CHR ''.'' \<notin> set n \<Longrightarrow> parse_subject sv (subject_of sv account (sv_prefix sv @ ''.'' @ l @ ''.model'' @ ''.'' @ operation @ ''.'' @ n)) =
      Ret (model_request sv account l operation (Some n))"
  using parse_pieces [of sv account l "''model.'' @ operation"] parse_pieces [of sv account l "''model.'' @ operation @ ''.'' @ n"]
    server_new_prefix [OF assms(1)] assms split_on_no_sep [of "CHR ''.''" operation] split_on_no_sep [of "CHR ''.''" n]
    split_on_append [of "CHR ''.''" operation n]
  by (simp_all add: model_request_def)

lemma split_last: "c \<notin> set l \<Longrightarrow> \<exists>ws. ws \<noteq> [] \<and> split_on c (p @ c # l) = ws @ [l]"
proof (induction p)
  case (Cons d p)
  then obtain w ws where "split_on c (p @ c # l) = (w # ws) @ [l]" by (metis neq_Nil_conv)
  then show ?case
    by (intro exI [of _ "if d = c then [] # w # ws else (d # w) # ws"]) simp
qed (auto simp: split_on_no_sep)

lemma last_split: "c \<notin> set l \<Longrightarrow> last (split_on c (p @ c # l)) = l"
  using split_last [of c l p] by auto

text \<open>
  C6. The server reads every topic the client makes for it as the operation, lattice and application that
  were meant, also behind an account in a multitenant deployment, when neither the lattice nor the name contains a
  dot; and the client listens for statuses on the subject under which the server looks them up.
\<close>

theorem topics_reach_handlers:
  assumes "server_new p multitenant = Ret (sv, topic)" and "l \<noteq> []" and "CHR ''.'' \<notin> set l" and "CHR ''.'' \<notin> set n"
    and "CHR ''.'' \<notin> set account"
  shows "let g = topic_generator_new l (Some (sv_prefix sv));
             reads = (\<lambda>t operation n. parse_subject sv (subject_of sv account t) = Ret (model_request sv account l operation n)) in
     reads (model_put_topic g) ''put'' None \<and> reads (model_list_topic g) ''list'' None \<and>
     reads (model_get_topic g n) ''get'' (Some n) \<and> reads (model_delete_topic g n) ''del'' (Some n) \<and>
     reads (model_versions_topic g n) ''versions'' (Some n) \<and> reads (model_deploy_topic g n) ''deploy'' (Some n) \<and>
     reads (model_undeploy_topic g n) ''undeploy'' (Some n) \<and> reads (model_status_topic g n) ''status'' (Some n) \<and>
     get_manifest_status h l n = hd_last_status h (wadm_status_topic g n)"
proof -
  note put = parse_model(1) [OF assms(1,5,2,3), of "''put''"] and list = parse_model(1) [OF assms(1,5,2,3), of "''list''"]
  note named = parse_model(2) [OF assms(1,5,2,3) _ assms(4)]
  note named = named [of "''get''"] named [of "''del''"] named [of "''versions''"] named [of "''deploy''"]
    named [of "''undeploy''"] named [of "''status''"]
  have "wadm_status_topic (topic_generator_new l (Some (sv_prefix sv))) n = ''wadm.status.'' @ l @ ''.'' @ n"
    using last_split [OF assms(3), of "sv_prefix sv"] by (simp add: wadm_status_topic_def topic_generator_new_def WADM_STATUS_API_PREFIX_def)
  with put list named show ?thesis
    by (simp add: Let_def topic_generator_new_def model_put_topic_def model_list_topic_def model_get_topic_def
        model_delete_topic_def model_versions_topic_def model_deploy_topic_def model_undeploy_topic_def
        model_status_topic_def get_manifest_status_def fun_eq_iff)
qed

theorem topics_reach_handlers_witness:
  "parse_subject \<lparr>sv_prefix = ''wadm.api'', sv_multitenant = True\<rparr>
      (''ACC.'' @ model_deploy_topic (topic_generator_new ''default'' None) ''shop'') =
     Ret \<lparr>ps_account_id = Some ''ACC'', ps_lattice_id = ''default'', ps_category = ''model'',
       ps_operation = ''deploy'', ps_object_name = Some ''shop''\<rparr>"
proof -
  have new: "server_new None True = Ret (\<lparr>sv_prefix = ''wadm.api'', sv_multitenant = True\<rparr>, ''*.wadm.api.>'')"
    by code_simp
  note reach = topics_reach_handlers [OF new, of "''default''" "''shop''" "''ACC''", unfolded Let_def,
      THEN conjunct2, THEN conjunct2, THEN conjunct2, THEN conjunct2, THEN conjunct2, THEN conjunct1]
  have g: "topic_generator_new ''default'' None = topic_generator_new ''default'' (Some ''wadm.api'')"
    by (simp add: topic_generator_new_def DEFAULT_WADM_TOPIC_PREFIX_def)
  show ?thesis unfolding g using reach by (simp add: subject_of_def model_request_def)
qed

end
