(* ===== verification/Client_Properties.thy ===== *)
theory Client_Properties
  imports Client_Topics Api_Faults
begin

text \<open>
  The client and the server together: a call of the client, run against the server in a calm world, does
  what it tells its caller.
\<close>

section \<open>The connection\<close>

text \<open>
  A request is a message with an inbox as its reply subject, and what the server sends to the inbox is its
  answer; \<open>received\<close> is the last reply sent and \<open>enc\<close> its JSON text.
\<close>

definition request_message :: "string \<Rightarrow> (string, string) hmap option \<Rightarrow> 'b bytes \<Rightarrow> 'b message" where
  "request_message topic headers body =
     \<lparr>mg_subject = topic, mg_payload = body, mg_headers = headers, mg_reply = Some ''_INBOX''\<rparr>"

definition connected ::
    "server \<Rightarrow> ('w, 'b, 'd) handler \<Rightarrow> ('w \<Rightarrow> reply option) \<Rightarrow> (reply \<Rightarrow> 'b bytes) \<Rightarrow> ('w, 'b) client \<Rightarrow> bool" where
  "connected sv h received enc c \<longleftrightarrow>
     (\<forall>t r w. received (hd_send h t r w) = Some r) \<and>
     (\<forall>topic hs body w. cl_request c topic hs body w =
        (let w' = snd (serve_message sv h (request_message topic hs body) w) in
         (case received w' of Some r \<Rightarrow> Inr (enc r) | None \<Rightarrow> Inl ''timed out'', w')))"

text \<open>
  What serde does to the requests and answers: they decode to what was encoded, and the error answer
  decodes, where its missing fields have defaults, to a response with the error result. The expression of
  the names admits no dot.
\<close>

definition wire_ok :: "('w, 'b, 'd) handler \<Rightarrow> (reply \<Rightarrow> 'b bytes) \<Rightarrow> ('w, 'b) client \<Rightarrow> bool" where
  "wire_ok h enc c \<longleftrightarrow>
     (\<forall>r. cl_put_response c (enc (PutReply r)) = Inr r) \<and>
     (\<forall>e. \<exists>r. cl_put_response c (enc (ErrorReply e)) = Inr r \<and> pr_result r = PutError) \<and>
     (\<forall>r. cl_deploy_response c (enc (DeployReply r)) = Inr r) \<and>
     (\<forall>e. \<exists>r. cl_deploy_response c (enc (ErrorReply e)) = Inr r \<and> dr_result r = DeployError) \<and>
     (\<forall>m d. cl_manifest_bytes c m = Inr d \<longrightarrow> hd_json h d = Inr m) \<and>
     (\<forall>v d. cl_version_bytes c v = Inr d \<longrightarrow> d \<noteq> [] \<and> hd_version_request h d = Inr (Some v)) \<and>
     (\<forall>n. hd_name_ok h n \<longrightarrow> CHR ''.'' \<notin> set n)"

lemma wire_errors:
  assumes "wire_ok h enc c"
  shows "cl_put_response c (enc (ErrorReply e)) = Inr r \<Longrightarrow> pr_result r = PutError"
    and "cl_deploy_response c (enc (ErrorReply e)) = Inr q \<Longrightarrow> dr_result q = DeployError"
proof -
  obtain r' q' where "cl_put_response c (enc (ErrorReply e)) = Inr r'" "pr_result r' = PutError"
    "cl_deploy_response c (enc (ErrorReply e)) = Inr q'" "dr_result q' = DeployError"
    using assms unfolding wire_ok_def by meson
  then show "cl_put_response c (enc (ErrorReply e)) = Inr r \<Longrightarrow> pr_result r = PutError"
    and "cl_deploy_response c (enc (ErrorReply e)) = Inr q \<Longrightarrow> dr_result q = DeployError" by simp_all
qed

lemma rpc_bind_InrE:
  assumes "rpc_bind m f w = (Inr y, w')"
  obtains x w1 where "m w = (Inr x, w1)" and "f x w1 = (Inr y, w')"
  using assms by (auto simp: rpc_bind_def split: prod.splits sum.splits)

lemma rpc_simps [simp]:
  "rpc_ret x w = (Inr x, w)" "rpc_fail e w = (Inl e, w)" "rpc_json (Inr x) w = (Inr x, w)"
  "rpc_json r w = (Inr x, w') \<longleftrightarrow> r = Inr x \<and> w' = w"
  by (auto simp: rpc_ret_def rpc_fail_def rpc_json_def split: sum.splits)

lemma client_callE:
  assumes "client_call c topic hs body decode w = (Inr x, w')"
  obtains payload where "cl_request c topic hs body w = (Inr payload, w')" and "decode payload = Inr x"
  using assms by (auto simp: client_call_def rpc_nats_def elim!: rpc_bind_InrE split: prod.splits sum.splits)

lemma connected_answer:
  assumes "connected sv h received enc c"
    and "serve_message sv h (request_message topic hs body) = respond h (request_message topic hs body) f"
    and "f w = (Ret r, w1)"
  shows "cl_request c topic hs body w = (Inr (enc r), hd_send h ''_INBOX'' r w1)"
  using assms by (simp add: connected_def respond_def send_reply_def request_message_def Let_def)

section \<open>The kinds of answers\<close>

definition answers :: "('a \<Rightarrow> bool) \<Rightarrow> ('a, 'w) io \<Rightarrow> bool" where
  "answers P m \<longleftrightarrow> (\<forall>w r w'. m w = (Ret r, w') \<longrightarrow> P r)"

named_theorems answers_intros \<open>how the kind of an answer follows from its branches\<close>

lemma answers_ret [answers_intros]: "P r \<Longrightarrow> answers P (io_ret r)"
  by (simp add: answers_def)

lemma answers_match [answers_intros]:
  assumes "\<And>x. answers P (f x)" and "\<And>e. answers P (g e)"
  shows "answers P (io_match m f g)"
  using assms unfolding answers_def by (blast elim: io_match_cases)

lemma answers_bind [answers_intros]: "(\<And>x. answers P (f x)) \<Longrightarrow> answers P (io_bind m f)"
  unfolding answers_def by (blast elim: io_bind_RetE)

lemma answersD: "answers P m \<Longrightarrow> m w = (Ret r, w') \<Longrightarrow> P r"
  unfolding answers_def by blast

definition put_kind :: "string \<Rightarrow> reply \<Rightarrow> bool" where
  "put_kind n r \<longleftrightarrow> (\<exists>e. r = ErrorReply e) \<or> (\<exists>p. r = PutReply p \<and> pr_name p = n)"

definition deploy_kind :: "reply \<Rightarrow> bool" where
  "deploy_kind r \<longleftrightarrow> (\<exists>e. r = ErrorReply e) \<or> (\<exists>p. r = DeployReply p)"

lemma kind_simps [simp]:
  "put_kind n (ErrorReply e)" "put_kind n (PutReply p) \<longleftrightarrow> pr_name p = n"
  "deploy_kind (ErrorReply e)" "deploy_kind (DeployReply q)"
  by (auto simp: put_kind_def deploy_kind_def)

lemma put_stored_kind: "answers (put_kind n) (put_stored h a l m n s rv ss)"
  unfolding answers_def
proof (intro allI impI)
  fix w r w'
  assume put: "put_stored h a l m n s rv ss w = (Ret r, w')"
  show "put_kind n r"
  proof (cases "deployed_shared_apps ss")
    case (Ret apps)
    obtain s' added where add: "add_version (hd_ulid h w) m s = (s', added)" by fastforce
    obtain q w1 where set: "server_set h a l s' (Some rv) w = (q, w1)" by fastforce
    show ?thesis
      using put set by (cases added; cases q) (auto simp: put_stored_def Ret add Let_def)
  qed (use put in \<open>auto simp: put_stored_def\<close>)
qed

lemma put_reply_kind:
  assumes "put_model_reply h msg a l w = (Ret r, w')"
  obtains e where "r = ErrorReply e" | p where "r = PutReply p"
proof -
  have "answers (\<lambda>r. \<exists>n. put_kind n r) (put_stored h a l m n s rv ss)" for m n s rv ss
    using put_stored_kind [of n h a l m s rv ss] unfolding answers_def by blast
  then have "answers (\<lambda>r. \<exists>n. put_kind n r) (put_model_reply h msg a l)"
    unfolding put_model_reply_def Let_def
    by (auto intro!: answers_intros split: option.split prod.split)
  from answersD [OF this assms] that show thesis by (auto simp: put_kind_def)
qed

lemma deploy_reply_kind:
  assumes "deploy_model_reply h msg a l n w = (Ret r, w')"
  obtains e where "r = ErrorReply e" | p where "r = DeployReply p"
proof -
  have "answers deploy_kind (deploy_model_reply h msg a l n)"
    unfolding deploy_model_reply_def deploy_staged_def store_and_notify_def notify_deploy_def Let_def
    by (auto intro!: answers_intros split: option.split prod.split)
  from answersD [OF this assms] that show thesis by (auto simp: deploy_kind_def)
qed

section \<open>Putting and deploying\<close>

text \<open>The server handles a request the client makes for its lattice.\<close>

lemma served_put:
  assumes "server_new p False = Ret (sv, topic)" and "l \<noteq> []" and "CHR ''.'' \<notin> set l"
    and "g = topic_generator_new l (Some (sv_prefix sv))"
  shows "serve_message sv h (request_message (model_put_topic g) hs body) =
    put_model h (request_message (model_put_topic g) hs body) None l"
proof -
  let ?t = "sv_prefix sv @ ''.'' @ l @ ''.model'' @ ''.'' @ ''put''"
  have t: "model_put_topic g = ?t" by (simp add: assms(4) model_put_topic_def topic_generator_new_def)
  have "parse_subject sv ?t = Ret (model_request sv [] l ''put'' None)"
    using parse_model(1) [OF assms(1) _ assms(2,3), of "[]" "''put''"] server_new_prefix(1) [OF assms(1)]
    by (simp add: subject_of_def)
  then show ?thesis
    using server_new_prefix(1) [OF assms(1)]
    unfolding t by (simp add: serve_message_def request_message_def dispatch_def model_request_def Let_def)
qed

lemma served_deploy:
  assumes "server_new p False = Ret (sv, topic)" and "l \<noteq> []" and "CHR ''.'' \<notin> set l"
    and "g = topic_generator_new l (Some (sv_prefix sv))" and "CHR ''.'' \<notin> set n"
  shows "serve_message sv h (request_message (model_deploy_topic g n) hs body) =
    deploy_model h (request_message (model_deploy_topic g n) hs body) None l n"
proof -
  let ?t = "sv_prefix sv @ ''.'' @ l @ ''.model'' @ ''.'' @ ''deploy'' @ ''.'' @ n"
  have t: "model_deploy_topic g n = ?t" by (simp add: assms(4) model_deploy_topic_def topic_generator_new_def)
  have "parse_subject sv ?t = Ret (model_request sv [] l ''deploy'' (Some n))"
    using parse_model(2) [OF assms(1) _ assms(2,3) _ assms(5), of "[]" "''deploy''"] server_new_prefix(1) [OF assms(1)]
    by (simp add: subject_of_def)
  then show ?thesis
    using server_new_prefix(1) [OF assms(1)]
    unfolding t by (simp add: serve_message_def request_message_def dispatch_def model_request_def Let_def)
qed

text \<open>A put that the server answers with success, in a calm world.\<close>

lemma put_decided:
  assumes h: "calm view h" and ok: "server_ok view h a l w"
    and put: "put_model_reply h msg a l w = (Ret (PutReply r), w')"
    and m: "parse_manifest h (mg_payload msg) (mg_headers msg) = Ret m"
  obtains ulid s' where "hd_name_ok h (md_name (mf_metadata m))" and "pr_name r = md_name (mf_metadata m)"
    and "add_version ulid m (app_or_new (apps_of view h a l w) (md_name (mf_metadata m))) = (s', True)"
    and "pr_current_version r = current_version s'" and "server_ok view h a l w'"
    and "apps_of view h a l w' = (apps_of view h a l w)(md_name (mf_metadata m) \<mapsto> s')"
proof (rule put_reply_path [OF put])
  fix m' :: manifest and found :: "(stored_manifest \<times> nat) option" and wg ss wl
  let ?n = "md_name (mf_metadata m)" and ?apps = "apps_of view h a l w"
  let ?d = "case found of Some d \<Rightarrow> d | None \<Rightarrow> (sm_default, 0)"
  assume p: "parse_manifest h (mg_payload msg) (mg_headers msg) = Ret m'"
  with m have [simp]: "m' = m" by simp
  assume get: "server_get h a l (trim (md_name (mf_metadata m'))) w = (Ret found, wg)"
    and v: "server_validate_manifest (hd_name_ok h) m' = Ret None"
    and list: "\<exists>q. server_list h a l wg = (q, wl)"
    and stored: "put_stored h a l m' (trim (md_name (mf_metadata m'))) (fst ?d) (snd ?d) ss wl = (Ret (PutReply r), w')"
  have name: "hd_name_ok h ?n" using server_validate_name [of "hd_name_ok h" m'] v by simp
  have trim: "trim ?n = ?n" by (rule calm_name [OF h name])
  have found: "wg = w" "found = map_option (\<lambda>s. (s, revision_of (view w (model_key a l ?n)))) (?apps ?n)"
    using get calm_get [OF h ok, of ?n] by (auto simp: trim)
  then have d: "fst ?d = app_or_new ?apps ?n" "0 < snd ?d \<Longrightarrow> snd ?d = revision_of (view w (model_key a l ?n))"
    by (auto simp: app_or_new_def split: option.splits)
  have wl: "wl = w" using list calm_list [OF h ok] found(1) by (metis prod.inject)
  obtain s' where s': "add_version (hd_ulid h wl) m (app_or_new ?apps ?n) = (s', True)"
      "server_set h a l s' (Some (snd ?d)) w = (Ret (), w')" "pr_current_version r = current_version s'"
    using stored unfolding d(1) wl by (auto simp: trim elim!: put_stored_path)
  have "app_ok ?n (app_or_new ?apps ?n) \<or> app_or_new ?apps ?n = sm_default"
    using server_apps_ok [OF ok] by (auto simp: app_or_new_def apps_ok_def split: option.split)
  from app_ok_add [OF this refl s'(1)] have app: "app_ok ?n s'" .
  obtain w2 where "server_set h a l s' (Some (snd ?d)) w = (Ret (), w2)" "server_ok view h a l w2"
      "apps_of view h a l w2 = ?apps(?n \<mapsto> s')"
    by (rule calm_set [OF h ok app d(2)])
  with s' that [OF name _ s'(1)] answersD [OF put_stored_kind stored] trim show thesis by auto
qed

text \<open>A deployment of the newest version that the server acknowledges, in a calm world.\<close>

lemma deploy_current:
  assumes h: "calm view h" and ok: "server_ok view h a l w" and s: "apps_of view h a l w n = Some s"
    and m: "sm_manifests s = ms @ [(v, m)]" and req: "version_request h msg = Ret (Some v)"
    and deploy: "deploy_model_reply h msg a l n w = (Ret (DeployReply r), w')"
  obtains s' where "get_deployed s' = Some m" and "sm_manifests s' = sm_manifests s"
    and "apps_of view h a l w' = (apps_of view h a l w)(n \<mapsto> s')"
proof -
  have "app_ok n s" by (rule calm_found [OF h ok s])
  then have "distinct (map fst (ms @ [(v, m)]))" by (simp add: app_ok_def sm_ok_def hm_wf_def m)
  then have "map_of (sm_manifests s) v = Some m" 
    using map_of_eq_None_iff [of ms v] by (auto simp: m map_add_def)
  then have staged: "staged_model s (Some v) = Ret (Some m)"
    by (simp add: staged_model_def get_current_if get_version_def m)
  from deploy_decided [OF h ok req s staged deploy]
  obtain s' where "sm_deploy (Some v) s = (s', True)" "get_deployed s' = Some m"
    "apps_of view h a l w' = (apps_of view h a l w)(n \<mapsto> s')"
    by (auto split: if_splits)
  moreover from this(1) have "sm_manifests s' = sm_manifests s" by (auto simp: sm_deploy_def split: if_splits)
  ultimately show thesis by (intro that)
qed

lemma put_called:
  assumes h: "calm view h" and ok: "server_ok view h None l w" and conn: "connected sv h received enc c"
    and wire: "wire_ok h enc c" and sv: "server_new p False = Ret (sv, topic)" and l: "l \<noteq> []" "CHR ''.'' \<notin> set l"
    and g: "cl_topics c = topic_generator_new l (Some (sv_prefix sv))"
    and call: "put_manifest c (Parsed m) w = (Inr (n, v), w')"
  obtains ulid s' where "n = md_name (mf_metadata m)" and "hd_name_ok h n" and "v = current_version s'"
    and "add_version ulid m (app_or_new (apps_of view h None l w) n) = (s', True)"
    and "server_ok view h None l w'" and "apps_of view h None l w' = (apps_of view h None l w)(n \<mapsto> s')"
proof -
  let ?t = "model_put_topic (cl_topics c)"
  obtain d r where d: "cl_manifest_bytes c m = Inr d"
    and answer: "client_call c ?t (Some headers_content_type_json) d (cl_put_response c) w = (Inr r, w')"
    and r: "pr_result r \<noteq> PutError" "n = pr_name r" "v = pr_current_version r"
    using call by (auto simp: put_manifest_def load_manifest_def elim!: rpc_bind_InrE split: if_splits)
  let ?msg = "request_message ?t (Some headers_content_type_json) d"
  have json: "parse_manifest h (mg_payload ?msg) (mg_headers ?msg) = Ret m"
    using wire d by (simp add: wire_ok_def parse_manifest_def request_message_def headers_content_type_json_def
        CONTENT_TYPE_HEADER_def JSON_MIME_def of_sum_def)
  obtain x w1 where put: "put_model_reply h ?msg None l w = (Ret x, w1)"
    using put_steps [OF h ok, of ?msg] unfolding steps_def by blast
  have "cl_request c ?t (Some headers_content_type_json) d w = (Inr (enc x), hd_send h ''_INBOX'' x w1)"
    by (rule connected_answer [OF conn served_put [OF sv l g, of h, folded put_model_def, unfolded put_model_def] put])
  with answer have x: "cl_put_response c (enc x) = Inr r" "w' = hd_send h ''_INBOX'' x w1"
    by (auto elim!: client_callE)
  from put show thesis
  proof (cases rule: put_reply_kind)
    case (1 e)
    with wire_errors(1) [OF wire, of e r] x(1) r(1) show ?thesis by simp
  next
    case (2 q)
    with wire x(1) have "q = r" by (auto simp: wire_ok_def)
    have v: "view w' = view w1" unfolding x(2) by (rule calm_send [OF h])
    show ?thesis
      by (rule put_decided [OF h ok put [unfolded 2 \<open>q = r\<close>] json], rule that)
        (simp_all add: r same_view [OF v])
  qed
qed

lemma deploy_called:
  assumes h: "calm view h" and ok: "server_ok view h None l w" and conn: "connected sv h received enc c"
    and wire: "wire_ok h enc c" and sv: "server_new p False = Ret (sv, topic)" and l: "l \<noteq> []" "CHR ''.'' \<notin> set l"
    and g: "cl_topics c = topic_generator_new l (Some (sv_prefix sv))"
    and s: "apps_of view h None l w n = Some s" "sm_manifests s = ms @ [(v, m)]" and n: "hd_name_ok h n"
    and call: "deploy_manifest c n (Some v) w = (Inr x, w')"
  obtains s' where "get_deployed s' = Some m" and "sm_manifests s' = sm_manifests s"
    and "apps_of view h None l w' = (apps_of view h None l w)(n \<mapsto> s')"
proof -
  let ?t = "model_deploy_topic (cl_topics c) n"
  obtain d r where d: "cl_version_bytes c v = Inr d"
    and answer: "client_call c ?t None d (cl_deploy_response c) w = (Inr r, w')" and r: "dr_result r \<noteq> DeployError"
    using call by (auto simp: deploy_manifest_def version_body_def elim!: rpc_bind_InrE split: deploy_result.splits)
  let ?msg = "request_message ?t None d"
  have req: "version_request h ?msg = Ret (Some v)"
    using wire d by (auto simp: wire_ok_def version_request_def request_message_def of_sum_def)
  obtain y w1 where deploy: "deploy_model_reply h ?msg None l n w = (Ret y, w1)"
    using deploy_steps [OF h ok, of ?msg n] unfolding steps_def by blast
  have dots: "CHR ''.'' \<notin> set n" using wire n by (simp add: wire_ok_def)
  have "cl_request c ?t None d w = (Inr (enc y), hd_send h ''_INBOX'' y w1)"
    by (rule connected_answer [OF conn served_deploy [OF sv l g dots, of h, folded deploy_model_def, unfolded deploy_model_def] deploy])
  with answer have y: "cl_deploy_response c (enc y) = Inr r" "w' = hd_send h ''_INBOX'' y w1"
    by (auto elim!: client_callE)
  from deploy show thesis
  proof (cases rule: deploy_reply_kind)
    case (1 e)
    with wire_errors(2) [OF wire, of e r] y(1) r show ?thesis by simp
  next
    case (2 q)
    have v: "view w' = view w1" unfolding y(2) by (rule calm_send [OF h])
    show ?thesis
      by (rule deploy_current [OF h ok s req deploy [unfolded 2]], rule that) (simp_all add: same_view [OF v])
  qed
qed


section \<open>A client and a server\<close>

datatype cx_octet = CxModel stored_manifest | CxNames "string list" | CxManifest manifest | CxVersion string | CxReply reply

text \<open>The world: a bucket and the last reply sent.\<close>

type_synonym cx_world = "(string \<Rightarrow> cx_octet kv_entry option) \<times> reply option"

definition cx_write :: "bool \<Rightarrow> string \<Rightarrow> cx_octet bytes \<Rightarrow> cx_world \<Rightarrow> (string + unit) \<times> cx_world" where
  "cx_write gone k b w =
     (Inr (), (fst w)(k \<mapsto> \<lparr>ke_removed = gone, ke_value = b, ke_revision = Suc (revision_of (fst w k))\<rparr>), snd w)"

definition cx_bucket :: "(cx_world, cx_octet) bucket" where
  "cx_bucket =
     \<lparr>bk_entry = (\<lambda>k w. (Inr (fst w k), w)),
      bk_update = (\<lambda>k b rv w. if revision_of (fst w k) = rv then cx_write False k b w else (Inl ''wrong last sequence'', w)),
      bk_put = cx_write False, bk_purge = (\<lambda>k. cx_write True k [])\<rparr>"

definition cx_codec :: "cx_octet codec" where
  "cx_codec =
     \<lparr>cd_of_model = (\<lambda>b. case b of [CxModel s] \<Rightarrow> Inr s | _ \<Rightarrow> Inl ''bad model''), cd_model = (\<lambda>s. Inr [CxModel s]),
      cd_of_names = (\<lambda>b. case b of [CxNames ns] \<Rightarrow> Inr ns | _ \<Rightarrow> Inl ''bad names''), cd_names = (\<lambda>ns. Inr [CxNames ns])\<rparr>"

definition cx_handler :: "(cx_world, cx_octet, unit) handler" where
  "cx_handler =
     \<lparr>hd_bucket = cx_bucket, hd_codec = cx_codec, hd_yaml = (\<lambda>d. Inl ''no yaml''),
      hd_json = (\<lambda>d. if d = [CxManifest ex_shop] then Inr ex_shop else Inl ''no json''),
      hd_version_request = (\<lambda>d. case d of [CxVersion v] \<Rightarrow> Inr (Some v) | _ \<Rightarrow> Inl ''no request''),
      hd_empty_request = (\<lambda>d. Inr ()), hd_name_ok = (\<lambda>n. n = ''shop''), hd_ulid = (\<lambda>w. ''u1''), hd_prefix = ''wadm.evt'',
      hd_event_data = (\<lambda>e. ()), hd_publish = (\<lambda>t e w. (Inr (), w)), hd_last_status = (\<lambda>t w. (None, w)),
      hd_send = (\<lambda>t r w. (fst w, Some r)), hd_show_components = (\<lambda>cs. [])\<rparr>"

definition cx_client :: "(cx_world, cx_octet) client" where
  "cx_client =
     \<lparr>cl_topics = topic_generator_new ''default'' (Some ''wadm.api''),
      cl_request = (\<lambda>topic hs body w.
        let w' = snd (serve_message ex_server cx_handler (request_message topic hs body) w) in
        (case snd w' of Some r \<Rightarrow> Inr [CxReply r] | None \<Rightarrow> Inl ''timed out'', w')),
      cl_read = (\<lambda>path w. (Inl ''no such file'', w)), cl_yaml = (\<lambda>d. Inl ''no yaml''), cl_json = (\<lambda>d. Inl ''no json''),
      cl_manifest_bytes = (\<lambda>m. if m = ex_shop then Inr [CxManifest m] else Inl ''unknown''),
      cl_version_bytes = (\<lambda>v. Inr [CxVersion v]),
      cl_put_response = (\<lambda>d. case d of
          [CxReply (PutReply r)] \<Rightarrow> Inr r
        | [CxReply (ErrorReply e)] \<Rightarrow> Inr \<lparr>pr_result = PutError, pr_total_versions = 0, pr_current_version = [],
            pr_message = ''error'', pr_name = []\<rparr>
        | _ \<Rightarrow> Inl ''bad response''),
      cl_summaries = (\<lambda>d. case d of [CxReply (SummariesReply ms)] \<Rightarrow> Inr ms | _ \<Rightarrow> Inl ''bad response''),
      cl_get_response = (\<lambda>d. case d of [CxReply (GetReply r)] \<Rightarrow> Inr r | _ \<Rightarrow> Inl ''bad response''),
      cl_delete_response = (\<lambda>d. case d of [CxReply (DeleteReply r)] \<Rightarrow> Inr r | _ \<Rightarrow> Inl ''bad response''),
      cl_version_response = (\<lambda>d. case d of [CxReply (VersionsReply r)] \<Rightarrow> Inr r | _ \<Rightarrow> Inl ''bad response''),
      cl_deploy_response = (\<lambda>d. case d of
          [CxReply (DeployReply r)] \<Rightarrow> Inr r
        | [CxReply (ErrorReply e)] \<Rightarrow> Inr (deploy_response DeployError ''error'' [] None)
        | _ \<Rightarrow> Inl ''bad response''),
      cl_status_response = (\<lambda>d. case d of [CxReply (StatusReply r)] \<Rightarrow> Inr r | _ \<Rightarrow> Inl ''bad response'')\<rparr>"

lemma cx_calm: "calm fst cx_handler"
proof -
  have r: "reliable fst cx_bucket"
    unfolding reliable_def writes_at_def by (auto simp: cx_bucket_def cx_write_def)
  have c: "codec_total cx_codec" by (auto simp: codec_total_def codec_ok_def cx_codec_def)
  have t: "trim ''shop'' = ''shop''" by code_simp
  have "validate_manifest (\<lambda>n. n = ''shop'') ex_shop \<noteq> Panic" by code_simp
  with r c t show ?thesis by (auto simp: calm_def cx_handler_def)
qed

lemma cx_connected: "connected ex_server cx_handler snd (\<lambda>r. [CxReply r]) cx_client"
  by (simp add: connected_def cx_handler_def cx_client_def)

lemma cx_wire: "wire_ok cx_handler (\<lambda>r. [CxReply r]) cx_client"
  by (auto simp: wire_ok_def cx_handler_def cx_client_def deploy_response_def split: if_splits)

lemma cx_empty_ok: "server_ok fst cx_handler a l (\<lambda>_. None, r)"
  by (auto simp: store_ok_def readable_def names_at_def app_at_def dom_def)


end
