(* ===== verification/Consumers.thy ===== *)
theory Consumers
  imports Commands_Events Nats_Kv
begin

text \<open>
  The consumers of events and commands (\<open>consumers/\<close>): messages that are acknowledged once, the durable
  consumers with their names and the decoding of their messages (\<open>events.rs\<close>, \<open>commands.rs\<close>), and the
  manager that runs one worker per topic (\<open>manager.rs\<close>). JetStream is a parameter: \<open>'m\<close> is its message
  type, \<open>'k\<close> its kinds of acknowledgement, and its calls act on a world \<open>'w\<close>.
\<close>

section \<open>Scoped messages\<close>

record ('w, 'm, 'k) jetstream =
  js_double_ack :: "'m \<Rightarrow> 'w \<Rightarrow> (string + unit) \<times> 'w"
  js_ack :: "'m \<Rightarrow> 'w \<Rightarrow> (string + unit) \<times> 'w"
  js_ack_with :: "'m \<Rightarrow> 'k \<Rightarrow> 'w \<Rightarrow> (string + unit) \<times> 'w"
  js_nak :: 'k
  js_in_runtime :: "'w \<Rightarrow> bool"

record ('m, 'a) scoped_message =
  sc_lattice_id :: string
  sc_inner :: 'a
  sc_acker :: "'m option"

text \<open>The loop of \<open>ack\<close>, by the number of attempts left after this one.\<close>

fun ack_attempts :: "('w, 'm, 'k) jetstream \<Rightarrow> 'm \<Rightarrow> nat \<Rightarrow> 'w \<Rightarrow> (string + unit) \<times> 'w" where
  "ack_attempts js msg 0 w = js_double_ack js msg w"
| "ack_attempts js msg (Suc n) w =
     (case js_double_ack js msg w of
        (Inr _, w1) \<Rightarrow> (Inr (), w1)
      | (Inl _, w1) \<Rightarrow> ack_attempts js msg n w1)"

definition scoped_ack ::
    "('w, 'm, 'k) jetstream \<Rightarrow> ('m, 'a) scoped_message \<Rightarrow> 'w \<Rightarrow> (string + unit) \<times> ('m, 'a) scoped_message \<times> 'w" where
  "scoped_ack js s w =
     (case sc_acker s of
        Some msg \<Rightarrow> (let (r, w1) = ack_attempts js msg 2 w in (r, s\<lparr>sc_acker := None\<rparr>, w1))
      | None \<Rightarrow> (Inr (), s, w))"

text \<open>A failed signal leaves the message as it was.\<close>

definition custom_ack ::
    "('w, 'm, 'k) jetstream \<Rightarrow> 'k \<Rightarrow> ('m, 'a) scoped_message \<Rightarrow> 'w \<Rightarrow> (string + unit) \<times> ('m, 'a) scoped_message \<times> 'w" where
  "custom_ack js kind s w =
     (case sc_acker s of
        Some msg \<Rightarrow>
          (case js_ack_with js msg kind w of
             (Inl e, w1) \<Rightarrow> (Inl e, s, w1)
           | (Inr _, w1) \<Rightarrow> (Inr (), s\<lparr>sc_acker := None\<rparr>, w1))
      | None \<Rightarrow> (Inr (), s, w))"

definition scoped_nack :: "('w, 'm, 'k) jetstream \<Rightarrow> ('m, 'a) scoped_message \<Rightarrow> 'w \<Rightarrow> ('m, 'a) scoped_message \<times> 'w" where
  "scoped_nack js s w =
     (case custom_ack js (js_nak js) s w of
        (Inl _, s1, w1) \<Rightarrow> (s1\<lparr>sc_acker := None\<rparr>, w1)
      | (Inr _, s1, w1) \<Rightarrow> (s1, w1))"

definition scoped_drop :: "('w, 'm, 'k) jetstream \<Rightarrow> ('m, 'a) scoped_message \<Rightarrow> 'w \<Rightarrow> 'w" where
  "scoped_drop js s w =
     (case sc_acker s of
        Some msg \<Rightarrow> if js_in_runtime js w then snd (js_ack_with js msg (js_nak js) w) else w
      | None \<Rightarrow> w)"

section \<open>Durable consumers\<close>

definition EVENTS_CONSUMER_PREFIX :: string where "EVENTS_CONSUMER_PREFIX = ''wadm_event_consumer''"
definition COMMANDS_CONSUMER_PREFIX :: string where "COMMANDS_CONSUMER_PREFIX = ''wadm_command_consumer''"
definition LATTICE_METADATA_KEY :: string where "LATTICE_METADATA_KEY = ''lattice''"
definition MULTITENANT_METADATA_KEY :: string where "MULTITENANT_METADATA_KEY = ''multitenant_prefix''"
definition DEFAULT_ACK_TIME :: nat where "DEFAULT_ACK_TIME = 2"

record consumer_config =
  cc_name :: string
  cc_description :: string
  cc_ack_wait :: nat
  cc_max_deliver :: nat
  cc_filter_subject :: string
  cc_metadata :: "(string, string) hmap"

definition consumer_config_for ::
    "string \<Rightarrow> string \<Rightarrow> string \<Rightarrow> string \<Rightarrow> string option \<Rightarrow> consumer_config outcome" where
  "consumer_config_for prefix kind topic lattice_id multitenant_prefix =
     (if \<not> contains_str lattice_id topic
      then Err (''Topic '' @ topic @ '' does not match for lattice ID '' @ lattice_id)
      else
        let (consumer_name, metadata) =
          (case multitenant_prefix of
             Some mt \<Rightarrow> (prefix @ ''-'' @ lattice_id @ ''_'' @ mt,
               [(LATTICE_METADATA_KEY, lattice_id), (MULTITENANT_METADATA_KEY, mt)])
           | None \<Rightarrow> (prefix @ ''-'' @ lattice_id, [(LATTICE_METADATA_KEY, lattice_id)])) in
        Ret \<lparr>cc_name = consumer_name,
          cc_description = ''Durable wadm '' @ kind @ '' consumer for lattice '' @ lattice_id,
          cc_ack_wait = DEFAULT_ACK_TIME, cc_max_deliver = 3, cc_filter_subject = topic, cc_metadata = metadata\<rparr>)"

definition event_consumer_config :: "string \<Rightarrow> string \<Rightarrow> string option \<Rightarrow> consumer_config outcome" where
  "event_consumer_config = consumer_config_for EVENTS_CONSUMER_PREFIX ''events''"

definition command_consumer_config :: "string \<Rightarrow> string \<Rightarrow> string option \<Rightarrow> consumer_config outcome" where
  "command_consumer_config = consumer_config_for COMMANDS_CONSUMER_PREFIX ''commands''"

text \<open>
  The next item of the stream: the end, an error or a message that decodes. One that does not is
  acknowledged, whatever comes of that, and skipped.
\<close>

fun consumer_next ::
    "('w, 'm, 'k) jetstream \<Rightarrow> string \<Rightarrow> ('m \<Rightarrow> 'a option) \<Rightarrow> (string + 'm) list \<Rightarrow> 'w \<Rightarrow>
     ((string + ('m, 'a) scoped_message) option \<times> (string + 'm) list) \<times> 'w" where
  "consumer_next js lattice_id decode [] w = ((None, []), w)"
| "consumer_next js lattice_id decode (Inl e # rest) w = ((Some (Inl e), rest), w)"
| "consumer_next js lattice_id decode (Inr msg # rest) w =
     (case decode msg of
        None \<Rightarrow> consumer_next js lattice_id decode rest (snd (js_ack js msg w))
      | Some x \<Rightarrow> ((Some (Inr \<lparr>sc_lattice_id = lattice_id, sc_inner = x, sc_acker = Some msg\<rparr>), rest), w))"

text \<open>An event is decoded in two steps, a command in one.\<close>

definition decode_event ::
    "('m \<Rightarrow> 'd cloud_event option) \<Rightarrow> (string \<Rightarrow> 'd \<Rightarrow> event option) \<Rightarrow> 'm \<Rightarrow> event option" where
  "decode_event json de msg =
     (case json msg of
        None \<Rightarrow> None
      | Some raw_evt \<Rightarrow> (case event_from_cloud de raw_evt of Ret evt \<Rightarrow> Some evt | _ \<Rightarrow> None))"

section \<open>The work loop\<close>

datatype work_error = ConsumerStopped | WorkPoolClosed | WorkFatal string | WorkNats string | WorkOther string

lemma consumer_next_shrinks:
  "consumer_next js l de items w = ((Some res, rest), w') \<Longrightarrow> length rest < length items"
proof (induction js l de items w rule: consumer_next.induct)
  case (3 js l de msg rest' w)
  then show ?case by (cases "de msg") fastforce+
qed auto

text \<open>\<open>permit\<close> takes a permit from the pool, which is given back at the end of the turn, and fails when it is closed.\<close>

function work_fn ::
    "('w, 'm, 'k) jetstream \<Rightarrow> string \<Rightarrow> ('m \<Rightarrow> 'a option) \<Rightarrow> ('w \<Rightarrow> bool \<times> 'w) \<Rightarrow>
     (('m, 'a) scoped_message \<Rightarrow> 'w \<Rightarrow> (work_error + unit) \<times> 'w) \<Rightarrow> (string + 'm) list \<Rightarrow> 'w \<Rightarrow> work_error \<times> 'w" where
  "work_fn js lattice_id decode permit do_work items w =
     (case consumer_next js lattice_id decode items w of
        ((None, _), w1) \<Rightarrow> (ConsumerStopped, w1)
      | ((Some res, rest), w1) \<Rightarrow>
          (case permit w1 of
             (False, w2) \<Rightarrow> (WorkPoolClosed, w2)
           | (True, w2) \<Rightarrow>
               (case res of
                  Inl _ \<Rightarrow> work_fn js lattice_id decode permit do_work rest w2
                | Inr msg \<Rightarrow>
                    (case do_work msg w2 of
                       (Inl (WorkFatal e), w3) \<Rightarrow> (WorkFatal e, w3)
                     | (_, w3) \<Rightarrow> work_fn js lattice_id decode permit do_work rest w3))))"
  by pat_completeness auto

termination
  by (relation "measure (\<lambda>(_, _, _, _, _, items, _). length items)")
    (auto dest: consumer_next_shrinks [OF sym])

declare work_fn.simps [simp del]

section \<open>The manager\<close>

definition extract_lattice_and_multitenant :: "string \<Rightarrow> string option \<times> string option" where
  "extract_lattice_and_multitenant consumer_name =
     (let remainder = join_with ''-'' (tl (split_on CHR ''-'' consumer_name));
          parts = split_on CHR ''_'' remainder in
      (Some (hd parts), case tl parts of [] \<Rightarrow> None | p # _ \<Rightarrow> Some p))"

text \<open>Whose consumer it is: by its metadata, or else by its name.\<close>

definition consumer_owner :: "(string, string) hmap \<Rightarrow> string \<Rightarrow> (string \<times> string option) option" where
  "consumer_owner metadata name =
     (case (hm_get metadata LATTICE_METADATA_KEY, hm_get metadata MULTITENANT_METADATA_KEY) of
        (Some lattice, Some mt) \<Rightarrow> Some (lattice, Some mt)
      | (Some lattice, None) \<Rightarrow> Some (lattice, None)
      | _ \<Rightarrow>
          (case extract_lattice_and_multitenant name of
             (Some i, prefix) \<Rightarrow> Some (i, prefix)
           | (None, _) \<Rightarrow> None))"

text \<open>
  What the manager starts: \<open>sp_config\<close> is the consumer of the topic, \<open>sp_create\<close> asks the stream for it,
  \<open>sp_worker\<close> makes the worker of the lattice and \<open>sp_spawn\<close> starts the loop as a task; \<open>sp_finished\<close> tells
  whether a task has stopped.
\<close>

record ('w, 'v) spawner =
  sp_config :: "string \<Rightarrow> string \<Rightarrow> string option \<Rightarrow> consumer_config outcome"
  sp_create :: "consumer_config \<Rightarrow> 'w \<Rightarrow> (string + unit) \<times> 'w"
  sp_worker :: "string \<Rightarrow> string option \<Rightarrow> 'w \<Rightarrow> (string + 'v) \<times> 'w"
  sp_spawn :: "consumer_config \<Rightarrow> 'v \<Rightarrow> 'w \<Rightarrow> nat \<times> 'w"
  sp_finished :: "nat \<Rightarrow> 'w \<Rightarrow> bool"

type_synonym work_handles = "(string, nat) hmap"

definition has_consumer :: "('w, 'v) spawner \<Rightarrow> work_handles \<Rightarrow> string \<Rightarrow> 'w \<Rightarrow> bool" where
  "has_consumer sp handles topic w =
     (case hm_get handles topic of Some task \<Rightarrow> \<not> sp_finished sp task w | None \<Rightarrow> False)"

definition spawn_handler ::
    "('w, 'v) spawner \<Rightarrow> string \<Rightarrow> string \<Rightarrow> string option \<Rightarrow> 'v \<Rightarrow> 'w \<Rightarrow> (string + nat) \<times> 'w" where
  "spawn_handler sp topic lattice_id multitenant_prefix worker w =
     (case sp_config sp topic lattice_id multitenant_prefix of
        Ret cfg \<Rightarrow>
          (case sp_create sp cfg w of
             (Inl e, w1) \<Rightarrow> (Inl e, w1)
           | (Inr _, w1) \<Rightarrow> (let (task, w2) = sp_spawn sp cfg worker w1 in (Inr task, w2)))
      | Err e \<Rightarrow> (Inl e, w)
      | Panic \<Rightarrow> (Inl [], w))"

definition add_for_lattice ::
    "('w, 'v) spawner \<Rightarrow> work_handles \<Rightarrow> string \<Rightarrow> string \<Rightarrow> string option \<Rightarrow> 'v \<Rightarrow> 'w \<Rightarrow>
     (string + unit) \<times> work_handles \<times> 'w" where
  "add_for_lattice sp handles topic lattice_id multitenant_prefix worker w =
     (if \<not> has_consumer sp handles topic w then
        (case spawn_handler sp topic lattice_id multitenant_prefix worker w of
           (Inl e, w1) \<Rightarrow> (Inl e, handles, w1)
         | (Inr task, w1) \<Rightarrow> (Inr (), hm_insert topic task handles, w1))
      else (Inr (), handles, w))"

text \<open>
  At the start the manager takes up the consumers that exist, where they are of its tenancy; errors only cost
  the one consumer.
\<close>

record consumer_info =
  ci_name :: string
  ci_filter_subject :: string
  ci_metadata :: "(string, string) hmap"

definition take_up :: "('w, 'v) spawner \<Rightarrow> bool \<Rightarrow> string + consumer_info \<Rightarrow> 'w \<Rightarrow> (string \<times> nat) option \<times> 'w" where
  "take_up sp multitenant res w =
     (case res of
        Inl _ \<Rightarrow> (None, w)
      | Inr info \<Rightarrow>
          (case consumer_owner (ci_metadata info) (ci_name info) of
             None \<Rightarrow> (None, w)
           | Some (lattice_id, multitenant_prefix) \<Rightarrow>
               if (multitenant_prefix \<noteq> None) \<noteq> multitenant then (None, w)
               else
                 (case sp_worker sp lattice_id multitenant_prefix w of
                    (Inl _, w1) \<Rightarrow> (None, w1)
                  | (Inr worker, w1) \<Rightarrow>
                      (case spawn_handler sp (ci_filter_subject info) lattice_id multitenant_prefix worker w1 of
                         (Inl _, w2) \<Rightarrow> (None, w2)
                       | (Inr task, w2) \<Rightarrow> (Some (ci_filter_subject info, task), w2)))))"

fun consumer_manager_new ::
    "('w, 'v) spawner \<Rightarrow> bool \<Rightarrow> (string + consumer_info) list \<Rightarrow> work_handles \<Rightarrow> 'w \<Rightarrow> work_handles \<times> 'w" where
  "consumer_manager_new sp multitenant [] handles w = (handles, w)"
| "consumer_manager_new sp multitenant (res # infos) handles w =
     (let (entry, w1) = take_up sp multitenant res w in
      consumer_manager_new sp multitenant infos
        (case entry of Some (topic, task) \<Rightarrow> hm_insert topic task handles | None \<Rightarrow> handles) w1)"

end
