(* ===== verification/Consumer_Properties.thy ===== *)
theory Consumer_Properties
  imports Consumers
begin

text \<open>
  The consumers keep their promises: every message a worker gets is settled, the work loop hands over each
  message once and in order, and a restarted manager finds the owner of every consumer.
\<close>

section \<open>Signals to the stream\<close>

datatype 'k signal = SigAck | SigKind 'k

text \<open>Every call to JetStream is one entry of a log, with the message, the signal and whether it was confirmed.\<close>

definition logged :: "('w \<Rightarrow> ('m \<times> 'k signal \<times> bool) list) \<Rightarrow> ('w, 'm, 'k) jetstream \<Rightarrow> bool" where
  "logged log js \<longleftrightarrow>
     (\<forall>m w r w'. js_double_ack js m w = (r, w') \<longrightarrow> log w' = log w @ [(m, SigAck, r = Inr ())]) \<and>
     (\<forall>m k w r w'. js_ack_with js m k w = (r, w') \<longrightarrow> log w' = log w @ [(m, SigKind k, r = Inr ())]) \<and>
     (\<forall>w. js_in_runtime js w)"

text \<open>What a worker may do with its message before it drops it.\<close>

datatype 'k settle = DoAck | DoNack | DoCustom 'k

fun settle_step :: "('w, 'm, 'k) jetstream \<Rightarrow> 'k settle \<Rightarrow> ('m, 'a) scoped_message \<times> 'w \<Rightarrow> ('m, 'a) scoped_message \<times> 'w" where
  "settle_step js DoAck (s, w) = snd (scoped_ack js s w)"
| "settle_step js DoNack (s, w) = scoped_nack js s w"
| "settle_step js (DoCustom k) (s, w) = snd (custom_ack js k s w)"

definition settle_all :: "('w, 'm, 'k) jetstream \<Rightarrow> 'k settle list \<Rightarrow> ('m, 'a) scoped_message \<Rightarrow> 'w \<Rightarrow> 'w" where
  "settle_all js ops s w = (let (s', w') = fold (settle_step js) ops (s, w) in scoped_drop js s' w')"

text \<open>Signals for one message of which at most the last was confirmed.\<close>

definition signals :: "'m \<Rightarrow> ('m \<times> 'k signal \<times> bool) list \<Rightarrow> bool" where
  "signals m ss \<longleftrightarrow> fst ` set ss \<subseteq> {m} \<and> (\<forall>(_, _, ok) \<in> set (butlast ss). \<not> ok)"

definition unconfirmed :: "'m \<Rightarrow> ('m \<times> 'k signal \<times> bool) list \<Rightarrow> bool" where
  "unconfirmed m ss \<longleftrightarrow> fst ` set ss \<subseteq> {m} \<and> (\<forall>(_, _, ok) \<in> set ss. \<not> ok)"

lemma unconfirmed_snoc: "unconfirmed m ss \<Longrightarrow> signals m (ss @ [(m, k, ok)])"
  by (auto simp: unconfirmed_def signals_def)

lemma unconfirmed_more: "unconfirmed m ss \<Longrightarrow> unconfirmed m (ss @ [(m, k, False)])"
  by (auto simp: unconfirmed_def)

lemma unconfirmed_signals: "unconfirmed m ss \<Longrightarrow> signals m ss"
  by (auto simp: unconfirmed_def signals_def dest: in_set_butlastD)

lemma attempts_logged:
  assumes "logged log js" and "ack_attempts js m n w = (r, w')" and "unconfirmed m ss" and "log w = base @ ss"
  shows "\<exists>ss'. log w' = base @ ss' \<and> ss' \<noteq> [] \<and> signals m ss'"
  using assms(2-)
proof (induction n arbitrary: w ss)
  case 0
  with assms(1) show ?case by (fastforce simp: logged_def intro: unconfirmed_snoc)
next
  case (Suc n)
  obtain q w1 where q: "js_double_ack js m w = (q, w1)" by fastforce
  have log: "log w1 = base @ ss @ [(m, SigAck, q = Inr ())]"
    using assms(1) q Suc.prems(3) by (simp add: logged_def)
  show ?case
  proof (cases q)
    case (Inr x)
    then have "w' = w1" using Suc.prems(1) q by simp
    with log unconfirmed_snoc [OF Suc.prems(2)] show ?thesis by blast
  next
    case (Inl e)
    with Suc.prems(1) q log show ?thesis
      using Suc.IH [of w1 "ss @ [(m, SigAck, False)]"] unconfirmed_more [OF Suc.prems(2)] by simp
  qed
qed

text \<open>The message keeps its acker until a signal was given up or confirmed.\<close>

definition settling :: "('w \<Rightarrow> ('m \<times> 'k signal \<times> bool) list) \<Rightarrow> ('m \<times> 'k signal \<times> bool) list \<Rightarrow> 'm \<Rightarrow> ('m, 'a) scoped_message \<times> 'w \<Rightarrow> bool" where
  "settling log base m sw \<longleftrightarrow>
     (\<exists>ss. log (snd sw) = base @ ss \<and>
        (case sc_acker (fst sw) of Some m' \<Rightarrow> m' = m \<and> unconfirmed m ss | None \<Rightarrow> ss \<noteq> [] \<and> signals m ss))"

lemma custom_settling:
  assumes l: "logged log js" and "settling log base m (s, w)" and "custom_ack js k s w = (r, s', w')"
  shows "settling log base m (s', w')" and "settling log base m (s'\<lparr>sc_acker := None\<rparr>, w') \<or> s' = s \<and> sc_acker s = None"
proof -
  obtain ss where ss: "log w = base @ ss"
    "case sc_acker s of Some m' \<Rightarrow> m' = m \<and> unconfirmed m ss | None \<Rightarrow> ss \<noteq> [] \<and> signals m ss"
    using assms(2) by (auto simp: settling_def)
  have "settling log base m (s', w') \<and> (settling log base m (s'\<lparr>sc_acker := None\<rparr>, w') \<or> s' = s \<and> sc_acker s = None)"
  proof (cases "sc_acker s")
    case None
    with assms(2,3) show ?thesis by (simp add: custom_ack_def)
  next
    case (Some m')
    obtain q w1 where q: "js_ack_with js m k w = (q, w1)" by fastforce
    have log: "log w1 = base @ ss @ [(m, SigKind k, q = Inr ())]" using l q ss(1) by (simp add: logged_def)
    have u: "unconfirmed m ss" "m' = m" using ss(2) Some by simp_all
    show ?thesis
    proof (cases q)
      case (Inl e)
      with assms(3) Some u q have "s' = s" "w' = w1" by (simp_all add: custom_ack_def)
      with log Inl Some u unconfirmed_more [OF u(1)] unconfirmed_snoc [OF u(1)] show ?thesis
        by (auto simp: settling_def)
    next
      case (Inr x)
      with assms(3) Some u q have "s' = s\<lparr>sc_acker := None\<rparr>" "w' = w1" by (auto simp: custom_ack_def)
      with log unconfirmed_snoc [OF u(1)] show ?thesis by (auto simp: settling_def)
    qed
  qed
  then show "settling log base m (s', w')"
    and "settling log base m (s'\<lparr>sc_acker := None\<rparr>, w') \<or> s' = s \<and> sc_acker s = None" by blast+
qed

lemma settle_step_settling:
  assumes l: "logged log js" and "settling log base m (s, w)"
  shows "settling log base m (settle_step js op (s, w))"
proof (cases op)
  case DoAck
  show ?thesis
  proof (cases "sc_acker s")
    case (Some m')
    obtain r w' where r: "ack_attempts js m 2 w = (r, w')" by fastforce
    obtain ss where ss: "log w = base @ ss" "unconfirmed m ss" "m' = m" using assms(2) Some by (auto simp: settling_def)
    from attempts_logged [OF l r ss(2,1)] DoAck Some ss(3) r show ?thesis
      by (auto simp: scoped_ack_def settling_def)
  qed (use assms(2) DoAck in \<open>simp add: scoped_ack_def\<close>)
next
  case DoNack
  obtain r s' w' where c: "custom_ack js (js_nak js) s w = (r, s', w')" by (metis prod.exhaust)
  have none: "sc_acker s = None \<Longrightarrow> s\<lparr>sc_acker := None\<rparr> = s" by (cases s) simp
  from custom_settling [OF l assms(2) c] have "settling log base m (s', w')" "settling log base m (s'\<lparr>sc_acker := None\<rparr>, w')"
    by (auto simp: none)
  with c DoNack show ?thesis by (cases r) (simp_all add: scoped_nack_def)
next
  case (DoCustom k)
  obtain r s' w' where c: "custom_ack js k s w = (r, s', w')" by (metis prod.exhaust)
  with custom_settling(1) [OF l assms(2) c] DoCustom show ?thesis by simp
qed

lemma settle_steps: "logged log js \<Longrightarrow> settling log base m sw \<Longrightarrow> settling log base m (settle_step js op sw)"
  using settle_step_settling [of log js base m "fst sw" "snd sw"] by simp

text \<open>
  C39. Whatever a worker does with a message, acknowledging it, refusing it or sending any other signal, in
  any order and however often, and whatever calls fail, once it drops the message at least one signal was sent,
  all signals were for this message, and none was sent after one that was confirmed.
\<close>

theorem message_settled:
  assumes "logged log js" and "settle_all js ops \<lparr>sc_lattice_id = l, sc_inner = x, sc_acker = Some m\<rparr> w = w'"
  shows "\<exists>ss. log w' = log w @ ss \<and> ss \<noteq> [] \<and> fst ` set ss = {m} \<and> (\<forall>(_, _, ok) \<in> set (butlast ss). \<not> ok)"
proof -
  let ?s = "\<lparr>sc_lattice_id = l, sc_inner = x, sc_acker = Some m\<rparr>"
  have run: "settling log (log w) m (fold (settle_step js) ops sw)" if "settling log (log w) m sw" for sw
    using that
  proof (induction ops arbitrary: sw)
    case (Cons op ops)
    from Cons.IH [OF settle_steps [OF assms(1) Cons.prems]] show ?case by simp
  qed simp
  have "settling log (log w) m (?s, w)" by (simp add: settling_def unconfirmed_def)
  note run [OF this]
  moreover obtain s1 w1 where f: "fold (settle_step js) ops (?s, w) = (s1, w1)" by fastforce
  ultimately obtain ss where ss: "log w1 = log w @ ss"
    "case sc_acker s1 of Some m' \<Rightarrow> m' = m \<and> unconfirmed m ss | None \<Rightarrow> ss \<noteq> [] \<and> signals m ss"
    by (auto simp: settling_def)
  have w': "w' = scoped_drop js s1 w1" using assms(2) f by (simp add: settle_all_def)
  have "\<exists>ss. log w' = log w @ ss \<and> ss \<noteq> [] \<and> signals m ss"
  proof (cases "sc_acker s1")
    case (Some m')
    obtain q w2 where q: "js_ack_with js m (js_nak js) w1 = (q, w2)" by fastforce
    with assms(1) ss(1) have "log w2 = log w @ ss @ [(m, SigKind (js_nak js), q = Inr ())]" by (simp add: logged_def)
    moreover have "w' = w2" using w' Some ss(2) q assms(1) by (simp add: scoped_drop_def logged_def)
    ultimately show ?thesis using unconfirmed_snoc [of m ss] ss(2) Some by auto
  qed (use ss w' in \<open>auto simp: scoped_drop_def\<close>)
  then obtain ts where ts: "log w' = log w @ ts" "ts \<noteq> []" "signals m ts" by blast
  moreover from ts(2,3) have "fst ` set ts = {m}" by (simp add: signals_def subset_singleton_iff)
  ultimately show ?thesis unfolding signals_def by blast
qed

text \<open>A stream that never confirms an acknowledgement.\<close>

definition cs_jetstream :: "((nat \<times> bool signal \<times> bool) list, nat, bool) jetstream" where
  "cs_jetstream =
     \<lparr>js_double_ack = (\<lambda>m w. (Inl ''timed out'', w @ [(m, SigAck, False)])), js_ack = (\<lambda>m w. (Inr (), w)),
      js_ack_with = (\<lambda>m k w. (Inr (), w @ [(m, SigKind k, True)])), js_nak = False, js_in_runtime = (\<lambda>w. True)\<rparr>"

theorem message_settled_witness:
  "\<exists>ss. settle_all cs_jetstream [DoCustom True, DoAck, DoNack] \<lparr>sc_lattice_id = ''default'', sc_inner = (), sc_acker = Some 7\<rparr> [] = ss \<and>
     fst ` set ss = {7}"
proof -
  have "logged (\<lambda>w. w) cs_jetstream" by (simp add: logged_def cs_jetstream_def)
  from message_settled [OF this refl, of "[DoCustom True, DoAck, DoNack]" "''default''" "()" 7 "[]"]
  obtain ss where "settle_all cs_jetstream [DoCustom True, DoAck, DoNack]
      \<lparr>sc_lattice_id = ''default'', sc_inner = (), sc_acker = Some 7\<rparr> [] = ss" "fst ` set ss = {7}"
    by (metis append_Nil)
  then show ?thesis by blast
qed

section \<open>The work loop\<close>

text \<open>The messages that decode, in the order of the stream.\<close>

definition decodable :: "('m \<Rightarrow> 'a option) \<Rightarrow> (string + 'm) list \<Rightarrow> 'm list" where
  "decodable decode items = List.map_filter (\<lambda>i. case i of Inr m \<Rightarrow> if decode m = None then None else Some m | Inl _ \<Rightarrow> None) items"

lemma decodable_simps [simp]:
  "decodable d [] = []" "decodable d (Inl e # is) = decodable d is"
  "decodable d (Inr m # is) = (if d m = None then decodable d is else m # decodable d is)"
  by (simp_all add: decodable_def)

text \<open>A worker that records what it was handed; nothing else changes the record.\<close>

definition recorded :: "('w \<Rightarrow> ('m \<times> 'a) list) \<Rightarrow> ('w, 'm, 'k) jetstream \<Rightarrow> ('w \<Rightarrow> bool \<times> 'w) \<Rightarrow>
    (('m, 'a) scoped_message \<Rightarrow> 'w \<Rightarrow> (work_error + unit) \<times> 'w) \<Rightarrow> bool" where
  "recorded seen js permit work \<longleftrightarrow>
     (\<forall>m w. seen (snd (js_ack js m w)) = seen w) \<and> (\<forall>w. seen (snd (permit w)) = seen w) \<and>
     (\<forall>s m w. sc_acker s = Some m \<longrightarrow> seen (snd (work s w)) = seen w @ [(m, sc_inner s)])"

lemma next_recorded:
  assumes "recorded seen js permit work" and "consumer_next js l d items w = ((res, rest), w')"
  shows "seen w' = seen w \<and>
    (case res of
       None \<Rightarrow> rest = [] \<and> decodable d items = []
     | Some (Inl e) \<Rightarrow> decodable d items = decodable d rest
     | Some (Inr s) \<Rightarrow> \<exists>m. sc_acker s = Some m \<and> d m = Some (sc_inner s) \<and> decodable d items = m # decodable d rest)"
  using assms(2)
proof (induction items arbitrary: w)
  case (Cons i items)
  show ?case
  proof (cases i)
    case (Inr m)
    have same: "seen (snd (js_ack js m w)) = seen w" using assms(1) by (simp add: recorded_def)
    show ?thesis
    proof (cases "d m")
      case None
      with Cons.IH [of "snd (js_ack js m w)"] Cons.prems Inr same show ?thesis
        by (auto split: option.splits sum.splits)
    qed (use Cons.prems Inr in auto)
  qed (use Cons in auto)
qed simp

text \<open>
  C40. The work loop ends, and hands the worker the messages that decode, each once, decoded and in the order
  of the stream: all of them when it reports that the consumer stopped, and otherwise up to the message whose
  handling was fatal or the one for which the pool of permits was closed.
\<close>

theorem work_loop_hands_over:
  assumes "recorded seen js permit work" and "work_fn js l d permit work items w = (r, w')"
  shows "\<exists>done rest. decodable d items = done @ rest \<and> seen w' = seen w @ map (\<lambda>m. (m, the (d m))) done \<and>
    (r = ConsumerStopped \<and> rest = [] \<or> r = WorkPoolClosed \<or> (\<exists>e. r = WorkFatal e \<and> done \<noteq> []))"
  using assms(2)
proof (induction items arbitrary: w rule: length_induct)
  case (1 items)
  obtain res rest w1 where n: "consumer_next js l d items w = ((res, rest), w1)" by (metis prod.exhaust)
  note nx = next_recorded [OF assms(1) n]
  show ?case
  proof (cases res)
    case None
    with "1.prems" n nx show ?thesis by (auto simp: work_fn.simps)
  next
    case (Some item)
    have shorter: "length rest < length items" using consumer_next_shrinks n Some by fastforce
    obtain ok w2 where p: "permit w1 = (ok, w2)" by fastforce
    have seen: "seen w2 = seen w" using assms(1) nx p unfolding recorded_def by (metis snd_conv)
    show ?thesis
    proof (cases ok)
      case False
      with "1.prems" n Some p seen show ?thesis by (auto simp: work_fn.simps)
    next
      case True
      show ?thesis
      proof (cases item)
        case (Inl e)
        with "1.prems" n Some p True have "work_fn js l d permit work rest w2 = (r, w')" by (simp add: work_fn.simps [of js l d permit work items])
        with "1.IH" shorter obtain pre post where
          "decodable d rest = pre @ post" "seen w' = seen w2 @ map (\<lambda>m. (m, the (d m))) pre"
          "r = ConsumerStopped \<and> post = [] \<or> r = WorkPoolClosed \<or> (\<exists>e. r = WorkFatal e \<and> pre \<noteq> [])" by blast
        with Some Inl nx seen show ?thesis by (intro exI [of _ pre] exI [of _ post]) auto
      next
        case (Inr s)
        obtain m where m: "sc_acker s = Some m" "d m = Some (sc_inner s)" "decodable d items = m # decodable d rest"
          using nx Some Inr by auto
        obtain q w3 where q: "work s w2 = (q, w3)" by fastforce
        have seen3: "seen w3 = seen w @ [(m, sc_inner s)]"
          using assms(1) m(1) q seen unfolding recorded_def by (metis snd_conv)
        show ?thesis
        proof (cases "\<exists>e. q = Inl (WorkFatal e)")
          case True
          with "1.prems" n Some p \<open>ok\<close> Inr q have "w' = w3" "\<exists>e. r = WorkFatal e"
            by (auto simp: work_fn.simps [of js l d permit work items])
          with m seen3 show ?thesis by (intro exI [of _ "[m]"] exI [of _ "decodable d rest"]) auto
        next
          case False
          with "1.prems" n Some p \<open>ok\<close> Inr q have "work_fn js l d permit work rest w3 = (r, w')"
            by (auto simp: work_fn.simps [of js l d permit work items] split: sum.splits work_error.splits)
          with "1.IH" shorter obtain pre post where
            "decodable d rest = pre @ post" "seen w' = seen w3 @ map (\<lambda>m. (m, the (d m))) pre"
            "r = ConsumerStopped \<and> post = [] \<or> r = WorkPoolClosed \<or> (\<exists>e. r = WorkFatal e \<and> pre \<noteq> [])" by blast
          with m seen3 show ?thesis by (intro exI [of _ "m # pre"] exI [of _ post]) auto
        qed
      qed
    qed
  qed
qed

text \<open>A worker that records its messages, on a stream with an error and a message that does not decode.\<close>

definition cs_recorder :: "((nat \<times> nat) list, nat, bool) jetstream" where
  "cs_recorder = \<lparr>js_double_ack = (\<lambda>m w. (Inr (), w)), js_ack = (\<lambda>m w. (Inr (), w)), js_ack_with = (\<lambda>m k w. (Inr (), w)),
     js_nak = False, js_in_runtime = (\<lambda>w. True)\<rparr>"

definition cs_work :: "(nat, nat) scoped_message \<Rightarrow> (nat \<times> nat) list \<Rightarrow> (work_error + unit) \<times> (nat \<times> nat) list" where
  "cs_work s w = (Inl (WorkOther ''again''), w @ (case sc_acker s of Some m \<Rightarrow> [(m, sc_inner s)] | None \<Rightarrow> []))"

theorem work_loop_hands_over_witness:
  "snd (work_fn cs_recorder ''default'' (\<lambda>m. if m = 0 then None else Some (m * 10)) (\<lambda>w. (True, w)) cs_work
      [Inr 1, Inl ''no heartbeat'', Inr 0, Inr 2] []) = [(1, 10), (2, 20)]"
proof -
  let ?d = "\<lambda>m :: nat. if m = 0 then None else Some (m * 10)"
  let ?items = "[Inr 1, Inl ''no heartbeat'', Inr 0, Inr 2] :: (string + nat) list"
  let ?run = "work_fn cs_recorder ''default'' ?d (\<lambda>w. (True, w)) cs_work ?items []"
  have rec: "recorded (\<lambda>w. w) cs_recorder (\<lambda>w. (True, w)) cs_work"
    by (simp add: recorded_def cs_recorder_def cs_work_def)
  have "fst ?run = ConsumerStopped" by code_simp
  then have "?run = (ConsumerStopped, snd ?run)" by (simp add: prod_eq_iff)
  from work_loop_hands_over [OF rec this] show ?thesis by auto
qed

section \<open>The owner of a consumer\<close>

text \<open>
  A manager that restarts finds the lattice and the tenant of every consumer its configuration made,
  from the metadata, and, for consumers without metadata, from the name, when the lattice contains no
  underscore and the tenant neither.
\<close>

theorem consumer_owner_restored:
  assumes "event_consumer_config topic l mt = Ret cfg \<or> command_consumer_config topic l mt = Ret cfg"
  shows "consumer_owner (cc_metadata cfg) (cc_name cfg) = Some (l, mt) \<and>
    (CHR ''_'' \<notin> set l \<and> (\<forall>p. mt = Some p \<longrightarrow> CHR ''_'' \<notin> set p) \<longrightarrow> consumer_owner [] (cc_name cfg) = Some (l, mt))"
proof -
  have name: "consumer_owner [] (prefix @ ''-'' @ l @ rest) = Some (l, mt)"
    if "CHR ''-'' \<notin> set prefix" "CHR ''_'' \<notin> set l" "rest = (case mt of Some p \<Rightarrow> ''_'' @ p | None \<Rightarrow> [])"
      "\<forall>p. mt = Some p \<longrightarrow> CHR ''_'' \<notin> set p" for prefix rest
  proof -
    have "tl (split_on CHR ''-'' (prefix @ ''-'' @ l @ rest)) = split_on CHR ''-'' (l @ rest)"
      using split_on_append [OF that(1), of "l @ rest"] by simp
    with that show ?thesis
      by (simp add: consumer_owner_def extract_lattice_and_multitenant_def split_on_no_sep split_on_append
          split: option.split)
  qed
  show ?thesis
  proof (cases mt)
    case None
    with assms name [of EVENTS_CONSUMER_PREFIX "[]"] name [of COMMANDS_CONSUMER_PREFIX "[]"] show ?thesis
      by (auto simp: event_consumer_config_def command_consumer_config_def consumer_config_for_def consumer_owner_def
          LATTICE_METADATA_KEY_def MULTITENANT_METADATA_KEY_def EVENTS_CONSUMER_PREFIX_def COMMANDS_CONSUMER_PREFIX_def
          split: if_splits)
  next
    case (Some p)
    with assms name [of EVENTS_CONSUMER_PREFIX "''_'' @ p"] name [of COMMANDS_CONSUMER_PREFIX "''_'' @ p"] show ?thesis
      by (auto simp: event_consumer_config_def command_consumer_config_def consumer_config_for_def consumer_owner_def
          LATTICE_METADATA_KEY_def MULTITENANT_METADATA_KEY_def EVENTS_CONSUMER_PREFIX_def COMMANDS_CONSUMER_PREFIX_def
          split: if_splits)
  qed
qed

theorem consumer_owner_restored_witness:
  "\<exists>cfg. command_consumer_config ''wadm.cmd.default'' ''default'' (Some ''ACC'') = Ret cfg \<and>
     consumer_owner [] (cc_name cfg) = Some (''default'', Some ''ACC'')"
proof -
  obtain cfg where cfg: "command_consumer_config ''wadm.cmd.default'' ''default'' (Some ''ACC'') = Ret cfg"
    by (simp add: command_consumer_config_def consumer_config_for_def starts_with_def)
  then have "event_consumer_config ''wadm.cmd.default'' ''default'' (Some ''ACC'') = Ret cfg \<or>
    command_consumer_config ''wadm.cmd.default'' ''default'' (Some ''ACC'') = Ret cfg" ..
  from consumer_owner_restored [OF this] cfg show ?thesis by auto
qed

end
