(* ===== verification/Observer.thy ===== *)
theory Observer
  imports Consumers
begin

text \<open>
  Finding and managing lattices: the parser of event subjects (\<open>nats_utils.rs\<close>), the topic prefix of the
  control interface (\<open>connections.rs\<close>), the reapers per lattice (\<open>storage/reaper.rs\<close>) and the observer
  (\<open>observer.rs\<close>), which starts the consumers of a lattice at its first heartbeat. The creation of workers
  and tasks is a parameter, as in the manager of consumers.
\<close>

section \<open>Subjects\<close>

definition EVENT_SUBJECT :: string where "EVENT_SUBJECT = ''evt''"

record lattice_id_parser =
  lp_prefix :: string
  lp_multitenant :: bool

record lattice_information =
  li_lattice_id :: string
  li_multitenant_prefix :: "string option"
  li_prefix :: string

definition lattice_parse :: "lattice_id_parser \<Rightarrow> string \<Rightarrow> lattice_information option" where
  "lattice_parse p subject =
     (case split_on CHR ''.'' subject of
        [prefix, evt, lattice_id, _] \<Rightarrow>
          if prefix = lp_prefix p \<and> evt = EVENT_SUBJECT
          then Some \<lparr>li_lattice_id = lattice_id, li_multitenant_prefix = None, li_prefix = lp_prefix p\<rparr>
          else None
      | [account_id, prefix, evt, lattice_id, _] \<Rightarrow>
          if lp_multitenant p \<and> prefix = lp_prefix p \<and> evt = EVENT_SUBJECT \<and> starts_with ''A'' account_id
          then Some \<lparr>li_lattice_id = lattice_id, li_multitenant_prefix = Some account_id, li_prefix = lp_prefix p\<rparr>
          else None
      | _ \<Rightarrow> None)"

definition event_subject :: "lattice_information \<Rightarrow> string" where
  "event_subject i =
     (case li_multitenant_prefix i of
        Some account_id \<Rightarrow>
          account_id @ ''.'' @ li_prefix i @ ''.'' @ EVENT_SUBJECT @ ''.'' @ li_lattice_id i @ ''.*''
      | None \<Rightarrow> li_prefix i @ ''.'' @ EVENT_SUBJECT @ ''.'' @ li_lattice_id i @ ''.*'')"

definition DEFAULT_TOPIC_PREFIX :: string where "DEFAULT_TOPIC_PREFIX = ''wasmbus.ctl''"

definition control_topic_prefix :: "string option \<Rightarrow> string option \<Rightarrow> string" where
  "control_topic_prefix multitenant_prefix topic_prefix =
     (case (multitenant_prefix, topic_prefix) of
        (Some mt, Some prefix) \<Rightarrow> mt @ ''.'' @ prefix
      | (Some mt, None) \<Rightarrow> mt @ ''.'' @ DEFAULT_TOPIC_PREFIX
      | (None, Some prefix) \<Rightarrow> prefix
      | _ \<Rightarrow> DEFAULT_TOPIC_PREFIX)"

text \<open>The payload as text, when it is UTF-8.\<close>

definition is_event_we_care_about :: "string option \<Rightarrow> bool" where
  "is_event_we_care_about data =
     (case data of
        None \<Rightarrow> False
      | Some string_data \<Rightarrow>
          contains_str ''com.wasmcloud.lattice.host_started'' string_data \<or>
          contains_str ''com.wasmcloud.lattice.host_heartbeat'' string_data \<or>
          contains_str ''com.wadm.manifest_published'' string_data)"

definition DEFAULT_COMMANDS_TOPIC :: string where "DEFAULT_COMMANDS_TOPIC = ''wadm.cmd.*''"
definition DEFAULT_WADM_EVENT_CONSUMER_TOPIC :: string where
  "DEFAULT_WADM_EVENT_CONSUMER_TOPIC = ''wadm_event_consumer.evt.*.>''"

definition replace_star :: "string \<Rightarrow> string \<Rightarrow> string" where
  "replace_star topic lattice_id = concat (map (\<lambda>c. if c = CHR ''*'' then lattice_id else [c]) topic)"

section \<open>Observing\<close>

record ('w, 'c, 'e) observer =
  ob_parser :: lattice_id_parser
  ob_command :: "('w, 'c) spawner"
  ob_event :: "('w, 'e) spawner"
  ob_reap :: "string \<Rightarrow> 'w \<Rightarrow> nat \<times> 'w"
  ob_finished :: "nat \<Rightarrow> 'w \<Rightarrow> bool"
  ob_subscribe :: "'w \<Rightarrow> (string + unit) \<times> 'w"

text \<open>The tasks of the reaper and of the two managers, by lattice and by topic.\<close>

record managed =
  mn_reapers :: work_handles
  mn_commands :: work_handles
  mn_events :: work_handles

definition reaper_observe :: "('w, 'c, 'e) observer \<Rightarrow> work_handles \<Rightarrow> string \<Rightarrow> 'w \<Rightarrow> work_handles \<times> 'w" where
  "reaper_observe ob handles lattice_id w =
     (let start = (let (task, w1) = ob_reap ob lattice_id w in (hm_insert lattice_id task handles, w1)) in
      case hm_get handles lattice_id of
        Some task \<Rightarrow> if \<not> ob_finished ob task w then (handles, w) else start
      | None \<Rightarrow> start)"

text \<open>\<open>abort\<close> ends the task.\<close>

definition reaper_remove :: "(nat \<Rightarrow> 'w \<Rightarrow> 'w) \<Rightarrow> work_handles \<Rightarrow> string \<Rightarrow> 'w \<Rightarrow> work_handles \<times> 'w" where
  "reaper_remove abort handles lattice_id w =
     (hm_remove lattice_id handles, case hm_get handles lattice_id of Some task \<Rightarrow> abort task w | None \<Rightarrow> w)"

text \<open>Adding a consumer; without a worker the message is given up.\<close>

definition add_consumer ::
    "('w, 'v) spawner \<Rightarrow> bool \<Rightarrow> work_handles \<Rightarrow> string \<Rightarrow> string \<Rightarrow> string option \<Rightarrow> 'w \<Rightarrow> bool \<times> work_handles \<times> 'w" where
  "add_consumer sp needed handles topic lattice_id multitenant_prefix w =
     (if needed then
        (case sp_worker sp lattice_id multitenant_prefix w of
           (Inl _, w1) \<Rightarrow> (False, handles, w1)
         | (Inr worker, w1) \<Rightarrow>
             (let (_, handles', w2) = add_for_lattice sp handles topic lattice_id multitenant_prefix worker w1
              in (True, handles', w2)))
      else (True, handles, w))"

definition observe_lattice ::
    "('w, 'c, 'e) observer \<Rightarrow> lattice_information \<Rightarrow> managed \<Rightarrow> 'w \<Rightarrow> managed \<times> 'w" where
  "observe_lattice ob info st w =
     (let lattice_id = li_lattice_id info;
          multitenant_prefix = li_multitenant_prefix info;
          (reapers, w1) = reaper_observe ob (mn_reapers st) lattice_id w;
          command_topic = replace_star DEFAULT_COMMANDS_TOPIC lattice_id;
          events_topic = replace_star DEFAULT_WADM_EVENT_CONSUMER_TOPIC lattice_id;
          needs_command = (\<not> has_consumer (ob_command ob) (mn_commands st) command_topic w1);
          needs_event = (\<not> has_consumer (ob_event ob) (mn_events st) events_topic w1);
          (go_on, commands, w2) =
            add_consumer (ob_command ob) needs_command (mn_commands st) command_topic lattice_id multitenant_prefix w1;
          st1 = st\<lparr>mn_reapers := reapers, mn_commands := commands\<rparr> in
      if \<not> go_on then (st1, w2)
      else
        (let (_, events, w3) =
           add_consumer (ob_event ob) needs_event (mn_events st) events_topic lattice_id multitenant_prefix w2
         in (st1\<lparr>mn_events := events\<rparr>, w3)))"

definition observe_message ::
    "('w, 'c, 'e) observer \<Rightarrow> string \<Rightarrow> string option \<Rightarrow> managed \<Rightarrow> 'w \<Rightarrow> managed \<times> 'w" where
  "observe_message ob subject payload st w =
     (if \<not> is_event_we_care_about payload then (st, w)
      else case lattice_parse (ob_parser ob) subject of
             None \<Rightarrow> (st, w)
           | Some info \<Rightarrow> observe_lattice ob info st w)"

text \<open>The messages of the subscription, or its end, after which the observer subscribes anew.\<close>

fun observe ::
    "('w, 'c, 'e) observer \<Rightarrow> (string \<times> string option) option list \<Rightarrow> managed \<Rightarrow> 'w \<Rightarrow> (string + managed) \<times> 'w" where
  "observe ob [] st w = (Inr st, w)"
| "observe ob (Some (subject, payload) # ms) st w =
     (let (st1, w1) = observe_message ob subject payload st w in observe ob ms st1 w1)"
| "observe ob (None # ms) st w =
     (case ob_subscribe ob w of
        (Inl e, w1) \<Rightarrow> (Inl e, w1)
      | (Inr _, w1) \<Rightarrow> observe ob ms st w1)"

text \<open>It begins by subscribing.\<close>

definition observer_start ::
    "('w, 'c, 'e) observer \<Rightarrow> (string \<times> string option) option list \<Rightarrow> managed \<Rightarrow> 'w \<Rightarrow> (string + managed) \<times> 'w" where
  "observer_start ob ms = observe ob (None # ms)"

end
