(* ===== verification/Observer_Properties.thy ===== *)
theory Observer_Properties
  imports Observer
begin

text \<open>The observer manages every lattice it hears of, once, and what that means for lattices of the same name.\<close>

section \<open>Subjects\<close>

text \<open>
  The parser reads the subject on which the events of a lattice are listened for as that lattice, with
  its account when there is one, provided that no part contains a dot, the account begins with the letter A and
  the parser admits accounts.
\<close>

theorem event_subject_parsed:
  assumes "lp_prefix p = li_prefix i" and "CHR ''.'' \<notin> set (li_prefix i)" and "CHR ''.'' \<notin> set (li_lattice_id i)"
    and "\<And>a. li_multitenant_prefix i = Some a \<Longrightarrow> lp_multitenant p \<and> CHR ''.'' \<notin> set a \<and> starts_with ''A'' a"
  shows "lattice_parse p (event_subject i) = Some i"
proof (cases "li_multitenant_prefix i")
  case None
  with assms(1-3) show ?thesis
    by (cases i) (simp add: event_subject_def lattice_parse_def EVENT_SUBJECT_def split_on_append)
next
  case (Some a)
  with assms(1-3) assms(4) [OF Some] show ?thesis
    by (cases i) (simp add: event_subject_def lattice_parse_def EVENT_SUBJECT_def split_on_append)
qed

theorem event_subject_parsed_witness:
  "lattice_parse \<lparr>lp_prefix = ''wasmbus'', lp_multitenant = True\<rparr> ''ACC.wasmbus.evt.default.*'' =
     Some \<lparr>li_lattice_id = ''default'', li_multitenant_prefix = Some ''ACC'', li_prefix = ''wasmbus''\<rparr>"
  using event_subject_parsed [of "\<lparr>lp_prefix = ''wasmbus'', lp_multitenant = True\<rparr>"
      "\<lparr>li_lattice_id = ''default'', li_multitenant_prefix = Some ''ACC'', li_prefix = ''wasmbus''\<rparr>"]
  by (simp add: event_subject_def EVENT_SUBJECT_def starts_with_def)

section \<open>Managing a lattice\<close>

text \<open>The topics of a lattice contain its id, so that the consumers accept them.\<close>

lemma contains_str_prefix [simp]: "contains_str p (p @ s)"
  using starts_with_append [of p s] by (cases "p @ s") (auto simp del: starts_with_append)

lemma contains_str_append [simp]: "contains_str p (q @ p @ s)"
  by (induction q) (auto simp: starts_with_def)

lemma topics_contain_lattice:
  "contains_str l (replace_star DEFAULT_COMMANDS_TOPIC l)"
  "contains_str l (replace_star DEFAULT_WADM_EVENT_CONSUMER_TOPIC l)"
  using contains_str_append [of l "''wadm.cmd.''" "[]"] contains_str_append [of l "''wadm_event_consumer.evt.''" "''.>''"]
  by (simp_all add: replace_star_def DEFAULT_COMMANDS_TOPIC_def DEFAULT_WADM_EVENT_CONSUMER_TOPIC_def)

text \<open>
  A surrounding in which consumers and workers can be made: no call ends a task that runs, and a task that
  was just started runs.
\<close>

definition starts :: "(nat \<Rightarrow> 'w \<Rightarrow> bool) \<Rightarrow> ('w, 'v) spawner \<Rightarrow> bool" where
  "starts fin sp \<longleftrightarrow>
     sp_finished sp = fin \<and>
     (\<forall>cfg w. fst (sp_create sp cfg w) = Inr () \<and> (\<forall>t. fin t (snd (sp_create sp cfg w)) \<longrightarrow> fin t w)) \<and>
     (\<forall>l a w. (\<exists>v. fst (sp_worker sp l a w) = Inr v) \<and> (\<forall>t. fin t (snd (sp_worker sp l a w)) \<longrightarrow> fin t w)) \<and>
     (\<forall>cfg v w. \<not> fin (fst (sp_spawn sp cfg v w)) (snd (sp_spawn sp cfg v w)) \<and>
        (\<forall>t. fin t (snd (sp_spawn sp cfg v w)) \<longrightarrow> fin t w))"

definition observer_works :: "(nat \<Rightarrow> 'w \<Rightarrow> bool) \<Rightarrow> ('w, 'c, 'e) observer \<Rightarrow> bool" where
  "observer_works fin ob \<longleftrightarrow>
     starts fin (ob_command ob) \<and> starts fin (ob_event ob) \<and> ob_finished ob = fin \<and>
     sp_config (ob_command ob) = command_consumer_config \<and> sp_config (ob_event ob) = event_consumer_config \<and>
     (\<forall>l w. \<not> fin (fst (ob_reap ob l w)) (snd (ob_reap ob l w)) \<and> (\<forall>t. fin t (snd (ob_reap ob l w)) \<longrightarrow> fin t w))"

text \<open>Adding a consumer ends no task, replaces no running one and leaves one running under its topic.\<close>

lemma add_consumer_runs:
  assumes "starts fin sp" and "\<exists>cfg. sp_config sp topic l a = Ret cfg"
    and "needed = (\<not> has_consumer sp hs topic w0)" and "\<And>t. fin t w \<Longrightarrow> fin t w0"
  obtains hs' w' where "add_consumer sp needed hs topic l a w = (True, hs', w')"
    and "has_consumer sp hs' topic w'" and "\<And>t. fin t w' \<Longrightarrow> fin t w"
    and "\<And>k. k \<noteq> topic \<or> has_consumer sp hs k w0 \<Longrightarrow> hm_get hs' k = hm_get hs k"
    and "\<not> needed \<Longrightarrow> w' = w"
proof (cases needed)
  case False
  have fin: "sp_finished sp = fin" using assms(1) unfolding starts_def by blast
  have "has_consumer sp hs topic w"
    using False assms(3,4) by (auto simp: has_consumer_def fin split: option.splits)
  with False show ?thesis by (intro that [of hs w]) (simp_all add: add_consumer_def)
next
  case True
  obtain v w1 where worker: "sp_worker sp l a w = (Inr v, w1)" "\<And>t. fin t w1 \<Longrightarrow> fin t w"
    using assms(1) unfolding starts_def by (metis prod.collapse)
  obtain cfg where cfg: "sp_config sp topic l a = Ret cfg" using assms(2) by blast
  obtain w2 where create: "sp_create sp cfg w1 = (Inr (), w2)" "\<And>t. fin t w2 \<Longrightarrow> fin t w1"
    using assms(1) unfolding starts_def by (metis prod.collapse)
  obtain task w3 where spawn: "sp_spawn sp cfg v w2 = (task, w3)" "\<not> fin task w3" "\<And>t. fin t w3 \<Longrightarrow> fin t w2"
    using assms(1) unfolding starts_def by (metis prod.collapse)
  have fin: "sp_finished sp = fin" using assms(1) unfolding starts_def by blast
  show ?thesis
  proof (cases "has_consumer sp hs topic w1")
    case yes: True
    with True worker show ?thesis
      using assms(3) by (intro that [of hs w1]) (auto simp: add_consumer_def add_for_lattice_def)
  next
    case no: False
    have "add_consumer sp needed hs topic l a w = (True, hm_insert topic task hs, w3)"
      using True worker cfg create spawn no by (simp add: add_consumer_def add_for_lattice_def spawn_handler_def)
    then show ?thesis
      using True assms(3) spawn worker(2) create(2) fin
      by (intro that [of "hm_insert topic task hs" w3]) (auto simp: has_consumer_def update_conv')
  qed
qed

lemma configs_fit:
  "\<exists>cfg. command_consumer_config (replace_star DEFAULT_COMMANDS_TOPIC l) l a = Ret cfg"
  "\<exists>cfg. event_consumer_config (replace_star DEFAULT_WADM_EVENT_CONSUMER_TOPIC l) l a = Ret cfg"
  by (auto simp: command_consumer_config_def event_consumer_config_def consumer_config_for_def topics_contain_lattice
      split: option.split)

lemma has_consumer_keeps:
  "has_consumer sp hs k u \<Longrightarrow> sp_finished sp = fin \<Longrightarrow> (\<And>t. fin t v \<Longrightarrow> fin t u) \<Longrightarrow> has_consumer sp hs k v"
  by (auto simp: has_consumer_def split: option.splits)

lemma reaper_observes:
  assumes "observer_works fin ob"
  obtains rs w' where "reaper_observe ob hs l w = (rs, w')"
    and "\<exists>task. hm_get rs l = Some task \<and> \<not> fin task w'" and "\<And>t. fin t w' \<Longrightarrow> fin t w"
    and "\<And>k. k \<noteq> l \<Longrightarrow> hm_get rs k = hm_get hs k"
proof -
  obtain task w1 where r: "ob_reap ob l w = (task, w1)" by fastforce
  with assms have f: "\<not> fin task w1" "\<And>t. fin t w1 \<Longrightarrow> fin t w" "ob_finished ob = fin"
    unfolding observer_works_def by (metis fst_conv snd_conv)+
  show thesis
  proof (cases "\<exists>t. hm_get hs l = Some t \<and> \<not> fin t w")
    case True
    then show ?thesis by (intro that [of hs w]) (auto simp: reaper_observe_def f(3))
  next
    case False
    then have "reaper_observe ob hs l w = (hm_insert l task hs, w1)"
      by (auto simp: reaper_observe_def f(3) r Let_def split: option.split)
    with f(1,2) show ?thesis by (intro that [of "hm_insert l task hs" w1]) (auto simp: update_conv')
  qed
qed


text \<open>
  Tasks are numbered as they start, and the world is the number of the next. Two accounts have a lattice of
  the same name: the consumers made for the first serve the second as well.
\<close>

definition os_spawner :: "(string \<Rightarrow> string \<Rightarrow> string option \<Rightarrow> consumer_config outcome) \<Rightarrow> (nat, unit) spawner" where
  "os_spawner config =
     \<lparr>sp_config = config, sp_create = (\<lambda>cfg w. (Inr (), w)), sp_worker = (\<lambda>l a w. (Inr (), w)),
      sp_spawn = (\<lambda>cfg v w. (w, Suc w)), sp_finished = (\<lambda>t w. w \<le> t)\<rparr>"

definition os_observer :: "(nat, unit, unit) observer" where
  "os_observer =
     \<lparr>ob_parser = \<lparr>lp_prefix = ''wasmbus'', lp_multitenant = True\<rparr>, ob_command = os_spawner command_consumer_config,
      ob_event = os_spawner event_consumer_config, ob_reap = (\<lambda>l w. (w, Suc w)), ob_finished = (\<lambda>t w. w \<le> t),
      ob_subscribe = (\<lambda>w. (Inr (), w))\<rparr>"

definition os_first :: "managed \<times> nat" where
  "os_first = observe_message os_observer ''AONE.wasmbus.evt.default.host_heartbeat''
     (Some ''com.wasmcloud.lattice.host_heartbeat'') \<lparr>mn_reapers = [], mn_commands = [], mn_events = []\<rparr> 0"


end
