(* ===== verification/Control_Sources.thy ===== *)
theory Control_Sources
  imports Simple_Scalers
begin

text \<open>
  What the event worker makes of the answers of the control interface (\<open>workers/event_helpers.rs\<close>):
  claims, inventories, links, configuration and secrets. The client is external: its answers are arguments, an
  error or a response with its data.
\<close>

record 'a ctl_response =
  cr_succeeded :: bool
  cr_message :: string
  cr_data :: "'a option"

type_synonym 'a ctl_answer = "string + 'a ctl_response"

record ctl_claims =
  cc_claim_name :: string
  cc_capabilities :: "string list"
  cc_issuer :: string

text \<open>A claim without a subject is left out; of two with the same subject the later one counts.\<close>

definition claim_entry :: "(string, string) hmap \<Rightarrow> (string \<times> ctl_claims) option" where
  "claim_entry claim =
     (case hm_get claim ''sub'' of
        None \<Rightarrow> None
      | Some sub \<Rightarrow> Some (sub,
          \<lparr>cc_claim_name = (case hm_get claim ''name'' of Some n \<Rightarrow> n | None \<Rightarrow> []),
           cc_capabilities = (case hm_get claim ''caps'' of Some raw \<Rightarrow> split_on CHR '','' raw | None \<Rightarrow> []),
           cc_issuer = (case hm_get claim ''iss'' of Some i \<Rightarrow> i | None \<Rightarrow> [])\<rparr>))"

definition claims_source :: "(string, string) hmap list ctl_answer \<Rightarrow> (string, ctl_claims) hmap outcome" where
  "claims_source answer =
     (case answer of
        Inr r \<Rightarrow>
          if cr_succeeded r then
            (case cr_data r of
               None \<Rightarrow> Err ''missing claims data''
             | Some claims \<Rightarrow> Ret (fold (\<lambda>(k, c). hm_insert k c) (List.map_filter claim_entry claims) []))
          else Err ''Failed to get claims''
      | Inl _ \<Rightarrow> Err ''Failed to get claims'')"

text \<open>Data of a response that succeeded, or the message of one that did not.\<close>

definition data_or_message :: "string \<Rightarrow> 'a ctl_answer \<Rightarrow> 'a outcome" where
  "data_or_message failed answer =
     (case answer of
        Inl e \<Rightarrow> Err e
      | Inr r \<Rightarrow>
          if cr_succeeded r \<and> cr_data r \<noteq> None then or_err ''missing data'' (cr_data r)
          else Err (failed @ cr_message r))"

definition inventory_source :: "string \<Rightarrow> 'i ctl_answer \<Rightarrow> 'i outcome" where
  "inventory_source host_id = data_or_message (''Failed to get inventory for host '' @ host_id @ '', '')"

definition link_source :: "lattice_link list ctl_answer \<Rightarrow> lattice_link list outcome" where
  "link_source = data_or_message ''Failed to get links, ''"

text \<open>A response that failed is no configuration.\<close>

definition config_source :: "(string, string) hmap ctl_answer \<Rightarrow> (string, string) hmap option outcome" where
  "config_source answer =
     (case answer of
        Inl e \<Rightarrow> Err e
      | Inr r \<Rightarrow> if cr_succeeded r \<and> cr_data r \<noteq> None then Ret (cr_data r) else Ret None)"

text \<open>\<open>mk\<close> makes the configuration with the parsed policy and \<open>policy_of\<close> parses it.\<close>

definition secret_config_from_map ::
    "(string \<Rightarrow> string \<Rightarrow> string \<Rightarrow> string option \<Rightarrow> string option \<Rightarrow> 'p \<Rightarrow> string \<Rightarrow> 'c) \<Rightarrow> (string \<Rightarrow> string + 'p) \<Rightarrow>
     (string, string) hmap \<Rightarrow> 'c outcome" where
  "secret_config_from_map mk policy_of m =
     (case (hm_get m ''name'', hm_get m ''backend'', hm_get m ''key'', hm_get m ''policy'', hm_get m ''type'') of
        (None, _, _, _, _) \<Rightarrow> Err ''missing name field in secret config''
      | (_, None, _, _, _) \<Rightarrow> Err ''missing backend field in secret config''
      | (_, _, None, _, _) \<Rightarrow> Err ''missing key field in secret config''
      | (_, _, _, None, _) \<Rightarrow> Err ''missing policy field in secret config''
      | (_, _, _, _, None) \<Rightarrow> Err ''missing type field in secret config''
      | (Some name, Some backend, Some key, Some policy, Some secret_type) \<Rightarrow>
          (case policy_of policy of
             Inl _ \<Rightarrow> Err ''failed to deserialize policy from string''
           | Inr p \<Rightarrow> Ret (mk name backend key (hm_get m ''field'') (hm_get m ''version'') p secret_type)))"

definition secret_source ::
    "((string, string) hmap \<Rightarrow> 'c outcome) \<Rightarrow> (string, string) hmap ctl_answer \<Rightarrow> 'c option outcome" where
  "secret_source from_map answer =
     (case answer of
        Inl e \<Rightarrow> Err e
      | Inr r \<Rightarrow>
          (case cr_data r of
             Some m \<Rightarrow> if cr_succeeded r then obind (from_map m) (\<lambda>c. Ret (Some c)) else Ret None
           | None \<Rightarrow> Ret None))"

section \<open>Facts\<close>

text \<open>A secret is read exactly when its five fields are there and its policy parses.\<close>

lemma secret_from_map_exact:
  "(\<exists>c. secret_config_from_map mk policy_of m = Ret c) \<longleftrightarrow>
   {''name'', ''backend'', ''key'', ''type''} \<subseteq> dom (map_of m) \<and>
   (\<exists>policy p. hm_get m ''policy'' = Some policy \<and> policy_of policy = Inr p)"
  by (auto simp: secret_config_from_map_def split: option.splits sum.splits)

lemma secret_from_map_no_panic: "secret_config_from_map mk policy_of m \<noteq> Panic"
  by (simp add: secret_config_from_map_def split: option.split sum.split)

text \<open>
  A stored configuration under the name of a secret that is no secret, for which a field is missing or the
  policy does not parse, is never repaired: the secret scaler fails and puts nothing, at every reconciliation.
\<close>

theorem malformed_secret_stays:
  assumes "lv_secret v (ses_name sc) = secret_source (secret_config_from_map mk policy_of) (Inr r)"
    and "cr_succeeded r" and "cr_data r = Some m" and "\<nexists>c. secret_config_from_map mk policy_of m = Ret c"
  shows "\<exists>e. secret_reconcile to_map v sc = (Ret [], sc\<lparr>ses_status := si_failed e\<rparr>)"
  using assms secret_from_map_no_panic [of mk policy_of m]
  by (cases "secret_config_from_map mk policy_of m") (auto simp: secret_reconcile_def secret_source_def)

text \<open>A named configuration that could not be read is put again, whatever the reason was.\<close>

theorem unread_config_put_again:
  assumes "lv_config v (cfs_name sc) = config_source (Inr r)" and "\<not> cr_succeeded r" and "cfs_config sc = Some c"
  shows "\<exists>s. config_reconcile v sc = (Ret [PutConfig \<lparr>pc_config_name = cfs_name sc, pc_config = c\<rparr>], sc\<lparr>cfs_status := s\<rparr>)"
  using assms by (auto simp: config_source_def config_reconcile_def)

end
