(* ===== verification/Spec2Isabelle.thy ===== *)
theory Spec2Isabelle
  imports Event_Properties Event_Effects Host_Stopped Reaper Stored_Manifest Validation Nats_Kv
    Spread_Compute Spread_Properties Spread_Converge Provider_Properties Daemon_Properties Backoff_Properties
    Convert_Properties Node_Properties Api_Races Client_Properties Consumer_Properties Observer_Properties Control_Sources
begin

text \<open>
  A verification development of wadm, the wasmCloud application deployment manager.
\<close>

end
